(* ===== verification/Prelude.thy ===== *)
theory Prelude
  imports Main "HOL-Library.State_Monad" "HOL-Library.Char_ord" "HOL-Library.List_Lexorder"
    "HOL-Library.AList"
begin

text \<open>
  Shared vocabulary of the development: the parts of Go's string, slice and map libraries that the
  repository uses, a small weakest-precondition calculus over the state monad in which stateful code
  is written, and a bounded loop with early return. Nothing here is specific to one component.

  Go strings are byte strings; they are modelled as \<^typ>\<open>string\<close> (a list of 8-bit characters). Go
  maps with string keys are association lists read with \<^const>\<open>map_of\<close>; a nil map and an empty one
  are both the empty list.
\<close>

named_theorems wp_rules "rules that run one primitive operation"
named_theorems call_rules "rules for the calls a program may make"
named_theorems result_rules "rules for the results a program may return"
named_theorems string_simps "unfolding rules of the string functions"

section \<open>Strings, slices and maps\<close>

type_synonym smap = "(string \<times> string) list"

text \<open>Reading a missing key of a Go map gives the zero value, the empty string.\<close>

definition mget :: "smap \<Rightarrow> string \<Rightarrow> string" where
  "mget m k = (case map_of m k of None \<Rightarrow> [] | Some v \<Rightarrow> v)"

definition hasKey :: "(string \<times> 'v) list \<Rightarrow> string \<Rightarrow> bool" where
  "hasKey m k = (map_of m k \<noteq> None)"

text \<open>\<open>slices.Sorted(maps.Keys(m))\<close>: the keys in byte-wise lexicographic order.\<close>

definition sortedKeys :: "(string \<times> 'v) list \<Rightarrow> string list" where
  "sortedKeys m = sort (remdups (map fst m))"

text \<open>\<open>strings.HasPrefix\<close>, \<open>strings.TrimPrefix\<close>, \<open>strings.Contains\<close> for a one-byte needle and
  \<open>strings.Cut\<close> for a one-byte separator.\<close>

definition hasPrefix :: "string \<Rightarrow> string \<Rightarrow> bool" where
  "hasPrefix s p = (take (length p) s = p)"

definition trimPrefix :: "string \<Rightarrow> string \<Rightarrow> string" where
  "trimPrefix s p = (if hasPrefix s p then drop (length p) s else s)"

definition containsByte :: "string \<Rightarrow> char \<Rightarrow> bool" where
  "containsByte s c = (c \<in> set s)"

fun cutAt :: "string \<Rightarrow> char \<Rightarrow> string \<times> string \<times> bool" where
  "cutAt [] c = ([], [], False)"
| "cutAt (x # xs) c =
     (if x = c then ([], xs, True)
      else (case cutAt xs c of (b, a, ok) \<Rightarrow> if ok then (x # b, a, True) else (x # xs, [], False)))"

text \<open>\<open>strings.TrimRight(s, "/")\<close> and \<open>strings.TrimSpace\<close> on ASCII text.\<close>

definition trimRightByte :: "string \<Rightarrow> char \<Rightarrow> string" where
  "trimRightByte s c = rev (dropWhile (\<lambda>x. x = c) (rev s))"

definition isSpaceByte :: "char \<Rightarrow> bool" where
  "isSpaceByte c = (of_char c \<in> {9, 10, 11, 12, 13, 32 :: nat})"

definition trimSpace :: "string \<Rightarrow> string" where
  "trimSpace s = rev (dropWhile isSpaceByte (rev (dropWhile isSpaceByte s)))"

text \<open>\<open>%q\<close> and \<open>%d\<close> of the \<^verbatim>\<open>fmt\<close> package, \<open>%q\<close> on ASCII text: a double-quoted literal with
  \<^verbatim>\<open>strconv.Quote\<close>'s escapes.\<close>

definition hexDigits :: string where
  "hexDigits = ''0123456789abcdef''"

abbreviation "chrQuote \<equiv> CHR 0x22"
abbreviation "chrBackslash \<equiv> CHR 0x5C"

definition quoteByte :: "char \<Rightarrow> string" where
  "quoteByte c =
     (let n = of_char c :: nat in
      if c = chrQuote \<or> c = chrBackslash then [chrBackslash, c]
      else if n = 7 then [chrBackslash, CHR ''a'']
      else if n = 8 then [chrBackslash, CHR ''b'']
      else if n = 9 then [chrBackslash, CHR ''t'']
      else if n = 10 then [chrBackslash, CHR ''n'']
      else if n = 11 then [chrBackslash, CHR ''v'']
      else if n = 12 then [chrBackslash, CHR ''f'']
      else if n = 13 then [chrBackslash, CHR ''r'']
      else if n < 32 \<or> n = 127
      then [chrBackslash, CHR ''x'', hexDigits ! (n div 16), hexDigits ! (n mod 16)]
      else [c])"

definition quote :: "string \<Rightarrow> string" where
  "quote s = chrQuote # concat (map quoteByte s) @ [chrQuote]"

fun natDec :: "nat \<Rightarrow> string" where
  "natDec n = (if n < 10 then [hexDigits ! n] else natDec (n div 10) @ [hexDigits ! (n mod 10)])"

declare natDec.simps [simp del]

definition intDec :: "int \<Rightarrow> string" where
  "intDec i = (if i < 0 then CHR ''-'' # natDec (nat (- i)) else natDec (nat i))"

text \<open>\<^verbatim>\<open>strings.Join\<close>.\<close>

fun joinWith :: "string \<Rightarrow> string list \<Rightarrow> string" where
  "joinWith sep [] = []"
| "joinWith sep [x] = x"
| "joinWith sep (x # y # xs) = x @ sep @ joinWith sep (y # xs)"

lemma mget_Nil [simp]: "mget [] k = []"
  by (simp add: mget_def)

lemma mget_Cons [simp]: "mget ((k', v) # m) k = (if k = k' then v else mget m k)"
  by (simp add: mget_def)

lemma hasKey_iff: "hasKey m k \<longleftrightarrow> k \<in> fst ` set m"
  by (simp add: hasKey_def map_of_eq_None_iff)

lemma set_sortedKeys [simp]: "set (sortedKeys m) = fst ` set m"
  by (simp add: sortedKeys_def)

lemma distinct_sortedKeys [simp]: "distinct (sortedKeys m)"
  by (simp add: sortedKeys_def)

lemma sorted_sortedKeys [simp]: "sorted (sortedKeys m)"
  by (simp add: sortedKeys_def)

lemma hasPrefix_append [simp]: "hasPrefix (p @ s) p"
  by (simp add: hasPrefix_def)

lemma hasPrefix_iff: "hasPrefix s p \<longleftrightarrow> (\<exists>r. s = p @ r)"
  by (metis append_eq_conv_conj append_take_drop_id hasPrefix_def)

lemma trimPrefix_append [simp]: "trimPrefix (p @ s) p = s"
  by (simp add: trimPrefix_def)

lemma cutAt_absent: "c \<notin> set s \<Longrightarrow> cutAt s c = (s, [], False)"
  by (induction s) auto

lemma cutAt_append: "c \<notin> set b \<Longrightarrow> cutAt (b @ c # a) c = (b, a, True)"
  by (induction b) auto

text \<open>A separator that does not occur in the first part makes concatenation injective.\<close>

lemma sep_append_inject:
  fixes a b a' b' :: string
  assumes "c \<notin> set a" and "c \<notin> set a'" and "a @ c # b = a' @ c # b'"
  shows "a = a' \<and> b = b'"
proof -
  have "cutAt (a @ c # b) c = cutAt (a' @ c # b') c" using assms(3) by simp
  then show ?thesis using assms(1,2) by (simp add: cutAt_append)
qed

section \<open>Stateful programs\<close>

text \<open>A stateful Go function is a value of \<^typ>\<open>('s, 'a) state\<close>; \<open>ret\<close> is its return.\<close>

abbreviation ret :: "'a \<Rightarrow> ('s, 'a) state" where
  "ret \<equiv> State_Monad.return"

definition wp :: "('s, 'a) state \<Rightarrow> ('a \<Rightarrow> 's \<Rightarrow> bool) \<Rightarrow> 's \<Rightarrow> bool" where
  "wp m Q s = (case run_state m s of (x, s') \<Rightarrow> Q x s')"

lemma wp_return [simp]: "wp (ret x) Q s = Q x s"
  by (simp add: wp_def)

lemma wp_bind [simp]: "wp (State_Monad.bind m f) Q s = wp m (\<lambda>x. wp (f x) Q) s"
  by (simp add: wp_def split: prod.splits)

lemma wp_mono: "wp m Q s \<Longrightarrow> (\<And>x t. Q x t \<Longrightarrow> R x t) \<Longrightarrow> wp m R s"
  by (auto simp: wp_def split: prod.splits)

lemma wp_conj: "wp m Q s \<Longrightarrow> wp m R s \<Longrightarrow> wp m (\<lambda>x t. Q x t \<and> R x t) s"
  by (auto simp: wp_def split: prod.splits)

lemma wpD: "wp m Q s \<Longrightarrow> run_state m s = (x, t) \<Longrightarrow> Q x t"
  by (simp add: wp_def)

lemma wp_trivial [simp]: "wp m (\<lambda>_ _. True) s"
  by (auto simp: wp_def split: prod.splits)

lemma wpI: "(\<And>x t. run_state m s = (x, t) \<Longrightarrow> Q x t) \<Longrightarrow> wp m Q s"
  by (auto simp: wp_def split: prod.splits)

lemma wp_any: "(\<And>x t. Q x t) \<Longrightarrow> wp m Q s"
  by (rule wpI)

text \<open>The same as introduction rules that follow the structure of a program.\<close>

lemma wp_retI [wp_rules]: "Q x s \<Longrightarrow> wp (ret x) Q s"
  by simp

lemma wp_bindI [wp_rules]: "wp m (\<lambda>x. wp (f x) Q) s \<Longrightarrow> wp (State_Monad.bind m f) Q s"
  by simp

lemma wp_ifI [wp_rules]:
  "(b \<Longrightarrow> wp m Q s) \<Longrightarrow> (\<not> b \<Longrightarrow> wp n Q s) \<Longrightarrow> wp (if b then m else n) Q s"
  by simp

lemma wp_sumI [wp_rules]:
  "(\<And>e. r = Inl e \<Longrightarrow> wp (f e) Q s) \<Longrightarrow> (\<And>x. r = Inr x \<Longrightarrow> wp (g x) Q s) \<Longrightarrow>
   wp (case r of Inl e \<Rightarrow> f e | Inr x \<Rightarrow> g x) Q s"
  by (simp split: sum.splits)

lemma wp_optionI [wp_rules]:
  "(r = None \<Longrightarrow> wp m Q s) \<Longrightarrow> (\<And>x. r = Some x \<Longrightarrow> wp (g x) Q s) \<Longrightarrow>
   wp (case r of None \<Rightarrow> m | Some x \<Rightarrow> g x) Q s"
  by (simp split: option.splits)

lemma wp_prodI [wp_rules]:
  "(\<And>x y. r = (x, y) \<Longrightarrow> wp (f x y) Q s) \<Longrightarrow> wp (case r of (x, y) \<Rightarrow> f x y) Q s"
  by (simp split: prod.splits)

lemma wp_LetI [wp_rules]: "(\<And>y. y = x \<Longrightarrow> wp (f y) Q s) \<Longrightarrow> wp (let y = x in f y) Q s"
  by simp

text \<open>A specification of a part of a program, used with any postcondition.\<close>

lemma wp_use: "wp m R s \<Longrightarrow> (\<And>x t. R x t \<Longrightarrow> Q x t) \<Longrightarrow> wp m Q s"
  by (rule wp_mono)

text \<open>Reading and writing the in-process state directly.\<close>

definition gets :: "('s \<Rightarrow> 'a) \<Rightarrow> ('s, 'a) state" where
  "gets f = State (\<lambda>s. (f s, s))"

definition modify :: "('s \<Rightarrow> 's) \<Rightarrow> ('s, unit) state" where
  "modify f = State (\<lambda>s. ((), f s))"

lemma run_gets [simp]: "run_state (gets f) s = (f s, s)"
  by (simp add: gets_def)

lemma run_modify [simp]: "run_state (modify f) s = ((), f s)"
  by (simp add: modify_def)

lemma wp_getsI [wp_rules]: "Q (f s) s \<Longrightarrow> wp (gets f) Q s"
  by (simp add: wp_def)

lemma wp_modifyI [wp_rules]: "Q () (f s) \<Longrightarrow> wp (modify f) Q s"
  by (simp add: wp_def)

lemma wp_gets [simp]: "wp (gets f) Q s = Q (f s) s"
  by (simp add: wp_def)

lemma wp_modify [simp]: "wp (modify f) Q s = Q () (f s)"
  by (simp add: wp_def)

text \<open>A \<open>for\<close> loop over a slice whose body may return early: \<open>Inl r\<close> leaves the function with
  \<open>r\<close>, \<open>Inr a\<close> goes on with the loop's local variables \<open>a\<close>.\<close>

fun foreach :: "('x \<Rightarrow> 'a \<Rightarrow> ('s, 'r + 'a) state) \<Rightarrow> 'x list \<Rightarrow> 'a \<Rightarrow> ('s, 'r + 'a) state" where
  "foreach body [] a = ret (Inr a)"
| "foreach body (x # xs) a = do {
     r \<leftarrow> body x a;
     (case r of Inl e \<Rightarrow> ret (Inl e) | Inr a' \<Rightarrow> foreach body xs a')
   }"

lemma foreach_wp:
  assumes inv: "I a s"
    and body: "\<And>x a s. x \<in> set xs \<Longrightarrow> I a s \<Longrightarrow>
      wp (body x a) (\<lambda>r t. case r of Inl e \<Rightarrow> Q (Inl e) t | Inr a' \<Rightarrow> I a' t) s"
    and fin: "\<And>a s. I a s \<Longrightarrow> Q (Inr a) s"
  shows "wp (foreach body xs a) Q s"
  using inv body
proof (induction xs arbitrary: a s)
  case Nil
  then show ?case by (simp add: fin)
next
  case (Cons x xs)
  have step: "wp (body x a) (\<lambda>r t. case r of Inl e \<Rightarrow> Q (Inl e) t | Inr a' \<Rightarrow> I a' t) s"
    using Cons.prems by simp
  have rest: "wp (foreach body xs a') Q t" if "I a' t" for a' t
    using that Cons.prems(2) by (intro Cons.IH) auto
  have "wp (body x a) (\<lambda>r. wp (case r of Inl e \<Rightarrow> ret (Inl e) | Inr a' \<Rightarrow> foreach body xs a') Q) s"
    by (rule wp_mono [OF step]) (auto split: sum.splits intro: rest)
  then show ?case by simp
qed

text \<open>The same with an invariant that knows the part of the slice already visited.\<close>

lemma foreach_wp_prefix_aux:
  assumes "I ys a s"
    and "\<And>zs x rest a s. ys @ xs = zs @ x # rest \<Longrightarrow> I zs a s \<Longrightarrow>
      wp (body x a) (\<lambda>r t. case r of Inl e \<Rightarrow> Q (Inl e) t | Inr a' \<Rightarrow> I (zs @ [x]) a' t) s"
    and fin: "\<And>a s. I (ys @ xs) a s \<Longrightarrow> Q (Inr a) s"
  shows "wp (foreach body xs a) Q s"
  using assms
proof (induction xs arbitrary: ys a s)
  case Nil
  then show ?case by simp
next
  case (Cons x xs)
  have step: "wp (body x a) (\<lambda>r t. case r of Inl e \<Rightarrow> Q (Inl e) t | Inr a' \<Rightarrow> I (ys @ [x]) a' t) s"
    using Cons.prems(2) [of ys x xs] Cons.prems(1) by simp
  have rest: "wp (foreach body xs a') Q t" if "I (ys @ [x]) a' t" for a' t
    by (rule Cons.IH [of "ys @ [x]", OF that]) (use Cons.prems(2,3) in \<open>auto\<close>)
  have "wp (body x a) (\<lambda>r. wp (case r of Inl e \<Rightarrow> ret (Inl e) | Inr a' \<Rightarrow> foreach body xs a') Q) s"
    by (rule wp_mono [OF step]) (auto split: sum.splits intro: rest)
  then show ?case by simp
qed

lemmas foreach_wp_prefix = foreach_wp_prefix_aux [where ys = "[]", simplified]

section \<open>The results of a program\<close>

text \<open>\<open>results Q m\<close>: in every state, the value that \<open>m\<close> returns satisfies \<open>Q\<close>.\<close>

definition results :: "('a \<Rightarrow> bool) \<Rightarrow> ('s, 'a) state \<Rightarrow> bool" where
  "results Q m = (\<forall>s. Q (fst (run_state m s)))"

lemma resultsD: "results Q m \<Longrightarrow> run_state m s = (x, t) \<Longrightarrow> Q x"
  unfolding results_def by (metis fst_conv)

lemma results_wp: "results R m \<Longrightarrow> (\<And>x t. R x \<Longrightarrow> Q x t) \<Longrightarrow> wp m Q s"
  by (auto simp: results_def intro!: wpI) (metis fst_conv)

lemma results_return [result_rules]: "Q x \<Longrightarrow> results Q (ret x)"
  by (simp add: results_def)

lemma results_bind [result_rules]: "(\<And>x. results Q (f x)) \<Longrightarrow> results Q (State_Monad.bind m f)"
  by (auto simp: results_def split: prod.splits)

lemma results_bind_via: "results R m \<Longrightarrow> (\<And>x. R x \<Longrightarrow> results Q (f x)) \<Longrightarrow> results Q (State_Monad.bind m f)"
  by (auto simp: results_def split: prod.splits) (metis fst_conv)

lemma results_if [result_rules]:
  "(b \<Longrightarrow> results Q m) \<Longrightarrow> (\<not> b \<Longrightarrow> results Q n) \<Longrightarrow> results Q (if b then m else n)"
  by simp

lemma results_sum [result_rules]:
  "(\<And>e. r = Inl e \<Longrightarrow> results Q (f e)) \<Longrightarrow> (\<And>x. r = Inr x \<Longrightarrow> results Q (g x)) \<Longrightarrow>
   results Q (case r of Inl e \<Rightarrow> f e | Inr x \<Rightarrow> g x)"
  by (simp split: sum.splits)

lemma results_option [result_rules]:
  "(r = None \<Longrightarrow> results Q m) \<Longrightarrow> (\<And>x. r = Some x \<Longrightarrow> results Q (g x)) \<Longrightarrow>
   results Q (case r of None \<Rightarrow> m | Some x \<Rightarrow> g x)"
  by (simp split: option.splits)

lemma results_Let [result_rules]: "results Q (f x) \<Longrightarrow> results Q (let y = x in f y)"
  by simp

definition leaves :: "('r \<Rightarrow> bool) \<Rightarrow> 'r + 'a \<Rightarrow> bool" where
  "leaves Q r = (case r of Inl e \<Rightarrow> Q e | Inr _ \<Rightarrow> True)"

lemma leaves_simps [simp]: "leaves Q (Inl e) = Q e" "leaves Q (Inr a)"
  by (simp_all add: leaves_def)

lemma results_foreach:
  "(\<And>x a. x \<in> set xs \<Longrightarrow> results (leaves Q) (body x a)) \<Longrightarrow> results (leaves Q) (foreach body xs a)"
proof (induction xs arbitrary: a)
  case Nil
  then show ?case by (simp add: results_def)
next
  case (Cons x xs)
  show ?case unfolding foreach.simps
    by (rule results_bind_via [of "leaves Q"]) (use Cons in \<open>auto intro!: result_rules split: sum.splits\<close>)
qed

end
