(* ===== verification/Api_Types.thy ===== *)
theory Api_Types
  imports Prelude "HOL-Library.Word"
begin

text \<open>
  The custom resource types of \<^verbatim>\<open>src/api/v1alpha1\<close>, one record per Go struct with the struct's
  fields in order. A pointer to a scalar (\<^verbatim>\<open>*bool\<close>, \<^verbatim>\<open>*int32\<close>) is an \<^typ>\<open>'a option\<close>; a slice is a
  list; a map is an association list. \<open>objectMeta\<close> and \<open>condition\<close> carry the fields of the
  Kubernetes metadata and condition structs that the repository reads or writes; times are Unix
  seconds, and \<open>zeroTime\<close> is Go's zero time (the year 1).
\<close>

section \<open>Kubernetes metadata\<close>

definition zeroTime :: int where
  "zeroTime = - 62135596800"

record objectMeta =
  om_name :: string
  om_namespace :: string
  om_uid :: string
  om_resourceVersion :: string
  om_generation :: int
  om_creationTimestamp :: int
  om_deletionTimestamp :: "int option"
  om_finalizers :: "string list"
  om_labels :: smap
  om_annotations :: smap

definition noMeta :: objectMeta where
  "noMeta = \<lparr>om_name = [], om_namespace = [], om_uid = [], om_resourceVersion = [],
     om_generation = 0, om_creationTimestamp = zeroTime, om_deletionTimestamp = None,
     om_finalizers = [], om_labels = [], om_annotations = []\<rparr>"

abbreviation metaFor :: "string \<Rightarrow> string \<Rightarrow> objectMeta" where
  "metaFor n ns \<equiv> noMeta\<lparr>om_name := n, om_namespace := ns\<rparr>"

text \<open>\<open>DeletionTimestamp.IsZero()\<close>: a nil pointer or the zero time.\<close>

definition notDeleting :: "objectMeta \<Rightarrow> bool" where
  "notDeleting m = (case om_deletionTimestamp m of None \<Rightarrow> True | Some t \<Rightarrow> t = zeroTime)"

datatype conditionStatus = ConditionTrue | ConditionFalse | ConditionUnknown

record condition =
  cd_type :: string
  cd_status :: conditionStatus
  cd_reason :: string
  cd_message :: string

abbreviation mkCond :: "string \<Rightarrow> conditionStatus \<Rightarrow> string \<Rightarrow> string \<Rightarrow> condition" where
  "mkCond t s r m \<equiv> \<lparr>cd_type = t, cd_status = s, cd_reason = r, cd_message = m\<rparr>"

section \<open>OpenShellGateway\<close>

record embeddedDatabaseConfig =
  ec_storageSize :: string
  ec_image :: string

record databaseSpec =
  db_embedded :: bool
  db_embeddedConfig :: "embeddedDatabaseConfig option"
  db_secretName :: string

record sandboxSpec =
  sb_namespace :: string
  sb_defaultImage :: string
  sb_imagePullPolicy :: string
  sb_workspaceStorageSize :: string
  sb_runtimeClassName :: string
  sb_appArmorProfile :: string

record certManagerSpec =
  cm_enabled :: bool
  cm_issuerName :: string
  cm_issuerKind :: string

record tlsSpec =
  tls_enabled :: "bool option"
  tls_certManager :: certManagerSpec
  tls_serverCertSecretName :: string

record gatewayAPISpec =
  ga_enabled :: "bool option"
  ga_gatewayClassName :: string
  ga_installEnvoyGateway :: "bool option"
  ga_grantSCCs :: "bool option"

record routeSpec =
  rt_enabled :: "bool option"
  rt_hostname :: string
  rt_gatewayAPI :: gatewayAPISpec

record openShiftAuth =
  oa_enabled :: "bool option"
  oa_userGroup :: string
  oa_adminGroup :: string
  oa_tokenTTL :: string
  oa_autoCreateGroups :: "bool option"

record authSpec =
  au_allowUnauthenticated :: bool
  au_openShift :: openShiftAuth

record networkPolicySpec =
  np_enabled :: "bool option"

record resourceRequirements =
  rq_requests :: smap
  rq_limits :: smap

record openShellGatewaySpec =
  gs_namespace :: string
  gs_image :: string
  gs_imageTag :: string
  gs_supervisorImage :: string
  gs_authBridgeImage :: string
  gs_replicas :: "int option"
  gs_database :: databaseSpec
  gs_sandbox :: sandboxSpec
  gs_tls :: tlsSpec
  gs_route :: routeSpec
  gs_auth :: authSpec
  gs_logLevel :: string
  gs_resources :: resourceRequirements
  gs_networkPolicy :: networkPolicySpec

record openShellGatewayStatus =
  gt_phase :: string
  gt_gatewayURL :: string
  gt_clientCertSecretName :: string
  gt_observedGeneration :: int
  gt_conditions :: "condition list"

record openShellGateway =
  gw_meta :: objectMeta
  gw_spec :: openShellGatewaySpec
  gw_status :: openShellGatewayStatus

abbreviation "ConditionAvailable \<equiv> ''Available''"
abbreviation "ConditionProgressing \<equiv> ''Progressing''"
abbreviation "ConditionDegraded \<equiv> ''Degraded''"
abbreviation "ConditionDatabaseReady \<equiv> ''DatabaseReady''"
abbreviation "ConditionEnvoyGatewayReady \<equiv> ''EnvoyGatewayReady''"
abbreviation "ConditionOpenShiftGroups \<equiv> ''OpenShiftGroupsReady''"
abbreviation "ConditionEnvoyProxySCCReady \<equiv> ''EnvoyProxySCCReady''"
abbreviation "ConditionEnvoyRouteReady \<equiv> ''EnvoyRouteReady''"
abbreviation "ConditionBrowserSSOReady \<equiv> ''BrowserSSOReady''"
abbreviation "ConditionImageConfigValid \<equiv> ''ImageConfigValid''"
abbreviation "PhaseCreating \<equiv> ''Creating''"
abbreviation "PhaseRunning \<equiv> ''Running''"
abbreviation "PhaseFailed \<equiv> ''Failed''"

section \<open>OpenShellProvider\<close>

record secretKeyRef =
  sk_name :: string
  sk_key :: string

record openShellProviderSpec =
  ps_providerType :: string
  ps_credentials :: "(string \<times> secretKeyRef) list"
  ps_config :: smap

record openShellProviderStatus =
  pt_phase :: string
  pt_observedGeneration :: int
  pt_conditions :: "condition list"
  pt_reconciledCredentialKeys :: "string list"
  pt_reconciledConfigKeys :: "string list"

record openShellProvider =
  pr_meta :: objectMeta
  pr_spec :: openShellProviderSpec
  pr_status :: openShellProviderStatus

section \<open>OpenShellPolicy\<close>

record filesystemPolicy =
  fs_includeWorkdir :: bool
  fs_readOnly :: "string list"
  fs_readWrite :: "string list"

record networkEndpoint =
  ne_host :: string
  ne_port :: int
  ne_protocol :: string
  ne_enforcement :: string
  ne_access :: string

record networkBinary =
  nb_path :: string

record networkPolicyRule =
  nr_name :: string
  nr_endpoints :: "networkEndpoint list"
  nr_binaries :: "networkBinary list"

record processPolicy =
  pp_runAsUser :: string
  pp_runAsGroup :: string

record openShellPolicySpec =
  ls_policyName :: string
  ls_filesystem :: "filesystemPolicy option"
  ls_network :: "(string \<times> networkPolicyRule) list"
  ls_process :: "processPolicy option"

record openShellPolicyStatus =
  lt_phase :: string
  lt_observedGeneration :: int
  lt_conditions :: "condition list"
  lt_appliedToGateway :: bool

record openShellPolicy =
  pl_meta :: objectMeta
  pl_spec :: openShellPolicySpec
  pl_status :: openShellPolicyStatus

section \<open>OpenShellWorkspaceMember\<close>

record serviceAccountReference =
  sr_name :: string

record openShellWorkspaceMemberSpec =
  ms_workspace :: string
  ms_serviceAccountRef :: serviceAccountReference
  ms_role :: string

record openShellWorkspaceMemberStatus =
  mt_phase :: string
  mt_observedGeneration :: int
  mt_conditions :: "condition list"
  mt_reconciledSubject :: string

record openShellWorkspaceMember =
  wm_meta :: objectMeta
  wm_spec :: openShellWorkspaceMemberSpec
  wm_status :: openShellWorkspaceMemberStatus

section \<open>Zero values\<close>

text \<open>Go's zero value of each custom resource, as \<^verbatim>\<open>&ogov1alpha1.OpenShellGateway{}\<close> builds it.\<close>

definition zeroGatewaySpec :: openShellGatewaySpec where
  "zeroGatewaySpec = \<lparr>gs_namespace = [], gs_image = [], gs_imageTag = [], gs_supervisorImage = [],
     gs_authBridgeImage = [], gs_replicas = None,
     gs_database = \<lparr>db_embedded = False, db_embeddedConfig = None, db_secretName = []\<rparr>,
     gs_sandbox = \<lparr>sb_namespace = [], sb_defaultImage = [], sb_imagePullPolicy = [],
       sb_workspaceStorageSize = [], sb_runtimeClassName = [], sb_appArmorProfile = []\<rparr>,
     gs_tls = \<lparr>tls_enabled = None,
       tls_certManager = \<lparr>cm_enabled = False, cm_issuerName = [], cm_issuerKind = []\<rparr>,
       tls_serverCertSecretName = []\<rparr>,
     gs_route = \<lparr>rt_enabled = None, rt_hostname = [],
       rt_gatewayAPI = \<lparr>ga_enabled = None, ga_gatewayClassName = [], ga_installEnvoyGateway = None,
         ga_grantSCCs = None\<rparr>\<rparr>,
     gs_auth = \<lparr>au_allowUnauthenticated = False,
       au_openShift = \<lparr>oa_enabled = None, oa_userGroup = [], oa_adminGroup = [], oa_tokenTTL = [],
         oa_autoCreateGroups = None\<rparr>\<rparr>,
     gs_logLevel = [], gs_resources = \<lparr>rq_requests = [], rq_limits = []\<rparr>,
     gs_networkPolicy = \<lparr>np_enabled = None\<rparr>\<rparr>"

definition zeroGatewayStatus :: openShellGatewayStatus where
  "zeroGatewayStatus = \<lparr>gt_phase = [], gt_gatewayURL = [], gt_clientCertSecretName = [],
     gt_observedGeneration = 0, gt_conditions = []\<rparr>"

definition zeroProviderSpec :: openShellProviderSpec where
  "zeroProviderSpec = \<lparr>ps_providerType = [], ps_credentials = [], ps_config = []\<rparr>"

definition zeroProviderStatus :: openShellProviderStatus where
  "zeroProviderStatus = \<lparr>pt_phase = [], pt_observedGeneration = 0, pt_conditions = [],
     pt_reconciledCredentialKeys = [], pt_reconciledConfigKeys = []\<rparr>"

definition zeroPolicySpec :: openShellPolicySpec where
  "zeroPolicySpec = \<lparr>ls_policyName = [], ls_filesystem = None, ls_network = [], ls_process = None\<rparr>"

definition zeroPolicyStatus :: openShellPolicyStatus where
  "zeroPolicyStatus = \<lparr>lt_phase = [], lt_observedGeneration = 0, lt_conditions = [],
     lt_appliedToGateway = False\<rparr>"

definition zeroMemberSpec :: openShellWorkspaceMemberSpec where
  "zeroMemberSpec = \<lparr>ms_workspace = [], ms_serviceAccountRef = \<lparr>sr_name = []\<rparr>, ms_role = []\<rparr>"

definition zeroMemberStatus :: openShellWorkspaceMemberStatus where
  "zeroMemberStatus = \<lparr>mt_phase = [], mt_observedGeneration = 0, mt_conditions = [],
     mt_reconciledSubject = []\<rparr>"

end
