(* ===== verification/Kube.thy ===== *)
theory Kube
  imports Api_Types
begin

text \<open>
  The boundary between the repository and everything it calls: the Kubernetes API client of
  controller-runtime, the discovery client, the helper functions of apimachinery, the gRPC client of
  the OpenShell gateway, the clock and the random source. None of that code is under \<^verbatim>\<open>src/\<close>, so it
  is a parameter of the model: the record \<open>env\<close>, whose fields are functions on an arbitrary world
  type \<open>'w\<close>. A call may return any result the Go function may return, errors included, and may
  change the world in any way.

  \<open>sys\<close> is the state a controller runs in: the world, the three detection caches that
  \<^verbatim>\<open>src/internal/openshift/detect.go\<close> keeps in package variables, and the history of the calls made
  so far, which no definition reads and which the safety theorems talk about.

  \<^verbatim>\<open>controllerutil.CreateOrUpdate\<close> takes a callback. It is represented by the two halves around that
  callback: \<open>e_couFetch\<close> runs before it and hands it the object to mutate, \<open>e_couCommit\<close> runs after
  it and writes the mutated object. Both halves are parameters.
\<close>

section \<open>Errors\<close>

text \<open>
  A Go error: \<open>ExtErr\<close> is an error value made by code outside the repository, \<open>Errorf\<close> one made by
  \<^verbatim>\<open>fmt.Errorf\<close> or \<^verbatim>\<open>errors.New\<close> without wrapping, \<open>Wrapf pre e post\<close> one made with \<^verbatim>\<open>%w\<close>, whose text
  is the wrapped error's between two literal parts.
\<close>

datatype goerr =
    ExtErr string string
  | Errorf string
  | Wrapf string goerr string

primrec errText :: "goerr \<Rightarrow> string" where
  "errText (ExtErr c t) = t"
| "errText (Errorf t) = t"
| "errText (Wrapf pre e post) = pre @ errText e @ post"

text \<open>\<^verbatim>\<open>errors.Is(err, target)\<close> for a sentinel made with \<^verbatim>\<open>errors.New\<close>: the target is somewhere in the
  chain of wrapped errors.\<close>

primrec errIs :: "goerr \<Rightarrow> goerr \<Rightarrow> bool" where
  "errIs (ExtErr c t) target = (ExtErr c t = target)"
| "errIs (Errorf t) target = (Errorf t = target)"
| "errIs (Wrapf pre e post) target = (Wrapf pre e post = target \<or> errIs e target)"

datatype grpcCode = CodeOK | AlreadyExists | InvalidArgument | FailedPrecondition | NotFoundCode
  | Unavailable | Unimplemented | CodeOther nat

section \<open>Objects\<close>

datatype kind = KSecret | KConfigMap | KNamespace | KServiceAccount | KClusterRole
  | KClusterRoleBinding | KRole | KRoleBinding | KPersistentVolumeClaim | KDeployment | KService
  | KNetworkPolicy | KRoute | KGateway | KGRPCRoute | KBackendTrafficPolicy | KCertificate
  | KOAuthClient | KGroup | KGatewayClass | KOpenShellGateway | KOpenShellProvider
  | KOpenShellPolicy | KOpenShellWorkspaceMember | KCustomResourceDefinition | KJob | KOther string

text \<open>The content of an unstructured object.\<close>

datatype jval = JStr string | JInt int | JBool bool | JList "jval list" | JMap "(string \<times> jval) list"

record secretBody =
  sec_type :: string
  sec_data :: smap

record configMapBody =
  cfg_data :: smap
  cfg_binaryData :: smap

record policyRule =
  ru_apiGroups :: "string list"
  ru_resources :: "string list"
  ru_verbs :: "string list"

record roleRef =
  rf_apiGroup :: string
  rf_kind :: string
  rf_name :: string

record subject =
  su_kind :: string
  su_name :: string
  su_namespace :: string

record pvcSpec =
  pv_accessModes :: "string list"
  pv_requests :: smap

datatype intOrString = IntPort int | StrPort string

datatype probeHandler = HTTPGet string intOrString string | TCPSocket intOrString

record probe =
  pb_handler :: probeHandler
  pb_initialDelaySeconds :: int
  pb_periodSeconds :: int
  pb_failureThreshold :: int

datatype envSource = EnvValue string | EnvSecretKeyRef string string

record containerPort =
  cp_name :: string
  cp_containerPort :: int
  cp_protocol :: string

record volumeMount =
  vm_name :: string
  vm_mountPath :: string
  vm_readOnly :: bool

record securityContext =
  sx_allowPrivilegeEscalation :: "bool option"
  sx_runAsNonRoot :: "bool option"
  sx_drop :: "string list"

record container =
  ct_name :: string
  ct_image :: string
  ct_args :: "string list"
  ct_env :: "(string \<times> envSource) list"
  ct_ports :: "containerPort list"
  ct_startupProbe :: "probe option"
  ct_livenessProbe :: "probe option"
  ct_readinessProbe :: "probe option"
  ct_resources :: resourceRequirements
  ct_volumeMounts :: "volumeMount list"
  ct_securityContext :: securityContext

datatype volumeSource =
    VolConfigMap string
  | VolSecret string "int option" "(string \<times> string) list"
  | VolPVC string

record podSpec =
  pd_serviceAccountName :: string
  pd_terminationGracePeriodSeconds :: "int option"
  pd_containers :: "container list"
  pd_volumes :: "(string \<times> volumeSource) list"
  pd_securityContext :: "(int \<times> int) option"  \<comment> \<open>fsGroup and runAsUser\<close>

record podTemplate =
  tp_labels :: smap
  tp_annotations :: smap
  tp_spec :: podSpec

record deploymentBody =
  dp_replicas :: "int option"
  dp_selector :: smap
  dp_strategy :: string
  dp_template :: podTemplate
  dp_readyReplicas :: int  \<comment> \<open>from the status, written by the cluster\<close>

record servicePort =
  sp_name :: string
  sp_port :: int
  sp_targetPort :: intOrString
  sp_protocol :: string
  sp_appProtocol :: "string option"

record serviceBody =
  sv_type :: string
  sv_selector :: smap
  sv_ports :: "servicePort list"

record networkPolicyBody =
  nl_podSelector :: smap
  nl_policyTypes :: "string list"
  nl_fromNamespaceSelector :: smap
  nl_fromPodSelector :: smap
  nl_ports :: "(string \<times> intOrString) list"

datatype body =
    BNone
  | BSecret secretBody
  | BConfigMap configMapBody
  | BRules "policyRule list"
  | BBinding roleRef "subject list"
  | BPVC pvcSpec
  | BDeployment deploymentBody
  | BService serviceBody
  | BNetworkPolicy networkPolicyBody
  | BUnstructured "(string \<times> jval) list"
  | BGateway openShellGatewaySpec openShellGatewayStatus
  | BProvider openShellProviderSpec openShellProviderStatus
  | BPolicy openShellPolicySpec openShellPolicyStatus
  | BMember openShellWorkspaceMemberSpec openShellWorkspaceMemberStatus

record kobj =
  ob_kind :: kind
  ob_meta :: objectMeta
  ob_body :: body

abbreviation mkObj :: "kind \<Rightarrow> objectMeta \<Rightarrow> body \<Rightarrow> kobj" where
  "mkObj k m b \<equiv> \<lparr>ob_kind = k, ob_meta = m, ob_body = b\<rparr>"

abbreviation ob_name :: "kobj \<Rightarrow> string" where "ob_name ob \<equiv> om_name (ob_meta ob)"
abbreviation ob_namespace :: "kobj \<Rightarrow> string" where "ob_namespace ob \<equiv> om_namespace (ob_meta ob)"
abbreviation ob_labels :: "kobj \<Rightarrow> smap" where "ob_labels ob \<equiv> om_labels (ob_meta ob)"

text \<open>
  Decoding a fetched object into the Go struct the caller passed: the client fills the struct of the
  requested kind. An object whose body is of another kind leaves the struct at its zero value.
\<close>

definition secretOf :: "kobj \<Rightarrow> secretBody" where
  "secretOf ob = (case ob_body ob of BSecret b \<Rightarrow> b | _ \<Rightarrow> \<lparr>sec_type = [], sec_data = []\<rparr>)"

definition configMapOf :: "kobj \<Rightarrow> configMapBody" where
  "configMapOf ob = (case ob_body ob of BConfigMap b \<Rightarrow> b | _ \<Rightarrow> \<lparr>cfg_data = [], cfg_binaryData = []\<rparr>)"

definition contentOf :: "kobj \<Rightarrow> (string \<times> jval) list" where
  "contentOf ob = (case ob_body ob of BUnstructured c \<Rightarrow> c | _ \<Rightarrow> [])"

definition gatewayOf :: "kobj \<Rightarrow> openShellGateway" where
  "gatewayOf ob = (case ob_body ob of
     BGateway sp st \<Rightarrow> \<lparr>gw_meta = ob_meta ob, gw_spec = sp, gw_status = st\<rparr>
   | _ \<Rightarrow> \<lparr>gw_meta = ob_meta ob, gw_spec = zeroGatewaySpec, gw_status = zeroGatewayStatus\<rparr>)"

definition providerOf :: "kobj \<Rightarrow> openShellProvider" where
  "providerOf ob = (case ob_body ob of
     BProvider sp st \<Rightarrow> \<lparr>pr_meta = ob_meta ob, pr_spec = sp, pr_status = st\<rparr>
   | _ \<Rightarrow> \<lparr>pr_meta = ob_meta ob, pr_spec = zeroProviderSpec, pr_status = zeroProviderStatus\<rparr>)"

definition policyOf :: "kobj \<Rightarrow> openShellPolicy" where
  "policyOf ob = (case ob_body ob of
     BPolicy sp st \<Rightarrow> \<lparr>pl_meta = ob_meta ob, pl_spec = sp, pl_status = st\<rparr>
   | _ \<Rightarrow> \<lparr>pl_meta = ob_meta ob, pl_spec = zeroPolicySpec, pl_status = zeroPolicyStatus\<rparr>)"

definition memberOf :: "kobj \<Rightarrow> openShellWorkspaceMember" where
  "memberOf ob = (case ob_body ob of
     BMember sp st \<Rightarrow> \<lparr>wm_meta = ob_meta ob, wm_spec = sp, wm_status = st\<rparr>
   | _ \<Rightarrow> \<lparr>wm_meta = ob_meta ob, wm_spec = zeroMemberSpec, wm_status = zeroMemberStatus\<rparr>)"

definition gatewayObj :: "openShellGateway \<Rightarrow> kobj" where
  "gatewayObj g = mkObj KOpenShellGateway (gw_meta g) (BGateway (gw_spec g) (gw_status g))"

definition providerObj :: "openShellProvider \<Rightarrow> kobj" where
  "providerObj p = mkObj KOpenShellProvider (pr_meta p) (BProvider (pr_spec p) (pr_status p))"

definition policyObj :: "openShellPolicy \<Rightarrow> kobj" where
  "policyObj p = mkObj KOpenShellPolicy (pl_meta p) (BPolicy (pl_spec p) (pl_status p))"

definition memberObj :: "openShellWorkspaceMember \<Rightarrow> kobj" where
  "memberObj m = mkObj KOpenShellWorkspaceMember (wm_meta m) (BMember (wm_spec m) (wm_status m))"

lemma gatewayOf_Obj [simp]: "gatewayOf (gatewayObj g) = g"
  by (simp add: gatewayOf_def gatewayObj_def)

lemma providerOf_Obj [simp]: "providerOf (providerObj p) = p"
  by (simp add: providerOf_def providerObj_def)

lemma policyOf_Obj [simp]: "policyOf (policyObj p) = p"
  by (simp add: policyOf_def policyObj_def)

lemma memberOf_Obj [simp]: "memberOf (memberObj m) = m"
  by (simp add: memberOf_def memberObj_def)

section \<open>Gateway RPCs\<close>

text \<open>The messages of \<^verbatim>\<open>src/proto/openshell.proto\<close> that the controllers send and read.\<close>

datatype workspaceRole = WORKSPACE_ROLE_UNSPECIFIED | WORKSPACE_ROLE_USER | WORKSPACE_ROLE_ADMIN

record gwProvider =
  gp_name :: string
  gp_type :: string
  gp_credentials :: smap
  gp_config :: smap

record gwEndpoint =
  gn_host :: string
  gn_port :: "32 word"
  gn_protocol :: string
  gn_enforcement :: string
  gn_access :: string

record gwRule =
  gr_name :: string
  gr_endpoints :: "gwEndpoint list"
  gr_binaries :: "string list"

record sandboxPolicy =
  sy_filesystem :: "filesystemPolicy option"
  sy_process :: "processPolicy option"
  sy_networkPolicies :: "(string \<times> gwRule) list"

datatype rpc =
    AddWorkspaceMember string string workspaceRole
  | RemoveWorkspaceMember string string
  | ListWorkspaceMembers string nat
  | CreateProvider gwProvider string
  | UpdateProvider gwProvider string
  | DeleteProvider string string
  | UpdateConfig "sandboxPolicy option" string bool bool string
      \<comment> \<open>policy, setting key, delete setting, global, workspace\<close>

datatype rpcResp = RespDone | RespMembers "(string \<times> workspaceRole) list"

definition respMembers :: "rpcResp \<Rightarrow> (string \<times> workspaceRole) list" where
  "respMembers r = (case r of RespMembers ms \<Rightarrow> ms | RespDone \<Rightarrow> [])"

section \<open>The environment\<close>

record listOpts =
  lo_namespace :: "string option"
  lo_labels :: smap

abbreviation listAll :: listOpts where
  "listAll \<equiv> \<lparr>lo_namespace = None, lo_labels = []\<rparr>"

record nsName =
  nn_namespace :: string
  nn_name :: string

abbreviation nsn :: "string \<Rightarrow> string \<Rightarrow> nsName" where
  "nsn ns n \<equiv> \<lparr>nn_namespace = ns, nn_name = n\<rparr>"

text \<open>Credentials of a gRPC connection: plaintext, or a client key pair, a CA and a server name.\<close>

datatype transportCreds = Insecure | MTLS string string string string

datatype privateKey = RSAPrivate string | OtherPrivate string

datatype 'a nested = NFound 'a | NAbsent | NError goerr

record 'w env =
  e_get :: "kind \<Rightarrow> nsName \<Rightarrow> 'w \<Rightarrow> (goerr + kobj) \<times> 'w"
  e_list :: "kind \<Rightarrow> listOpts \<Rightarrow> 'w \<Rightarrow> (goerr + kobj list) \<times> 'w"
  e_create :: "kobj \<Rightarrow> 'w \<Rightarrow> (goerr + kobj) \<times> 'w"
  e_update :: "kobj \<Rightarrow> 'w \<Rightarrow> goerr option \<times> 'w"
  e_statusUpdate :: "kobj \<Rightarrow> 'w \<Rightarrow> goerr option \<times> 'w"
  e_delete :: "kobj \<Rightarrow> 'w \<Rightarrow> goerr option \<times> 'w"
  e_couFetch :: "kobj \<Rightarrow> 'w \<Rightarrow> (goerr + kobj) \<times> 'w"
  e_couCommit :: "kobj \<Rightarrow> kobj \<Rightarrow> 'w \<Rightarrow> goerr option \<times> 'w"
  e_discover :: "string \<Rightarrow> 'w \<Rightarrow> goerr option \<times> 'w"
  e_now :: "'w \<Rightarrow> int \<times> 'w"  \<comment> \<open>nanoseconds\<close>
  e_rand :: "nat \<Rightarrow> 'w \<Rightarrow> string \<times> 'w"
  e_isNotFound :: "goerr \<Rightarrow> bool"
  e_isAlreadyExists :: "goerr \<Rightarrow> bool"
  e_isNoMatch :: "goerr \<Rightarrow> bool"
  e_setCond :: "condition list \<Rightarrow> condition \<Rightarrow> condition list"
  e_findCond :: "condition list \<Rightarrow> string \<Rightarrow> condition option"
  e_removeCond :: "condition list \<Rightarrow> string \<Rightarrow> condition list"
  e_hasFinalizer :: "objectMeta \<Rightarrow> string \<Rightarrow> bool"
  e_addFinalizer :: "objectMeta \<Rightarrow> string \<Rightarrow> objectMeta"
  e_removeFinalizer :: "objectMeta \<Rightarrow> string \<Rightarrow> objectMeta"
  e_nestedString :: "(string \<times> jval) list \<Rightarrow> string list \<Rightarrow> string nested"
  e_nestedStrings :: "(string \<times> jval) list \<Rightarrow> string list \<Rightarrow> (string list) nested"
  e_nestedSlice :: "(string \<times> jval) list \<Rightarrow> string list \<Rightarrow> (jval list) nested"
  e_nestedMap :: "(string \<times> jval) list \<Rightarrow> string list \<Rightarrow> ((string \<times> jval) list) nested"
  e_setNested :: "(string \<times> jval) list \<Rightarrow> jval \<Rightarrow> string list \<Rightarrow> goerr + (string \<times> jval) list"
  e_deepEqual :: "(string \<times> jval) list \<Rightarrow> (string \<times> jval) list \<Rightarrow> bool"
  e_grpcCode :: "goerr \<Rightarrow> grpcCode"
  e_dial :: "string \<Rightarrow> transportCreds \<Rightarrow> 'w \<Rightarrow> goerr option \<times> 'w"
  e_rpc :: "string \<Rightarrow> rpc \<Rightarrow> 'w \<Rightarrow> (goerr + rpcResp) \<times> 'w"
  e_keyPairOk :: "string \<Rightarrow> string \<Rightarrow> goerr option"
  e_certPoolOk :: "string \<Rightarrow> bool"
  e_sha256 :: "string \<Rightarrow> string"
  e_pemDecode :: "string \<Rightarrow> string option"
  e_pemEncode :: "string \<Rightarrow> string \<Rightarrow> string"
  e_parsePKCS8 :: "string \<Rightarrow> goerr + privateKey"
  e_publicModulus :: "string \<Rightarrow> string"
  e_publicExponent :: "string \<Rightarrow> string"
  e_marshalPKCS1Public :: "string \<Rightarrow> string"
  e_signPKCS1v15 :: "string \<Rightarrow> string \<Rightarrow> 'w \<Rightarrow> (goerr + string) \<times> 'w"
  e_jsonMarshal :: "jval \<Rightarrow> goerr + string"

section \<open>Controller state and primitive calls\<close>

datatype call =
    CGet kind nsName
  | CList kind listOpts
  | CCreate kobj
  | CUpdate kobj
  | CStatusUpdate kobj
  | CDelete kobj
  | CFetch kobj
  | CCommit kobj kobj
  | CDiscover string
  | CDial string transportCreds
  | CRpc string rpc

record cachedDetection =
  cc_result :: bool
  cc_expiry :: int

record 'w sys =
  world :: 'w
  calls :: "call list"
  isOpenShiftCache :: cachedDetection
  hasGatewayAPICache :: cachedDetection
  hasGroupsAPICache :: cachedDetection

text \<open>A normal form for updated states: the history outside the world.\<close>

lemma sys_update_swap [simp]:
  "world_update f (calls_update g s) = calls_update g (world_update f s)"
  by simp

definition invoke :: "call \<Rightarrow> ('w \<Rightarrow> 'a \<times> 'w) \<Rightarrow> ('w sys, 'a) state" where
  "invoke c f = State (\<lambda>s. case f (world s) of
     (r, w) \<Rightarrow> (r, s\<lparr>world := w, calls := calls s @ [c]\<rparr>))"

text \<open>Reading the clock or the random source is not part of the history.\<close>

definition silent :: "('w \<Rightarrow> 'a \<times> 'w) \<Rightarrow> ('w sys, 'a) state" where
  "silent f = State (\<lambda>s. case f (world s) of (r, w) \<Rightarrow> (r, s\<lparr>world := w\<rparr>))"

definition kGet :: "'w env \<Rightarrow> kind \<Rightarrow> nsName \<Rightarrow> ('w sys, goerr + kobj) state" where
  "kGet E k n = invoke (CGet k n) (e_get E k n)"

definition kList :: "'w env \<Rightarrow> kind \<Rightarrow> listOpts \<Rightarrow> ('w sys, goerr + kobj list) state" where
  "kList E k l = invoke (CList k l) (e_list E k l)"

definition kCreate :: "'w env \<Rightarrow> kobj \<Rightarrow> ('w sys, goerr + kobj) state" where
  "kCreate E ob = invoke (CCreate ob) (e_create E ob)"

definition kUpdate :: "'w env \<Rightarrow> kobj \<Rightarrow> ('w sys, goerr option) state" where
  "kUpdate E ob = invoke (CUpdate ob) (e_update E ob)"

definition kStatusUpdate :: "'w env \<Rightarrow> kobj \<Rightarrow> ('w sys, goerr option) state" where
  "kStatusUpdate E ob = invoke (CStatusUpdate ob) (e_statusUpdate E ob)"

definition kDelete :: "'w env \<Rightarrow> kobj \<Rightarrow> ('w sys, goerr option) state" where
  "kDelete E ob = invoke (CDelete ob) (e_delete E ob)"

definition kDiscover :: "'w env \<Rightarrow> string \<Rightarrow> ('w sys, goerr option) state" where
  "kDiscover E gv = invoke (CDiscover gv) (e_discover E gv)"

definition kDial :: "'w env \<Rightarrow> string \<Rightarrow> transportCreds \<Rightarrow> ('w sys, goerr option) state" where
  "kDial E t c = invoke (CDial t c) (e_dial E t c)"

definition kRpc :: "'w env \<Rightarrow> string \<Rightarrow> rpc \<Rightarrow> ('w sys, goerr + rpcResp) state" where
  "kRpc E auth q = invoke (CRpc auth q) (e_rpc E auth q)"

definition timeNow :: "'w env \<Rightarrow> ('w sys, int) state" where
  "timeNow E = silent (e_now E)"

definition randBytes :: "'w env \<Rightarrow> nat \<Rightarrow> ('w sys, string) state" where
  "randBytes E n = silent (e_rand E n)"

definition createOrUpdate ::
  "'w env \<Rightarrow> kobj \<Rightarrow> (kobj \<Rightarrow> ('w sys, goerr + kobj) state) \<Rightarrow> ('w sys, goerr option) state" where
  "createOrUpdate E obj mutate = do {
     r \<leftarrow> invoke (CFetch obj) (e_couFetch E obj);
     (case r of
       Inl e \<Rightarrow> ret (Some e)
     | Inr ob \<Rightarrow> do {
         m \<leftarrow> mutate ob;
         (case m of
           Inl e \<Rightarrow> ret (Some e)
         | Inr ob' \<Rightarrow> invoke (CCommit ob ob') (e_couCommit E ob ob'))
       })
   }"

text \<open>A reconcile's result: \<^verbatim>\<open>ctrl.Result\<close> with its delay in seconds, and the returned error.\<close>

record ctrlResult =
  rs_requeue :: bool
  rs_requeueAfter :: int

abbreviation noRequeue :: ctrlResult where
  "noRequeue \<equiv> \<lparr>rs_requeue = False, rs_requeueAfter = 0\<rparr>"

abbreviation requeueNow :: ctrlResult where
  "requeueNow \<equiv> \<lparr>rs_requeue = True, rs_requeueAfter = 0\<rparr>"

abbreviation requeueAfter :: "int \<Rightarrow> ctrlResult" where
  "requeueAfter n \<equiv> \<lparr>rs_requeue = False, rs_requeueAfter = n\<rparr>"

type_synonym outcome = "ctrlResult \<times> goerr option"

text \<open>\<^verbatim>\<open>client.IgnoreNotFound(err)\<close>, a one-line test on the error class.\<close>

definition ignoreNotFound :: "'w env \<Rightarrow> goerr \<Rightarrow> goerr option" where
  "ignoreNotFound E e = (if e_isNotFound E e then None else Some e)"

text \<open>\<^verbatim>\<open>return r.Create(ctx, obj)\<close>: only the error of a create is returned.\<close>

definition errOf :: "goerr + 'a \<Rightarrow> goerr option" where
  "errOf r = (case r of Inl e \<Rightarrow> Some e | Inr _ \<Rightarrow> None)"

lemmas prim_defs = kGet_def kList_def kCreate_def kUpdate_def kStatusUpdate_def kDelete_def
  kDiscover_def kDial_def kRpc_def

lemma wp_invoke [wp_rules]:
  "(\<And>r w. f (world s) = (r, w) \<Longrightarrow> Q r (s\<lparr>world := w, calls := calls s @ [c]\<rparr>)) \<Longrightarrow>
   wp (invoke c f) Q s"
  by (simp add: wp_def invoke_def split: prod.splits)

lemma wp_silent [wp_rules]:
  "(\<And>r w. f (world s) = (r, w) \<Longrightarrow> Q r (s\<lparr>world := w\<rparr>)) \<Longrightarrow> wp (silent f) Q s"
  by (simp add: wp_def silent_def split: prod.splits)

section \<open>The calls a program may make\<close>

text \<open>
  \<open>onlyCalls P m\<close>: in every environment and every state, each call that \<open>m\<close> adds to the history
  satisfies \<open>P\<close>. The rules follow the structure of a program.
\<close>

definition onlyCalls :: "(call \<Rightarrow> bool) \<Rightarrow> ('w sys, 'a) state \<Rightarrow> bool" where
  "onlyCalls P m = (\<forall>s. \<exists>cs. calls (snd (run_state m s)) = calls s @ cs \<and> list_all P cs)"

lemma onlyCalls_return [call_rules, simp]: "onlyCalls P (ret x)"
  by (simp add: onlyCalls_def)

lemma onlyCalls_bind [call_rules]:
  assumes "onlyCalls P m" and "\<And>x. onlyCalls P (f x)"
  shows "onlyCalls P (State_Monad.bind m f)"
  unfolding onlyCalls_def
proof
  fix s
  obtain x t where run: "run_state m s = (x, t)" by (cases "run_state m s")
  obtain cs where "calls t = calls s @ cs" "list_all P cs"
    using assms(1) run unfolding onlyCalls_def by (metis snd_conv)
  moreover obtain ds where "calls (snd (run_state (f x) t)) = calls t @ ds" "list_all P ds"
    using assms(2) unfolding onlyCalls_def by blast
  ultimately show "\<exists>cs. calls (snd (run_state (State_Monad.bind m f) s)) = calls s @ cs \<and> list_all P cs"
    by (intro exI [of _ "cs @ ds"]) (simp add: run)
qed

lemma onlyCalls_invoke [call_rules]: "P c \<Longrightarrow> onlyCalls P (invoke c f)"
  by (simp add: onlyCalls_def invoke_def split: prod.splits)

lemma onlyCalls_silent [call_rules, simp]: "onlyCalls P (silent f)"
  by (auto simp: onlyCalls_def silent_def split: prod.splits)

lemma onlyCalls_gets [call_rules, simp]: "onlyCalls P (gets f)"
  by (simp add: onlyCalls_def)

lemma onlyCalls_modify [call_rules]: "(\<And>s. calls (f s) = calls s) \<Longrightarrow> onlyCalls P (modify f)"
  by (simp add: onlyCalls_def)

lemma onlyCalls_if [call_rules]:
  "(b \<Longrightarrow> onlyCalls P m) \<Longrightarrow> (\<not> b \<Longrightarrow> onlyCalls P n) \<Longrightarrow> onlyCalls P (if b then m else n)"
  by simp

lemma onlyCalls_sum [call_rules]:
  "(\<And>e. r = Inl e \<Longrightarrow> onlyCalls P (f e)) \<Longrightarrow> (\<And>x. r = Inr x \<Longrightarrow> onlyCalls P (g x)) \<Longrightarrow>
   onlyCalls P (case r of Inl e \<Rightarrow> f e | Inr x \<Rightarrow> g x)"
  by (simp split: sum.splits)

lemma onlyCalls_option [call_rules]:
  "(r = None \<Longrightarrow> onlyCalls P m) \<Longrightarrow> (\<And>x. r = Some x \<Longrightarrow> onlyCalls P (g x)) \<Longrightarrow>
   onlyCalls P (case r of None \<Rightarrow> m | Some x \<Rightarrow> g x)"
  by (simp split: option.splits)

lemma onlyCalls_prod [call_rules]:
  "(\<And>x y. r = (x, y) \<Longrightarrow> onlyCalls P (f x y)) \<Longrightarrow> onlyCalls P (case r of (x, y) \<Rightarrow> f x y)"
  by (simp split: prod.splits)

lemma onlyCalls_Let [call_rules]: "onlyCalls P (f x) \<Longrightarrow> onlyCalls P (let y = x in f y)"
  by simp

lemma onlyCalls_createOrUpdate [call_rules]:
  "P (CFetch obj) \<Longrightarrow> (\<And>ob. onlyCalls P (mutate ob)) \<Longrightarrow> (\<And>ob ob'. P (CCommit ob ob')) \<Longrightarrow>
   onlyCalls P (createOrUpdate E obj mutate)"
  unfolding createOrUpdate_def by (intro call_rules) auto

lemma onlyCalls_foreach [call_rules]:
  "(\<And>x a. x \<in> set xs \<Longrightarrow> onlyCalls P (body x a)) \<Longrightarrow> onlyCalls P (foreach body xs a)"
  by (induction xs arbitrary: a) (auto intro!: call_rules split: sum.splits)

lemma onlyCalls_mono: "onlyCalls P m \<Longrightarrow> (\<And>c. P c \<Longrightarrow> Q c) \<Longrightarrow> onlyCalls Q m"
  unfolding onlyCalls_def by (metis list.pred_mono_strong)

text \<open>What \<open>onlyCalls\<close> says about one run.\<close>

lemma onlyCallsD:
  "onlyCalls P m \<Longrightarrow> run_state m s = (x, t) \<Longrightarrow>
   \<exists>cs. calls t = calls s @ cs \<and> (\<forall>c \<in> set cs. P c)"
  unfolding onlyCalls_def by (metis list_all_iff snd_conv)

lemma onlyCalls_wpI:
  assumes "\<And>s. wp m (\<lambda>_ t. \<exists>cs. calls t = calls s @ cs \<and> list_all P cs) s"
  shows "onlyCalls P m"
  unfolding onlyCalls_def
proof
  fix s
  show "\<exists>cs. calls (snd (run_state m s)) = calls s @ cs \<and> list_all P cs"
    using assms [of s] by (simp add: wp_def split: prod.splits)
qed

section \<open>What a call may answer\<close>

text \<open>A result of a read is one that the environment gives for that read in some world.\<close>

lemma onlyCalls_bind_via:
  assumes "onlyCalls P m" and "results R m" and "\<And>x. R x \<Longrightarrow> onlyCalls P (f x)"
  shows "onlyCalls P (State_Monad.bind m f)"
  unfolding onlyCalls_def
proof
  fix s
  obtain x t where run: "run_state m s = (x, t)" by (cases "run_state m s")
  obtain cs where "calls t = calls s @ cs" "list_all P cs"
    using assms(1) run unfolding onlyCalls_def by (metis snd_conv)
  moreover obtain ds where "calls (snd (run_state (f x) t)) = calls t @ ds" "list_all P ds"
    using assms(3) [OF resultsD [OF assms(2) run]] unfolding onlyCalls_def by blast
  ultimately show "\<exists>cs. calls (snd (run_state (State_Monad.bind m f) s)) = calls s @ cs \<and> list_all P cs"
    by (intro exI [of _ "cs @ ds"]) (simp add: run)
qed

definition mayGet :: "'w env \<Rightarrow> kind \<Rightarrow> nsName \<Rightarrow> goerr + kobj \<Rightarrow> bool" where
  "mayGet E k n r = (\<exists>w w'. e_get E k n w = (r, w'))"

definition mayList :: "'w env \<Rightarrow> kind \<Rightarrow> listOpts \<Rightarrow> goerr + kobj list \<Rightarrow> bool" where
  "mayList E k l r = (\<exists>w w'. e_list E k l w = (r, w'))"

lemma results_kGet: "results (mayGet E k n) (kGet E k n)"
  unfolding results_def mayGet_def kGet_def invoke_def by (auto split: prod.splits)

lemma results_kList: "results (mayList E k l) (kList E k l)"
  unfolding results_def mayList_def kList_def invoke_def by (auto split: prod.splits)

lemma onlyCalls_kGet_bind:
  "P (CGet k n) \<Longrightarrow> (\<And>r. mayGet E k n r \<Longrightarrow> onlyCalls P (f r)) \<Longrightarrow> onlyCalls P (State_Monad.bind (kGet E k n) f)"
  by (rule onlyCalls_bind_via [OF _ results_kGet]) (auto simp: kGet_def intro: onlyCalls_invoke)

lemma onlyCalls_kList_bind:
  "P (CList k l) \<Longrightarrow> (\<And>r. mayList E k l r \<Longrightarrow> onlyCalls P (f r)) \<Longrightarrow> onlyCalls P (State_Monad.bind (kList E k l) f)"
  by (rule onlyCalls_bind_via [OF _ results_kList]) (auto simp: kList_def intro: onlyCalls_invoke)

end
