(* ===== verification/Naming.thy ===== *)
theory Naming
  imports Kube
begin

text \<open>
  The pure helper functions of \<^verbatim>\<open>src/internal/controller/openshellgateway_controller.go\<close> and
  \<^verbatim>\<open>dependency.go\<close>: names, labels, namespaces, host names and URLs derived from an OpenShellGateway.
\<close>

section \<open>Constants and labels\<close>

abbreviation "gatewayFinalizer \<equiv> ''ogo.aknochow.io/gateway-cleanup''"
abbreviation "labelManagedBy \<equiv> ''app.kubernetes.io/managed-by''"
abbreviation "labelInstance \<equiv> ''app.kubernetes.io/instance''"
abbreviation "labelName \<equiv> ''app.kubernetes.io/name''"
abbreviation "labelPartOf \<equiv> ''app.kubernetes.io/part-of''"
abbreviation "requeueInterval \<equiv> 60 :: int"
abbreviation "managedByValue \<equiv> ''ogo''"
abbreviation "defaultNamespace \<equiv> ''ogo''"
abbreviation "phaseFailed \<equiv> ''Failed''"
abbreviation "phaseSuperseded \<equiv> ''Superseded''"
abbreviation "authCASuffix \<equiv> ''-auth-ca''"
abbreviation "gatewayCASuffix \<equiv> ''-gateway-ca''"
abbreviation "reasonHostnameMissing \<equiv> ''HostnameMissing''"
abbreviation "labelProvisionedBy \<equiv> ''ogo.aknochow.io/provisioned-by''"
abbreviation "labelComponent \<equiv> ''ogo.aknochow.io/component''"
abbreviation "labelGatewayName \<equiv> ''ogo.aknochow.io/gateway-name''"
abbreviation "provisionedByOGO \<equiv> ''ogo''"
abbreviation "envoyGatewaySystemNS \<equiv> ''envoy-gateway-system''"
abbreviation "staticGatewayClassName \<equiv> ''eg''"

abbreviation gw_name :: "openShellGateway \<Rightarrow> string" where
  "gw_name gw \<equiv> om_name (gw_meta gw)"

definition gatewayNamespace :: "openShellGateway \<Rightarrow> string" where
  "gatewayNamespace gw =
     (if gs_namespace (gw_spec gw) \<noteq> [] then gs_namespace (gw_spec gw) else defaultNamespace)"

definition sandboxNamespace :: "openShellGateway \<Rightarrow> string" where
  "sandboxNamespace gw =
     (if sb_namespace (gs_sandbox (gw_spec gw)) \<noteq> [] then sb_namespace (gs_sandbox (gw_spec gw))
      else gatewayNamespace gw)"

definition uniqueNamespaces :: "openShellGateway \<Rightarrow> string list" where
  "uniqueNamespaces gw =
     (let ns = gatewayNamespace gw; sns = sandboxNamespace gw
      in if ns = sns then [ns] else [ns, sns])"

definition gatewayLabels :: "openShellGateway \<Rightarrow> smap" where
  "gatewayLabels gw =
     [(labelName, ''openshell''), (labelInstance, gw_name gw),
      (labelManagedBy, managedByValue), (labelPartOf, ''openshell-gateway'')]"

definition selectorLabels :: "openShellGateway \<Rightarrow> smap" where
  "selectorLabels gw = [(labelName, ''openshell''), (labelInstance, gw_name gw)]"

definition ownershipLabels :: "string \<Rightarrow> openShellGateway \<Rightarrow> smap" where
  "ownershipLabels component gw =
     [(labelProvisionedBy, provisionedByOGO), (labelComponent, component),
      (labelGatewayName, gw_name gw), (labelManagedBy, managedByValue)]"

definition isOwnedByOGO :: "smap \<Rightarrow> bool" where
  "isOwnedByOGO labels = (mget labels labelProvisionedBy = provisionedByOGO)"

text \<open>The ownership test the CA ConfigMaps and the Routes use (\<open>routeManagedByGateway\<close>).\<close>

definition managedByGateway :: "smap \<Rightarrow> openShellGateway \<Rightarrow> bool" where
  "managedByGateway labels gw =
     (mget labels labelManagedBy = managedByValue \<and> mget labels labelInstance = gw_name gw)"

section \<open>Switches\<close>

definition tlsEnabled :: "openShellGateway \<Rightarrow> bool" where
  "tlsEnabled gw = (case tls_enabled (gs_tls (gw_spec gw)) of None \<Rightarrow> True | Some b \<Rightarrow> b)"

definition routeEnabled :: "openShellGateway \<Rightarrow> bool" where
  "routeEnabled gw = (case rt_enabled (gs_route (gw_spec gw)) of None \<Rightarrow> True | Some b \<Rightarrow> b)"

abbreviation routeHostname :: "openShellGateway \<Rightarrow> string" where
  "routeHostname gw \<equiv> rt_hostname (gs_route (gw_spec gw))"

definition gatewayAPIEnabled :: "openShellGateway \<Rightarrow> bool \<Rightarrow> bool" where
  "gatewayAPIEnabled gw hasGWAPI =
     (case ga_enabled (rt_gatewayAPI (gs_route (gw_spec gw))) of Some b \<Rightarrow> b | None \<Rightarrow> hasGWAPI)"

definition gatewayClassName :: "openShellGateway \<Rightarrow> string" where
  "gatewayClassName gw =
     (let n = ga_gatewayClassName (rt_gatewayAPI (gs_route (gw_spec gw)))
      in if n \<noteq> [] then n else staticGatewayClassName)"

definition authBridgeEnabled :: "openShellGateway \<Rightarrow> bool \<Rightarrow> bool" where
  "authBridgeEnabled gw isOCP =
     (case oa_enabled (au_openShift (gs_auth (gw_spec gw))) of Some b \<Rightarrow> b | None \<Rightarrow> isOCP)"

definition browserSSOMissingHostname :: "openShellGateway \<Rightarrow> bool \<Rightarrow> bool" where
  "browserSSOMissingHostname gw authEnabled =
     (authEnabled \<and> routeEnabled gw \<and> routeHostname gw = [])"

section \<open>Derived names and URLs\<close>

definition databaseSecretName :: "openShellGateway \<Rightarrow> string" where
  "databaseSecretName gw =
     (if db_secretName (gs_database (gw_spec gw)) \<noteq> [] then db_secretName (gs_database (gw_spec gw))
      else if db_embedded (gs_database (gw_spec gw)) then gw_name gw @ ''-pg-uri''
      else [])"

definition authBridgeImage :: "openShellGateway \<Rightarrow> string" where
  "authBridgeImage gw =
     (if gs_authBridgeImage (gw_spec gw) \<noteq> [] then gs_authBridgeImage (gw_spec gw)
      else ''quay.io/aknochow/ogo-auth-bridge:latest'')"

definition domainSuffix :: "string \<Rightarrow> string" where
  "domainSuffix hostname = (case cutAt hostname (CHR ''.'') of
     (_, after, ok) \<Rightarrow> if ok then after else hostname)"

definition authBridgeExternalURL :: "openShellGateway \<Rightarrow> string" where
  "authBridgeExternalURL gw =
     (if routeEnabled gw \<and> routeHostname gw \<noteq> []
      then ''https://openshell-auth.'' @ domainSuffix (routeHostname gw)
      else (if tlsEnabled gw then ''https'' else ''http'') @ ''://'' @ gw_name gw @ ''.'' @
           gatewayNamespace gw @ ''.svc:8085'')"

definition authBridgeInternalURL :: "openShellGateway \<Rightarrow> string" where
  "authBridgeInternalURL gw = ''http://localhost:8085''"

definition tokenTTL :: "openShellGateway \<Rightarrow> string" where
  "tokenTTL gw =
     (let t = oa_tokenTTL (au_openShift (gs_auth (gw_spec gw))) in if t \<noteq> [] then t else ''8h'')"

definition clusterDomain :: "openShellGateway \<Rightarrow> string" where
  "clusterDomain gw =
     (if routeHostname gw \<noteq> [] then domainSuffix (routeHostname gw) else ''apps.example.com'')"

definition computeServerSANs :: "openShellGateway \<Rightarrow> string list" where
  "computeServerSANs gw =
     (let ns = gatewayNamespace gw;
          sans = [gw_name gw,
                  gw_name gw @ ''.'' @ ns @ ''.svc'',
                  gw_name gw @ ''.'' @ ns @ ''.svc.cluster.local'',
                  ''localhost'',
                  gw_name gw @ ''.localhost'',
                  ''*.'' @ gw_name gw @ ''.localhost'',
                  ''host.docker.internal'',
                  ''127.0.0.1'']
      in if routeHostname gw \<noteq> []
         then sans @ [routeHostname gw, ''openshell-auth.'' @ domainSuffix (routeHostname gw)]
         else sans)"

section \<open>Lemmas\<close>

lemma managedByGateway_gatewayLabels [simp]: "managedByGateway (gatewayLabels gw) gw"
  by (simp add: managedByGateway_def gatewayLabels_def)

lemma isOwnedByOGO_ownershipLabels [simp]: "isOwnedByOGO (ownershipLabels c gw)"
  by (simp add: isOwnedByOGO_def ownershipLabels_def)

lemma set_uniqueNamespaces: "set (uniqueNamespaces gw) = {gatewayNamespace gw, sandboxNamespace gw}"
  by (simp add: uniqueNamespaces_def Let_def)

lemma distinct_uniqueNamespaces: "distinct (uniqueNamespaces gw)"
  by (simp add: uniqueNamespaces_def Let_def)

lemma gatewayNamespace_nonempty [simp]: "gatewayNamespace gw \<noteq> []"
  by (simp add: gatewayNamespace_def)

lemma domainSuffix_no_dot: "CHR ''.'' \<notin> set h \<Longrightarrow> domainSuffix h = h"
  by (simp add: domainSuffix_def cutAt_absent)

lemma domainSuffix_dot: "CHR ''.'' \<notin> set l \<Longrightarrow> domainSuffix (l @ ''.'' @ d) = d"
  by (simp add: domainSuffix_def cutAt_append)

end
