(* ===== verification/Singleton.thy ===== *)
theory Singleton
  imports Kube "HOL-Library.Multiset"
begin

text \<open>
  \<^verbatim>\<open>src/internal/controller/singleton.go\<close>: the oldest-wins choice that the gateway controller, the
  gateway lookup and the policy controller share. The panic on an empty slice is \<^const>\<open>None\<close>.
\<close>

fun oldestLoop :: "('a \<Rightarrow> int) \<Rightarrow> 'a \<Rightarrow> 'a list \<Rightarrow> 'a" where
  "oldestLoop ts oldest [] = oldest"
| "oldestLoop ts oldest (x # xs) = oldestLoop ts (if ts x < ts oldest then x else oldest) xs"

definition oldestByCreationTimestamp :: "('a \<Rightarrow> int) \<Rightarrow> 'a list \<Rightarrow> 'a option" where
  "oldestByCreationTimestamp ts items = (case items of
     [] \<Rightarrow> None
   | x # xs \<Rightarrow> Some (oldestLoop ts x xs))"

abbreviation objTimestamp :: "kobj \<Rightarrow> int" where
  "objTimestamp ob \<equiv> om_creationTimestamp (ob_meta ob)"

section \<open>The contract of a singleton choice\<close>

text \<open>
  What the call sites rely on: a choice is made exactly from non-empty lists, it is one of the
  candidates, and no candidate is older.
\<close>

locale oldest_wins =
  fixes ts :: "'a \<Rightarrow> int" and pick :: "'a list \<Rightarrow> 'a option"
  assumes pick_None: "pick xs = None \<longleftrightarrow> xs = []"
    and pick_in: "pick xs = Some x \<Longrightarrow> x \<in> set xs"
    and pick_min: "pick xs = Some x \<Longrightarrow> y \<in> set xs \<Longrightarrow> ts x \<le> ts y"
begin

lemma pick_total: "xs \<noteq> [] \<Longrightarrow> \<exists>x \<in> set xs. pick xs = Some x"
  by (metis not_Some_eq pick_None pick_in)

lemma pick_unique:
  assumes "x \<in> set xs" and "\<And>y. y \<in> set xs \<Longrightarrow> y \<noteq> x \<Longrightarrow> ts x < ts y"
  shows "pick xs = Some x"
proof -
  have "xs \<noteq> []" using assms(1) by auto
  then obtain z where "z \<in> set xs" "pick xs = Some z" using pick_total by blast
  then show ?thesis using assms pick_min [of xs z x] by force
qed

text \<open>With distinct timestamps the choice does not depend on the order of the list.\<close>

lemma pick_perm:
  assumes "mset xs = mset ys" and "distinct (map ts xs)"
  shows "pick xs = pick ys"
proof (cases "xs = []")
  case True
  then show ?thesis using assms(1) by simp
next
  case False
  then obtain x where x: "x \<in> set xs" "pick xs = Some x" using pick_total by blast
  have sets: "set xs = set ys" using assms(1) by (rule mset_eq_setD)
  have "ts x < ts y" if "y \<in> set ys" "y \<noteq> x" for y
    using that x pick_min [OF x(2)] assms(2) sets
    by (metis distinct_map inj_onD order_le_imp_less_or_eq)
  then have "pick ys = Some x" using x(1) sets by (intro pick_unique) auto
  then show ?thesis using x(2) by simp
qed

end

section \<open>The code meets it\<close>

lemma oldestLoop_in: "oldestLoop ts old xs \<in> insert old (set xs)"
  by (induction ts old xs rule: oldestLoop.induct) auto

lemma oldestLoop_min: "y \<in> insert old (set xs) \<Longrightarrow> ts (oldestLoop ts old xs) \<le> ts y"
proof (induction ts old xs arbitrary: y rule: oldestLoop.induct)
  case (1 ts oldest)
  then show ?case by simp
next
  case (2 ts oldest x xs)
  let ?m = "if ts x < ts oldest then x else oldest"
  have m: "ts (oldestLoop ts ?m xs) \<le> ts ?m" by (rule "2.IH") simp
  show ?case
  proof (cases "y \<in> set xs")
    case True
    then show ?thesis using "2.IH" [of y] by simp
  next
    case False
    then show ?thesis using m "2.prems" by (auto split: if_splits)
  qed
qed

interpretation oldest: oldest_wins ts "oldestByCreationTimestamp ts" for ts :: "'a \<Rightarrow> int"
proof (unfold_locales, goal_cases)
  case (1 xs)
  then show ?case by (simp add: oldestByCreationTimestamp_def split: list.splits)
next
  case (2 xs x)
  then show ?case using oldestLoop_in [of ts] by (fastforce simp: oldestByCreationTimestamp_def split: list.splits)
next
  case (3 xs x y)
  then show ?case using oldestLoop_min [of y _ _ ts] by (auto simp: oldestByCreationTimestamp_def split: list.splits)
qed

text \<open>Among equally old candidates the first of the list wins.\<close>

lemma oldestLoop_first:
  "\<forall>y \<in> set ys. ts x \<le> ts y \<Longrightarrow> oldestLoop ts x ys = x"
  by (induction ys) auto

section \<open>Properties\<close>

text \<open>The loop against a sorted rest of the list.\<close>

lemma oldestLoop_sort:
  "oldestLoop ts a xs = (case sort_key ts xs of [] \<Rightarrow> a | y # _ \<Rightarrow> if ts a \<le> ts y then a else y)"
proof (induction xs arbitrary: a)
  case Nil
  show ?case by simp
next
  case (Cons x xs)
  show ?case by (cases "sort_key ts xs") (auto simp: Cons.IH)
qed

text \<open>
  C38: the one-pass choice is the head of a stable sort. For every list of candidates the loop of the code
  returns what sorting the list by creation time, keeping the order of equally old candidates, and
  taking the first would return; in particular it fails exactly on the empty list, and of several
  equally old candidates the first in the list wins.
\<close>

theorem oldest_is_head_of_sort:
  "oldestByCreationTimestamp ts items = (case sort_key ts items of [] \<Rightarrow> None | x # _ \<Rightarrow> Some x)"
proof (cases items)
  case Nil
  then show ?thesis by (simp add: oldestByCreationTimestamp_def)
next
  case (Cons x xs)
  then show ?thesis
    by (cases "sort_key ts xs") (simp_all add: oldestByCreationTimestamp_def oldestLoop_sort)
qed

text \<open>
  The oldest wins, whatever the order of the list. For a non-empty list of candidates with
  distinct creation times, every permutation of it gives the same choice, which is a candidate older
  than all others.
\<close>

theorem oldest_order_independent:
  assumes "mset xs = mset ys" and "distinct (map ts xs)" and "xs \<noteq> []"
  shows "\<exists>x \<in> set xs. oldestByCreationTimestamp ts xs = Some x \<and>
    oldestByCreationTimestamp ts ys = Some x \<and> (\<forall>y \<in> set xs. y \<noteq> x \<longrightarrow> ts x < ts y)"
proof -
  obtain x where x: "x \<in> set xs" "oldestByCreationTimestamp ts xs = Some x"
    using oldest.pick_total [OF assms(3)] by blast
  have "ts x < ts y" if "y \<in> set xs" "y \<noteq> x" for y
    using that x oldest.pick_min [OF x(2) that(1)] assms(2)
    by (metis distinct_map inj_onD order_le_imp_less_or_eq)
  then show ?thesis using x oldest.pick_perm [OF assms(1,2)] by auto
qed

theorem oldest_order_independent_witness:
  "\<exists>x \<in> set [(3 :: int), 1, 2]. oldestByCreationTimestamp id [3, 1, 2] = Some x \<and>
     oldestByCreationTimestamp id [2, 3, 1] = Some x"
proof -
  have "mset [(3 :: int), 1, 2] = mset [2, 3, 1]" by simp
  from oldest_order_independent [OF this, of id] show ?thesis by auto
qed

end
