(* ===== verification/Jwt.thy ===== *)
theory Jwt
  imports Kube
begin

text \<open>
  \<^verbatim>\<open>src/internal/authbridge/jwt.go\<close>: the RS256 signer shared by the auth-bridge and the controllers.
  Hexadecimal and unpadded URL base64 are written out; SHA-256, PEM, PKCS parsing, the RSA signature
  and the JSON encoder of a value are parameters of the environment.
\<close>

section \<open>Encodings\<close>

definition hexEncode :: "string \<Rightarrow> string" where
  "hexEncode bs = concat (map (\<lambda>b. [hexDigits ! (of_char b div 16), hexDigits ! (of_char b mod 16)]) bs)"

definition b64urlDigits :: string where
  "b64urlDigits = ''ABCDEFGHIJKLMNOPQRSTUVWXYZabcdefghijklmnopqrstuvwxyz0123456789-_''"

abbreviation b64d :: "nat \<Rightarrow> char" where
  "b64d n \<equiv> b64urlDigits ! n"

abbreviation byteVal :: "char \<Rightarrow> nat" where
  "byteVal c \<equiv> of_char c"

text \<open>\<^verbatim>\<open>base64.RawURLEncoding.EncodeToString\<close>: three bytes give four digits, no padding.\<close>

fun b64url :: "string \<Rightarrow> string" where
  "b64url [] = []"
| "b64url [a] = [b64d (byteVal a div 4), b64d (byteVal a mod 4 * 16)]"
| "b64url [a, b] =
     [b64d (byteVal a div 4), b64d (byteVal a mod 4 * 16 + byteVal b div 16), b64d (byteVal b mod 16 * 4)]"
| "b64url (a # b # c # rest) =
     b64d (byteVal a div 4) # b64d (byteVal a mod 4 * 16 + byteVal b div 16) #
     b64d (byteVal b mod 16 * 4 + byteVal c div 64) # b64d (byteVal c mod 64) # b64url rest"

section \<open>The signer\<close>

abbreviation "algRS256 \<equiv> ''RS256''"

record jwtSigner =
  js_privateKey :: string
  js_kid :: string

definition NewJWTSignerFromPEM :: "'w env \<Rightarrow> string \<Rightarrow> string \<Rightarrow> goerr + jwtSigner" where
  "NewJWTSignerFromPEM E signingPEM kid0 =
     (let kid = trimSpace kid0 in
      case e_pemDecode E signingPEM of
        None \<Rightarrow> Inl (Errorf ''no PEM block found in signing key'')
      | Some block \<Rightarrow>
         (case e_parsePKCS8 E block of
            Inl e \<Rightarrow> Inl (Wrapf ''parsing signing key: '' e [])
          | Inr (OtherPrivate k) \<Rightarrow> Inl (Errorf ''signing key is not RSA'')
          | Inr (RSAPrivate k) \<Rightarrow>
              Inr \<lparr>js_privateKey = k,
                   js_kid = (if kid = [] then hexEncode (take 16 (e_sha256 E (e_marshalPKCS1Public E k)))
                             else kid)\<rparr>))"

record claims =
  cl_issuer :: string
  cl_subject :: string
  cl_audience :: string
  cl_expiresAt :: int
  cl_issuedAt :: int
  cl_preferredUsername :: string
  cl_email :: string
  cl_roles :: "string list"

text \<open>The JSON value of the claims struct: fields in order under their tags, \<open>email\<close> only when set.\<close>

definition claimsJSON :: "claims \<Rightarrow> jval" where
  "claimsJSON c = JMap (
     [(''iss'', JStr (cl_issuer c)), (''sub'', JStr (cl_subject c)), (''aud'', JStr (cl_audience c)),
      (''exp'', JInt (cl_expiresAt c)), (''iat'', JInt (cl_issuedAt c)),
      (''preferred_username'', JStr (cl_preferredUsername c))] @
     (if cl_email c = [] then [] else [(''email'', JStr (cl_email c))]) @
     [(''realm_access'', JMap [(''roles'', JList (map JStr (cl_roles c)))])])"

text \<open>The header is a Go map, which the JSON encoder writes in key order.\<close>

definition headerJSON :: "string \<Rightarrow> jval" where
  "headerJSON kid = JMap [(''alg'', JStr algRS256), (''kid'', JStr kid), (''typ'', JStr ''JWT'')]"

definition mkClaims :: "int \<Rightarrow> string \<Rightarrow> string \<Rightarrow> string \<Rightarrow> string \<Rightarrow> string \<Rightarrow> string list \<Rightarrow> int \<Rightarrow> claims" where
  "mkClaims now issuer audience subject username email roles ttl =
     \<lparr>cl_issuer = issuer, cl_subject = subject, cl_audience = audience,
      cl_expiresAt = (now + ttl) div 10 ^ 9, cl_issuedAt = now div 10 ^ 9,
      cl_preferredUsername = username, cl_email = email, cl_roles = roles\<rparr>"

definition signingInput :: "string \<Rightarrow> string \<Rightarrow> string" where
  "signingInput header payload = b64url header @ ''.'' @ b64url payload"

definition MintToken :: "'w env \<Rightarrow> jwtSigner \<Rightarrow> string \<Rightarrow> string \<Rightarrow> string \<Rightarrow> string \<Rightarrow> string \<Rightarrow>
    string list \<Rightarrow> int \<Rightarrow> ('w sys, goerr + string) state" where
  "MintToken E signer issuer audience subject username email roles ttl = do {
     now \<leftarrow> timeNow E;
     (let c = mkClaims now issuer audience subject username email roles ttl in
      case e_jsonMarshal E (headerJSON (js_kid signer)) of
        Inl e \<Rightarrow> ret (Inl e)
      | Inr headerText \<Rightarrow>
         (case e_jsonMarshal E (claimsJSON c) of
            Inl e \<Rightarrow> ret (Inl e)
          | Inr claimsText \<Rightarrow> do {
              sg \<leftarrow> silent (e_signPKCS1v15 E (js_privateKey signer)
                      (e_sha256 E (signingInput headerText claimsText)));
              (case sg of
                 Inl e \<Rightarrow> ret (Inl (Wrapf ''signing JWT: '' e []))
               | Inr signature \<Rightarrow> ret (Inr (signingInput headerText claimsText @ ''.'' @ b64url signature)))
            }))
   }"

text \<open>\<^verbatim>\<open>JWKS()\<close>: the public half of the key, as base64 of the modulus and of the exponent.\<close>

record jwk =
  jk_kty :: string
  jk_n :: string
  jk_e :: string
  jk_kid :: string
  jk_use :: string
  jk_alg :: string

definition JWKS :: "'w env \<Rightarrow> jwtSigner \<Rightarrow> jwk list" where
  "JWKS E signer =
     [\<lparr>jk_kty = ''RSA'', jk_n = b64url (e_publicModulus E (js_privateKey signer)),
       jk_e = b64url (e_publicExponent E (js_privateKey signer)),
       jk_kid = js_kid signer, jk_use = ''sig'', jk_alg = algRS256\<rparr>]"

section \<open>Lemmas\<close>

lemma byteVal_less [simp]: "byteVal c < 256"
  by (rule nat_of_char_less_256)

lemma length_b64urlDigits [simp]: "length b64urlDigits = 64"
  by (simp add: b64urlDigits_def)

lemma distinct_b64urlDigits: "distinct b64urlDigits"
  by (simp add: b64urlDigits_def)

lemma b64d_inject [simp]: "m < 64 \<Longrightarrow> n < 64 \<Longrightarrow> b64d m = b64d n \<longleftrightarrow> m = n"
  using distinct_b64urlDigits by (simp add: nth_eq_iff_index_eq)

lemma b64d_not_dot: "n < 64 \<Longrightarrow> b64d n \<noteq> CHR ''.''"
proof -
  assume "n < 64"
  then have "b64d n \<in> set b64urlDigits" by simp
  moreover have "CHR ''.'' \<notin> set b64urlDigits" by (simp add: b64urlDigits_def)
  ultimately show ?thesis by metis
qed

lemma sextet_arith:
  fixes a b :: nat
  assumes "a < 256" and "b < 256"
  shows "a div 4 < 64" "a mod 4 * 16 < 64" "a mod 16 * 4 < 64" "a mod 4 * 16 + b div 16 < 64"
    "a mod 16 * 4 + b div 64 < 64" "a mod 64 < 64"
proof -
  have m4: "a mod 4 < 4" and m16: "a mod 16 < 16" by simp_all
  have d16: "b div 16 < 16" and d64: "b div 64 < 4" using assms by auto
  show "a div 4 < 64" "a mod 64 < 64" using assms by auto
  show "a mod 4 * 16 < 64" "a mod 16 * 4 < 64" using m4 m16 by linarith+
  show "a mod 4 * 16 + b div 16 < 64" using m4 d16 by linarith
  show "a mod 16 * 4 + b div 64 < 64" using m16 d64 by linarith
qed

lemmas sextets [simp] = sextet_arith [OF byteVal_less byteVal_less]

lemma b64d_dot [simp]: "n < 64 \<Longrightarrow> CHR ''.'' = b64d n \<longleftrightarrow> False"
  using b64d_not_dot by metis

lemma b64url_no_dot [simp]: "CHR ''.'' \<notin> set (b64url s)"
  by (induction s rule: b64url.induct) (simp_all add: sextets [simplified])

text \<open>Two bytes are determined by the digits they are split into.\<close>

lemma split_byte: "(x :: nat) div k = y div k \<Longrightarrow> x mod k = y mod k \<Longrightarrow> x = y"
  by (metis div_mult_mod_eq)

lemma digit_pair:
  fixes h l h' l' k :: nat
  assumes "h * k + l = h' * k + l'" and "l < k" and "l' < k"
  shows "h = h' \<and> l = l'"
  using assms by (metis add.commute add_left_imp_eq div_mult_self3 div_less mult.commute
      add_cancel_right_right less_nat_zero_code bot_nat_0.not_eq_extremum)

lemma byte_eqI: "(byteVal a :: nat) = byteVal b \<Longrightarrow> a = b"
  by (rule of_char_eq_iff [THEN iffD1])

lemma two_bytes:
  assumes "byteVal a div 4 = byteVal a' div 4"
    and "byteVal a mod 4 * 16 + byteVal b div 16 = byteVal a' mod 4 * 16 + byteVal b' div 16"
  shows "a = a' \<and> byteVal b div 16 = byteVal b' div 16"
proof -
  have "byteVal b div 16 < 16" "byteVal b' div 16 < 16"
    by (simp_all add: less_mult_imp_div_less)
  then have "byteVal a mod 4 = byteVal a' mod 4 \<and> byteVal b div 16 = byteVal b' div 16"
    using digit_pair [OF assms(2)] by blast
  then show ?thesis using assms(1) split_byte byte_eqI by metis
qed

lemma three_bytes:
  assumes "byteVal a div 4 = byteVal a' div 4"
    and "byteVal a mod 4 * 16 + byteVal b div 16 = byteVal a' mod 4 * 16 + byteVal b' div 16"
    and "byteVal b mod 16 * 4 + byteVal c div 64 = byteVal b' mod 16 * 4 + byteVal c' div 64"
    and "byteVal c mod 64 = byteVal c' mod 64"
  shows "a = a' \<and> b = b' \<and> c = c'"
proof -
  have ab: "a = a' \<and> byteVal b div 16 = byteVal b' div 16" by (rule two_bytes [OF assms(1,2)])
  have "byteVal c div 64 < 4" "byteVal c' div 64 < 4"
    by (simp_all add: less_mult_imp_div_less)
  then have "byteVal b mod 16 = byteVal b' mod 16 \<and> byteVal c div 64 = byteVal c' div 64"
    using digit_pair [OF assms(3)] by blast
  then show ?thesis using ab assms(4) split_byte byte_eqI by metis
qed

lemma b64url_inject: "b64url s = b64url t \<Longrightarrow> s = t"
proof (induction s arbitrary: t rule: b64url.induct)
  case 1
  then show ?case by (cases t rule: b64url.cases) simp_all
next
  case (2 a)
  then obtain a' where t: "t = [a']" by (cases t rule: b64url.cases) simp_all
  show ?case using "2.prems" unfolding t
    by (simp add: sextets [simplified]) (metis byte_eqI split_byte)
next
  case (3 a b)
  then obtain a' b' where t: "t = [a', b']" by (cases t rule: b64url.cases) simp_all
  show ?case using "3.prems" two_bytes [of a a' b b'] unfolding t
    by (simp add: sextets [simplified]) (metis byte_eqI split_byte)
next
  case (4 a b c rest)
  then obtain a' b' c' rest' where t: "t = a' # b' # c' # rest'"
    by (cases t rule: b64url.cases) simp_all
  show ?case using "4.prems" "4.IH" [of rest'] three_bytes [of a a' b b' c c'] unfolding t
    by (simp add: sextets [simplified])
qed

text \<open>The signing input determines both of its parts, and a token both of those and the signature.\<close>

lemma signingInput_inject: "signingInput h p = signingInput h' p' \<Longrightarrow> h = h' \<and> p = p'"
  using sep_append_inject [of "CHR ''.''" "b64url h" "b64url h'" "b64url p" "b64url p'"] b64url_inject
  by (auto simp: signingInput_def)

lemma onlyCalls_MintToken [call_rules]:
  "onlyCalls P (MintToken E signer iss aud sub user email roles ttl)"
  unfolding MintToken_def timeNow_def by (intro call_rules)

lemma MintToken_wp:
  assumes "\<And>e t. Q (Inl e) t"
    and "\<And>now h p sg w. e_jsonMarshal E (headerJSON (js_kid signer)) = Inr h \<Longrightarrow>
      e_jsonMarshal E (claimsJSON (mkClaims now iss aud sub user email roles ttl)) = Inr p \<Longrightarrow>
      Q (Inr (signingInput h p @ ''.'' @ b64url sg)) (s\<lparr>world := w\<rparr>)"
  shows "wp (MintToken E signer iss aud sub user email roles ttl) Q s"
  using assms
  by (auto simp: MintToken_def timeNow_def silent_def wp_def Let_def split: prod.splits sum.splits)

section \<open>Properties\<close>

text \<open>
  A token determines its parts. The three segments of a token contain no separator and each
  encoding is injective, so two tokens are equal only if their header texts, their claim texts and
  their signatures are equal: a signature can never be reinterpreted as covering other claims.
\<close>

theorem token_parts_unique:
  assumes "signingInput h p @ ''.'' @ b64url sg = signingInput h' p' @ ''.'' @ b64url sg'"
  shows "h = h' \<and> p = p' \<and> sg = sg'"
proof -
  have "b64url h @ CHR ''.'' # (b64url p @ CHR ''.'' # b64url sg) =
      b64url h' @ CHR ''.'' # (b64url p' @ CHR ''.'' # b64url sg')"
    using assms by (simp add: signingInput_def)
  then have h: "b64url h = b64url h'" and
    "b64url p @ CHR ''.'' # b64url sg = b64url p' @ CHR ''.'' # b64url sg'"
    using sep_append_inject b64url_no_dot by metis+
  then have "b64url p = b64url p'" "b64url sg = b64url sg'"
    using sep_append_inject b64url_no_dot by metis+
  then show ?thesis using h b64url_inject by blast
qed

theorem token_parts_unique_witness:
  "signingInput ''a'' ''b'' @ ''.'' @ b64url ''c'' = signingInput ''a'' ''b'' @ ''.'' @ b64url ''c'' \<and>
   ''b'' = ''b''"
  using token_parts_unique [of "''a''" "''b''" "''c''" "''a''" "''b''" "''c''"] by simp

end
