(* ===== verification/Grpc.thy ===== *)
theory Grpc
  imports Naming Singleton Jwt
begin

text \<open>
  \<^verbatim>\<open>src/internal/controller/openshell_grpc.go\<close>: how the controllers find the gateway, mint the
  short-lived admin token they authenticate with, and open the gRPC connection.

  A connection is the authorization metadata its calls carry (\<^verbatim>\<open>Bearer <token>\<close>): the Go code
  passes it in the call context. \<open>connect\<close> is the reconcilers' \<open>connectClient\<close> field, \<^const>\<open>None\<close>
  outside tests. Closing the connection has no effect the controllers can see.
\<close>

abbreviation "gatewayAdminRole \<equiv> ''openshell-admin''"
abbreviation "gatewayOIDCAudience \<equiv> ''openshell-cli''"
abbreviation "gatewayRetryInterval \<equiv> 30 :: int"
abbreviation "defaultOpenShellWorkspace \<equiv> ''default''"

definition adminTokenTTL :: int where
  "adminTokenTTL = 60 * 10 ^ 9"

definition gatewayGRPCPort :: string where
  "gatewayGRPCPort = ''8080''"

type_synonym 'w connectFunc = "openShellGateway \<Rightarrow> ('w sys, goerr option) state"

definition resolveGateway :: "'w env \<Rightarrow> ('w sys, goerr + openShellGateway) state" where
  "resolveGateway E = do {
     l \<leftarrow> kList E KOpenShellGateway listAll;
     (case l of
       Inl e \<Rightarrow> ret (Inl e)
     | Inr items \<Rightarrow>
        (case oldestByCreationTimestamp objTimestamp items of
           None \<Rightarrow> ret (Inl (Errorf ''no OpenShellGateway found in the cluster''))
         | Some ob \<Rightarrow> ret (Inr (gatewayOf ob))))
   }"

definition mintAdminToken :: "'w env \<Rightarrow> openShellGateway \<Rightarrow> ('w sys, goerr + string) state" where
  "mintAdminToken E gw = do {
     r \<leftarrow> kGet E KSecret (nsn (gatewayNamespace gw) (gw_name gw @ ''-auth-bridge-keys''));
     (case r of
       Inl e \<Rightarrow> ret (Inl (Wrapf ''reading auth-bridge signing key: '' e []))
     | Inr ob \<Rightarrow>
        (case NewJWTSignerFromPEM E (mget (sec_data (secretOf ob)) ''signing.pem'')
                (mget (sec_data (secretOf ob)) ''kid'') of
           Inl e \<Rightarrow> ret (Inl (Wrapf ''loading auth-bridge signing key: '' e []))
         | Inr signer \<Rightarrow> MintToken E signer (authBridgeInternalURL gw) gatewayOIDCAudience
             ''ogo-controller'' ''ogo-controller'' [] [gatewayAdminRole] adminTokenTTL))
   }"

definition gatewayHost :: "openShellGateway \<Rightarrow> string" where
  "gatewayHost gw = gw_name gw @ ''.'' @ gatewayNamespace gw @ ''.svc.cluster.local''"

definition dialCredentials :: "'w env \<Rightarrow> openShellGateway \<Rightarrow> ('w sys, goerr + transportCreds) state" where
  "dialCredentials E gw =
     (if \<not> tlsEnabled gw then ret (Inr Insecure)
      else do {
        r \<leftarrow> kGet E KSecret (nsn (gatewayNamespace gw) (gw_name gw @ ''-client-tls''));
        (case r of
          Inl e \<Rightarrow> ret (Inl (Wrapf ''reading client TLS secret: '' e []))
        | Inr ob \<Rightarrow>
           (let d = sec_data (secretOf ob); crt = mget d ''tls.crt''; key = mget d ''tls.key'';
                ca = mget d ''ca.crt'' in
            case e_keyPairOk E crt key of
              Some e \<Rightarrow> ret (Inl (Wrapf ''parsing client TLS keypair: '' e []))
            | None \<Rightarrow>
               if \<not> e_certPoolOk E ca
               then ret (Inl (Errorf (''client TLS secret '' @ quote (gw_name gw @ ''-client-tls'') @
                      '' has no usable ca.crt'')))
               else ret (Inr (MTLS crt key ca (gatewayHost gw)))))
      })"

definition dialConnectClient :: "'w env \<Rightarrow> openShellGateway \<Rightarrow> ('w sys, goerr option) state" where
  "dialConnectClient E gw = do {
     c \<leftarrow> dialCredentials E gw;
     (case c of
       Inl e \<Rightarrow> ret (Some (Wrapf ''resolving gRPC credentials: '' e []))
     | Inr creds \<Rightarrow> do {
         (let target = gatewayHost gw @ '':'' @ gatewayGRPCPort in do {
            err \<leftarrow> kDial E target creds;
            (case err of
              Some e \<Rightarrow> ret (Some (Wrapf (''dialing gateway gRPC endpoint '' @ target @ '': '') e []))
            | None \<Rightarrow> ret None)
          })
       })
   }"

text \<open>The result is the authorization metadata of the calls made over the connection.\<close>

definition gatewayClient :: "'w env \<Rightarrow> 'w connectFunc option \<Rightarrow> openShellGateway \<Rightarrow>
    ('w sys, goerr + string) state" where
  "gatewayClient E connect gw = do {
     t \<leftarrow> mintAdminToken E gw;
     (case t of
       Inl e \<Rightarrow> ret (Inl (Wrapf ''minting admin token: '' e []))
     | Inr token \<Rightarrow> do {
         err \<leftarrow> (case connect of None \<Rightarrow> dialConnectClient E gw | Some dial \<Rightarrow> dial gw);
         (case err of
           Some e \<Rightarrow> ret (Inl e)
         | None \<Rightarrow> ret (Inr (''Bearer '' @ token)))
       })
   }"

section \<open>Lemmas\<close>

lemma onlyCalls_resolveGateway [call_rules]:
  "P (CList KOpenShellGateway listAll) \<Longrightarrow> onlyCalls P (resolveGateway E)"
  unfolding resolveGateway_def prim_defs by (intro call_rules)

lemma onlyCalls_mintAdminToken [call_rules]:
  "(\<And>n. P (CGet KSecret n)) \<Longrightarrow> onlyCalls P (mintAdminToken E gw)"
  unfolding mintAdminToken_def prim_defs by (intro call_rules)

lemma onlyCalls_dialConnectClient [call_rules]:
  "(\<And>n. P (CGet KSecret n)) \<Longrightarrow> (\<And>t c. P (CDial t c)) \<Longrightarrow> onlyCalls P (dialConnectClient E gw)"
  unfolding dialConnectClient_def dialCredentials_def prim_defs by (intro call_rules)

lemma onlyCalls_gatewayClient [call_rules]:
  "(\<And>n. P (CGet KSecret n)) \<Longrightarrow> (\<And>t c. P (CDial t c)) \<Longrightarrow>
   (\<And>dial. connect = Some dial \<Longrightarrow> onlyCalls P (dial gw)) \<Longrightarrow>
   onlyCalls P (gatewayClient E connect gw)"
  unfolding gatewayClient_def by (intro call_rules)

lemma mintAdminToken_wp:
  assumes "\<And>e t. Q (Inl e) t"
    and "\<And>(signer :: jwtSigner) now h p sg t. e_jsonMarshal E (headerJSON (js_kid signer)) = Inr h \<Longrightarrow>
      e_jsonMarshal E (claimsJSON (mkClaims now ''http://localhost:8085'' gatewayOIDCAudience ''ogo-controller''
        ''ogo-controller'' [] [gatewayAdminRole] adminTokenTTL)) = Inr p \<Longrightarrow>
      Q (Inr (signingInput h p @ ''.'' @ b64url sg)) t"
  shows "wp (mintAdminToken E gw) Q s"
  unfolding mintAdminToken_def kGet_def
  by (intro wp_rules MintToken_wp) (auto intro!: assms(1) assms(2) [simplified] simp: authBridgeInternalURL_def)

definition dialsAsConfigured :: "openShellGateway \<Rightarrow> call \<Rightarrow> bool" where
  "dialsAsConfigured gw c = (\<forall>target creds. c = CDial target creds \<longrightarrow>
     target = gw_name gw @ ''.'' @ gatewayNamespace gw @ ''.svc.cluster.local:8080'' \<and>
     (if tls_enabled (gs_tls (gw_spec gw)) = Some False then creds = Insecure
      else \<exists>crt key ca. creds = MTLS crt key ca (gw_name gw @ ''.'' @ gatewayNamespace gw @ ''.svc.cluster.local'')))"

lemma dialCredentials_wp:
  assumes "\<And>e t cs. calls t = calls s @ cs \<Longrightarrow> list_all (dialsAsConfigured gw) cs \<Longrightarrow> Q (Inl e) t"
    and "\<And>creds t cs. calls t = calls s @ cs \<Longrightarrow> list_all (dialsAsConfigured gw) cs \<Longrightarrow>
      dialsAsConfigured gw (CDial (gatewayHost gw @ '':'' @ gatewayGRPCPort) creds) \<Longrightarrow> Q (Inr creds) t"
  shows "wp (dialCredentials E gw) Q s"
proof -
  have [simp]: "dialsAsConfigured gw (CGet k n)" for k n by (simp add: dialsAsConfigured_def)
  have target: "dialsAsConfigured gw (CDial (gatewayHost gw @ '':'' @ gatewayGRPCPort) creds) \<longleftrightarrow>
      (if tls_enabled (gs_tls (gw_spec gw)) = Some False then creds = Insecure
       else \<exists>crt key ca. creds = MTLS crt key ca (gatewayHost gw))" for creds
    by (simp add: dialsAsConfigured_def gatewayHost_def gatewayGRPCPort_def)
  have tls: "tlsEnabled gw \<longleftrightarrow> tls_enabled (gs_tls (gw_spec gw)) \<noteq> Some False"
    by (auto simp: tlsEnabled_def split: option.splits)
  show ?thesis unfolding dialCredentials_def kGet_def
    by (intro wp_rules) (auto intro!: assms simp: target [simplified] tls)
qed

section \<open>Properties\<close>

text \<open>
  C34: the admin token is sent in clear text only on explicit request. In every environment, each
  connection that \<open>dialConnectClient\<close> opens goes to the gateway's own service; it is plaintext exactly
  if \<open>spec.tls.enabled\<close> is set to false, and otherwise uses the client certificate with the server
  name of that service (an unset field counts as enabled).
\<close>

theorem dial_plaintext_only_when_disabled:
  "onlyCalls (dialsAsConfigured gw) (dialConnectClient E gw)"
  unfolding dialConnectClient_def kDial_def
  by (rule onlyCalls_wpI) (intro wp_rules dialCredentials_wp; auto)

end
