(* ===== verification/GatewayService.thy ===== *)
theory GatewayService
  imports Kube
begin

text \<open>
  The contract of the OpenShell gateway that the provider, policy and member controllers program
  against. The gateway is a separate program; the repository documents what its RPCs do in
  \<^verbatim>\<open>src/proto/openshell.proto\<close>, in the comments of the controllers and in the in-memory stand-in of
  \<^verbatim>\<open>src/internal/controller/fake_gateway_test.go\<close>. The locale \<open>gateway_service\<close> states that behaviour
  over an abstract view of the gateway's state; the theory \<open>FakeGateway\<close> interprets it on the
  stand-in. An RPC that fails with a transport error may or may not have taken effect: the laws only
  speak about accepted calls and about rejections.
\<close>

section \<open>Preserved observations\<close>

text \<open>\<open>keeps f m\<close>: no run of \<open>m\<close> changes what \<open>f\<close> observes of the world.\<close>

definition keeps :: "('w \<Rightarrow> 'v) \<Rightarrow> ('w sys, 'a) state \<Rightarrow> bool" where
  "keeps f m = (\<forall>s. f (world (snd (run_state m s))) = f (world s))"

named_theorems keep_rules "rules for preserved observations"

lemma keeps_return [keep_rules, simp]: "keeps f (ret x)"
  by (simp add: keeps_def)

lemma keeps_bind [keep_rules]: "keeps f m \<Longrightarrow> (\<And>x. keeps f (g x)) \<Longrightarrow> keeps f (State_Monad.bind m g)"
  by (auto simp: keeps_def split: prod.splits) (metis snd_conv)

lemma keeps_invoke: "(\<And>w. f (snd (h w)) = f w) \<Longrightarrow> keeps f (invoke c h)"
  by (simp add: keeps_def invoke_def split: prod.splits) (metis snd_conv)

lemma keeps_silent: "(\<And>w. f (snd (h w)) = f w) \<Longrightarrow> keeps f (silent h)"
  by (simp add: keeps_def silent_def split: prod.splits) (metis snd_conv)

lemma keeps_gets [keep_rules, simp]: "keeps f (gets g)"
  by (simp add: keeps_def)

lemma keeps_if [keep_rules]:
  "(b \<Longrightarrow> keeps f m) \<Longrightarrow> (\<not> b \<Longrightarrow> keeps f n) \<Longrightarrow> keeps f (if b then m else n)"
  by simp

lemma keeps_sum [keep_rules]:
  "(\<And>e. r = Inl e \<Longrightarrow> keeps f (g e)) \<Longrightarrow> (\<And>x. r = Inr x \<Longrightarrow> keeps f (h x)) \<Longrightarrow>
   keeps f (case r of Inl e \<Rightarrow> g e | Inr x \<Rightarrow> h x)"
  by (simp split: sum.splits)

lemma keeps_option [keep_rules]:
  "(r = None \<Longrightarrow> keeps f m) \<Longrightarrow> (\<And>x. r = Some x \<Longrightarrow> keeps f (g x)) \<Longrightarrow>
   keeps f (case r of None \<Rightarrow> m | Some x \<Rightarrow> g x)"
  by (simp split: option.splits)

lemma keeps_Let [keep_rules]: "keeps f (g x) \<Longrightarrow> keeps f (let y = x in g y)"
  by simp

lemma keeps_foreach [keep_rules]:
  "(\<And>x a. x \<in> set xs \<Longrightarrow> keeps f (body x a)) \<Longrightarrow> keeps f (foreach body xs a)"
  by (induction xs arbitrary: a) (auto intro!: keep_rules split: sum.splits)

lemma wp_keeps: "keeps f m \<Longrightarrow> wp m (\<lambda>_ t. f (world t) = f (world s)) s"
  by (auto simp: keeps_def wp_def split: prod.splits) (metis snd_conv)

lemma wp_keepsI:
  "keeps f m \<Longrightarrow> (\<And>x t. f (world t) = f (world s) \<Longrightarrow> Q x t) \<Longrightarrow> wp m Q s"
  by (rule wp_mono [OF wp_keeps])

lemma keepsD: "keeps f m \<Longrightarrow> run_state m s = (x, t) \<Longrightarrow> f (world t) = f (world s)"
  by (metis keeps_def snd_conv)

section \<open>The gateway's state and the contract of its RPCs\<close>

record storedProvider =
  st_type :: string
  st_credentials :: "string \<Rightarrow> string option"
  st_config :: "string \<Rightarrow> string option"

record gatewayView =
  gv_members :: "string \<Rightarrow> string \<Rightarrow> workspaceRole option"
  gv_providers :: "string \<Rightarrow> storedProvider option"
  gv_policy :: "sandboxPolicy option"

text \<open>A provider's credential and config maps merge on update: a non-empty value is set, an empty one
  removes its key, a key that is not mentioned stays.\<close>

definition mergeMap :: "(string \<Rightarrow> string option) \<Rightarrow> smap \<Rightarrow> string \<Rightarrow> string option" where
  "mergeMap existing incoming k = (case map_of incoming k of
     None \<Rightarrow> existing k
   | Some v \<Rightarrow> if v = [] then None else Some v)"

definition created :: "gwProvider \<Rightarrow> storedProvider" where
  "created p = \<lparr>st_type = gp_type p, st_credentials = map_of (gp_credentials p),
     st_config = map_of (gp_config p)\<rparr>"

definition merged :: "storedProvider \<Rightarrow> gwProvider \<Rightarrow> storedProvider" where
  "merged old p = \<lparr>st_type = st_type old,
     st_credentials = mergeMap (st_credentials old) (gp_credentials p),
     st_config = mergeMap (st_config old) (gp_config p)\<rparr>"

definition setMember :: "string \<Rightarrow> string \<Rightarrow> workspaceRole option \<Rightarrow> gatewayView \<Rightarrow> gatewayView" where
  "setMember ws sub role v =
     v\<lparr>gv_members := (gv_members v)(ws := (gv_members v ws)(sub := role))\<rparr>"

definition setProvider :: "string \<Rightarrow> storedProvider option \<Rightarrow> gatewayView \<Rightarrow> gatewayView" where
  "setProvider n p v = v\<lparr>gv_providers := (gv_providers v)(n := p)\<rparr>"

text \<open>The calls that are not gateway RPCs leave the gateway's state alone.\<close>

locale gateway_frame =
  fixes E :: "'w env" and view :: "'w \<Rightarrow> 'v"
  assumes get_frame: "view (snd (e_get E k n w)) = view w"
    and list_frame: "view (snd (e_list E k l w)) = view w"
    and create_frame: "view (snd (e_create E ob w)) = view w"
    and update_frame: "view (snd (e_update E ob w)) = view w"
    and statusUpdate_frame: "view (snd (e_statusUpdate E ob w)) = view w"
    and delete_frame: "view (snd (e_delete E ob w)) = view w"
    and now_frame: "view (snd (e_now E w)) = view w"
    and dial_frame: "view (snd (e_dial E target creds w)) = view w"
    and sign_frame: "view (snd (e_signPKCS1v15 E key digest w)) = view w"
begin

lemmas frame = get_frame list_frame create_frame update_frame statusUpdate_frame delete_frame
  now_frame dial_frame sign_frame

lemma keeps_prims [keep_rules]:
  "keeps view (kGet E k n)" "keeps view (kList E k l)" "keeps view (kCreate E ob)"
  "keeps view (kUpdate E ob)" "keeps view (kStatusUpdate E ob)" "keeps view (kDelete E ob)"
  "keeps view (kDial E target creds)" "keeps view (timeNow E)"
  "keeps view (silent (e_signPKCS1v15 E key digest))"
  unfolding prim_defs timeNow_def by (intro keeps_invoke keeps_silent frame)+

end

locale gateway_service = gateway_frame E view for E :: "'w env" and view :: "'w \<Rightarrow> gatewayView" +
  assumes add_ok: "e_rpc E a (AddWorkspaceMember ws sub role) w = (Inr r, w') \<Longrightarrow>
      gv_members (view w) ws sub = None \<and> view w' = setMember ws sub (Some role) (view w)"
    and add_exists: "e_rpc E a (AddWorkspaceMember ws sub role) w = (Inl e, w') \<Longrightarrow>
      e_grpcCode E e = AlreadyExists \<Longrightarrow> gv_members (view w) ws sub \<noteq> None \<and> view w' = view w"
    and add_frame: "e_rpc E a (AddWorkspaceMember ws sub role) w = (r', w') \<Longrightarrow> (ws', sub') \<noteq> (ws, sub) \<Longrightarrow>
      gv_members (view w') ws' sub' = gv_members (view w) ws' sub'"
    and remove_ok: "e_rpc E a (RemoveWorkspaceMember ws sub) w = (Inr r, w') \<Longrightarrow>
      view w' = setMember ws sub None (view w)"
    and remove_frame: "e_rpc E a (RemoveWorkspaceMember ws sub) w = (r', w') \<Longrightarrow> (ws', sub') \<noteq> (ws, sub) \<Longrightarrow>
      gv_members (view w') ws' sub' = gv_members (view w) ws' sub'"
    and list_frame': "view (snd (e_rpc E a (ListWorkspaceMembers ws limit) w)) = view w"
    and list_ok: "e_rpc E a (ListWorkspaceMembers ws limit) w = (Inr r, w') \<Longrightarrow> 1000 \<le> limit \<Longrightarrow>
      (sub, role) \<in> set (respMembers r) \<longleftrightarrow> gv_members (view w) ws sub = Some role"
    and create_ok: "e_rpc E a (CreateProvider p ws) w = (Inr r, w') \<Longrightarrow>
      gv_providers (view w) (gp_name p) = None \<and>
      view w' = setProvider (gp_name p) (Some (created p)) (view w)"
    and create_rejected: "e_rpc E a (CreateProvider p ws) w = (Inl e, w') \<Longrightarrow>
      e_grpcCode E e = AlreadyExists \<Longrightarrow> gv_providers (view w) (gp_name p) \<noteq> None \<and> view w' = view w"
    and update_ok: "e_rpc E a (UpdateProvider p ws) w = (Inr r, w') \<Longrightarrow>
      \<exists>old. gv_providers (view w) (gp_name p) = Some old \<and>
        view w' = setProvider (gp_name p) (Some (merged old p)) (view w)"
    and deleteProvider_ok: "e_rpc E a (DeleteProvider n ws) w = (Inr r, w') \<Longrightarrow>
      view w' = setProvider n None (view w)"
    and setPolicy_ok: "e_rpc E a (UpdateConfig (Some q) [] False True ws) w = (Inr r, w') \<Longrightarrow>
      view w' = (view w)\<lparr>gv_policy := Some q\<rparr>"
    and deletePolicy_ok: "e_rpc E a (UpdateConfig None ''policy'' True True ws) w = (Inr r, w') \<Longrightarrow>
      view w' = (view w)\<lparr>gv_policy := None\<rparr>"

section \<open>Views\<close>

lemma gv_setMember [simp]:
  "gv_members (setMember ws sub r v) ws' sub' = (if ws' = ws \<and> sub' = sub then r else gv_members v ws' sub')"
  "gv_providers (setMember ws sub r v) = gv_providers v"
  "gv_policy (setMember ws sub r v) = gv_policy v"
  by (simp_all add: setMember_def)

lemma gv_setProvider [simp]:
  "gv_providers (setProvider n p v) n' = (if n' = n then p else gv_providers v n')"
  "gv_members (setProvider n p v) = gv_members v"
  "gv_policy (setProvider n p v) = gv_policy v"
  by (simp_all add: setProvider_def)

end
