(* ===== verification/FakeGateway.thy ===== *)
theory FakeGateway
  imports GatewayService
begin

text \<open>
  The in-memory stand-in for the OpenShell gateway of
  \<^verbatim>\<open>src/internal/controller/fake_gateway_test.go\<close>, and an in-memory environment built around it: a
  list of Kubernetes objects, a clock and the stand-in. It shows that the contract of
  \<open>GatewayService\<close> can be met, and it is the environment in which concrete runs are evaluated.
\<close>

section \<open>fakeOpenShellServer\<close>

record fakeOpenShellServer =
  fk_members :: "(string \<times> (string \<times> workspaceRole) list) list"
  fk_calls :: "string list"
  fk_failRemoveSubject :: string
  fk_failAddSubject :: string
  fk_providers :: "(string \<times> gwProvider) list"
  fk_failDeleteProviderName :: string
  fk_globalPolicy :: "sandboxPolicy option"
  fk_failGlobalPolicyInvalid :: bool

definition newFakeOpenShellServer :: fakeOpenShellServer where
  "newFakeOpenShellServer = \<lparr>fk_members = [], fk_calls = [], fk_failRemoveSubject = [],
     fk_failAddSubject = [], fk_providers = [], fk_failDeleteProviderName = [],
     fk_globalPolicy = None, fk_failGlobalPolicyInvalid = False\<rparr>"

abbreviation grpcError :: "string \<Rightarrow> string \<Rightarrow> goerr" where
  "grpcError \<equiv> ExtErr"

definition roleText :: "workspaceRole \<Rightarrow> string" where
  "roleText r = (case r of WORKSPACE_ROLE_UNSPECIFIED \<Rightarrow> ''WORKSPACE_ROLE_UNSPECIFIED''
     | WORKSPACE_ROLE_USER \<Rightarrow> ''WORKSPACE_ROLE_USER'' | WORKSPACE_ROLE_ADMIN \<Rightarrow> ''WORKSPACE_ROLE_ADMIN'')"

abbreviation logCall :: "string \<Rightarrow> fakeOpenShellServer \<Rightarrow> fakeOpenShellServer" where
  "logCall c f \<equiv> f\<lparr>fk_calls := fk_calls f @ [c]\<rparr>"

definition workspaceMembers :: "fakeOpenShellServer \<Rightarrow> string \<Rightarrow> (string \<times> workspaceRole) list" where
  "workspaceMembers f ws = (case map_of (fk_members f) ws of None \<Rightarrow> [] | Some m \<Rightarrow> m)"

definition fakeAddWorkspaceMember :: "string \<Rightarrow> string \<Rightarrow> workspaceRole \<Rightarrow> fakeOpenShellServer \<Rightarrow>
    (goerr + rpcResp) \<times> fakeOpenShellServer" where
  "fakeAddWorkspaceMember ws sub role f0 =
     (let f1 = logCall (''add:'' @ ws @ '':'' @ sub @ '':'' @ roleText role) f0;
          f = f1\<lparr>fk_members := AList.update ws (workspaceMembers f1 ws) (fk_members f1)\<rparr> in
      if map_of (workspaceMembers f ws) sub \<noteq> None
      then (Inl (grpcError ''AlreadyExists'' ''member already exists in this workspace''), f)
      else if fk_failAddSubject f \<noteq> [] \<and> sub = fk_failAddSubject f
      then (Inl (grpcError ''Unavailable'' ''simulated remote failure''), f)
      else (Inr RespDone,
            f\<lparr>fk_members := AList.update ws (AList.update sub role (workspaceMembers f ws)) (fk_members f)\<rparr>))"

definition fakeRemoveWorkspaceMember :: "string \<Rightarrow> string \<Rightarrow> fakeOpenShellServer \<Rightarrow>
    (goerr + rpcResp) \<times> fakeOpenShellServer" where
  "fakeRemoveWorkspaceMember ws sub f0 =
     (let f = logCall (''remove:'' @ ws @ '':'' @ sub) f0 in
      if fk_failRemoveSubject f \<noteq> [] \<and> sub = fk_failRemoveSubject f
      then (Inl (grpcError ''Unavailable'' ''simulated remote failure''), f)
      else if map_of (workspaceMembers f ws) sub \<noteq> None
      then (Inr RespDone, f\<lparr>fk_members := AList.update ws (AList.delete sub (workspaceMembers f ws)) (fk_members f)\<rparr>)
      else (Inr RespDone, f))"

definition fakeListWorkspaceMembers :: "string \<Rightarrow> fakeOpenShellServer \<Rightarrow>
    (goerr + rpcResp) \<times> fakeOpenShellServer" where
  "fakeListWorkspaceMembers ws f = (Inr (RespMembers (AList.clearjunk (workspaceMembers f ws))), f)"

fun mergeStringMap :: "smap \<Rightarrow> smap \<Rightarrow> smap" where
  "mergeStringMap result [] = result"
| "mergeStringMap result ((k, v) # incoming) =
     mergeStringMap (if v = [] then AList.delete k result else AList.update k v result) incoming"

definition fakeCreateProvider :: "gwProvider \<Rightarrow> fakeOpenShellServer \<Rightarrow>
    (goerr + rpcResp) \<times> fakeOpenShellServer" where
  "fakeCreateProvider p f0 =
     (let f = logCall (''createProvider:'' @ gp_name p) f0 in
      if map_of (fk_providers f) (gp_name p) \<noteq> None
      then (Inl (grpcError ''AlreadyExists'' ''provider already exists''), f)
      else (Inr RespDone, f\<lparr>fk_providers := AList.update (gp_name p) p (fk_providers f)\<rparr>))"

definition fakeUpdateProvider :: "gwProvider \<Rightarrow> fakeOpenShellServer \<Rightarrow>
    (goerr + rpcResp) \<times> fakeOpenShellServer" where
  "fakeUpdateProvider p f0 =
     (let f = logCall (''updateProvider:'' @ gp_name p) f0 in
      case map_of (fk_providers f) (gp_name p) of
        None \<Rightarrow> (Inl (grpcError ''NotFound'' ''provider not found''), f)
      | Some old \<Rightarrow>
          if gp_type p \<noteq> [] \<and> gp_type p \<noteq> gp_type old
          then (Inl (grpcError ''InvalidArgument''
                  ''provider type cannot be changed; delete and recreate the provider''), f)
          else (Inr RespDone, f\<lparr>fk_providers := AList.update (gp_name p)
                  (old\<lparr>gp_credentials := mergeStringMap (gp_credentials old) (AList.clearjunk (gp_credentials p)),
                       gp_config := mergeStringMap (gp_config old) (AList.clearjunk (gp_config p))\<rparr>)
                  (fk_providers f)\<rparr>))"

definition fakeDeleteProvider :: "string \<Rightarrow> fakeOpenShellServer \<Rightarrow>
    (goerr + rpcResp) \<times> fakeOpenShellServer" where
  "fakeDeleteProvider n f0 =
     (let f = logCall (''deleteProvider:'' @ n) f0 in
      if fk_failDeleteProviderName f \<noteq> [] \<and> n = fk_failDeleteProviderName f
      then (Inl (grpcError ''FailedPrecondition'' ''provider is still attached to a sandbox''), f)
      else if map_of (fk_providers f) n = None then (Inr RespDone, f)
      else (Inr RespDone, f\<lparr>fk_providers := AList.delete n (fk_providers f)\<rparr>))"

definition fakeUpdateConfig :: "sandboxPolicy option \<Rightarrow> string \<Rightarrow> bool \<Rightarrow> bool \<Rightarrow> fakeOpenShellServer \<Rightarrow>
    (goerr + rpcResp) \<times> fakeOpenShellServer" where
  "fakeUpdateConfig pol key del global f =
     (if del \<and> global \<and> key = ''policy''
      then (Inr RespDone, (logCall ''deleteGlobalPolicy'' f)\<lparr>fk_globalPolicy := None\<rparr>)
      else if global
      then (let f1 = logCall ''setGlobalPolicy'' f in
            if fk_failGlobalPolicyInvalid f1
            then (Inl (grpcError ''InvalidArgument'' ''simulated invalid policy''), f1)
            else (Inr RespDone, f1\<lparr>fk_globalPolicy := pol\<rparr>))
      else (Inl (grpcError ''Unimplemented''
              ''sandbox-scoped UpdateConfig not implemented in fake server''), f))"

fun fakeRpc :: "rpc \<Rightarrow> fakeOpenShellServer \<Rightarrow> (goerr + rpcResp) \<times> fakeOpenShellServer" where
  "fakeRpc (AddWorkspaceMember ws sub role) f = fakeAddWorkspaceMember ws sub role f"
| "fakeRpc (RemoveWorkspaceMember ws sub) f = fakeRemoveWorkspaceMember ws sub f"
| "fakeRpc (ListWorkspaceMembers ws limit) f = fakeListWorkspaceMembers ws f"
| "fakeRpc (CreateProvider p ws) f = fakeCreateProvider p f"
| "fakeRpc (UpdateProvider p ws) f = fakeUpdateProvider p f"
| "fakeRpc (DeleteProvider n ws) f = fakeDeleteProvider n f"
| "fakeRpc (UpdateConfig pol key del global ws) f = fakeUpdateConfig pol key del global f"

section \<open>An in-memory environment\<close>

record memWorld =
  mw_objs :: "kobj list"
  mw_fake :: fakeOpenShellServer
  mw_clock :: int

primrec errClass :: "goerr \<Rightarrow> string" where
  "errClass (ExtErr c t) = c"
| "errClass (Errorf t) = []"
| "errClass (Wrapf pre e post) = errClass e"

definition sameKey :: "kind \<Rightarrow> string \<Rightarrow> string \<Rightarrow> kobj \<Rightarrow> bool" where
  "sameKey k ns n ob = (ob_kind ob = k \<and> ob_namespace ob = ns \<and> ob_name ob = n)"

abbreviation sameObj :: "kobj \<Rightarrow> kobj \<Rightarrow> bool" where
  "sameObj ob \<equiv> sameKey (ob_kind ob) (ob_namespace ob) (ob_name ob)"

abbreviation notFoundErr :: goerr where "notFoundErr \<equiv> ExtErr ''NotFound'' ''not found''"
abbreviation existsErr :: goerr where "existsErr \<equiv> ExtErr ''Exists'' ''already exists''"

definition memGet :: "kind \<Rightarrow> nsName \<Rightarrow> memWorld \<Rightarrow> (goerr + kobj) \<times> memWorld" where
  "memGet k n w = (case find (sameKey k (nn_namespace n) (nn_name n)) (mw_objs w) of
     None \<Rightarrow> (Inl notFoundErr, w) | Some ob \<Rightarrow> (Inr ob, w))"

definition labelsMatch :: "smap \<Rightarrow> kobj \<Rightarrow> bool" where
  "labelsMatch sel ob = list_all (\<lambda>(k, v). map_of (ob_labels ob) k = Some v) sel"

definition memList :: "kind \<Rightarrow> listOpts \<Rightarrow> memWorld \<Rightarrow> (goerr + kobj list) \<times> memWorld" where
  "memList k l w = (Inr (filter (\<lambda>ob. ob_kind ob = k \<and>
     (case lo_namespace l of None \<Rightarrow> True | Some ns \<Rightarrow> ob_namespace ob = ns) \<and>
     labelsMatch (lo_labels l) ob) (mw_objs w)), w)"

definition memCreate :: "kobj \<Rightarrow> memWorld \<Rightarrow> (goerr + kobj) \<times> memWorld" where
  "memCreate ob w = (if list_ex (sameObj ob) (mw_objs w) then (Inl existsErr, w)
     else (Inr ob, w\<lparr>mw_objs := mw_objs w @ [ob]\<rparr>))"

definition memUpdate :: "kobj \<Rightarrow> memWorld \<Rightarrow> goerr option \<times> memWorld" where
  "memUpdate ob w = (if list_ex (sameObj ob) (mw_objs w)
     then (None, w\<lparr>mw_objs := map (\<lambda>x. if sameObj ob x then ob else x) (mw_objs w)\<rparr>)
     else (Some notFoundErr, w))"

definition memDelete :: "kobj \<Rightarrow> memWorld \<Rightarrow> goerr option \<times> memWorld" where
  "memDelete ob w = (if list_ex (sameObj ob) (mw_objs w)
     then (None, w\<lparr>mw_objs := filter (\<lambda>x. \<not> sameObj ob x) (mw_objs w)\<rparr>)
     else (Some notFoundErr, w))"

definition memFetch :: "kobj \<Rightarrow> memWorld \<Rightarrow> (goerr + kobj) \<times> memWorld" where
  "memFetch ob w = (case find (sameObj ob) (mw_objs w) of None \<Rightarrow> (Inr ob, w) | Some x \<Rightarrow> (Inr x, w))"

definition memCommit :: "kobj \<Rightarrow> kobj \<Rightarrow> memWorld \<Rightarrow> goerr option \<times> memWorld" where
  "memCommit old new w = (if list_ex (sameObj new) (mw_objs w) then memUpdate new w
     else (None, w\<lparr>mw_objs := mw_objs w @ [new]\<rparr>))"

fun memSetCond :: "condition list \<Rightarrow> condition \<Rightarrow> condition list" where
  "memSetCond [] c = [c]"
| "memSetCond (x # xs) c = (if cd_type x = cd_type c then c # xs else x # memSetCond xs c)"

fun jwalk :: "(string \<times> jval) list \<Rightarrow> string list \<Rightarrow> jval option" where
  "jwalk m [] = Some (JMap m)"
| "jwalk m [k] = map_of m k"
| "jwalk m (k # ks) = (case map_of m k of Some (JMap m') \<Rightarrow> jwalk m' ks | _ \<Rightarrow> None)"

fun jset :: "(string \<times> jval) list \<Rightarrow> jval \<Rightarrow> string list \<Rightarrow> (string \<times> jval) list" where
  "jset m v [] = m"
| "jset m v [k] = AList.update k v m"
| "jset m v (k # ks) =
     AList.update k (JMap (jset (case map_of m k of Some (JMap m') \<Rightarrow> m' | _ \<Rightarrow> []) v ks)) m"

definition jstrings :: "jval list \<Rightarrow> string list option" where
  "jstrings js = (if list_all (\<lambda>j. case j of JStr _ \<Rightarrow> True | _ \<Rightarrow> False) js
     then Some (map (\<lambda>j. case j of JStr t \<Rightarrow> t | _ \<Rightarrow> []) js) else None)"

definition nestedErr :: goerr where "nestedErr = ExtErr ''Type'' ''unexpected type''"

fun jsonText :: "jval \<Rightarrow> string" and jsonFields :: "(string \<times> jval) list \<Rightarrow> string list" where
  "jsonText (JStr t) = quote t"
| "jsonText (JInt i) = intDec i"
| "jsonText (JBool b) = (if b then ''true'' else ''false'')"
| "jsonText (JList js) = ''['' @ joinWith '','' (map jsonText js) @ '']''"
| "jsonText (JMap m) = ''{'' @ joinWith '','' (jsonFields m) @ ''}''"
| "jsonFields [] = []"
| "jsonFields ((k, v) # m) = (quote k @ '':'' @ jsonText v) # jsonFields m"

definition codeOfClass :: "string \<Rightarrow> grpcCode" where
  "codeOfClass c =
     (if c = ''AlreadyExists'' then AlreadyExists
      else if c = ''InvalidArgument'' then InvalidArgument
      else if c = ''FailedPrecondition'' then FailedPrecondition
      else if c = ''NotFound'' then NotFoundCode
      else if c = ''Unavailable'' then Unavailable
      else if c = ''Unimplemented'' then Unimplemented
      else CodeOther 2)"

definition memEnv :: "memWorld env" where
  "memEnv = \<lparr>
     e_get = memGet, e_list = memList, e_create = memCreate, e_update = memUpdate,
     e_statusUpdate = memUpdate, e_delete = memDelete, e_couFetch = memFetch, e_couCommit = memCommit,
     e_discover = (\<lambda>gv w. (Some (ExtErr ''NotFound'' ''no such group''), w)),
     e_now = (\<lambda>w. (mw_clock w, w)),
     e_rand = (\<lambda>n w. (replicate n (CHR ''r''), w)),
     e_isNotFound = (\<lambda>e. errClass e = ''NotFound''),
     e_isAlreadyExists = (\<lambda>e. errClass e = ''Exists''),
     e_isNoMatch = (\<lambda>e. errClass e = ''NoMatch''),
     e_setCond = memSetCond,
     e_findCond = (\<lambda>cs t. find (\<lambda>c. cd_type c = t) cs),
     e_removeCond = (\<lambda>cs t. filter (\<lambda>c. cd_type c \<noteq> t) cs),
     e_hasFinalizer = (\<lambda>m f. f \<in> set (om_finalizers m)),
     e_addFinalizer = (\<lambda>m f. if f \<in> set (om_finalizers m) then m
        else m\<lparr>om_finalizers := om_finalizers m @ [f]\<rparr>),
     e_removeFinalizer = (\<lambda>m f. m\<lparr>om_finalizers := filter (\<lambda>x. x \<noteq> f) (om_finalizers m)\<rparr>),
     e_nestedString = (\<lambda>m p. case jwalk m p of None \<Rightarrow> NAbsent | Some (JStr t) \<Rightarrow> NFound t | _ \<Rightarrow> NError nestedErr),
     e_nestedStrings = (\<lambda>m p. case jwalk m p of None \<Rightarrow> NAbsent
        | Some (JList js) \<Rightarrow> (case jstrings js of Some ss \<Rightarrow> NFound ss | None \<Rightarrow> NError nestedErr)
        | _ \<Rightarrow> NError nestedErr),
     e_nestedSlice = (\<lambda>m p. case jwalk m p of None \<Rightarrow> NAbsent | Some (JList js) \<Rightarrow> NFound js | _ \<Rightarrow> NError nestedErr),
     e_nestedMap = (\<lambda>m p. case jwalk m p of None \<Rightarrow> NAbsent | Some (JMap x) \<Rightarrow> NFound x | _ \<Rightarrow> NError nestedErr),
     e_setNested = (\<lambda>m v p. Inr (jset m v p)),
     e_deepEqual = (\<lambda>a b. a = b),
     e_grpcCode = (\<lambda>e. codeOfClass (errClass e)),
     e_dial = (\<lambda>t c w. (None, w)),
     e_rpc = (\<lambda>a q w. case fakeRpc q (mw_fake w) of (r, f) \<Rightarrow> (r, w\<lparr>mw_fake := f\<rparr>)),
     e_keyPairOk = (\<lambda>c k. None), e_certPoolOk = (\<lambda>ca. True),
     e_sha256 = (\<lambda>t. take 32 (t @ replicate 32 (CHR ''0''))),
     e_pemDecode = (\<lambda>t. if t = [] then None else Some t),
     e_pemEncode = (\<lambda>t b. t @ b),
     e_parsePKCS8 = (\<lambda>b. Inr (RSAPrivate b)),
     e_publicModulus = id, e_publicExponent = (\<lambda>k. [CHR 0x01, CHR 0x00, CHR 0x01]),
     e_marshalPKCS1Public = id,
     e_signPKCS1v15 = (\<lambda>k d w. (Inr (k @ d), w)),
     e_jsonMarshal = (\<lambda>j. Inr (jsonText j))\<rparr>"

definition memSys :: "memWorld \<Rightarrow> memWorld sys" where
  "memSys w = \<lparr>world = w, calls = [], isOpenShiftCache = \<lparr>cc_result = False, cc_expiry = zeroTime * 10 ^ 9\<rparr>,
     hasGatewayAPICache = \<lparr>cc_result = False, cc_expiry = zeroTime * 10 ^ 9\<rparr>,
     hasGroupsAPICache = \<lparr>cc_result = False, cc_expiry = zeroTime * 10 ^ 9\<rparr>\<rparr>"

section \<open>The stand-in meets the contract\<close>

definition fakeView :: "fakeOpenShellServer \<Rightarrow> gatewayView" where
  "fakeView f = \<lparr>gv_members = (\<lambda>ws. map_of (workspaceMembers f ws)),
     gv_providers = (\<lambda>n. map_option created (map_of (fk_providers f) n)),
     gv_policy = fk_globalPolicy f\<rparr>"

abbreviation memView :: "memWorld \<Rightarrow> gatewayView" where
  "memView w \<equiv> fakeView (mw_fake w)"

lemma workspaceMembers_update:
  "ms = fk_members f \<Longrightarrow> workspaceMembers (f\<lparr>fk_members := AList.update ws m ms\<rparr>) ws' =
   (if ws' = ws then m else workspaceMembers f ws')"
  by (simp add: workspaceMembers_def update_conv')

lemma workspaceMembers_cong:
  "workspaceMembers (f\<lparr>fk_calls := c\<rparr>) = workspaceMembers f"
  "workspaceMembers (fk_providers_update g f) = workspaceMembers f"
  "workspaceMembers (fk_globalPolicy_update h f) = workspaceMembers f"
  by (simp_all add: workspaceMembers_def fun_eq_iff)

lemma fakeView_logCall [simp]: "fakeView (f\<lparr>fk_calls := c\<rparr>) = fakeView f"
  by (simp add: fakeView_def workspaceMembers_cong)

lemma fakeView_members:
  "ms = fk_members f \<Longrightarrow> fakeView (f\<lparr>fk_members := AList.update ws m ms\<rparr>) =
   (fakeView f)\<lparr>gv_members := (gv_members (fakeView f))(ws := map_of m)\<rparr>"
  by (auto simp: fakeView_def workspaceMembers_update fun_eq_iff)

lemma map_of_mergeStringMap:
  "distinct (map fst incoming) \<Longrightarrow> map_of (mergeStringMap existing incoming) = mergeMap (map_of existing) incoming"
proof (induction existing incoming rule: mergeStringMap.induct)
  case (2 result k v incoming)
  then have "map_of incoming k = None" by (simp add: map_of_eq_None_iff)
  then show ?case using 2 by (auto simp: mergeMap_def fun_eq_iff update_conv' delete_conv' split: option.splits)
qed (simp add: mergeMap_def fun_eq_iff)

lemma created_merge:
  "created (old\<lparr>gp_credentials := mergeStringMap (gp_credentials old) (AList.clearjunk (gp_credentials p)),
       gp_config := mergeStringMap (gp_config old) (AList.clearjunk (gp_config p))\<rparr>) = merged (created old) p"
  by (simp add: created_def merged_def map_of_mergeStringMap distinct_clearjunk)
    (simp add: mergeMap_def map_of_clearjunk fun_eq_iff)

lemma fakeView_provider:
  "ps = fk_providers f \<Longrightarrow> fakeView (f\<lparr>fk_providers := AList.update n p ps\<rparr>) =
   setProvider n (Some (created p)) (fakeView f)"
  "ps = fk_providers f \<Longrightarrow> fakeView (f\<lparr>fk_providers := AList.delete n ps\<rparr>) =
   setProvider n None (fakeView f)"
  by (auto simp: fakeView_def setProvider_def workspaceMembers_cong fun_eq_iff update_conv' delete_conv')

lemma fakeView_policy: "fakeView (f\<lparr>fk_globalPolicy := q\<rparr>) = (fakeView f)\<lparr>gv_policy := q\<rparr>"
  by (simp add: fakeView_def workspaceMembers_cong)

lemma fakeView_absent_provider:
  "map_of (fk_providers f) n = None \<Longrightarrow> setProvider n None (fakeView f) = fakeView f"
  by (auto simp: fakeView_def setProvider_def fun_eq_iff)

lemma fakeView_sel [simp]:
  "gv_members (fakeView f) ws = map_of (workspaceMembers f ws)"
  "gv_providers (fakeView f) n = map_option created (map_of (fk_providers f) n)"
  "gv_policy (fakeView f) = fk_globalPolicy f"
  by (simp_all add: fakeView_def)

lemma fakeAdd_view:
  assumes "fakeAddWorkspaceMember ws sub role f = (r, f')"
  shows "case r of
      Inr _ \<Rightarrow> gv_members (fakeView f) ws sub = None \<and> fakeView f' = setMember ws sub (Some role) (fakeView f)
    | Inl e \<Rightarrow> fakeView f' = fakeView f \<and>
        (codeOfClass (errClass e) = AlreadyExists \<longrightarrow> gv_members (fakeView f) ws sub \<noteq> None)"
  using assms unfolding fakeAddWorkspaceMember_def Let_def
  by (auto simp: fakeView_members workspaceMembers_update workspaceMembers_cong setMember_def
      fun_eq_iff update_conv' codeOfClass_def split: if_splits)

lemma fakeAdd_frame:
  assumes "fakeAddWorkspaceMember ws sub role f = (r, f')" and "(ws', sub') \<noteq> (ws, sub)"
  shows "gv_members (fakeView f') ws' sub' = gv_members (fakeView f) ws' sub'"
  using fakeAdd_view [OF assms(1)] assms(2) by (cases r) (auto simp del: fakeView_sel)

lemma fakeRemove_view:
  assumes "fakeRemoveWorkspaceMember ws sub f = (Inr r, f')"
  shows "fakeView f' = setMember ws sub None (fakeView f)"
  using assms unfolding fakeRemoveWorkspaceMember_def Let_def
  by (auto simp: fakeView_members workspaceMembers_cong setMember_def fun_eq_iff delete_conv' split: if_splits)

lemma fakeRemove_frame:
  assumes "fakeRemoveWorkspaceMember ws sub f = (r, f')" and "(ws', sub') \<noteq> (ws, sub)"
  shows "gv_members (fakeView f') ws' sub' = gv_members (fakeView f) ws' sub'"
  using assms unfolding fakeRemoveWorkspaceMember_def Let_def
  by (auto simp: workspaceMembers_update workspaceMembers_cong delete_conv' split: if_splits)

lemma mem_frame [simp]:
  "mw_fake (snd (memGet k n w)) = mw_fake w" "mw_fake (snd (memList k l w)) = mw_fake w"
  "mw_fake (snd (memCreate ob w)) = mw_fake w" "mw_fake (snd (memUpdate ob w)) = mw_fake w"
  "mw_fake (snd (memDelete ob w)) = mw_fake w"
  by (auto simp: memGet_def memList_def memCreate_def memUpdate_def memDelete_def split: option.splits)

lemma set_clearjunk_iff: "(k, v) \<in> set (AList.clearjunk m) \<longleftrightarrow> map_of m k = Some v"
  by (metis distinct_clearjunk map_of_clearjunk map_of_eq_Some_iff)

interpretation fake: gateway_service memEnv memView
proof (unfold_locales, goal_cases)
  case (10 a ws sub role w r w')
  then show ?case using fakeAdd_view [of ws sub role "mw_fake w"]
    by (fastforce simp: memEnv_def split: prod.splits)
next
  case (11 a ws sub role w e w')
  then show ?case using fakeAdd_view [of ws sub role "mw_fake w"]
    by (fastforce simp: memEnv_def split: prod.splits)
next
  case (12 a ws sub role w r w' ws' sub')
  then show ?case using fakeAdd_frame [of ws sub role "mw_fake w"]
    by (fastforce simp: memEnv_def split: prod.splits)
next
  case (14 a ws sub w r w' ws' sub')
  then show ?case using fakeRemove_frame [of ws sub "mw_fake w"]
    by (fastforce simp: memEnv_def split: prod.splits)
next
  case (13 a ws sub w r w')
  then show ?case using fakeRemove_view [of ws sub "mw_fake w"]
    by (fastforce simp: memEnv_def split: prod.splits)
next
  case (16 a ws limit w r w' sub role)
  then show ?case
    by (auto simp: memEnv_def fakeListWorkspaceMembers_def respMembers_def set_clearjunk_iff)
next
  case (17 a p ws w r w')
  then show ?case
    by (auto simp: memEnv_def fakeCreateProvider_def Let_def fakeView_provider split: if_splits)
next
  case (19 a p ws w r w')
  then show ?case
    by (auto simp: memEnv_def fakeUpdateProvider_def Let_def fakeView_provider created_merge
        split: if_splits option.splits)
next
  case (20 a n ws w r w')
  then show ?case
    by (auto simp: memEnv_def fakeDeleteProvider_def Let_def fakeView_provider fakeView_absent_provider
        split: if_splits)
qed (auto simp: memEnv_def fakeListWorkspaceMembers_def fakeCreateProvider_def fakeUpdateConfig_def
    fakeView_policy Let_def split: if_splits)

end
