(* ===== verification/Controllers.thy ===== *)
theory Controllers
  imports Grpc FakeGateway
begin

text \<open>
  What the three gateway-facing controllers share: the shape of their \<open>Reconcile\<close> methods, which
  take a finalizer on the resource before they act on the gateway, and the facts about opening a
  gateway connection that their proofs use.
\<close>

section \<open>The calls of one run\<close>

definition newCalls :: "'w sys \<Rightarrow> 'w sys \<Rightarrow> call list" where
  "newCalls s t = drop (length (calls s)) (calls t)"

lemma newCalls_append [simp]: "calls t = calls s @ cs \<Longrightarrow> newCalls s t = cs"
  by (simp add: newCalls_def)

lemma onlyCalls_newCalls:
  "onlyCalls P m \<Longrightarrow> run_state m s = (x, t) \<Longrightarrow> c \<in> set (newCalls s t) \<Longrightarrow> P c"
  using onlyCallsD by fastforce

lemma wp_calls:
  assumes "onlyCalls P m"
  shows "wp m (\<lambda>_ t. \<exists>cs. calls t = calls s @ cs \<and> list_all P cs) s"
  using assms by (auto simp: wp_def onlyCalls_def split: prod.splits) (metis snd_conv)

definition isRpc :: "call \<Rightarrow> bool" where
  "isRpc c = (case c of CRpc a q \<Rightarrow> True | _ \<Rightarrow> False)"

definition isUpdate :: "call \<Rightarrow> bool" where
  "isUpdate c = (case c of CUpdate ob \<Rightarrow> True | _ \<Rightarrow> False)"

lemma call_tests [simp]:
  "isRpc (CRpc a q)" "\<not> isRpc (CGet k n)" "\<not> isRpc (CList k l)" "\<not> isRpc (CUpdate ob)"
  "\<not> isRpc (CStatusUpdate ob)" "\<not> isRpc (CDial tg cr)"
  "isUpdate (CUpdate ob)" "\<not> isUpdate (CGet k n)" "\<not> isUpdate (CList k l)"
  "\<not> isUpdate (CStatusUpdate ob)" "\<not> isUpdate (CDial tg cr)" "\<not> isUpdate (CRpc a q)"
  by (simp_all add: isRpc_def isUpdate_def)

abbreviation quiet :: "call \<Rightarrow> bool" where
  "quiet c \<equiv> \<not> isUpdate c \<and> \<not> isRpc c"

lemma wp_callsI:
  assumes "onlyCalls P m" and "\<And>r t cs. calls t = calls s @ cs \<Longrightarrow> list_all P cs \<Longrightarrow> Q r t"
  shows "wp m Q s"
  by (rule wp_mono [OF wp_calls [OF assms(1)]]) (use assms(2) in blast)

lemma quiet_resolveGateway: "onlyCalls quiet (resolveGateway E)"
  by (intro call_rules) simp

lemma quiet_gatewayClient: "onlyCalls quiet (gatewayClient E None gw)"
  by (intro call_rules) simp_all

lemmas connect_calls = wp_callsI [OF quiet_resolveGateway] wp_callsI [OF quiet_gatewayClient]

lemma list_ex_isRpc: "list_ex isRpc cs \<Longrightarrow> \<exists>a q. CRpc a q \<in> set cs"
proof -
  assume "list_ex isRpc cs"
  then obtain c where c: "c \<in> set cs" "isRpc c" by (auto simp: list_ex_iff)
  then show ?thesis by (cases c rule: call.exhaust) (auto simp: isRpc_def)
qed

section \<open>Finalizer-guarded reconcilers\<close>

text \<open>
  \<open>mark\<close> is the object with the finalizer added, \<open>again\<close> the result returned after adding it,
  \<open>sync\<close> and \<open>del\<close> the two halves of the controller.
\<close>

locale finalizer_controller =
  fixes E :: "'w env" and k :: kind and fin :: string and again :: ctrlResult
    and mark :: "kobj \<Rightarrow> kobj"
    and sync :: "kobj \<Rightarrow> ('w sys, outcome) state"
    and del :: "kobj \<Rightarrow> ('w sys, outcome) state"
    and reconcile :: "nsName \<Rightarrow> ('w sys, outcome) state"
  assumes reconcile_eq: "reconcile n = do {
        r \<leftarrow> kGet E k n;
        (case r of
          Inl e \<Rightarrow> ret (noRequeue, ignoreNotFound E e)
        | Inr ob \<Rightarrow>
            if \<not> notDeleting (ob_meta ob) then del ob
            else if \<not> e_hasFinalizer E (ob_meta ob) fin then do {
              err \<leftarrow> kUpdate E (mark ob);
              (case err of Some e \<Rightarrow> ret (noRequeue, Some e) | None \<Rightarrow> ret (again, None))
            }
            else sync ob)
      }"
    and del_unguarded: "\<not> e_hasFinalizer E (ob_meta ob) fin \<Longrightarrow> del ob = ret (noRequeue, None)"
begin

lemma run_cases:
  assumes "run_state (reconcile n) s = (r, t)"
  obtains (missing) e w where "e_get E k n (world s) = (Inl e, w)" "newCalls s t = [CGet k n]"
      "r = (noRequeue, ignoreNotFound E e)"
  | (unmarked) ob w where "e_get E k n (world s) = (Inr ob, w)" "notDeleting (ob_meta ob)"
      "\<not> e_hasFinalizer E (ob_meta ob) fin" "newCalls s t = [CGet k n, CUpdate (mark ob)]"
  | (gone) ob w where "e_get E k n (world s) = (Inr ob, w)" "\<not> notDeleting (ob_meta ob)"
      "\<not> e_hasFinalizer E (ob_meta ob) fin" "newCalls s t = [CGet k n]"
  | (guarded) ob w where "e_get E k n (world s) = (Inr ob, w)" "e_hasFinalizer E (ob_meta ob) fin"
      "run_state (if notDeleting (ob_meta ob) then sync ob else del ob)
         (s\<lparr>world := w, calls := calls s @ [CGet k n]\<rparr>) = (r, t)"
proof -
  obtain g w where g: "e_get E k n (world s) = (g, w)" by fastforce
  show thesis
  proof (cases g)
    case (Inl e)
    then show thesis using assms g that(1)
      by (auto simp: reconcile_eq kGet_def invoke_def)
  next
    case (Inr ob)
    then show thesis using assms g that(2,3,4) [of ob]
      by (cases "notDeleting (ob_meta ob)"; cases "e_hasFinalizer E (ob_meta ob) fin")
        (auto simp: reconcile_eq kGet_def kUpdate_def invoke_def del_unguarded split: prod.splits option.splits)
  qed
qed

lemma acts_only_when_guarded:
  assumes "run_state (reconcile n) s = (r, t)" and "c \<in> set (newCalls s t)"
    and "c \<noteq> CGet k n" and "\<not> isUpdate c"
  shows "\<exists>ob w. e_get E k n (world s) = (Inr ob, w) \<and> e_hasFinalizer E (ob_meta ob) fin"
  using assms(1) by (rule run_cases) (use assms(2-4) in \<open>auto simp: isUpdate_def\<close>)

end

section \<open>Opening a connection\<close>

context gateway_frame
begin

lemma keeps_resolveGateway [keep_rules]: "keeps view (resolveGateway E)"
  unfolding resolveGateway_def by (intro keep_rules)

lemma keeps_MintToken [keep_rules]: "keeps view (MintToken E sg i a u un em rl ttl)"
  unfolding MintToken_def by (intro keep_rules)

lemma keeps_mintAdminToken [keep_rules]: "keeps view (mintAdminToken E gw)"
  unfolding mintAdminToken_def by (intro keep_rules)

lemma keeps_gatewayClient [keep_rules]: "keeps view (gatewayClient E None gw)"
  unfolding gatewayClient_def dialConnectClient_def dialCredentials_def
  by (simp only: option.case) (intro keep_rules)

text \<open>Neither step writes to the cluster or calls the gateway.\<close>

lemma resolveGateway_wp:
  assumes "\<And>r t cs. view (world t) = view (world s) \<Longrightarrow> calls t = calls s @ cs \<Longrightarrow>
      list_all quiet cs \<Longrightarrow> Q r t"
  shows "wp (resolveGateway E) Q s"
  by (rule wp_mono [OF wp_conj [OF wp_keeps [OF keeps_resolveGateway]
        wp_calls [OF quiet_resolveGateway]]]) (auto intro: assms)

lemma gatewayClient_wp:
  assumes "\<And>r t cs. view (world t) = view (world s) \<Longrightarrow> calls t = calls s @ cs \<Longrightarrow>
      list_all quiet cs \<Longrightarrow> Q r t"
  shows "wp (gatewayClient E None gw) Q s"
  by (rule wp_mono [OF wp_conj [OF wp_keeps [OF keeps_gatewayClient]
        wp_calls [OF quiet_gatewayClient]]]) (auto intro: assms)

lemma frameD:
  "e_statusUpdate E ob w = (r, w') \<Longrightarrow> view w' = view w"
  "e_update E ob w = (r, w') \<Longrightarrow> view w' = view w"
  "e_get E k n w = (g, w') \<Longrightarrow> view w' = view w"
  "e_list E k l w = (g', w') \<Longrightarrow> view w' = view w"
  using frame by (metis snd_conv)+

end

section \<open>A concrete cluster\<close>

text \<open>A gateway without TLS and its signing key, for the evaluated runs of the controllers.\<close>

definition exampleGateway :: openShellGateway where
  "exampleGateway = \<lparr>gw_meta = metaFor ''gw'' [],
     gw_spec = zeroGatewaySpec\<lparr>gs_tls := (gs_tls zeroGatewaySpec)\<lparr>tls_enabled := Some False\<rparr>\<rparr>,
     gw_status = zeroGatewayStatus\<rparr>"

definition exampleKeys :: kobj where
  "exampleKeys = mkObj KSecret (metaFor ''gw-auth-bridge-keys'' ''ogo'')
     (BSecret \<lparr>sec_type = [], sec_data = [(''signing.pem'', ''k''), (''kid'', ''1'')]\<rparr>)"

definition exampleWorld :: "kobj list \<Rightarrow> fakeOpenShellServer \<Rightarrow> memWorld" where
  "exampleWorld obs f = \<lparr>mw_objs = gatewayObj exampleGateway # exampleKeys # obs, mw_fake = f, mw_clock = 0\<rparr>"

section \<open>Properties\<close>

text \<open>
  A minted admin token is short-lived and carries only the admin role. Whatever the environment
  answers, a token returned by \<open>mintAdminToken\<close> has three segments of which the second encodes
  claims for the gateway's audience with the single role \<open>openshell-admin\<close> that expire exactly sixty
  seconds after they were issued.
\<close>

theorem admin_token_short_lived:
  assumes "run_state (mintAdminToken E gw) s = (Inr tok, t)"
  shows "\<exists>h p sg c. tok = b64url h @ ''.'' @ b64url p @ ''.'' @ b64url sg \<and>
     e_jsonMarshal E (claimsJSON c) = Inr p \<and>
     cl_roles c = [''openshell-admin''] \<and> cl_audience c = ''openshell-cli'' \<and>
     cl_expiresAt c - cl_issuedAt c = 60"
    (is "?post tok")
proof -
  have "wp (mintAdminToken E gw) (\<lambda>r t. \<forall>tok. r = Inr tok \<longrightarrow> ?post tok) s"
  proof (rule mintAdminToken_wp, goal_cases)
    case (2 signer now h p sg t)
    let ?c = "mkClaims now ''http://localhost:8085'' gatewayOIDCAudience ''ogo-controller''
        ''ogo-controller'' [] [gatewayAdminRole] adminTokenTTL"
    have "(now + 60 * 10 ^ 9) div 10 ^ 9 = now div 10 ^ 9 + (60 :: int)"
      by (simp add: div_add_self2)
    then have "cl_expiresAt ?c - cl_issuedAt ?c = 60" by (simp add: mkClaims_def adminTokenTTL_def)
    moreover have "cl_roles ?c = [''openshell-admin'']" "cl_audience ?c = ''openshell-cli''"
      by (simp_all add: mkClaims_def)
    ultimately have "?post (signingInput h p @ ''.'' @ b64url sg)"
      using 2 by (intro exI [of _ h] exI [of _ p] exI [of _ sg] exI [of _ ?c]) (simp add: signingInput_def)
    then show ?case by blast
  qed simp
  from wpD [OF this assms] show ?thesis by blast
qed

theorem admin_token_short_lived_witness:
  "\<exists>c p. e_jsonMarshal memEnv (claimsJSON c) = Inr p \<and> cl_roles c = [''openshell-admin''] \<and>
     cl_expiresAt c - cl_issuedAt c = 60"
proof -
  have "case fst (run_state (mintAdminToken memEnv exampleGateway)
      (memSys (exampleWorld [] newFakeOpenShellServer))) of Inl e \<Rightarrow> False | Inr tok \<Rightarrow> True"
    by code_simp
  then obtain tok where "fst (run_state (mintAdminToken memEnv exampleGateway)
      (memSys (exampleWorld [] newFakeOpenShellServer))) = Inr tok"
    by (auto split: sum.splits)
  then have "run_state (mintAdminToken memEnv exampleGateway) (memSys (exampleWorld [] newFakeOpenShellServer)) =
      (Inr tok, snd (run_state (mintAdminToken memEnv exampleGateway)
        (memSys (exampleWorld [] newFakeOpenShellServer))))"
    by (metis prod.collapse)
  from admin_token_short_lived [OF this] show ?thesis by blast
qed

end
