(* ===== verification/Provider.thy ===== *)
theory Provider
  imports Controllers
begin

text \<open>
  \<^verbatim>\<open>src/internal/controller/openshellprovider_controller.go\<close>: pushing a provider's credentials and
  configuration to the gateway, retracting keys that left the spec, and removing the provider before
  the resource goes away.
\<close>

section \<open>Definitions\<close>

abbreviation "providerFinalizer \<equiv> ''ogo.aknochow.io/provider-cleanup''"

abbreviation pr_name :: "openShellProvider \<Rightarrow> string" where "pr_name p \<equiv> om_name (pr_meta p)"
abbreviation pr_namespace :: "openShellProvider \<Rightarrow> string" where "pr_namespace p \<equiv> om_namespace (pr_meta p)"

definition gatewayProviderName :: "openShellProvider \<Rightarrow> string" where
  "gatewayProviderName p = pr_namespace p @ ''.'' @ pr_name p"

definition providerNotReadyMessage :: "string \<Rightarrow> goerr \<Rightarrow> string" where
  "providerNotReadyMessage reason cause =
     (if reason = ''GatewayUnreachable''
      then ''failed to reach the OpenShell gateway; see operator logs for details''
      else if reason = ''InvalidProviderSpec''
      then ''the gateway rejected this provider's spec; see operator logs for details''
      else errText cause)"

definition providerSetNotReady :: "'w env \<Rightarrow> openShellProvider \<Rightarrow> string \<Rightarrow> goerr \<Rightarrow> ('w sys, outcome) state" where
  "providerSetNotReady E p reason cause = do {
     (let st = pr_status p;
          p' = p\<lparr>pr_status := st\<lparr>
                 pt_conditions := e_setCond E (pt_conditions st)
                   (mkCond ''Synced'' ConditionFalse reason (providerNotReadyMessage reason cause)),
                 pt_phase := phaseFailed,
                 pt_observedGeneration := om_generation (pr_meta p)\<rparr>\<rparr> in do {
        err \<leftarrow> kStatusUpdate E (providerObj p');
        (case err of
          Some e \<Rightarrow> ret (noRequeue, Some e)
        | None \<Rightarrow> ret (requeueAfter gatewayRetryInterval, None))
      })
   }"

text \<open>The loop over the credential references: the resolved values, or an early return.\<close>

definition credentialRef :: "openShellProvider \<Rightarrow> string \<Rightarrow> secretKeyRef" where
  "credentialRef p envVar = (case map_of (ps_credentials (pr_spec p)) envVar of
     Some ref \<Rightarrow> ref | None \<Rightarrow> \<lparr>sk_name = [], sk_key = []\<rparr>)"

definition credentialStep :: "'w env \<Rightarrow> openShellProvider \<Rightarrow> string \<Rightarrow> smap \<Rightarrow> ('w sys, outcome + smap) state" where
  "credentialStep E p envVar acc =
     (let ref = credentialRef p envVar in do {
        r \<leftarrow> kGet E KSecret (nsn (pr_namespace p) (sk_name ref));
        (case r of
          Inl e \<Rightarrow>
            if e_isNotFound E e then do {
              oc \<leftarrow> providerSetNotReady E p ''SecretNotFound''
                (Errorf (''secret '' @ quote (sk_name ref) @ '' for credential '' @ quote envVar @ '' not found''));
              ret (Inl oc)
            }
            else ret (Inl (noRequeue, Some e))
        | Inr ob \<Rightarrow>
           (case map_of (sec_data (secretOf ob)) (sk_key ref) of
              None \<Rightarrow> do {
                oc \<leftarrow> providerSetNotReady E p ''KeyNotFound''
                  (Errorf (''key '' @ quote (sk_key ref) @ '' not found in Secret '' @ quote (sk_name ref)));
                ret (Inl oc)
              }
            | Some v \<Rightarrow> ret (Inr (acc @ [(envVar, v)]))))
      })"

definition resolveCredentials :: "'w env \<Rightarrow> openShellProvider \<Rightarrow> ('w sys, outcome + smap) state" where
  "resolveCredentials E p = foreach (credentialStep E p) (sortedKeys (ps_credentials (pr_spec p))) []"

text \<open>Keys that were pushed before and are no longer desired are sent with an empty value.\<close>

definition retractPayload :: "smap \<Rightarrow> string list \<Rightarrow> smap" where
  "retractPayload desired reconciled =
     fold (\<lambda>key m. if hasKey desired key then m else AList.update key [] m) reconciled desired"

definition pushProvider :: "'w env \<Rightarrow> openShellProvider \<Rightarrow> string \<Rightarrow> gwProvider \<Rightarrow>
    ('w sys, outcome + unit) state" where
  "pushProvider E p auth desired = do {
     r \<leftarrow> kRpc E auth (CreateProvider desired defaultOpenShellWorkspace);
     (case r of
       Inr _ \<Rightarrow> ret (Inr ())
     | Inl e \<Rightarrow>
        if e_grpcCode E e = AlreadyExists then do {
          r2 \<leftarrow> kRpc E auth (UpdateProvider desired defaultOpenShellWorkspace);
          (case r2 of
            Inr _ \<Rightarrow> ret (Inr ())
          | Inl e2 \<Rightarrow> do {
              oc \<leftarrow> (if e_grpcCode E e2 = InvalidArgument
                 then providerSetNotReady E p ''InvalidProviderSpec'' e2
                 else providerSetNotReady E p ''GatewayUnreachable'' (Wrapf ''UpdateProvider: '' e2 []));
              ret (Inl oc)
            })
        }
        else if e_grpcCode E e = InvalidArgument then do {
          oc \<leftarrow> providerSetNotReady E p ''InvalidProviderSpec'' e;
          ret (Inl oc)
        }
        else do {
          oc \<leftarrow> providerSetNotReady E p ''GatewayUnreachable'' (Wrapf ''CreateProvider: '' e []);
          ret (Inl oc)
        })
   }"

definition syncedProvider :: "'w env \<Rightarrow> openShellProvider \<Rightarrow> smap \<Rightarrow> smap \<Rightarrow> openShellProvider" where
  "syncedProvider E p creds config =
     p\<lparr>pr_status := (pr_status p)\<lparr>
        pt_reconciledCredentialKeys := sortedKeys creds,
        pt_reconciledConfigKeys := sortedKeys config,
        pt_phase := ''Synced'',
        pt_observedGeneration := om_generation (pr_meta p),
        pt_conditions := e_setCond E (pt_conditions (pr_status p))
          (mkCond ''Synced'' ConditionTrue ''Ready''
            (''Provider '' @ quote (pr_name p) @ '' of type '' @ quote (ps_providerType (pr_spec p)) @
             '' is synced to the gateway''))\<rparr>\<rparr>"

definition desiredProvider :: "openShellProvider \<Rightarrow> smap \<Rightarrow> smap \<Rightarrow> gwProvider" where
  "desiredProvider p creds config =
     \<lparr>gp_name = gatewayProviderName p, gp_type = ps_providerType (pr_spec p),
      gp_credentials = retractPayload creds (pt_reconciledCredentialKeys (pr_status p)),
      gp_config = retractPayload config (pt_reconciledConfigKeys (pr_status p))\<rparr>"

definition providerReconcileSync :: "'w env \<Rightarrow> 'w connectFunc option \<Rightarrow> openShellProvider \<Rightarrow>
    ('w sys, outcome) state" where
  "providerReconcileSync E connect p = do {
     g \<leftarrow> resolveGateway E;
     (case g of
       Inl e \<Rightarrow> providerSetNotReady E p ''GatewayNotFound'' e
     | Inr gw \<Rightarrow> do {
         cr \<leftarrow> resolveCredentials E p;
         (case cr of
           Inl oc \<Rightarrow> ret oc
         | Inr desiredCredentials \<Rightarrow> do {
             (let desiredConfig = ps_config (pr_spec p) in do {
                c \<leftarrow> gatewayClient E connect gw;
                (case c of
                  Inl e \<Rightarrow> providerSetNotReady E p ''GatewayUnreachable'' (Wrapf ''connecting to gateway: '' e [])
                | Inr auth \<Rightarrow> do {
                    r \<leftarrow> pushProvider E p auth (desiredProvider p desiredCredentials desiredConfig);
                    (case r of
                      Inl oc \<Rightarrow> ret oc
                    | Inr _ \<Rightarrow> do {
                        err \<leftarrow> kStatusUpdate E (providerObj (syncedProvider E p desiredCredentials desiredConfig));
                        ret (requeueAfter requeueInterval, err)
                      })
                  })
              })
           })
       })
   }"

definition providerReconcileDelete :: "'w env \<Rightarrow> 'w connectFunc option \<Rightarrow> openShellProvider \<Rightarrow>
    ('w sys, outcome) state" where
  "providerReconcileDelete E connect p =
     (if \<not> e_hasFinalizer E (pr_meta p) providerFinalizer then ret (noRequeue, None)
      else do {
        g \<leftarrow> resolveGateway E;
        (case g of
          Inl e \<Rightarrow> ret (requeueAfter gatewayRetryInterval, None)
        | Inr gw \<Rightarrow> do {
            c \<leftarrow> gatewayClient E connect gw;
            (case c of
              Inl e \<Rightarrow> ret (requeueAfter gatewayRetryInterval, None)
            | Inr auth \<Rightarrow> do {
                r \<leftarrow> kRpc E auth (DeleteProvider (gatewayProviderName p) defaultOpenShellWorkspace);
                (case r of
                  Inl e \<Rightarrow>
                    if e_grpcCode E e = FailedPrecondition then do {
                      (let p' = p\<lparr>pr_status := (pr_status p)\<lparr>
                             pt_conditions := e_setCond E (pt_conditions (pr_status p))
                               (mkCond ''Synced'' ConditionFalse ''DeletionBlocked''
                                 ''provider cannot be deleted while still attached to one or more sandboxes; see operator logs for details''),
                             pt_phase := phaseFailed\<rparr>\<rparr> in do {
                         err \<leftarrow> kStatusUpdate E (providerObj p');
                         (case err of
                           Some e2 \<Rightarrow> ret (noRequeue, Some e2)
                         | None \<Rightarrow> ret (requeueAfter gatewayRetryInterval, None))
                       })
                    }
                    else ret (requeueAfter gatewayRetryInterval, None)
                | Inr _ \<Rightarrow> do {
                    err \<leftarrow> kUpdate E (providerObj
                      (p\<lparr>pr_meta := e_removeFinalizer E (pr_meta p) providerFinalizer\<rparr>));
                    ret (noRequeue, err)
                  })
              })
          })
      })"

definition providerReconcile :: "'w env \<Rightarrow> 'w connectFunc option \<Rightarrow> nsName \<Rightarrow> ('w sys, outcome) state" where
  "providerReconcile E connect req = do {
     r \<leftarrow> kGet E KOpenShellProvider req;
     (case r of
       Inl e \<Rightarrow> ret (noRequeue, ignoreNotFound E e)
     | Inr ob \<Rightarrow>
        (let p = providerOf ob in
         if \<not> notDeleting (pr_meta p) then providerReconcileDelete E connect p
         else if \<not> e_hasFinalizer E (pr_meta p) providerFinalizer then do {
           err \<leftarrow> kUpdate E (providerObj (p\<lparr>pr_meta := e_addFinalizer E (pr_meta p) providerFinalizer\<rparr>));
           (case err of
             Some e \<Rightarrow> ret (noRequeue, Some e)
           | None \<Rightarrow> ret (requeueNow, None))
         }
         else providerReconcileSync E connect p))
   }"

text \<open>The watch handlers: which providers to reconcile when a Secret or the gateway changes.\<close>

definition requestFor :: "objectMeta \<Rightarrow> nsName" where
  "requestFor m = nsn (om_namespace m) (om_name m)"

definition findProvidersForSecret :: "'w env \<Rightarrow> kobj \<Rightarrow> ('w sys, nsName list) state" where
  "findProvidersForSecret E obj = do {
     l \<leftarrow> kList E KOpenShellProvider \<lparr>lo_namespace = Some (ob_namespace obj), lo_labels = []\<rparr>;
     (case l of
       Inl e \<Rightarrow> ret []
     | Inr items \<Rightarrow> ret (map (\<lambda>p. requestFor (pr_meta p))
         (filter (\<lambda>p. list_ex (\<lambda>(_, ref). sk_name ref = ob_name obj) (ps_credentials (pr_spec p)))
           (map providerOf items))))
   }"

definition findProvidersForGateway :: "'w env \<Rightarrow> ('w sys, nsName list) state" where
  "findProvidersForGateway E = do {
     l \<leftarrow> kList E KOpenShellProvider listAll;
     (case l of
       Inl e \<Rightarrow> ret []
     | Inr items \<Rightarrow> ret (map (\<lambda>p. requestFor (pr_meta p)) (map providerOf items)))
   }"

section \<open>Lemmas\<close>

lemma pr_meta_providerOf [simp]: "pr_meta (providerOf ob) = ob_meta ob"
  by (simp add: providerOf_def split: body.splits)

lemma map_of_retractPayload:
  "map_of (retractPayload d ks) k =
     (case map_of d k of Some v \<Rightarrow> Some v | None \<Rightarrow> if k \<in> set ks then Some [] else None)"
proof -
  have "map_of (fold (\<lambda>key m. if hasKey d key then m else AList.update key [] m) ks m) k =
      (if map_of d k = None \<and> k \<in> set ks then Some [] else map_of m k)" for m
    by (induction ks arbitrary: m) (auto simp: update_conv' hasKey_def)
  from this [of d] show ?thesis unfolding retractPayload_def by (simp split: option.splits)
qed

text \<open>The value the gateway holds for a key: Go reads a missing key as the empty string.\<close>

definition heldValue :: "(string \<Rightarrow> string option) \<Rightarrow> string \<Rightarrow> string" where
  "heldValue m k = (case m k of None \<Rightarrow> [] | Some v \<Rightarrow> v)"

lemma held_created: "heldValue (map_of (retractPayload d ks)) k = mget d k"
  by (simp add: heldValue_def mget_def map_of_retractPayload split: option.splits)

lemma held_merged:
  "heldValue (mergeMap old (retractPayload d ks)) k =
     (if k \<in> fst ` set d \<or> k \<in> set ks then mget d k else heldValue old k)"
proof (cases "map_of d k")
  case None
  then have "k \<notin> fst ` set d" by (simp add: map_of_eq_None_iff)
  then show ?thesis using None by (simp add: heldValue_def mergeMap_def mget_def map_of_retractPayload)
next
  case (Some v)
  then have "k \<in> fst ` set d" by (force dest: map_of_SomeD)
  then show ?thesis using Some by (simp add: heldValue_def mergeMap_def mget_def map_of_retractPayload)
qed

text \<open>\<open>suppliedBy\<close>: the value of a credential is the one some read of its Secret returned.\<close>

definition suppliedBy :: "'w env \<Rightarrow> string \<Rightarrow> secretKeyRef \<Rightarrow> string \<Rightarrow> bool" where
  "suppliedBy E ns ref v = (\<exists>w w' ob. e_get E KSecret (nsn ns (sk_name ref)) w = (Inr ob, w') \<and>
     map_of (sec_data (secretOf ob)) (sk_key ref) = Some v)"

lemma suppliedByI:
  "e_get E KSecret (nsn ns (sk_name ref)) w = (Inr ob, w') \<Longrightarrow>
   map_of (sec_data (secretOf ob)) (sk_key ref) = Some v \<Longrightarrow> suppliedBy E ns ref v"
  unfolding suppliedBy_def by blast

definition credentialsFor :: "'w env \<Rightarrow> openShellProvider \<Rightarrow> smap \<Rightarrow> bool" where
  "credentialsFor E p creds = (fst ` set creds = fst ` set (ps_credentials (pr_spec p)) \<and>
     (\<forall>k v. map_of creds k = Some v \<longrightarrow>
       (\<exists>ref. map_of (ps_credentials (pr_spec p)) k = Some ref \<and> suppliedBy E (pr_namespace p) ref v)))"

lemma providerSetNotReady_wp:
  "(\<And>r t. fst r \<noteq> requeueAfter requeueInterval \<Longrightarrow> Q r t) \<Longrightarrow> wp (providerSetNotReady E p reason cause) Q s"
  unfolding providerSetNotReady_def prim_defs by (intro wp_rules) auto

lemma credentialStep_wp:
  assumes "\<And>oc t. fst oc \<noteq> requeueAfter requeueInterval \<Longrightarrow> Q (Inl oc) t"
    and "\<And>v t. suppliedBy E (pr_namespace p) (credentialRef p k) v \<Longrightarrow> Q (Inr (acc @ [(k, v)])) t"
  shows "wp (credentialStep E p k acc) Q s"
  unfolding credentialStep_def prim_defs
  by (intro wp_rules providerSetNotReady_wp) (auto intro!: assms intro: suppliedByI)

lemma resolveCredentials_wp:
  "wp (resolveCredentials E p) (\<lambda>r t. case r of
      Inl oc \<Rightarrow> fst oc \<noteq> requeueAfter requeueInterval
    | Inr creds \<Rightarrow> credentialsFor E p creds) s"
  unfolding resolveCredentials_def
proof (rule foreach_wp_prefix [where I = "\<lambda>ys acc _. map fst acc = ys \<and>
    (\<forall>(k, v) \<in> set acc. suppliedBy E (pr_namespace p) (credentialRef p k) v)"], goal_cases)
  case (2 zs x rest a s)
  then show ?case by (intro credentialStep_wp) auto
next
  case (3 a s)
  then have keys: "fst ` set a = fst ` set (ps_credentials (pr_spec p))"
    by (metis image_set set_sortedKeys)
  have "\<exists>ref. map_of (ps_credentials (pr_spec p)) k = Some ref \<and> suppliedBy E (pr_namespace p) ref v"
    if "map_of a k = Some v" for k v
  proof -
    have kv: "(k, v) \<in> set a" by (rule map_of_SomeD [OF that])
    then have "k \<in> fst ` set (ps_credentials (pr_spec p))" unfolding keys [symmetric] by force
    then obtain ref where "map_of (ps_credentials (pr_spec p)) k = Some ref"
      by (metis map_of_eq_None_iff not_Some_eq)
    moreover have "suppliedBy E (pr_namespace p) (credentialRef p k) v" using 3 kv by blast
    ultimately show ?thesis by (simp add: credentialRef_def)
  qed
  then show ?case using keys by (simp add: credentialsFor_def)
qed simp

text \<open>What a resource's status may say: a fixed text whenever the cause is an error of the gateway.\<close>

definition genericMessages :: "string list" where
  "genericMessages =
     [''failed to reach the OpenShell gateway; see operator logs for details'',
      ''the gateway rejected this provider's spec; see operator logs for details'',
      ''provider cannot be deleted while still attached to one or more sandboxes; see operator logs for details'']"

definition discreet :: "condition \<Rightarrow> bool" where
  "discreet c = (cd_reason c \<in> {''GatewayNotFound'', ''SecretNotFound'', ''KeyNotFound'', ''Ready''} \<or>
     cd_reason c \<in> {''GatewayUnreachable'', ''InvalidProviderSpec'', ''DeletionBlocked''} \<and>
     cd_message c \<in> set genericMessages)"

definition discreetWrite :: "'w env \<Rightarrow> openShellProvider \<Rightarrow> call \<Rightarrow> bool" where
  "discreetWrite E p c = (\<forall>ob. c = CStatusUpdate ob \<longrightarrow> (\<exists>cond. discreet cond \<and>
     pt_conditions (pr_status (providerOf ob)) = e_setCond E (pt_conditions (pr_status p)) cond))"

lemma discreetWrite_other [simp]:
  "discreetWrite E p (CGet k n)" "discreetWrite E p (CList k l)" "discreetWrite E p (CRpc a q)"
  "discreetWrite E p (CDial tg cr)" "discreetWrite E p (CUpdate ob)"
  by (simp_all add: discreetWrite_def)

lemma discreetWriteI:
  "discreet cond \<Longrightarrow> pt_conditions (pr_status p') = e_setCond E (pt_conditions (pr_status p)) cond \<Longrightarrow>
   discreetWrite E p (CStatusUpdate (providerObj p'))"
  unfolding discreetWrite_def by auto

lemma onlyCalls_providerSetNotReady:
  assumes "discreet (mkCond ''Synced'' ConditionFalse reason (providerNotReadyMessage reason cause))"
  shows "onlyCalls (discreetWrite E p) (providerSetNotReady E p reason cause)"
  unfolding providerSetNotReady_def prim_defs
  by (intro call_rules discreetWriteI [OF assms]) simp

lemma discreet_reasons [simp]:
  "discreet (mkCond t st ''GatewayUnreachable'' (providerNotReadyMessage ''GatewayUnreachable'' e))"
  "discreet (mkCond t st ''InvalidProviderSpec'' (providerNotReadyMessage ''InvalidProviderSpec'' e))"
  "discreet (mkCond t st ''GatewayNotFound'' m)" "discreet (mkCond t st ''SecretNotFound'' m)"
  "discreet (mkCond t st ''KeyNotFound'' m)" "discreet (mkCond t st ''Ready'' m)"
  by (simp_all add: discreet_def providerNotReadyMessage_def genericMessages_def)

lemma onlyCalls_resolveCredentials: "onlyCalls (discreetWrite E p) (resolveCredentials E p)"
  unfolding resolveCredentials_def credentialStep_def prim_defs
  by (intro call_rules onlyCalls_providerSetNotReady) simp_all

lemma onlyCalls_providerReconcileSync: "onlyCalls (discreetWrite E p) (providerReconcileSync E None p)"
  unfolding providerReconcileSync_def pushProvider_def prim_defs
  apply (intro call_rules onlyCalls_providerSetNotReady onlyCalls_resolveCredentials)
  apply simp_all
  apply (rule discreetWriteI [of "mkCond ''Synced'' ConditionTrue ''Ready'' m" for m])
  apply (simp_all add: syncedProvider_def)
  done

lemma onlyCalls_providerReconcileDelete: "onlyCalls (discreetWrite E p) (providerReconcileDelete E None p)"
  unfolding providerReconcileDelete_def prim_defs
  apply (intro call_rules)
  apply simp_all
  apply (rule discreetWriteI [of "mkCond ''Synced'' ConditionFalse ''DeletionBlocked'' m" for m])
  apply (simp_all add: discreet_def genericMessages_def)
  done

section \<open>Against the contract of the gateway\<close>

context gateway_service
begin

lemma pushProvider_wp:
  assumes "\<And>oc t. fst oc \<noteq> requeueAfter requeueInterval \<Longrightarrow> Q (Inl oc) t"
    and "\<And>t stored. gv_providers (view (world t)) (gp_name d) = Some stored \<Longrightarrow>
      stored = (case gv_providers (view (world s)) (gp_name d) of None \<Rightarrow> created d | Some x \<Rightarrow> merged x d) \<Longrightarrow>
      Q (Inr ()) t"
  shows "wp (pushProvider E p auth d) Q s"
  unfolding pushProvider_def prim_defs
  apply (intro wp_rules providerSetNotReady_wp assms)
       apply simp_all
   apply (auto dest!: update_ok create_rejected)[]
  apply (auto dest!: create_ok)[]
  done

lemma keeps_resolveCredentials [keep_rules]: "keeps view (resolveCredentials E p)"
  unfolding resolveCredentials_def credentialStep_def providerSetNotReady_def by (intro keep_rules)

lemma resolveCredentials_view:
  assumes "\<And>oc t. fst oc \<noteq> requeueAfter requeueInterval \<Longrightarrow> Q (Inl oc) t"
    and "\<And>c t. credentialsFor E p c \<Longrightarrow> view (world t) = view (world s) \<Longrightarrow> Q (Inr c) t"
  shows "wp (resolveCredentials E p) Q s"
  by (rule wp_mono [OF wp_conj [OF wp_keeps [OF keeps_resolveCredentials] resolveCredentials_wp]])
    (auto intro: assms split: sum.splits)

lemma providerReconcileSync_wp:
  assumes "\<And>r t. fst r \<noteq> requeueAfter requeueInterval \<Longrightarrow> Q r t"
    and "\<And>err t creds stored d. credentialsFor E p creds \<Longrightarrow> d = desiredProvider p creds (ps_config (pr_spec p)) \<Longrightarrow>
      last (calls t) = CStatusUpdate (providerObj (syncedProvider E p creds (ps_config (pr_spec p)))) \<Longrightarrow>
      gv_providers (view (world t)) (gp_name d) = Some stored \<Longrightarrow>
      stored = (case gv_providers (view (world s)) (gp_name d) of None \<Rightarrow> created d | Some x \<Rightarrow> merged x d) \<Longrightarrow>
      Q (requeueAfter requeueInterval, err) t"
  shows "wp (providerReconcileSync E None p) Q s"
  unfolding providerReconcileSync_def prim_defs
  apply (intro wp_rules providerSetNotReady_wp resolveGateway_wp gatewayClient_wp resolveCredentials_view
      pushProvider_wp)
       apply ((rule assms(1), simp; fail)+)
  apply (rule assms(2))
  apply (auto simp: frameD)
  done

lemma providerReconcileDelete_wp:
  assumes "\<And>r t cs. calls t = calls s @ cs \<Longrightarrow>
      (\<exists>c \<in> set cs. isUpdate c) \<longrightarrow> gv_providers (view (world t)) (gatewayProviderName p) = None \<Longrightarrow> Q r t"
  shows "wp (providerReconcileDelete E None p) Q s"
  unfolding providerReconcileDelete_def prim_defs
  apply (intro wp_rules resolveGateway_wp gatewayClient_wp)
       apply (auto simp: frameD list_all_iff intro!: assms dest!: deleteProvider_ok)
  done

end

section \<open>Example\<close>

text \<open>A provider whose credential \<open>OLD\<close> left the spec after it had been pushed.\<close>

definition exampleSecret :: kobj where
  "exampleSecret = mkObj KSecret (metaFor ''s'' ''a'') (BSecret \<lparr>sec_type = [], sec_data = [(''k'', ''v'')]\<rparr>)"

definition exampleProvider :: openShellProvider where
  "exampleProvider = \<lparr>pr_meta = (metaFor ''p'' ''a'')\<lparr>om_finalizers := [providerFinalizer]\<rparr>,
     pr_spec = \<lparr>ps_providerType = ''t'', ps_credentials = [(''NEW'', \<lparr>sk_name = ''s'', sk_key = ''k''\<rparr>)], ps_config = []\<rparr>,
     pr_status = zeroProviderStatus\<lparr>pt_reconciledCredentialKeys := [''OLD'']\<rparr>\<rparr>"

definition exampleProviderSys :: "memWorld sys" where
  "exampleProviderSys = memSys (exampleWorld [exampleSecret, providerObj exampleProvider]
     (newFakeOpenShellServer\<lparr>fk_providers := [(''a.p'', \<lparr>gp_name = ''a.p'', gp_type = ''t'',
        gp_credentials = [(''OLD'', ''x'')], gp_config = []\<rparr>)]\<rparr>))"

lemma exampleProvider_run:
  "fst (run_state (providerReconcileSync memEnv None exampleProvider) exampleProviderSys) =
   (requeueAfter requeueInterval, None)"
  by code_simp

section \<open>The controller as a finalizer-guarded reconciler\<close>

interpretation provider: finalizer_controller E KOpenShellProvider providerFinalizer requeueNow
  "\<lambda>ob. providerObj ((providerOf ob)\<lparr>pr_meta := e_addFinalizer E (ob_meta ob) providerFinalizer\<rparr>)"
  "\<lambda>ob. providerReconcileSync E connect (providerOf ob)"
  "\<lambda>ob. providerReconcileDelete E connect (providerOf ob)"
  "providerReconcile E connect" for E :: "'w env" and connect
  unfolding providerReconcile_def Let_def pr_meta_providerOf
  by unfold_locales (simp_all add: providerReconcileDelete_def)

section \<open>Properties\<close>

text \<open>
  \<open>convergedTo now before desired recorded\<close>: the keys that are desired or were recorded by an
  earlier sync hold their desired value (none, if they are no longer desired); the others hold what
  they held before.
\<close>

definition convergedTo ::
  "(string \<Rightarrow> string option) \<Rightarrow> (string \<Rightarrow> string option) option \<Rightarrow> smap \<Rightarrow> string list \<Rightarrow> bool" where
  "convergedTo now before desired recorded = (\<forall>k. heldValue now k =
     (if k \<in> fst ` set desired \<or> k \<in> set recorded then mget desired k
      else case before of None \<Rightarrow> [] | Some m \<Rightarrow> heldValue m k))"

lemma mget_absent: "k \<notin> fst ` set m \<Longrightarrow> mget m k = []"
  by (simp add: mget_def map_of_eq_None_iff [THEN iffD2])

lemma converged_push:
  "convergedTo (case before of None \<Rightarrow> map_of (retractPayload d ks) | Some m \<Rightarrow> mergeMap m (retractPayload d ks))
     before d ks"
  by (auto simp: convergedTo_def held_created held_merged mget_absent split: option.splits)

lemma converged_stored:
  assumes "stored = (case old of None \<Rightarrow> created d | Some x \<Rightarrow> merged x d)"
    and "d = desiredProvider p creds config"
  shows "convergedTo (st_credentials stored) (map_option st_credentials old) creds
      (pt_reconciledCredentialKeys (pr_status p))"
    and "convergedTo (st_config stored) (map_option st_config old) config
      (pt_reconciledConfigKeys (pr_status p))"
  using assms converged_push [where before = "map_option st_credentials old" and d = creds]
    converged_push [where before = "map_option st_config old" and d = config]
  by (auto simp: created_def merged_def desiredProvider_def split: option.splits)

text \<open>
  C1: a successful sync leaves on the gateway exactly the desired state of every key the resource
  owns. When \<open>reconcileSync\<close> ends with its success result, the gateway stores the provider under
  its derived name; each credential that the spec names, or that an earlier sync recorded in the
  status, has the value read from the referenced Secret or, if it left the spec, no value any more;
  every other key is what it was. The same holds for the configuration, and the last call records
  the pushed keys in the status.
\<close>

theorem provider_sync_converges:
  assumes "gateway_service E view"
    and "run_state (providerReconcileSync E None p) s = ((requeueAfter requeueInterval, err), t)"
  shows "\<exists>creds stored. credentialsFor E p creds \<and>
    gv_providers (view (world t)) (gatewayProviderName p) = Some stored \<and>
    convergedTo (st_credentials stored)
      (map_option st_credentials (gv_providers (view (world s)) (gatewayProviderName p)))
      creds (pt_reconciledCredentialKeys (pr_status p)) \<and>
    convergedTo (st_config stored)
      (map_option st_config (gv_providers (view (world s)) (gatewayProviderName p)))
      (ps_config (pr_spec p)) (pt_reconciledConfigKeys (pr_status p)) \<and>
    last (calls t) = CStatusUpdate (providerObj (syncedProvider E p creds (ps_config (pr_spec p))))"
    (is "?post t")
proof -
  have name: "gp_name (desiredProvider p c f) = gatewayProviderName p" for c f
    by (simp add: desiredProvider_def)
  have "wp (providerReconcileSync E None p) (\<lambda>r t. fst r = requeueAfter requeueInterval \<longrightarrow> ?post t) s"
  proof (rule gateway_service.providerReconcileSync_wp [OF assms(1)], goal_cases)
    case (2 err t creds stored d)
    then show ?case using converged_stored [OF 2(5,2)] by (auto simp: name)
  qed simp
  from wpD [OF this assms(2)] show ?thesis by simp
qed

theorem provider_sync_converges_witness:
  "\<exists>creds stored. credentialsFor memEnv exampleProvider creds \<and>
    gv_providers (memView (world (snd (run_state (providerReconcileSync memEnv None exampleProvider)
      exampleProviderSys)))) ''a.p'' = Some stored \<and>
    heldValue (st_credentials stored) ''NEW'' = mget creds ''NEW'' \<and>
    heldValue (st_credentials stored) ''OLD'' = []"
proof -
  have name: "gatewayProviderName exampleProvider = ''a.p''" by code_simp
  have run: "run_state (providerReconcileSync memEnv None exampleProvider) exampleProviderSys =
      ((requeueAfter requeueInterval, None),
       snd (run_state (providerReconcileSync memEnv None exampleProvider) exampleProviderSys))"
    using exampleProvider_run by (metis prod.collapse)
  have recorded: "pt_reconciledCredentialKeys (pr_status exampleProvider) = [''OLD'']"
    and keys: "fst ` set (ps_credentials (pr_spec exampleProvider)) = {''NEW''}"
    by (simp_all add: exampleProvider_def)
  obtain creds stored where c: "credentialsFor memEnv exampleProvider creds"
    and g: "gv_providers (memView (world (snd (run_state (providerReconcileSync memEnv None exampleProvider)
      exampleProviderSys)))) ''a.p'' = Some stored"
    and h: "convergedTo (st_credentials stored)
      (map_option st_credentials (gv_providers (memView (world exampleProviderSys)) ''a.p'')) creds [''OLD'']"
    using provider_sync_converges [OF fake.gateway_service_axioms run] unfolding name recorded by blast
  have "fst ` set creds = {''NEW''}" using c keys by (simp add: credentialsFor_def)
  then have "heldValue (st_credentials stored) ''NEW'' = mget creds ''NEW''"
    "heldValue (st_credentials stored) ''OLD'' = []"
    using h by (simp_all add: convergedTo_def mget_absent)
  then show ?thesis using c g by blast
qed

text \<open>
  C16: no key survives on the gateway without an owner. If before a sync every credential the gateway
  held was recorded in the status, then after a successful sync every key holds exactly the value
  read from its Secret, and every key with a value is again recorded in the status that the sync
  writes.
\<close>

theorem provider_sync_exact:
  assumes "gateway_service E view"
    and "run_state (providerReconcileSync E None p) s = ((requeueAfter requeueInterval, err), t)"
    and "\<And>old k. gv_providers (view (world s)) (gatewayProviderName p) = Some old \<Longrightarrow>
      heldValue (st_credentials old) k \<noteq> [] \<Longrightarrow> k \<in> set (pt_reconciledCredentialKeys (pr_status p))"
  shows "\<exists>creds stored. credentialsFor E p creds \<and>
    gv_providers (view (world t)) (gatewayProviderName p) = Some stored \<and>
    (\<forall>k. heldValue (st_credentials stored) k = mget creds k) \<and>
    (\<forall>k. heldValue (st_credentials stored) k \<noteq> [] \<longrightarrow>
      k \<in> set (pt_reconciledCredentialKeys (pr_status (syncedProvider E p creds (ps_config (pr_spec p))))))"
    (is "?post t")
proof -
  have name: "gp_name (desiredProvider p c f) = gatewayProviderName p" for c f
    by (simp add: desiredProvider_def)
  have "wp (providerReconcileSync E None p) (\<lambda>r t. fst r = requeueAfter requeueInterval \<longrightarrow> ?post t) s"
  proof (rule gateway_service.providerReconcileSync_wp [OF assms(1)], goal_cases)
    case (2 err t creds stored d)
    have exact: "heldValue (st_credentials stored) k = mget creds k" for k
      using converged_stored(1) [OF 2(5,2)] assms(3) [of _ k]
      by (cases "gv_providers (view (world s)) (gatewayProviderName p)")
        (auto simp: convergedTo_def mget_absent 2(2) name)
    have "k \<in> fst ` set creds" if "mget creds k \<noteq> []" for k
      using that mget_absent by blast
    then show ?case using 2 exact by (auto simp: name syncedProvider_def)
  qed simp
  from wpD [OF this assms(2)] show ?thesis by simp
qed

theorem provider_sync_exact_witness:
  "\<exists>creds stored. credentialsFor memEnv exampleProvider creds \<and>
    gv_providers (memView (world (snd (run_state (providerReconcileSync memEnv None exampleProvider)
      exampleProviderSys)))) ''a.p'' = Some stored \<and>
    (\<forall>k. heldValue (st_credentials stored) k = mget creds k)"
proof -
  have name: "gatewayProviderName exampleProvider = ''a.p''" by code_simp
  have run: "run_state (providerReconcileSync memEnv None exampleProvider) exampleProviderSys =
      ((requeueAfter requeueInterval, None),
       snd (run_state (providerReconcileSync memEnv None exampleProvider) exampleProviderSys))"
    using exampleProvider_run by (metis prod.collapse)
  have "k \<in> set (pt_reconciledCredentialKeys (pr_status exampleProvider))"
    if "gv_providers (memView (world exampleProviderSys)) (gatewayProviderName exampleProvider) = Some old"
      "heldValue (st_credentials old) k \<noteq> []" for old k
    using that unfolding name
    by (auto simp: exampleProviderSys_def memSys_def exampleWorld_def created_def heldValue_def
        exampleProvider_def split: if_splits)
  then show ?thesis using provider_sync_exact [OF fake.gateway_service_axioms run]
    unfolding name by blast
qed

text \<open>
  C17: a provider resource is released only once the gateway has forgotten the provider. If the delete
  handler issues the update that drops the finalizer, the gateway no longer stores the provider.
\<close>

theorem provider_release_after_delete:
  assumes "gateway_service E view"
    and "run_state (providerReconcileDelete E None p) s = (r, t)"
    and "c \<in> set (newCalls s t)" and "isUpdate c"
  shows "gv_providers (view (world t)) (gatewayProviderName p) = None"
proof -
  have "wp (providerReconcileDelete E None p) (\<lambda>r t. (\<exists>c \<in> set (newCalls s t). isUpdate c) \<longrightarrow>
      gv_providers (view (world t)) (gatewayProviderName p) = None) s"
    by (rule gateway_service.providerReconcileDelete_wp [OF assms(1)]) simp
  from wpD [OF this assms(2)] show ?thesis using assms(3,4) by blast
qed

theorem provider_release_after_delete_witness:
  "gv_providers (memView (world (snd (run_state (providerReconcileDelete memEnv None exampleProvider)
     exampleProviderSys)))) ''a.p'' = None"
proof -
  have name: "gatewayProviderName exampleProvider = ''a.p''" by code_simp
  have last: "isUpdate (last (newCalls exampleProviderSys
      (snd (run_state (providerReconcileDelete memEnv None exampleProvider) exampleProviderSys)))) \<and>
      newCalls exampleProviderSys
        (snd (run_state (providerReconcileDelete memEnv None exampleProvider) exampleProviderSys)) \<noteq> []"
    by code_simp
  show ?thesis unfolding name [symmetric]
    by (rule provider_release_after_delete [OF fake.gateway_service_axioms prod.collapse [symmetric]
        last_in_set]) (use last in blast)+
qed

text \<open>
  The controller touches the gateway only for resources that carry its finalizer, so that nothing
  it pushed can outlive the resource unnoticed: in a run of \<open>Reconcile\<close>, any call other than reading
  the resource and adding the finalizer happens only if the resource, as read, has the finalizer.
\<close>

theorem provider_acts_only_guarded:
  assumes "run_state (providerReconcile E connect n) s = (r, t)"
    and "c \<in> set (newCalls s t)" and "c \<noteq> CGet KOpenShellProvider n" and "\<not> isUpdate c"
  shows "\<exists>ob w. e_get E KOpenShellProvider n (world s) = (Inr ob, w) \<and>
    e_hasFinalizer E (ob_meta ob) providerFinalizer"
  using assms by (rule provider.acts_only_when_guarded)

theorem provider_acts_only_guarded_witness:
  "\<exists>ob w. e_get memEnv KOpenShellProvider (nsn ''a'' ''p'') (world exampleProviderSys) = (Inr ob, w) \<and>
    e_hasFinalizer memEnv (ob_meta ob) providerFinalizer"
proof -
  have dial: "CList KOpenShellGateway listAll \<in> set (newCalls exampleProviderSys
      (snd (run_state (providerReconcile memEnv None (nsn ''a'' ''p'')) exampleProviderSys)))"
    by code_simp
  show ?thesis by (rule provider_acts_only_guarded [OF prod.collapse [symmetric] dial]) simp_all
qed

text \<open>
  Two provider resources never collide on the gateway: since a namespace name has no dot, the
  derived gateway-side name determines both the namespace and the name.
\<close>

theorem provider_name_inject:
  assumes "CHR ''.'' \<notin> set (pr_namespace p)" and "CHR ''.'' \<notin> set (pr_namespace q)"
    and "gatewayProviderName p = gatewayProviderName q"
  shows "pr_namespace p = pr_namespace q \<and> pr_name p = pr_name q"
  using sep_append_inject [OF assms(1,2)] assms(3) by (simp add: gatewayProviderName_def)

theorem provider_name_inject_witness:
  "pr_namespace exampleProvider = ''a'' \<and> pr_name exampleProvider = ''p''"
  using provider_name_inject [of exampleProvider
      "exampleProvider\<lparr>pr_meta := metaFor ''p'' ''a''\<rparr>"]
  by (simp add: exampleProvider_def gatewayProviderName_def)


end
