(* ===== verification/Policy.thy ===== *)
theory Policy
  imports Controllers
begin

text \<open>
  \<^verbatim>\<open>src/internal/controller/openshellpolicy_controller.go\<close>: the gateway-global policy. Only the oldest
  OpenShellPolicy of the cluster is pushed; the others report that they are superseded.
\<close>

section \<open>Definitions\<close>

abbreviation "policyFinalizer \<equiv> ''ogo.aknochow.io/policy-cleanup''"

datatype watchEvent = CreateEvent | UpdateEvent | DeleteEvent | GenericEvent

definition policySelfWatchPredicate :: "watchEvent \<Rightarrow> bool" where
  "policySelfWatchPredicate ev = (case ev of
     CreateEvent \<Rightarrow> False | UpdateEvent \<Rightarrow> False | DeleteEvent \<Rightarrow> True | GenericEvent \<Rightarrow> False)"

definition resolveActivePolicy :: "'w env \<Rightarrow> ('w sys, goerr + openShellPolicy) state" where
  "resolveActivePolicy E = do {
     l \<leftarrow> kList E KOpenShellPolicy listAll;
     (case l of
       Inl e \<Rightarrow> ret (Inl e)
     | Inr items \<Rightarrow>
        (case oldestByCreationTimestamp objTimestamp items of
           None \<Rightarrow> ret (Inl (Errorf ''no OpenShellPolicy found in the cluster''))
         | Some ob \<Rightarrow> ret (Inr (policyOf ob))))
   }"

text \<open>\<^verbatim>\<open>uint32(ep.Port)\<close> converts an \<^verbatim>\<open>int32\<close> modulo 2 to the 32.\<close>

definition buildEndpoint :: "networkEndpoint \<Rightarrow> gwEndpoint" where
  "buildEndpoint ep = \<lparr>gn_host = ne_host ep, gn_port = word_of_int (ne_port ep),
     gn_protocol = ne_protocol ep, gn_enforcement = ne_enforcement ep, gn_access = ne_access ep\<rparr>"

definition buildRule :: "networkPolicyRule \<Rightarrow> gwRule" where
  "buildRule r = \<lparr>gr_name = nr_name r, gr_endpoints = map buildEndpoint (nr_endpoints r),
     gr_binaries = map nb_path (nr_binaries r)\<rparr>"

definition buildSandboxPolicy :: "openShellPolicySpec \<Rightarrow> sandboxPolicy" where
  "buildSandboxPolicy spec =
     \<lparr>sy_filesystem = map_option (\<lambda>f. \<lparr>fs_includeWorkdir = fs_includeWorkdir f,
        fs_readOnly = fs_readOnly f, fs_readWrite = fs_readWrite f\<rparr>) (ls_filesystem spec),
      sy_process = map_option (\<lambda>p. \<lparr>pp_runAsUser = pp_runAsUser p, pp_runAsGroup = pp_runAsGroup p\<rparr>)
        (ls_process spec),
      sy_networkPolicies = map (\<lambda>(key, rule). (key, buildRule rule)) (ls_network spec)\<rparr>"

definition policyNotReadyMessage :: "string \<Rightarrow> goerr \<Rightarrow> string" where
  "policyNotReadyMessage reason cause =
     (if reason = ''GatewayUnreachable''
      then ''failed to reach the OpenShell gateway; see operator logs for details''
      else if reason = ''InvalidPolicySpec''
      then ''the gateway rejected this policy's spec; see operator logs for details''
      else errText cause)"

definition policySetNotReady :: "'w env \<Rightarrow> openShellPolicy \<Rightarrow> string \<Rightarrow> goerr \<Rightarrow> ('w sys, outcome) state" where
  "policySetNotReady E p reason cause = do {
     (let st = pl_status p;
          p' = p\<lparr>pl_status := st\<lparr>
                 lt_conditions := e_setCond E (lt_conditions st)
                   (mkCond ''Synced'' ConditionFalse reason (policyNotReadyMessage reason cause)),
                 lt_phase := phaseFailed,
                 lt_observedGeneration := om_generation (pl_meta p)\<rparr>\<rparr> in do {
        err \<leftarrow> kStatusUpdate E (policyObj p');
        (case err of
          Some e \<Rightarrow> ret (noRequeue, Some e)
        | None \<Rightarrow> ret (requeueAfter gatewayRetryInterval, None))
      })
   }"

definition supersededPolicy :: "'w env \<Rightarrow> openShellPolicy \<Rightarrow> openShellPolicy \<Rightarrow> openShellPolicy" where
  "supersededPolicy E p active =
     p\<lparr>pl_status := (pl_status p)\<lparr>
        lt_conditions := e_setCond E (lt_conditions (pl_status p))
          (mkCond ''Synced'' ConditionFalse ''AnotherPolicyActive''
            (''OpenShellPolicy '' @ om_namespace (pl_meta active) @ ''/'' @ om_name (pl_meta active) @
             '' is the active gateway policy; this resource has no effect until it is deleted'')),
        lt_phase := phaseSuperseded,
        lt_appliedToGateway := False,
        lt_observedGeneration := om_generation (pl_meta p)\<rparr>\<rparr>"

definition syncedPolicy :: "'w env \<Rightarrow> openShellPolicy \<Rightarrow> openShellPolicy" where
  "syncedPolicy E p =
     p\<lparr>pl_status := (pl_status p)\<lparr>
        lt_appliedToGateway := True,
        lt_phase := ''Synced'',
        lt_observedGeneration := om_generation (pl_meta p),
        lt_conditions := e_setCond E (lt_conditions (pl_status p))
          (mkCond ''Synced'' ConditionTrue ''Ready''
            (''OpenShellPolicy '' @ quote (ls_policyName (pl_spec p)) @ '' is the active gateway-global policy''))\<rparr>\<rparr>"

definition policyReconcileSync :: "'w env \<Rightarrow> 'w connectFunc option \<Rightarrow> openShellPolicy \<Rightarrow>
    ('w sys, outcome) state" where
  "policyReconcileSync E connect p = do {
     a \<leftarrow> resolveActivePolicy E;
     (case a of
       Inl e \<Rightarrow> policySetNotReady E p ''PolicyListFailed'' e
     | Inr active \<Rightarrow>
        if om_uid (pl_meta active) \<noteq> om_uid (pl_meta p) then do {
          err \<leftarrow> kStatusUpdate E (policyObj (supersededPolicy E p active));
          ret (requeueAfter requeueInterval, err)
        }
        else do {
          g \<leftarrow> resolveGateway E;
          (case g of
            Inl e \<Rightarrow> policySetNotReady E p ''GatewayNotFound'' e
          | Inr gw \<Rightarrow> do {
              c \<leftarrow> gatewayClient E connect gw;
              (case c of
                Inl e \<Rightarrow> policySetNotReady E p ''GatewayUnreachable'' (Wrapf ''connecting to gateway: '' e [])
              | Inr auth \<Rightarrow> do {
                  r \<leftarrow> kRpc E auth (UpdateConfig (Some (buildSandboxPolicy (pl_spec p))) [] False True
                         defaultOpenShellWorkspace);
                  (case r of
                    Inl e \<Rightarrow>
                      if e_grpcCode E e = InvalidArgument then policySetNotReady E p ''InvalidPolicySpec'' e
                      else policySetNotReady E p ''GatewayUnreachable'' (Wrapf ''UpdateConfig: '' e [])
                  | Inr _ \<Rightarrow> do {
                      err \<leftarrow> kStatusUpdate E (policyObj (syncedPolicy E p));
                      ret (requeueAfter requeueInterval, err)
                    })
                })
            })
        })
   }"

definition hasSuccessorPolicy :: "'w env \<Rightarrow> string \<Rightarrow> ('w sys, goerr + bool) state" where
  "hasSuccessorPolicy E excludeUID = do {
     l \<leftarrow> kList E KOpenShellPolicy listAll;
     (case l of
       Inl e \<Rightarrow> ret (Inl e)
     | Inr items \<Rightarrow> ret (Inr (list_ex (\<lambda>ob. om_uid (pl_meta (policyOf ob)) \<noteq> excludeUID) items)))
   }"

text \<open>The retraction: \<open>Inl\<close> is an early return, \<open>Inr\<close> goes on to drop the finalizer.\<close>

definition retractPolicy :: "'w env \<Rightarrow> 'w connectFunc option \<Rightarrow> openShellPolicy \<Rightarrow>
    ('w sys, outcome + unit) state" where
  "retractPolicy E connect p = do {
     hs \<leftarrow> hasSuccessorPolicy E (om_uid (pl_meta p));
     (case hs of
       Inl e \<Rightarrow> ret (Inl (noRequeue, Some e))
     | Inr hasSuccessor \<Rightarrow>
        if hasSuccessor then ret (Inr ())
        else do {
          g \<leftarrow> resolveGateway E;
          (case g of
            Inl e \<Rightarrow> ret (Inl (requeueAfter gatewayRetryInterval, None))
          | Inr gw \<Rightarrow> do {
              c \<leftarrow> gatewayClient E connect gw;
              (case c of
                Inl e \<Rightarrow> ret (Inl (requeueAfter gatewayRetryInterval, None))
              | Inr auth \<Rightarrow> do {
                  r \<leftarrow> kRpc E auth (UpdateConfig None ''policy'' True True defaultOpenShellWorkspace);
                  (case r of
                    Inl e \<Rightarrow> ret (Inl (requeueAfter gatewayRetryInterval, None))
                  | Inr _ \<Rightarrow> ret (Inr ()))
                })
            })
        })
   }"

definition policyReconcileDelete :: "'w env \<Rightarrow> 'w connectFunc option \<Rightarrow> openShellPolicy \<Rightarrow>
    ('w sys, outcome) state" where
  "policyReconcileDelete E connect p =
     (if \<not> e_hasFinalizer E (pl_meta p) policyFinalizer then ret (noRequeue, None)
      else do {
        r \<leftarrow> (if lt_appliedToGateway (pl_status p) then retractPolicy E connect p else ret (Inr ()));
        (case r of
          Inl oc \<Rightarrow> ret oc
        | Inr _ \<Rightarrow> do {
            err \<leftarrow> kUpdate E (policyObj (p\<lparr>pl_meta := e_removeFinalizer E (pl_meta p) policyFinalizer\<rparr>));
            ret (noRequeue, err)
          })
      })"

definition policyReconcile :: "'w env \<Rightarrow> 'w connectFunc option \<Rightarrow> nsName \<Rightarrow> ('w sys, outcome) state" where
  "policyReconcile E connect req = do {
     r \<leftarrow> kGet E KOpenShellPolicy req;
     (case r of
       Inl e \<Rightarrow> ret (noRequeue, ignoreNotFound E e)
     | Inr ob \<Rightarrow>
        (let p = policyOf ob in
         if \<not> notDeleting (pl_meta p) then policyReconcileDelete E connect p
         else if \<not> e_hasFinalizer E (pl_meta p) policyFinalizer then do {
           err \<leftarrow> kUpdate E (policyObj (p\<lparr>pl_meta := e_addFinalizer E (pl_meta p) policyFinalizer\<rparr>));
           (case err of
             Some e \<Rightarrow> ret (noRequeue, Some e)
           | None \<Rightarrow> ret (requeueNow, None))
         }
         else policyReconcileSync E connect p))
   }"

definition findAllPolicies :: "'w env \<Rightarrow> ('w sys, nsName list) state" where
  "findAllPolicies E = do {
     l \<leftarrow> kList E KOpenShellPolicy listAll;
     (case l of
       Inl e \<Rightarrow> ret []
     | Inr items \<Rightarrow> ret (map (\<lambda>p. nsn (om_namespace (pl_meta p)) (om_name (pl_meta p))) (map policyOf items)))
   }"

section \<open>Lemmas\<close>

lemma pl_meta_policyOf [simp]: "pl_meta (policyOf ob) = ob_meta ob"
  by (simp add: policyOf_def split: body.splits)

text \<open>Reading a pushed policy back: what is recovered is the spec, less its display name.\<close>

definition endpointOf :: "gwEndpoint \<Rightarrow> networkEndpoint" where
  "endpointOf g = \<lparr>ne_host = gn_host g, ne_port = uint (gn_port g), ne_protocol = gn_protocol g,
     ne_enforcement = gn_enforcement g, ne_access = gn_access g\<rparr>"

definition ruleOf :: "gwRule \<Rightarrow> networkPolicyRule" where
  "ruleOf g = \<lparr>nr_name = gr_name g, nr_endpoints = map endpointOf (gr_endpoints g),
     nr_binaries = map (\<lambda>path. \<lparr>nb_path = path\<rparr>) (gr_binaries g)\<rparr>"

definition specOf :: "string \<Rightarrow> sandboxPolicy \<Rightarrow> openShellPolicySpec" where
  "specOf name y = \<lparr>ls_policyName = name, ls_filesystem = sy_filesystem y,
     ls_network = map (\<lambda>(key, rule). (key, ruleOf rule)) (sy_networkPolicies y), ls_process = sy_process y\<rparr>"

definition portsValid :: "openShellPolicySpec \<Rightarrow> bool" where
  "portsValid spec = list_all (\<lambda>(_, rule). list_all (\<lambda>ep. 0 \<le> ne_port ep \<and> ne_port ep < 2 ^ 32)
     (nr_endpoints rule)) (ls_network spec)"

lemma endpointOf_build: "0 \<le> ne_port ep \<Longrightarrow> ne_port ep < 2 ^ 32 \<Longrightarrow> endpointOf (buildEndpoint ep) = ep"
  by (cases ep) (simp add: endpointOf_def buildEndpoint_def uint_word_of_int)

lemma ruleOf_build:
  "list_all (\<lambda>ep. 0 \<le> ne_port ep \<and> ne_port ep < 2 ^ 32) (nr_endpoints r) \<Longrightarrow> ruleOf (buildRule r) = r"
  by (cases r) (auto simp: ruleOf_def buildRule_def list_all_iff endpointOf_build intro!: map_idI)

lemma policySetNotReady_wp:
  "(\<And>r t. fst r \<noteq> requeueAfter requeueInterval \<Longrightarrow> Q r t) \<Longrightarrow> wp (policySetNotReady E p reason cause) Q s"
  unfolding policySetNotReady_def prim_defs by (intro wp_rules) auto

lemma onlyCalls_policySetNotReady [call_rules]:
  "(\<And>ob. P (CStatusUpdate ob)) \<Longrightarrow> onlyCalls P (policySetNotReady E p reason cause)"
  unfolding policySetNotReady_def prim_defs by (intro call_rules)

lemma policySetNotReady_calls:
  "(\<And>r t ob. fst r \<noteq> requeueAfter requeueInterval \<Longrightarrow> calls t = calls s @ [CStatusUpdate ob] \<Longrightarrow> Q r t) \<Longrightarrow>
   wp (policySetNotReady E p reason cause) Q s"
  unfolding policySetNotReady_def prim_defs by (intro wp_rules) auto

text \<open>\<open>activeIn E s ob\<close>: the list call made in state \<open>s\<close> has \<open>ob\<close> as its oldest policy.\<close>

definition activeIn :: "'w env \<Rightarrow> 'w sys \<Rightarrow> kobj \<Rightarrow> bool" where
  "activeIn E s ob = (\<exists>items w. e_list E KOpenShellPolicy listAll (world s) = (Inr items, w) \<and>
     oldestByCreationTimestamp objTimestamp items = Some ob)"

lemma activeIn_oldest:
  "activeIn E s ob \<Longrightarrow> e_list E KOpenShellPolicy listAll (world s) = (Inr items, w) \<Longrightarrow>
   ob \<in> set items \<and> (\<forall>other \<in> set items. objTimestamp ob \<le> objTimestamp other)"
  unfolding activeIn_def using oldest.pick_in oldest.pick_min by fastforce

lemma resolveActivePolicy_wp:
  assumes "\<And>e w. Q (Inl e) (s\<lparr>world := w, calls := calls s @ [CList KOpenShellPolicy listAll]\<rparr>)"
    and "\<And>ob items w. activeIn E s ob \<Longrightarrow> e_list E KOpenShellPolicy listAll (world s) = (Inr items, w) \<Longrightarrow>
      Q (Inr (policyOf ob)) (s\<lparr>world := w, calls := calls s @ [CList KOpenShellPolicy listAll]\<rparr>)"
  shows "wp (resolveActivePolicy E) Q s"
  unfolding resolveActivePolicy_def prim_defs
  by (intro wp_rules) (auto intro!: assms simp: activeIn_def)

lemma policyReconcileSync_rpc:
  "wp (policyReconcileSync E None p) (\<lambda>r t. \<forall>a q. CRpc a q \<in> set (newCalls s t) \<longrightarrow>
     q = UpdateConfig (Some (buildSandboxPolicy (pl_spec p))) [] False True defaultOpenShellWorkspace \<and>
     (\<exists>ob. activeIn E s ob \<and> om_uid (ob_meta ob) = om_uid (pl_meta p))) s"
  unfolding policyReconcileSync_def kRpc_def kStatusUpdate_def
  by (intro wp_rules resolveActivePolicy_wp policySetNotReady_calls connect_calls)
    (auto simp: list_all_iff)

lemma hasSuccessorPolicy_wp:
  assumes "\<And>e w. Q (Inl e) (s\<lparr>world := w, calls := calls s @ [CList KOpenShellPolicy listAll]\<rparr>)"
    and "\<And>items w. e_list E KOpenShellPolicy listAll (world s) = (Inr items, w) \<Longrightarrow>
      Q (Inr (\<exists>ob \<in> set items. om_uid (ob_meta ob) \<noteq> uid))
        (s\<lparr>world := w, calls := calls s @ [CList KOpenShellPolicy listAll]\<rparr>)"
  shows "wp (hasSuccessorPolicy E uid) Q s"
  unfolding hasSuccessorPolicy_def prim_defs
  by (intro wp_rules) (auto intro!: assms simp: list_ex_iff)

text \<open>\<open>onlyPolicy E s uid\<close>: every policy of the cluster, as listed in state \<open>s\<close>, has this UID.\<close>

definition onlyPolicy :: "'w env \<Rightarrow> 'w sys \<Rightarrow> string \<Rightarrow> bool" where
  "onlyPolicy E s uid = (\<exists>items w. e_list E KOpenShellPolicy listAll (world s) = (Inr items, w) \<and>
     (\<forall>ob \<in> set items. om_uid (ob_meta ob) = uid))"

lemma policyReconcileDelete_rpc:
  "wp (policyReconcileDelete E None p) (\<lambda>r t. \<forall>a q. CRpc a q \<in> set (newCalls s t) \<longrightarrow>
     lt_appliedToGateway (pl_status p) \<and> onlyPolicy E s (om_uid (pl_meta p)) \<and>
     q = UpdateConfig None ''policy'' True True defaultOpenShellWorkspace) s"
  unfolding policyReconcileDelete_def retractPolicy_def kRpc_def kUpdate_def
  by (intro wp_rules hasSuccessorPolicy_wp connect_calls)
    (auto simp: list_all_iff onlyPolicy_def)

context gateway_service
begin

lemma policyReconcileSync_wp:
  assumes "\<And>r t. fst r \<noteq> requeueAfter requeueInterval \<Longrightarrow> Q r t"
    and "\<And>err t ob. activeIn E s ob \<Longrightarrow> om_uid (ob_meta ob) \<noteq> om_uid (pl_meta p) \<Longrightarrow>
      view (world t) = view (world s) \<Longrightarrow>
      last (calls t) = CStatusUpdate (policyObj (supersededPolicy E p (policyOf ob))) \<Longrightarrow>
      Q (requeueAfter requeueInterval, err) t"
    and "\<And>err t ob. activeIn E s ob \<Longrightarrow> om_uid (ob_meta ob) = om_uid (pl_meta p) \<Longrightarrow>
      gv_policy (view (world t)) = Some (buildSandboxPolicy (pl_spec p)) \<Longrightarrow>
      last (calls t) = CStatusUpdate (policyObj (syncedPolicy E p)) \<Longrightarrow>
      Q (requeueAfter requeueInterval, err) t"
  shows "wp (policyReconcileSync E None p) Q s"
  unfolding policyReconcileSync_def kRpc_def kStatusUpdate_def
  apply (intro wp_rules resolveActivePolicy_wp policySetNotReady_wp resolveGateway_wp gatewayClient_wp)
  apply ((rule assms(1), simp; fail)+)?
   apply (rule assms(2); auto simp: frameD)
  apply ((rule assms(1), simp; fail)+)?
  apply (rule assms(3); auto simp: frameD dest!: setPolicy_ok)
  done

lemma policyReconcileDelete_wp:
  assumes "\<And>r t cs. calls t = calls s @ cs \<Longrightarrow> (\<exists>c \<in> set cs. isUpdate c) \<longrightarrow>
      \<not> lt_appliedToGateway (pl_status p) \<or> \<not> onlyPolicy E s (om_uid (pl_meta p)) \<or>
      gv_policy (view (world t)) = None \<Longrightarrow> Q r t"
  shows "wp (policyReconcileDelete E None p) Q s"
  unfolding policyReconcileDelete_def retractPolicy_def kRpc_def kUpdate_def
  apply (intro wp_rules hasSuccessorPolicy_wp resolveGateway_wp gatewayClient_wp)
  apply (auto intro!: assms simp: list_all_iff onlyPolicy_def frameD dest!: deletePolicy_ok)
  done

end

section \<open>The controller as a finalizer-guarded reconciler\<close>

interpretation policy: finalizer_controller E KOpenShellPolicy policyFinalizer requeueNow
  "\<lambda>ob. policyObj ((policyOf ob)\<lparr>pl_meta := e_addFinalizer E (ob_meta ob) policyFinalizer\<rparr>)"
  "\<lambda>ob. policyReconcileSync E connect (policyOf ob)"
  "\<lambda>ob. policyReconcileDelete E connect (policyOf ob)"
  "policyReconcile E connect" for E :: "'w env" and connect
  unfolding policyReconcile_def Let_def pl_meta_policyOf
  by unfold_locales (simp_all add: policyReconcileDelete_def)

section \<open>Example\<close>

text \<open>Two policies; the older one is applied to the gateway and both are being deleted.\<close>

definition examplePolicy :: "string \<Rightarrow> int \<Rightarrow> int option \<Rightarrow> bool \<Rightarrow> openShellPolicy" where
  "examplePolicy n birth deleted applied =
     \<lparr>pl_meta = (metaFor n ''a'')\<lparr>om_uid := ''uid-'' @ n, om_creationTimestamp := birth,
        om_deletionTimestamp := deleted, om_finalizers := [policyFinalizer]\<rparr>,
      pl_spec = zeroPolicySpec\<lparr>ls_network := [(''web'', \<lparr>nr_name = ''web'',
        nr_endpoints = [\<lparr>ne_host = ''h'', ne_port = 443, ne_protocol = ''rest'', ne_enforcement = [], ne_access = []\<rparr>],
        nr_binaries = []\<rparr>)]\<rparr>,
      pl_status = zeroPolicyStatus\<lparr>lt_appliedToGateway := applied\<rparr>\<rparr>"

definition livePolicySys :: "memWorld sys" where
  "livePolicySys = memSys (exampleWorld
     [policyObj (examplePolicy ''old'' 1 None False), policyObj (examplePolicy ''new'' 2 None False)]
     newFakeOpenShellServer)"

definition appliedPolicySys :: "memWorld sys" where
  "appliedPolicySys = memSys (exampleWorld [policyObj (examplePolicy ''old'' 1 (Some 5) True)]
     (newFakeOpenShellServer\<lparr>fk_globalPolicy := Some (buildSandboxPolicy zeroPolicySpec)\<rparr>))"

section \<open>Properties\<close>

text \<open>
  C3: only the active policy is ever pushed. In every environment, a gateway call of \<open>reconcileSync\<close>
  sets the global policy to this resource's own translated spec, and is made only if the oldest
  policy that the preceding list call returned is this very resource (by UID); no listed policy is
  older. So of two resources that see the same list, at most one pushes.
\<close>

theorem policy_only_active_pushes:
  assumes "run_state (policyReconcileSync E None p) s = (r, t)" and "CRpc a q \<in> set (newCalls s t)"
  shows "q = UpdateConfig (Some (buildSandboxPolicy (pl_spec p))) [] False True ''default'' \<and>
    (\<exists>items w ob. e_list E KOpenShellPolicy listAll (world s) = (Inr items, w) \<and> ob \<in> set items \<and>
      om_uid (ob_meta ob) = om_uid (pl_meta p) \<and>
      oldestByCreationTimestamp objTimestamp items = Some ob \<and>
      (\<forall>other \<in> set items. objTimestamp ob \<le> objTimestamp other))"
proof -
  obtain ob where q: "q = UpdateConfig (Some (buildSandboxPolicy (pl_spec p))) [] False True ''default''"
    and ob: "activeIn E s ob" "om_uid (ob_meta ob) = om_uid (pl_meta p)"
    using wpD [OF policyReconcileSync_rpc assms(1)] assms(2) by blast
  then obtain items w where "e_list E KOpenShellPolicy listAll (world s) = (Inr items, w)"
    "oldestByCreationTimestamp objTimestamp items = Some ob"
    unfolding activeIn_def by blast
  with activeIn_oldest [OF ob(1)] show ?thesis using q ob(2) by fast
qed

theorem policy_only_active_pushes_witness:
  "\<exists>items w ob. e_list memEnv KOpenShellPolicy listAll (world livePolicySys) = (Inr items, w) \<and>
     ob \<in> set items \<and> om_uid (ob_meta ob) = ''uid-old'' \<and>
     (\<forall>other \<in> set items. objTimestamp ob \<le> objTimestamp other)"
proof -
  have uid: "om_uid (pl_meta (examplePolicy ''old'' 1 None False)) = ''uid-old''"
    by (simp add: examplePolicy_def)
  have "list_ex isRpc (newCalls livePolicySys (snd (run_state
      (policyReconcileSync memEnv None (examplePolicy ''old'' 1 None False)) livePolicySys)))"
    by code_simp
  then obtain a q where "CRpc a q \<in> set (newCalls livePolicySys (snd (run_state
      (policyReconcileSync memEnv None (examplePolicy ''old'' 1 None False)) livePolicySys)))"
    using list_ex_isRpc by blast
  from policy_only_active_pushes [OF prod.collapse [symmetric] this] show ?thesis unfolding uid by blast
qed

text \<open>
  The effect of a successful sync. When \<open>reconcileSync\<close> ends with its success result, either the
  resource was the active policy, the gateway's global policy is now the translation of its spec and
  the status says it is applied; or another policy was active, the gateway is untouched, and the
  status says the resource is superseded and not applied.
\<close>

theorem policy_sync_effect:
  assumes "gateway_service E view"
    and "run_state (policyReconcileSync E None p) s = ((requeueAfter requeueInterval, err), t)"
  shows "\<exists>ob. activeIn E s ob \<and>
    (if om_uid (ob_meta ob) = om_uid (pl_meta p)
     then gv_policy (view (world t)) = Some (buildSandboxPolicy (pl_spec p)) \<and>
       last (calls t) = CStatusUpdate (policyObj (syncedPolicy E p)) \<and>
       lt_appliedToGateway (pl_status (syncedPolicy E p))
     else view (world t) = view (world s) \<and>
       last (calls t) = CStatusUpdate (policyObj (supersededPolicy E p (policyOf ob))) \<and>
       \<not> lt_appliedToGateway (pl_status (supersededPolicy E p (policyOf ob))))"
    (is "?post t")
proof -
  have "wp (policyReconcileSync E None p) (\<lambda>r t. fst r = requeueAfter requeueInterval \<longrightarrow> ?post t) s"
  proof (rule gateway_service.policyReconcileSync_wp [OF assms(1)], goal_cases)
    case (2 err t ob)
    then show ?case by (intro impI exI [of _ ob]) (simp add: supersededPolicy_def)
  next
    case (3 err t ob)
    then show ?case by (intro impI exI [of _ ob]) (simp add: syncedPolicy_def)
  qed simp
  from wpD [OF this assms(2)] show ?thesis by simp
qed

theorem policy_sync_effect_witness:
  "\<exists>ob. activeIn memEnv livePolicySys ob \<and>
    (if om_uid (ob_meta ob) = ''uid-new''
     then gv_policy (memView (world (snd (run_state (policyReconcileSync memEnv None
        (examplePolicy ''new'' 2 None False)) livePolicySys)))) =
        Some (buildSandboxPolicy (pl_spec (examplePolicy ''new'' 2 None False)))
     else memView (world (snd (run_state (policyReconcileSync memEnv None
        (examplePolicy ''new'' 2 None False)) livePolicySys))) = memView (world livePolicySys))"
proof -
  have uid: "om_uid (pl_meta (examplePolicy ''new'' 2 None False)) = ''uid-new''"
    by (simp add: examplePolicy_def)
  have "fst (run_state (policyReconcileSync memEnv None (examplePolicy ''new'' 2 None False)) livePolicySys)
      = (requeueAfter requeueInterval, None)"
    by code_simp
  then have "run_state (policyReconcileSync memEnv None (examplePolicy ''new'' 2 None False)) livePolicySys
      = ((requeueAfter requeueInterval, None), snd (run_state (policyReconcileSync memEnv None
        (examplePolicy ''new'' 2 None False)) livePolicySys))"
    by (metis prod.collapse)
  from policy_sync_effect [OF fake.gateway_service_axioms this] show ?thesis
    unfolding uid by (metis (no_types, lifting))
qed

text \<open>
  Deletion retracts exactly when it must. In every environment, the delete handler calls the
  gateway only to delete the global policy, only for a resource that was applied, and only if no
  other policy resource is listed.
\<close>

theorem policy_delete_retracts_own:
  assumes "run_state (policyReconcileDelete E None p) s = (r, t)" and "CRpc a q \<in> set (newCalls s t)"
  shows "q = UpdateConfig None ''policy'' True True ''default'' \<and> lt_appliedToGateway (pl_status p) \<and>
    (\<exists>items w. e_list E KOpenShellPolicy listAll (world s) = (Inr items, w) \<and>
      (\<forall>ob \<in> set items. om_uid (ob_meta ob) = om_uid (pl_meta p)))"
  using wpD [OF policyReconcileDelete_rpc assms(1)] assms(2) unfolding onlyPolicy_def by blast

theorem policy_delete_retracts_own_witness:
  "\<exists>items w. e_list memEnv KOpenShellPolicy listAll (world appliedPolicySys) = (Inr items, w) \<and>
     (\<forall>ob \<in> set items. om_uid (ob_meta ob) = ''uid-old'')"
proof -
  have uid: "om_uid (pl_meta (examplePolicy ''old'' 1 (Some 5) True)) = ''uid-old''"
    by (simp add: examplePolicy_def)
  have "list_ex isRpc (newCalls appliedPolicySys (snd (run_state
      (policyReconcileDelete memEnv None (examplePolicy ''old'' 1 (Some 5) True)) appliedPolicySys)))"
    by code_simp
  then obtain a q where "CRpc a q \<in> set (newCalls appliedPolicySys (snd (run_state
      (policyReconcileDelete memEnv None (examplePolicy ''old'' 1 (Some 5) True)) appliedPolicySys)))"
    using list_ex_isRpc by blast
  from policy_delete_retracts_own [OF prod.collapse [symmetric] this] show ?thesis unfolding uid by blast
qed

text \<open>
  C18: an applied policy without a successor is not released before the gateway has dropped it. If
  the delete handler issues the update that removes the finalizer, then the resource was not
  applied, or another policy is listed, or the gateway has no global policy any more.
\<close>

theorem policy_release_after_retract:
  assumes "gateway_service E view"
    and "run_state (policyReconcileDelete E None p) s = (r, t)"
    and "c \<in> set (newCalls s t)" and "isUpdate c"
    and "lt_appliedToGateway (pl_status p)" and "onlyPolicy E s (om_uid (pl_meta p))"
  shows "gv_policy (view (world t)) = None"
proof -
  have "wp (policyReconcileDelete E None p) (\<lambda>r t. (\<exists>c \<in> set (newCalls s t). isUpdate c) \<longrightarrow>
      \<not> lt_appliedToGateway (pl_status p) \<or> \<not> onlyPolicy E s (om_uid (pl_meta p)) \<or>
      gv_policy (view (world t)) = None) s"
    by (rule gateway_service.policyReconcileDelete_wp [OF assms(1)]) simp
  from wpD [OF this assms(2)] show ?thesis using assms(3-6) by blast
qed

theorem policy_release_after_retract_witness:
  "gv_policy (memView (world (snd (run_state (policyReconcileDelete memEnv None
     (examplePolicy ''old'' 1 (Some 5) True)) appliedPolicySys)))) = None"
proof -
  have last: "isUpdate (last (newCalls appliedPolicySys (snd (run_state (policyReconcileDelete memEnv None
      (examplePolicy ''old'' 1 (Some 5) True)) appliedPolicySys)))) \<and>
      newCalls appliedPolicySys (snd (run_state (policyReconcileDelete memEnv None
      (examplePolicy ''old'' 1 (Some 5) True)) appliedPolicySys)) \<noteq> []"
    by code_simp
  have only: "onlyPolicy memEnv appliedPolicySys (om_uid (pl_meta (examplePolicy ''old'' 1 (Some 5) True)))"
    by (simp add: onlyPolicy_def memEnv_def memList_def appliedPolicySys_def memSys_def exampleWorld_def
        policyObj_def gatewayObj_def exampleKeys_def labelsMatch_def)
  show ?thesis
    by (rule policy_release_after_retract [OF fake.gateway_service_axioms prod.collapse [symmetric] last_in_set
          _ _ only]) (use last in \<open>auto simp: examplePolicy_def\<close>)
qed

text \<open>
  Two policies deleted together leave the last applied policy on the gateway. The older, applied
  policy is not retracted because the other one, though itself being deleted, counts as a successor;
  the other one was never applied and retracts nothing. After both delete handlers have released
  their resource, the gateway still enforces the deleted policy.
\<close>

theorem policy_double_delete_leaves_policy:
  "let older = examplePolicy ''old'' 1 (Some 5) True; newer = examplePolicy ''new'' 2 (Some 5) False;
       s0 = memSys (exampleWorld [policyObj older, policyObj newer]
              (newFakeOpenShellServer\<lparr>fk_globalPolicy := Some (buildSandboxPolicy (pl_spec older))\<rparr>));
       s1 = snd (run_state (policyReconcile memEnv None (nsn ''a'' ''old'')) s0);
       s2 = snd (run_state (policyReconcile memEnv None (nsn ''a'' ''new'')) s1)
   in list_all (\<lambda>ob. om_finalizers (ob_meta ob) = []) (mw_objs (world s2)) \<and>
      fk_globalPolicy (mw_fake (world s2)) = Some (buildSandboxPolicy (pl_spec older))"
  by code_simp

text \<open>
  C33: the translation to the gateway's message loses nothing but the display name: for ports in the
  range of an unsigned 32-bit number, the spec can be read back from the translated policy, so two
  specs with the same translation differ at most in their display name.
\<close>

theorem buildSandboxPolicy_roundtrip:
  assumes "portsValid spec"
  shows "specOf (ls_policyName spec) (buildSandboxPolicy spec) = spec"
proof -
  have "map ((\<lambda>(key, rule). (key, ruleOf rule)) \<circ> (\<lambda>(key, rule). (key, buildRule rule))) (ls_network spec) = ls_network spec"
    using assms by (intro map_idI) (auto simp: portsValid_def list_all_iff ruleOf_build)
  moreover have "map_option (\<lambda>f. \<lparr>fs_includeWorkdir = fs_includeWorkdir f, fs_readOnly = fs_readOnly f,
      fs_readWrite = fs_readWrite f\<rparr>) x = (x :: filesystemPolicy option)" for x
    by (cases x) simp_all
  moreover have "map_option (\<lambda>p. \<lparr>pp_runAsUser = pp_runAsUser p, pp_runAsGroup = pp_runAsGroup p\<rparr>) y =
      (y :: processPolicy option)" for y
    by (cases y) simp_all
  ultimately show ?thesis by (simp add: specOf_def buildSandboxPolicy_def)
qed

theorem buildSandboxPolicy_roundtrip_witness:
  "specOf [] (buildSandboxPolicy (pl_spec (examplePolicy ''old'' 1 None True))) =
   pl_spec (examplePolicy ''old'' 1 None True)"
  using buildSandboxPolicy_roundtrip [of "pl_spec (examplePolicy ''old'' 1 None True)"]
  by (simp add: examplePolicy_def portsValid_def zeroPolicySpec_def)

end
