(* ===== verification/Member.thy ===== *)
theory Member
  imports Controllers
begin

text \<open>
  \<^verbatim>\<open>src/internal/controller/openshellworkspacemember_controller.go\<close>: workspace membership of a
  ServiceAccount, identified on the gateway by the account's UID.
\<close>

section \<open>Definitions\<close>

abbreviation "workspaceMemberFinalizer \<equiv> ''ogo.aknochow.io/workspace-member-cleanup''"

definition errMembershipRemoved :: goerr where
  "errMembershipRemoved = Errorf ''workspace membership removed but re-add failed''"

definition memberNotReadyMessage :: "string \<Rightarrow> goerr \<Rightarrow> string" where
  "memberNotReadyMessage reason cause =
     (if reason = ''GatewayUnreachable''
      then ''failed to reach the OpenShell gateway; see operator logs for details''
      else errText cause)"

definition memberSetNotReady :: "'w env \<Rightarrow> openShellWorkspaceMember \<Rightarrow> string \<Rightarrow> goerr \<Rightarrow> ('w sys, outcome) state" where
  "memberSetNotReady E m reason cause = do {
     (let st = wm_status m;
          m' = m\<lparr>wm_status := st\<lparr>
                 mt_conditions := e_setCond E (mt_conditions st)
                   (mkCond ''Ready'' ConditionFalse reason (memberNotReadyMessage reason cause)),
                 mt_phase := ''Failed'',
                 mt_observedGeneration := om_generation (wm_meta m)\<rparr>\<rparr> in do {
        err \<leftarrow> kStatusUpdate E (memberObj m');
        (case err of
          Some e \<Rightarrow> ret (noRequeue, Some e)
        | None \<Rightarrow> ret (requeueAfter gatewayRetryInterval, None))
      })
   }"

definition workspaceRoleFromSpec :: "string \<Rightarrow> workspaceRole" where
  "workspaceRoleFromSpec role = (if role = ''admin'' then WORKSPACE_ROLE_ADMIN else WORKSPACE_ROLE_USER)"

definition findMemberRole :: "'w env \<Rightarrow> string \<Rightarrow> string \<Rightarrow> string \<Rightarrow> ('w sys, goerr + workspaceRole) state" where
  "findMemberRole E auth workspace sub = do {
     r \<leftarrow> kRpc E auth (ListWorkspaceMembers workspace 1000);
     (case r of
       Inl e \<Rightarrow> ret (Inl (Wrapf ''ListWorkspaceMembers: '' e []))
     | Inr resp \<Rightarrow>
        (case find (\<lambda>(s, _). s = sub) (respMembers resp) of
           Some (_, role) \<Rightarrow> ret (Inr role)
         | None \<Rightarrow> ret (Inl (Errorf (''member '' @ quote sub @ '' not found in workspace '' @ quote workspace @
               '' despite AlreadyExists'')))))
   }"

definition addMemberWithClient :: "'w env \<Rightarrow> string \<Rightarrow> string \<Rightarrow> string \<Rightarrow> workspaceRole \<Rightarrow>
    ('w sys, goerr option) state" where
  "addMemberWithClient E auth workspace sub role = do {
     r \<leftarrow> kRpc E auth (AddWorkspaceMember workspace sub role);
     (case r of
       Inr _ \<Rightarrow> ret None
     | Inl e \<Rightarrow>
        if e_grpcCode E e \<noteq> AlreadyExists then ret (Some (Wrapf ''AddWorkspaceMember: '' e []))
        else do {
          f \<leftarrow> findMemberRole E auth workspace sub;
          (case f of
            Inl e2 \<Rightarrow> ret (Some (Wrapf ''looking up existing member after AlreadyExists: '' e2 []))
          | Inr existingRole \<Rightarrow>
              if existingRole = role then ret None
              else do {
                d \<leftarrow> kRpc E auth (RemoveWorkspaceMember workspace sub);
                (case d of
                  Inl e3 \<Rightarrow> ret (Some (Wrapf ''RemoveWorkspaceMember (role change): '' e3 []))
                | Inr _ \<Rightarrow> do {
                    a \<leftarrow> kRpc E auth (AddWorkspaceMember workspace sub role);
                    (case a of
                      Inl e4 \<Rightarrow> ret (Some (Wrapf [] errMembershipRemoved
                        ('': AddWorkspaceMember (role change): '' @ errText e4)))
                    | Inr _ \<Rightarrow> ret None)
                  })
              })
        })
   }"

definition removeMemberWithClient :: "'w env \<Rightarrow> string \<Rightarrow> string \<Rightarrow> string \<Rightarrow> ('w sys, goerr option) state" where
  "removeMemberWithClient E auth workspace sub = do {
     r \<leftarrow> kRpc E auth (RemoveWorkspaceMember workspace sub);
     (case r of
       Inl e \<Rightarrow> ret (Some (Wrapf ''RemoveWorkspaceMember: '' e []))
     | Inr _ \<Rightarrow> ret None)
   }"

definition removeMember :: "'w env \<Rightarrow> 'w connectFunc option \<Rightarrow> openShellGateway \<Rightarrow> string \<Rightarrow> string \<Rightarrow>
    ('w sys, goerr option) state" where
  "removeMember E connect gw workspace sub = do {
     c \<leftarrow> gatewayClient E connect gw;
     (case c of
       Inl e \<Rightarrow> ret (Some e)
     | Inr auth \<Rightarrow> removeMemberWithClient E auth workspace sub)
   }"

abbreviation setSubject :: "string \<Rightarrow> openShellWorkspaceMember \<Rightarrow> openShellWorkspaceMember" where
  "setSubject sub m \<equiv> m\<lparr>wm_status := (wm_status m)\<lparr>mt_reconciledSubject := sub\<rparr>\<rparr>"

definition saText :: "openShellWorkspaceMember \<Rightarrow> string" where
  "saText m = ''ServiceAccount '' @ om_namespace (wm_meta m) @ ''/'' @ sr_name (ms_serviceAccountRef (wm_spec m))"

definition syncedMember :: "'w env \<Rightarrow> openShellWorkspaceMember \<Rightarrow> string \<Rightarrow> openShellWorkspaceMember" where
  "syncedMember E m sub =
     m\<lparr>wm_status := (wm_status m)\<lparr>
        mt_reconciledSubject := sub,
        mt_phase := ''Synced'',
        mt_observedGeneration := om_generation (wm_meta m),
        mt_conditions := e_setCond E (mt_conditions (wm_status m))
          (mkCond ''Ready'' ConditionTrue ''Synced''
            (sr_name (ms_serviceAccountRef (wm_spec m)) @ '' is a '' @ ms_role (wm_spec m) @
             '' member of workspace '' @ quote (ms_workspace (wm_spec m))))\<rparr>\<rparr>"

text \<open>The part of \<open>reconcileSync\<close> after the identity is found missing.\<close>

definition identityMissing :: "'w env \<Rightarrow> 'w connectFunc option \<Rightarrow> openShellGateway \<Rightarrow>
    openShellWorkspaceMember \<Rightarrow> ('w sys, outcome) state" where
  "identityMissing E connect gw m =
     (let notFound = Errorf (saText m @ '' not found'') in
      if mt_reconciledSubject (wm_status m) \<noteq> [] then do {
        rmErr \<leftarrow> removeMember E connect gw (ms_workspace (wm_spec m)) (mt_reconciledSubject (wm_status m));
        (case rmErr of
          Some e \<Rightarrow> memberSetNotReady E m ''GatewayUnreachable''
            (Wrapf ''removing stale membership for a deleted identity: '' e [])
        | None \<Rightarrow> memberSetNotReady E (setSubject [] m) ''IdentityNotFound'' notFound)
      }
      else memberSetNotReady E m ''IdentityNotFound'' notFound)"

text \<open>The part of \<open>reconcileSync\<close> over an open connection, once the subject is known.\<close>

definition grantMembership :: "'w env \<Rightarrow> string \<Rightarrow> openShellWorkspaceMember \<Rightarrow> string \<Rightarrow> ('w sys, outcome) state" where
  "grantMembership E auth m0 currentSubject = do {
     st \<leftarrow> (if mt_reconciledSubject (wm_status m0) \<noteq> [] \<and> mt_reconciledSubject (wm_status m0) \<noteq> currentSubject
        then do {
          err \<leftarrow> removeMemberWithClient E auth (ms_workspace (wm_spec m0)) (mt_reconciledSubject (wm_status m0));
          (case err of
            Some e \<Rightarrow> do {
              oc \<leftarrow> memberSetNotReady E m0 ''GatewayUnreachable''
                (Wrapf ''removing stale membership for recreated identity: '' e []);
              ret (Inl oc)
            }
          | None \<Rightarrow> ret (Inr (setSubject [] m0)))
        }
        else ret (Inr m0));
     (case st of
       Inl oc \<Rightarrow> ret oc
     | Inr m \<Rightarrow> do {
         err \<leftarrow> addMemberWithClient E auth (ms_workspace (wm_spec m)) currentSubject
                  (workspaceRoleFromSpec (ms_role (wm_spec m)));
         (case err of
           Some e \<Rightarrow> memberSetNotReady E (if errIs e errMembershipRemoved then setSubject [] m else m)
             ''GatewayUnreachable'' e
         | None \<Rightarrow> do {
             uerr \<leftarrow> kStatusUpdate E (memberObj (syncedMember E m currentSubject));
             ret (requeueAfter requeueInterval, uerr)
           })
       })
   }"

definition memberReconcileSync :: "'w env \<Rightarrow> 'w connectFunc option \<Rightarrow> openShellWorkspaceMember \<Rightarrow>
    ('w sys, outcome) state" where
  "memberReconcileSync E connect m = do {
     g \<leftarrow> resolveGateway E;
     (case g of
       Inl e \<Rightarrow> memberSetNotReady E m ''GatewayNotFound'' e
     | Inr gw \<Rightarrow> do {
         r \<leftarrow> kGet E KServiceAccount (nsn (om_namespace (wm_meta m)) (sr_name (ms_serviceAccountRef (wm_spec m))));
         (case r of
           Inl e \<Rightarrow>
             if \<not> e_isNotFound E e then ret (noRequeue, Some e)
             else identityMissing E connect gw m
         | Inr sa \<Rightarrow>
             if om_uid (ob_meta sa) = []
             then memberSetNotReady E m ''IdentityNotFound'' (Errorf (saText m @ '' has no uid''))
             else do {
               c \<leftarrow> gatewayClient E connect gw;
               (case c of
                 Inl e \<Rightarrow> memberSetNotReady E m ''GatewayUnreachable'' (Wrapf ''connecting to gateway: '' e [])
               | Inr auth \<Rightarrow> grantMembership E auth m (om_uid (ob_meta sa)))
             })
       })
   }"

definition memberReconcileDelete :: "'w env \<Rightarrow> 'w connectFunc option \<Rightarrow> openShellWorkspaceMember \<Rightarrow>
    ('w sys, outcome) state" where
  "memberReconcileDelete E connect m =
     (if \<not> e_hasFinalizer E (wm_meta m) workspaceMemberFinalizer then ret (noRequeue, None)
      else do {
        r \<leftarrow> (if mt_reconciledSubject (wm_status m) \<noteq> [] then do {
            g \<leftarrow> resolveGateway E;
            (case g of
              Inl e \<Rightarrow> ret (Inl (requeueAfter gatewayRetryInterval, None))
            | Inr gw \<Rightarrow> do {
                err \<leftarrow> removeMember E connect gw (ms_workspace (wm_spec m)) (mt_reconciledSubject (wm_status m));
                (case err of
                  Some e \<Rightarrow> ret (Inl (requeueAfter gatewayRetryInterval, None))
                | None \<Rightarrow> ret (Inr ()))
              })
          }
          else ret (Inr ()));
        (case r of
          Inl oc \<Rightarrow> ret oc
        | Inr _ \<Rightarrow> do {
            err \<leftarrow> kUpdate E (memberObj (m\<lparr>wm_meta := e_removeFinalizer E (wm_meta m) workspaceMemberFinalizer\<rparr>));
            ret (noRequeue, err)
          })
      })"

definition memberReconcile :: "'w env \<Rightarrow> 'w connectFunc option \<Rightarrow> nsName \<Rightarrow> ('w sys, outcome) state" where
  "memberReconcile E connect req = do {
     r \<leftarrow> kGet E KOpenShellWorkspaceMember req;
     (case r of
       Inl e \<Rightarrow> ret (noRequeue, ignoreNotFound E e)
     | Inr ob \<Rightarrow>
        (let m = memberOf ob in
         if \<not> notDeleting (wm_meta m) then memberReconcileDelete E connect m
         else if \<not> e_hasFinalizer E (wm_meta m) workspaceMemberFinalizer then do {
           err \<leftarrow> kUpdate E (memberObj (m\<lparr>wm_meta := e_addFinalizer E (wm_meta m) workspaceMemberFinalizer\<rparr>));
           (case err of
             Some e \<Rightarrow> ret (noRequeue, Some e)
           | None \<Rightarrow> ret (requeueAfter 1, None))
         }
         else memberReconcileSync E connect m))
   }"

section \<open>Lemmas\<close>

lemma wm_meta_memberOf [simp]: "wm_meta (memberOf ob) = ob_meta ob"
  by (simp add: memberOf_def split: body.splits)

lemma syncedMember_setSubject [simp]: "syncedMember E (setSubject x m) sub = syncedMember E m sub"
  by (simp add: syncedMember_def)

lemma memberSetNotReady_result:
  "(\<And>r t. fst r \<noteq> requeueAfter requeueInterval \<Longrightarrow> Q r t) \<Longrightarrow> wp (memberSetNotReady E m reason cause) Q s"
  unfolding memberSetNotReady_def prim_defs by (intro wp_rules) auto

text \<open>\<open>othersKept ws subs v v'\<close>: no membership but those of \<open>subs\<close> in \<open>ws\<close> differs.\<close>

definition othersKept :: "string \<Rightarrow> string set \<Rightarrow> gatewayView \<Rightarrow> gatewayView \<Rightarrow> bool" where
  "othersKept ws subs v v' = (\<forall>ws' sub'. \<not> (ws' = ws \<and> sub' \<in> subs) \<longrightarrow>
     gv_members v' ws' sub' = gv_members v ws' sub')"

lemma othersKept_refl [simp]: "othersKept ws subs v v"
  by (simp add: othersKept_def)

lemma othersKept_trans:
  "othersKept ws A v v' \<Longrightarrow> othersKept ws B v' v'' \<Longrightarrow> othersKept ws (A \<union> B) v v''"
  by (simp add: othersKept_def)

lemma othersKept_trans_same: "othersKept ws A v v' \<Longrightarrow> othersKept ws A v' v'' \<Longrightarrow> othersKept ws A v v''"
  by (simp add: othersKept_def)

lemma othersKept_setMember [simp]: "othersKept ws {sub} v (setMember ws sub r v)"
  by (simp add: othersKept_def)

lemma othersKept_sub: "othersKept ws A v v' \<Longrightarrow> \<not> (ws' = ws \<and> x \<in> A) \<Longrightarrow> gv_members v' ws' x = gv_members v ws' x"
  by (simp add: othersKept_def)

context gateway_service
begin

lemma add_others: "e_rpc E a (AddWorkspaceMember ws sub role) w = (r, w') \<Longrightarrow> othersKept ws {sub} (view w) (view w')"
  unfolding othersKept_def using add_frame by blast

lemma remove_others: "e_rpc E a (RemoveWorkspaceMember ws sub) w = (r, w') \<Longrightarrow> othersKept ws {sub} (view w) (view w')"
  unfolding othersKept_def using remove_frame by blast

lemma findMemberRole_wp:
  assumes "\<And>e t. view (world t) = view (world s) \<Longrightarrow> Q (Inl e) t"
    and "\<And>role t. view (world t) = view (world s) \<Longrightarrow> gv_members (view (world s)) ws sub = Some role \<Longrightarrow> Q (Inr role) t"
  shows "wp (findMemberRole E auth ws sub) Q s"
proof -
  have lf: "view w' = view w" if "e_rpc E auth (ListWorkspaceMembers ws 1000) w = (r, w')" for r w w'
    using list_frame' [of auth ws 1000 w] that by simp
  have found: "gv_members (view w) ws sub = Some role"
    if "e_rpc E auth (ListWorkspaceMembers ws 1000) w = (Inr resp, w')"
      "find (\<lambda>(x, _). x = sub) (respMembers resp) = Some (x, role)" for resp w w' x role
  proof -
    have "(x, role) \<in> set (respMembers resp)" "x = sub"
      using that(2) by (auto simp: find_Some_iff dest: nth_mem)
    then show ?thesis using list_ok [OF that(1)] by simp
  qed
  show ?thesis unfolding findMemberRole_def prim_defs
    by (intro wp_rules) (auto intro!: assms simp: lf dest: found)
qed

text \<open>The two calls, with everything their contracts say.\<close>

lemma addRpc_wp:
  assumes "\<And>r t. othersKept ws {sub} (view (world s)) (view (world t)) \<Longrightarrow>
      (\<forall>x. r = Inr x \<longrightarrow> gv_members (view (world t)) ws sub = Some role) \<Longrightarrow>
      (\<forall>e. r = Inl e \<longrightarrow> e_grpcCode E e = AlreadyExists \<longrightarrow> view (world t) = view (world s)) \<Longrightarrow> Q r t"
  shows "wp (kRpc E auth (AddWorkspaceMember ws sub role)) Q s"
  unfolding kRpc_def by (rule wp_invoke, rule assms) (auto dest: add_others add_ok add_exists)

lemma removeRpc_wp:
  assumes "\<And>r t. othersKept ws {sub} (view (world s)) (view (world t)) \<Longrightarrow>
      (\<forall>x. r = Inr x \<longrightarrow> gv_members (view (world t)) ws sub = None) \<Longrightarrow> Q r t"
  shows "wp (kRpc E auth (RemoveWorkspaceMember ws sub)) Q s"
  unfolding kRpc_def by (rule wp_invoke, rule assms) (auto dest: remove_others remove_ok)

lemma addMember_wp:
  assumes "\<And>t. othersKept ws {sub} (view (world s)) (view (world t)) \<Longrightarrow>
      gv_members (view (world t)) ws sub = Some role \<Longrightarrow> Q None t"
    and "\<And>e t. othersKept ws {sub} (view (world s)) (view (world t)) \<Longrightarrow> Q (Some e) t"
  shows "wp (addMemberWithClient E auth ws sub role) Q s"
  unfolding addMemberWithClient_def
  by (intro wp_rules findMemberRole_wp addRpc_wp removeRpc_wp)
    (auto intro!: assms intro: othersKept_trans_same)

lemma removeMemberWithClient_wp:
  assumes "\<And>r t. othersKept ws {sub} (view (world s)) (view (world t)) \<Longrightarrow>
      (r = None \<longrightarrow> gv_members (view (world t)) ws sub = None) \<Longrightarrow> Q r t"
  shows "wp (removeMemberWithClient E auth ws sub) Q s"
  unfolding removeMemberWithClient_def by (intro wp_rules removeRpc_wp) (auto intro!: assms)

lemma removeMember_wp:
  assumes "\<And>r t. othersKept ws {sub} (view (world s)) (view (world t)) \<Longrightarrow>
      (r = None \<longrightarrow> gv_members (view (world t)) ws sub = None) \<Longrightarrow> Q r t"
  shows "wp (removeMember E None gw ws sub) Q s"
  unfolding removeMember_def
  by (intro wp_rules gatewayClient_wp removeMemberWithClient_wp) (auto intro!: assms)

lemma memberSetNotReady_view:
  "(\<And>r t. view (world t) = view (world s) \<Longrightarrow> fst r \<noteq> requeueAfter requeueInterval \<Longrightarrow> Q r t) \<Longrightarrow>
   wp (memberSetNotReady E m reason cause) Q s"
  unfolding memberSetNotReady_def prim_defs by (intro wp_rules) (auto simp: frameD)

lemma statusUpdate_wp:
  "(\<And>r t. view (world t) = view (world s) \<Longrightarrow> last (calls t) = CStatusUpdate ob \<Longrightarrow> Q r t) \<Longrightarrow>
   wp (kStatusUpdate E ob) Q s"
  unfolding kStatusUpdate_def by (rule wp_invoke) (auto simp: frameD)

lemma grantMembership_wp:
  fixes m :: openShellWorkspaceMember
  defines "ws \<equiv> ms_workspace (wm_spec m)" and "old \<equiv> mt_reconciledSubject (wm_status m)"
  assumes "\<And>r t. fst r \<noteq> requeueAfter requeueInterval \<Longrightarrow>
      othersKept ws {old} (view (world s)) (view (world t)) \<or>
      othersKept ws {old, sub} (view (world s)) (view (world t)) \<and>
      (old = [] \<or> old = sub \<or> gv_members (view (world t)) ws old = None) \<Longrightarrow> Q r t"
    and "\<And>err t. othersKept ws {old, sub} (view (world s)) (view (world t)) \<Longrightarrow>
      gv_members (view (world t)) ws sub = Some (workspaceRoleFromSpec (ms_role (wm_spec m))) \<Longrightarrow>
      old = [] \<or> old = sub \<or> gv_members (view (world t)) ws old = None \<Longrightarrow>
      last (calls t) = CStatusUpdate (memberObj (syncedMember E m sub)) \<Longrightarrow>
      Q (requeueAfter requeueInterval, err) t"
  shows "wp (grantMembership E auth m sub) Q s"
proof -
  have two: "othersKept ws {x, sub} v v'" if "othersKept ws {sub} v v'" for v v' x
    using that by (simp add: othersKept_def)
  have seq: "othersKept ws {old, sub} v v''" if "othersKept ws {old} v v'" "othersKept ws {sub} v' v''" for v v' v''
    using othersKept_trans [OF that] by (simp add: insert_commute)
  have gone: "gv_members v'' ws old = None"
    if "gv_members v' ws old = None" "othersKept ws {sub} v' v''" "old \<noteq> sub" for v' v''
    using othersKept_sub [OF that(2), of ws old] that by simp
  have "wp (grantMembership E auth m sub) Q s"
    unfolding grantMembership_def ws_def [symmetric] old_def [symmetric]
    apply (intro wp_rules removeMemberWithClient_wp addMember_wp memberSetNotReady_view statusUpdate_wp)
    apply (auto simp: ws_def [symmetric] old_def [symmetric])
    apply (rule assms(4), auto intro: seq gone)[]
    apply (rule assms(3), auto intro: seq gone)[]
    apply (rule assms(3), auto)[]
    apply ((rule assms(4) | rule assms(3)), auto intro: two)+
    done
  then show ?thesis .
qed

lemma memberReconcileSync_wp:
  fixes m :: openShellWorkspaceMember
  defines "ws \<equiv> ms_workspace (wm_spec m)" and "old \<equiv> mt_reconciledSubject (wm_status m)"
  assumes "\<And>r t sub. fst r \<noteq> requeueAfter requeueInterval \<Longrightarrow>
      othersKept ws {old} (view (world s)) (view (world t)) \<or>
      othersKept ws {old, sub} (view (world s)) (view (world t)) \<and>
      (old = [] \<or> old = sub \<or> gv_members (view (world t)) ws old = None) \<Longrightarrow> Q r t"
    and "\<And>err t sa w w'. e_get E KServiceAccount
        (nsn (om_namespace (wm_meta m)) (sr_name (ms_serviceAccountRef (wm_spec m)))) w = (Inr sa, w') \<Longrightarrow>
      om_uid (ob_meta sa) \<noteq> [] \<Longrightarrow>
      othersKept ws {old, om_uid (ob_meta sa)} (view (world s)) (view (world t)) \<Longrightarrow>
      gv_members (view (world t)) ws (om_uid (ob_meta sa)) = Some (workspaceRoleFromSpec (ms_role (wm_spec m))) \<Longrightarrow>
      old = [] \<or> old = om_uid (ob_meta sa) \<or> gv_members (view (world t)) ws old = None \<Longrightarrow>
      last (calls t) = CStatusUpdate (memberObj (syncedMember E m (om_uid (ob_meta sa)))) \<Longrightarrow>
      Q (requeueAfter requeueInterval, err) t"
  shows "wp (memberReconcileSync E None m) Q s"
proof -
  have same: "Q r t" if "fst r \<noteq> requeueAfter requeueInterval" "othersKept ws {old} (view (world s)) (view (world t))" for r t
    using assms(3) [OF that(1)] that(2) by blast
  show ?thesis unfolding memberReconcileSync_def identityMissing_def kGet_def
    apply (intro wp_rules resolveGateway_wp gatewayClient_wp memberSetNotReady_view removeMember_wp
        grantMembership_wp)
    apply (simp_all add: frameD ws_def [symmetric] old_def [symmetric])
    apply ((rule same, simp, simp add: frameD; fail)+)
    apply (rule assms(3), simp, assumption)
    apply (rule assms(4), assumption+)
    done
qed

lemma memberReconcileDelete_wp:
  fixes m :: openShellWorkspaceMember
  assumes "\<And>r t cs. calls t = calls s @ cs \<Longrightarrow> (\<exists>c \<in> set cs. isUpdate c) \<longrightarrow>
      mt_reconciledSubject (wm_status m) = [] \<or>
      gv_members (view (world t)) (ms_workspace (wm_spec m)) (mt_reconciledSubject (wm_status m)) = None \<Longrightarrow> Q r t"
  shows "wp (memberReconcileDelete E None m) Q s"
  unfolding memberReconcileDelete_def removeMember_def removeMemberWithClient_def kRpc_def kUpdate_def
  apply (intro wp_rules resolveGateway_wp gatewayClient_wp)
  apply (auto simp: frameD list_all_iff intro!: assms dest!: remove_ok)
  done

end

section \<open>The controller as a finalizer-guarded reconciler\<close>

interpretation member: finalizer_controller E KOpenShellWorkspaceMember workspaceMemberFinalizer "requeueAfter 1"
  "\<lambda>ob. memberObj ((memberOf ob)\<lparr>wm_meta := e_addFinalizer E (ob_meta ob) workspaceMemberFinalizer\<rparr>)"
  "\<lambda>ob. memberReconcileSync E connect (memberOf ob)"
  "\<lambda>ob. memberReconcileDelete E connect (memberOf ob)"
  "memberReconcile E connect" for E :: "'w env" and connect
  unfolding memberReconcile_def Let_def wm_meta_memberOf
  by unfold_locales (simp_all add: memberReconcileDelete_def)

section \<open>Example\<close>

text \<open>A member whose ServiceAccount was recreated: its UID is \<open>u2\<close>, the gateway still knows \<open>u1\<close>.\<close>

definition exampleAccount :: kobj where
  "exampleAccount = mkObj KServiceAccount ((metaFor ''sa'' ''a'')\<lparr>om_uid := ''u2''\<rparr>) BNone"

definition exampleMember :: "string \<Rightarrow> string \<Rightarrow> openShellWorkspaceMember" where
  "exampleMember workspace reconciled =
     \<lparr>wm_meta = (metaFor ''m'' ''a'')\<lparr>om_finalizers := [workspaceMemberFinalizer]\<rparr>,
      wm_spec = \<lparr>ms_workspace = workspace, ms_serviceAccountRef = \<lparr>sr_name = ''sa''\<rparr>, ms_role = ''admin''\<rparr>,
      wm_status = zeroMemberStatus\<lparr>mt_reconciledSubject := reconciled\<rparr>\<rparr>"

definition exampleMemberSys :: "openShellWorkspaceMember \<Rightarrow> string \<Rightarrow> memWorld sys" where
  "exampleMemberSys m known = memSys (exampleWorld [exampleAccount, memberObj m]
     (newFakeOpenShellServer\<lparr>fk_members := [(''default'', [(known, WORKSPACE_ROLE_USER)])]\<rparr>))"

abbreviation "recreated \<equiv> exampleMember ''default'' ''u1''"

lemma recreated_run:
  "fst (run_state (memberReconcileSync memEnv None recreated) (exampleMemberSys recreated ''u1'')) =
     (requeueAfter requeueInterval, None)"
  by code_simp

section \<open>Properties\<close>

text \<open>
  C19: a successful sync leaves exactly the desired membership. When \<open>reconcileSync\<close> ends with its
  success result, the ServiceAccount was read with some non-empty UID; that UID is a member of the
  workspace with the role of the spec; if the status named another subject, that one is no member
  any more; every other membership is unchanged; and the status written last names the UID.
\<close>

theorem member_sync_effect:
  assumes "gateway_service E view"
    and "run_state (memberReconcileSync E None m) s = ((requeueAfter requeueInterval, err), t)"
    and "ws = ms_workspace (wm_spec m)" and "old = mt_reconciledSubject (wm_status m)"
  shows "\<exists>sa w w' uid. e_get E KServiceAccount (nsn (om_namespace (wm_meta m)) (sr_name (ms_serviceAccountRef (wm_spec m)))) w
      = (Inr sa, w') \<and> uid = om_uid (ob_meta sa) \<and> uid \<noteq> [] \<and>
    gv_members (view (world t)) ws uid =
      Some (if ms_role (wm_spec m) = ''admin'' then WORKSPACE_ROLE_ADMIN else WORKSPACE_ROLE_USER) \<and>
    (old = [] \<or> old = uid \<or> gv_members (view (world t)) ws old = None) \<and>
    othersKept ws {old, uid} (view (world s)) (view (world t)) \<and>
    last (calls t) = CStatusUpdate (memberObj (syncedMember E m uid))"
    (is "?post t")
proof -
  have "wp (memberReconcileSync E None m) (\<lambda>r t. fst r = requeueAfter requeueInterval \<longrightarrow> ?post t) s"
  proof (rule gateway_service.memberReconcileSync_wp [OF assms(1)], goal_cases)
    case (2 err t sa w w')
    then show ?case unfolding workspaceRoleFromSpec_def assms(3,4) by blast
  qed simp
  from wpD [OF this assms(2)] show ?thesis by simp
qed

theorem member_sync_effect_witness:
  "\<exists>uid. uid \<noteq> [] \<and>
     gv_members (memView (world (snd (run_state (memberReconcileSync memEnv None recreated)
       (exampleMemberSys recreated ''u1''))))) ''default'' uid = Some WORKSPACE_ROLE_ADMIN"
proof -
  have run: "run_state (memberReconcileSync memEnv None recreated) (exampleMemberSys recreated ''u1'') =
      ((requeueAfter requeueInterval, None), snd (run_state (memberReconcileSync memEnv None recreated)
        (exampleMemberSys recreated ''u1'')))"
    using recreated_run by (metis prod.collapse)
  have ws: "''default'' = ms_workspace (wm_spec recreated)" and role: "ms_role (wm_spec recreated) = ''admin''"
    by (simp_all add: exampleMember_def)
  show ?thesis using member_sync_effect [OF fake.gateway_service_axioms run ws refl]
    unfolding role if_P [OF refl] by (elim exE conjE, intro exI conjI)
qed

text \<open>
  C2: a recreated identity never holds access next to the one it replaces. Whatever the outcome of a
  sync, errors included: if the membership of any subject other than the recorded one has changed,
  then it changed in the resource's workspace and the recorded subject is no member there any more.
\<close>

theorem member_no_stale_access:
  assumes "gateway_service E view"
    and "run_state (memberReconcileSync E None m) s = (r, t)"
    and "old = mt_reconciledSubject (wm_status m)" and "old \<noteq> []" and "sub \<noteq> old"
    and "gv_members (view (world t)) ws sub \<noteq> gv_members (view (world s)) ws sub"
  shows "ws = ms_workspace (wm_spec m) \<and> gv_members (view (world t)) (ms_workspace (wm_spec m)) old = None"
proof -
  let ?P = "\<lambda>t. gv_members (view (world t)) ws sub \<noteq> gv_members (view (world s)) ws sub \<longrightarrow>
    ws = ms_workspace (wm_spec m) \<and> gv_members (view (world t)) (ms_workspace (wm_spec m)) old = None"
  have "wp (memberReconcileSync E None m) (\<lambda>r. ?P) s"
  proof (rule gateway_service.memberReconcileSync_wp [OF assms(1)], goal_cases)
    case (1 r t x)
    then show ?case using assms(4,5) unfolding assms(3) othersKept_def by blast
  next
    case (2 err t sa w w')
    show ?case using othersKept_sub [OF 2(3), of ws sub] 2(5) assms(3-5) by auto
  qed
  from wpD [OF this assms(2)] show ?thesis using assms(6) by blast
qed

theorem member_no_stale_access_witness:
  "gv_members (memView (world (snd (run_state (memberReconcileSync memEnv None recreated)
     (exampleMemberSys recreated ''u1''))))) ''default'' ''u1'' = None"
proof -
  have changed: "gv_members (memView (world (snd (run_state (memberReconcileSync memEnv None recreated)
      (exampleMemberSys recreated ''u1''))))) ''default'' ''u2'' \<noteq>
      gv_members (memView (world (exampleMemberSys recreated ''u1''))) ''default'' ''u2''"
    by code_simp
  have spec: "ms_workspace (wm_spec recreated) = ''default''" by (simp add: exampleMember_def)
  have old: "''u1'' = mt_reconciledSubject (wm_status recreated)" by (simp add: exampleMember_def)
  show ?thesis
    using member_no_stale_access [OF fake.gateway_service_axioms prod.collapse [symmetric] old _ _ changed]
    unfolding spec by simp
qed

text \<open>
  A member resource is released only once its membership is gone. If the delete handler issues
  the update that drops the finalizer and the status names a subject, that subject is no member of
  the workspace in the spec.
\<close>

theorem member_release_after_remove:
  assumes "gateway_service E view"
    and "run_state (memberReconcileDelete E None m) s = (r, t)"
    and "c \<in> set (newCalls s t)" and "isUpdate c" and "mt_reconciledSubject (wm_status m) \<noteq> []"
  shows "gv_members (view (world t)) (ms_workspace (wm_spec m)) (mt_reconciledSubject (wm_status m)) = None"
proof -
  have "wp (memberReconcileDelete E None m) (\<lambda>r t. (\<exists>c \<in> set (newCalls s t). isUpdate c) \<longrightarrow>
      mt_reconciledSubject (wm_status m) = [] \<or>
      gv_members (view (world t)) (ms_workspace (wm_spec m)) (mt_reconciledSubject (wm_status m)) = None) s"
    by (rule gateway_service.memberReconcileDelete_wp [OF assms(1)]) simp
  from wpD [OF this assms(2)] show ?thesis using assms(3-5) by blast
qed

theorem member_release_after_remove_witness:
  "gv_members (memView (world (snd (run_state (memberReconcileDelete memEnv None recreated)
     (exampleMemberSys recreated ''u1''))))) ''default'' ''u1'' = None"
proof -
  have last: "isUpdate (last (newCalls (exampleMemberSys recreated ''u1'') (snd (run_state
        (memberReconcileDelete memEnv None recreated) (exampleMemberSys recreated ''u1''))))) \<and>
      newCalls (exampleMemberSys recreated ''u1'') (snd (run_state
        (memberReconcileDelete memEnv None recreated) (exampleMemberSys recreated ''u1''))) \<noteq> []"
    by code_simp
  have spec: "ms_workspace (wm_spec recreated) = ''default''" "mt_reconciledSubject (wm_status recreated) = ''u1''"
    by (simp_all add: exampleMember_def)
  from member_release_after_remove [OF fake.gateway_service_axioms prod.collapse [symmetric] last_in_set
      [OF conjunct2 [OF last]] conjunct1 [OF last]]
  show ?thesis unfolding spec by blast
qed

text \<open>
  Changing the workspace of a member resource leaves its old membership behind. The status
  records the subject but not the workspace: after the spec moved from \<open>default\<close> to \<open>team\<close>, a sync
  succeeds and the subject is a member of both workspaces, and deleting the resource removes only
  the membership in \<open>team\<close>.
\<close>

theorem member_workspace_change_keeps_old:
  "let m = exampleMember ''team'' ''u2'';
       s0 = exampleMemberSys m ''u2'';
       s1 = snd (run_state (memberReconcile memEnv None (nsn ''a'' ''m'')) s0);
       s2 = snd (run_state (memberReconcileDelete memEnv None m) s1)
   in fk_members (mw_fake (world s1)) =
        [(''default'', [(''u2'', WORKSPACE_ROLE_USER)]), (''team'', [(''u2'', WORKSPACE_ROLE_ADMIN)])] \<and>
      fk_members (mw_fake (world s2)) = [(''default'', [(''u2'', WORKSPACE_ROLE_USER)]), (''team'', [])]"
  by code_simp

end
