(* ===== verification/Config.thy ===== *)
theory Config
  imports Naming
begin

text \<open>
  \<^verbatim>\<open>src/internal/gateway/config.go\<close>: the TOML configuration of the gateway process, and a reader for
  the part of TOML it uses. The reader is a reference definition: the gateway itself is not part of
  the repository. Go's \<open>%q\<close> is modelled on ASCII text (\<^const>\<open>quote\<close>).
\<close>

section \<open>Rendering\<close>

abbreviation nl :: string where
  "nl \<equiv> [CHR 0x0A]"

definition logLevel :: "openShellGateway \<Rightarrow> string" where
  "logLevel gw = (if gs_logLevel (gw_spec gw) \<noteq> [] then gs_logLevel (gw_spec gw) else ''info'')"

definition defaultImage :: "openShellGateway \<Rightarrow> string" where
  "defaultImage gw =
     (if sb_defaultImage (gs_sandbox (gw_spec gw)) \<noteq> [] then sb_defaultImage (gs_sandbox (gw_spec gw))
      else ''ghcr.io/nvidia/openshell-community/sandboxes/base:latest'')"

definition supervisorImage :: "openShellGateway \<Rightarrow> string" where
  "supervisorImage gw =
     (let img = (if gs_supervisorImage (gw_spec gw) = [] then ''ghcr.io/nvidia/openshell/supervisor''
                 else gs_supervisorImage (gw_spec gw))
      in if gs_imageTag (gw_spec gw) \<noteq> [] \<and> \<not> containsByte img (CHR '':'')
         then img @ '':'' @ gs_imageTag (gw_spec gw) else img)"

definition grpcEndpoint :: "openShellGateway \<Rightarrow> string" where
  "grpcEndpoint gw =
     (let scheme = (if tlsEnabled gw then ''https'' else ''http'');
          gwNS = (if gs_namespace (gw_spec gw) = [] then ''ogo'' else gs_namespace (gw_spec gw))
      in scheme @ ''://'' @ gw_name gw @ ''.'' @ gwNS @ ''.svc.cluster.local:8080'')"

text \<open>The variadic \<^verbatim>\<open>oidcIssuer\<close> is a list.\<close>

definition RenderGatewayTOML :: "openShellGateway \<Rightarrow> string \<Rightarrow> string list \<Rightarrow> string" where
  "RenderGatewayTOML gw sandboxNS oidcIssuer =
     (let sb = gs_sandbox (gw_spec gw) in
      ''[openshell]'' @ nl @ ''version = '' @ ''1'' @ nl @ nl @
      ''[openshell.gateway]'' @ nl @
      ''bind_address          = '' @ quote ''0.0.0.0:8080'' @ nl @
      ''health_bind_address   = '' @ quote ''0.0.0.0:8081'' @ nl @
      ''metrics_bind_address  = '' @ quote ''0.0.0.0:9090'' @ nl @
      ''log_level             = '' @ quote (logLevel gw) @ nl @
      ''sandbox_namespace     = '' @ quote sandboxNS @ nl @
      ''default_image         = '' @ quote (defaultImage gw) @ nl @
      ''supervisor_image      = '' @ quote (supervisorImage gw) @ nl @
      ''enable_loopback_service_http = '' @ ''true'' @ nl @
      (if \<not> tlsEnabled gw then ''disable_tls            = '' @ ''true'' @ nl
       else ''client_tls_secret_name = '' @ quote (gw_name gw @ ''-client-tls'') @ nl) @
      (if tlsEnabled gw then
         nl @ ''[openshell.gateway.tls]'' @ nl @
         ''cert_path             = '' @ quote ''/etc/openshell-tls/server/tls.crt'' @ nl @
         ''key_path              = '' @ quote ''/etc/openshell-tls/server/tls.key'' @ nl @
         ''client_ca_path        = '' @ quote ''/etc/openshell-tls/client-ca/ca.crt'' @ nl
       else []) @
      (if au_allowUnauthenticated (gs_auth (gw_spec gw)) then
         nl @ ''[openshell.gateway.auth]'' @ nl @ ''allow_unauthenticated_users = '' @ ''true'' @ nl
       else []) @
      (case oidcIssuer of
         [] \<Rightarrow> []
       | issuer # _ \<Rightarrow> if issuer = [] then [] else
           nl @ ''[openshell.gateway.oidc]'' @ nl @
           ''issuer        = '' @ quote issuer @ nl @
           ''audience      = '' @ quote ''openshell-cli'' @ nl @
           ''jwks_ttl_secs = '' @ ''300'' @ nl @
           ''roles_claim   = '' @ quote ''realm_access.roles'' @ nl @
           ''admin_role    = '' @ quote ''openshell-admin'' @ nl @
           ''user_role     = '' @ quote ''openshell-user'' @ nl) @
      nl @ ''[openshell.gateway.gateway_jwt]'' @ nl @
      ''signing_key_path = '' @ quote ''/etc/openshell-jwt/signing.pem'' @ nl @
      ''public_key_path  = '' @ quote ''/etc/openshell-jwt/public.pem'' @ nl @
      ''kid_path         = '' @ quote ''/etc/openshell-jwt/kid'' @ nl @
      ''gateway_id       = '' @ quote (gw_name gw) @ nl @
      ''ttl_secs         = '' @ ''3600'' @ nl @
      nl @ ''[openshell.drivers.kubernetes]'' @ nl @
      ''grpc_endpoint                = '' @ quote (grpcEndpoint gw) @ nl @
      ''service_account_name         = '' @ quote (gw_name gw @ ''-sandbox'') @ nl @
      ''supervisor_sideload_method   = '' @ quote ''init-container'' @ nl @
      ''sa_token_ttl_secs            = '' @ ''3600'' @ nl @
      (if sb_imagePullPolicy sb \<noteq> []
       then ''image_pull_policy            = '' @ quote (sb_imagePullPolicy sb) @ nl else []) @
      (if sb_workspaceStorageSize sb \<noteq> []
       then ''workspace_default_storage_size = '' @ quote (sb_workspaceStorageSize sb) @ nl else []) @
      (if sb_runtimeClassName sb \<noteq> []
       then ''default_runtime_class_name   = '' @ quote (sb_runtimeClassName sb) @ nl else []) @
      (if sb_appArmorProfile sb \<noteq> []
       then ''app_armor_profile            = '' @ quote (sb_appArmorProfile sb) @ nl else []))"

section \<open>A reader\<close>

datatype tomlValue = TString string | TRaw string

type_synonym setting = "string \<times> string \<times> tomlValue"

text \<open>
  The body of a basic string up to its closing quote. TOML knows no escapes \<^verbatim>\<open>\a\<close>, \<^verbatim>\<open>\v\<close> or \<^verbatim>\<open>\x\<close>, and
  no raw control characters.
\<close>

definition tomlEscape :: "char \<Rightarrow> char option" where
  "tomlEscape c =
     (if c = chrQuote \<or> c = chrBackslash then Some c
      else if c = CHR ''b'' then Some (CHR 0x08)
      else if c = CHR ''t'' then Some (CHR 0x09)
      else if c = CHR ''n'' then Some (CHR 0x0A)
      else if c = CHR ''f'' then Some (CHR 0x0C)
      else if c = CHR ''r'' then Some (CHR 0x0D)
      else None)"

definition printable :: "char \<Rightarrow> bool" where
  "printable c = (32 \<le> (of_char c :: nat) \<and> (of_char c :: nat) < 127)"

fun tomlUnescape :: "string \<Rightarrow> string option" where
  "tomlUnescape [] = None"
| "tomlUnescape [c] = (if c = chrQuote then Some [] else None)"
| "tomlUnescape (c # d # cs) =
     (if c = chrQuote then None
      else if c = chrBackslash
      then (case tomlEscape d of None \<Rightarrow> None | Some x \<Rightarrow> map_option (Cons x) (tomlUnescape cs))
      else if printable c then map_option (Cons c) (tomlUnescape (d # cs)) else None)"

definition readValue :: "string \<Rightarrow> tomlValue option" where
  "readValue v = (case v of
     [] \<Rightarrow> None
   | c # cs \<Rightarrow> if c = chrQuote then map_option TString (tomlUnescape cs) else Some (TRaw v))"

definition readLine :: "string \<Rightarrow> string \<Rightarrow> (string \<times> setting list) option" where
  "readLine sec l =
     (if l = [] then Some (sec, [])
      else if hd l = CHR ''['' then (if last l = CHR '']'' then Some (butlast (tl l), []) else None)
      else (case cutAt l (CHR ''='') of (k, v, ok) \<Rightarrow>
        if ok then map_option (\<lambda>x. (sec, [(sec, trimSpace k, x)])) (readValue (trimSpace v)) else None))"

fun splitLines :: "string \<Rightarrow> string \<Rightarrow> string list" where
  "splitLines acc [] = (if acc = [] then [] else [rev acc])"
| "splitLines acc (c # cs) = (if c = CHR 0x0A then rev acc # splitLines [] cs else splitLines (c # acc) cs)"

fun readLines :: "string \<Rightarrow> string list \<Rightarrow> setting list option" where
  "readLines sec [] = Some []"
| "readLines sec (l # ls) = (case readLine sec l of
     None \<Rightarrow> None
   | Some (sec', xs) \<Rightarrow> map_option (\<lambda>ys. xs @ ys) (readLines sec' ls))"

definition readTOML :: "string \<Rightarrow> setting list option" where
  "readTOML s = readLines [] (splitLines [] s)"

section \<open>The settings a gateway should get\<close>

abbreviation inSection :: "string \<Rightarrow> (string \<times> tomlValue) list \<Rightarrow> setting list" where
  "inSection sec kvs \<equiv> map (\<lambda>kv. (sec, kv)) kvs"

definition optionalField :: "string \<Rightarrow> string \<Rightarrow> (string \<times> tomlValue) list" where
  "optionalField k v = (if v \<noteq> [] then [(k, TString v)] else [])"

definition gatewaySettings :: "openShellGateway \<Rightarrow> string \<Rightarrow> string list \<Rightarrow> setting list" where
  "gatewaySettings gw sandboxNS oidcIssuer =
     (let sb = gs_sandbox (gw_spec gw) in
      inSection ''openshell'' [(''version'', TRaw ''1'')] @
      inSection ''openshell.gateway''
        ([(''bind_address'', TString ''0.0.0.0:8080''), (''health_bind_address'', TString ''0.0.0.0:8081''),
          (''metrics_bind_address'', TString ''0.0.0.0:9090''), (''log_level'', TString (logLevel gw)),
          (''sandbox_namespace'', TString sandboxNS), (''default_image'', TString (defaultImage gw)),
          (''supervisor_image'', TString (supervisorImage gw)), (''enable_loopback_service_http'', TRaw ''true'')] @
         (if tlsEnabled gw then [(''client_tls_secret_name'', TString (gw_name gw @ ''-client-tls''))]
          else [(''disable_tls'', TRaw ''true'')])) @
      (if tlsEnabled gw then inSection ''openshell.gateway.tls''
         [(''cert_path'', TString ''/etc/openshell-tls/server/tls.crt''),
          (''key_path'', TString ''/etc/openshell-tls/server/tls.key''),
          (''client_ca_path'', TString ''/etc/openshell-tls/client-ca/ca.crt'')] else []) @
      (if au_allowUnauthenticated (gs_auth (gw_spec gw))
       then inSection ''openshell.gateway.auth'' [(''allow_unauthenticated_users'', TRaw ''true'')] else []) @
      (if oidcIssuer \<noteq> [] \<and> hd oidcIssuer \<noteq> [] then inSection ''openshell.gateway.oidc''
         [(''issuer'', TString (hd oidcIssuer)), (''audience'', TString ''openshell-cli''),
          (''jwks_ttl_secs'', TRaw ''300''), (''roles_claim'', TString ''realm_access.roles''),
          (''admin_role'', TString ''openshell-admin''), (''user_role'', TString ''openshell-user'')] else []) @
      inSection ''openshell.gateway.gateway_jwt''
        [(''signing_key_path'', TString ''/etc/openshell-jwt/signing.pem''),
         (''public_key_path'', TString ''/etc/openshell-jwt/public.pem''),
         (''kid_path'', TString ''/etc/openshell-jwt/kid''), (''gateway_id'', TString (gw_name gw)),
         (''ttl_secs'', TRaw ''3600'')] @
      inSection ''openshell.drivers.kubernetes''
        ([(''grpc_endpoint'', TString (grpcEndpoint gw)),
          (''service_account_name'', TString (gw_name gw @ ''-sandbox'')),
          (''supervisor_sideload_method'', TString ''init-container''), (''sa_token_ttl_secs'', TRaw ''3600'')] @
         optionalField ''image_pull_policy'' (sb_imagePullPolicy sb) @
         optionalField ''workspace_default_storage_size'' (sb_workspaceStorageSize sb) @
         optionalField ''default_runtime_class_name'' (sb_runtimeClassName sb) @
         optionalField ''app_armor_profile'' (sb_appArmorProfile sb)))"

text \<open>The text values that \<open>%q\<close> writes as a TOML string: printable ASCII and the escapes both know.\<close>

definition tomlSafe :: "string \<Rightarrow> bool" where
  "tomlSafe s = list_all (\<lambda>c. printable c \<or> (of_char c :: nat) \<in> {8, 9, 10, 12, 13}) s"

definition safeGateway :: "openShellGateway \<Rightarrow> string \<Rightarrow> string list \<Rightarrow> bool" where
  "safeGateway gw sandboxNS oidcIssuer =
     (let sp = gw_spec gw; sb = gs_sandbox sp in
      list_all tomlSafe ([gw_name gw, gs_namespace sp, gs_logLevel sp, gs_supervisorImage sp, gs_imageTag sp,
        sandboxNS, sb_defaultImage sb, sb_imagePullPolicy sb, sb_workspaceStorageSize sb,
        sb_runtimeClassName sb, sb_appArmorProfile sb] @ oidcIssuer))"

section \<open>Lines\<close>

text \<open>A rendered document as lines: \<open>LField p v\<close> is the padded key with its equals sign, then the value.\<close>

datatype tomlLine = LBlank | LSection string | LField string tomlValue

primrec renderValue :: "tomlValue \<Rightarrow> string" where
  "renderValue (TString s) = quote s"
| "renderValue (TRaw s) = s"

primrec renderLine :: "tomlLine \<Rightarrow> string" where
  "renderLine LBlank = []"
| "renderLine (LSection h) = h"
| "renderLine (LField p v) = p @ renderValue v"

definition renderLines :: "tomlLine list \<Rightarrow> string" where
  "renderLines ls = concat (map (\<lambda>l. renderLine l @ nl) ls)"

definition plainText :: "string \<Rightarrow> bool" where
  "plainText s = list_all (\<lambda>c. printable c \<and> c \<noteq> CHR '' '') s"

primrec goodValue :: "tomlValue \<Rightarrow> bool" where
  "goodValue (TString s) = tomlSafe s"
| "goodValue (TRaw s) = (plainText s \<and> s \<noteq> [] \<and> hd s \<noteq> chrQuote)"

definition keyOf :: "string \<Rightarrow> string" where
  "keyOf p = trimSpace (fst (cutAt p (CHR ''='')))"

primrec goodLine :: "tomlLine \<Rightarrow> bool" where
  "goodLine LBlank = True"
| "goodLine (LSection h) = (plainText h \<and> h \<noteq> [] \<and> hd h = CHR ''['' \<and> last h = CHR '']'')"
| "goodLine (LField p v) = (goodValue v \<and> list_all printable p \<and> p \<noteq> [] \<and> hd p \<noteq> CHR ''['' \<and>
     snd (cutAt p (CHR ''='')) = ('' '', True))"

fun lineSettings :: "string \<Rightarrow> tomlLine list \<Rightarrow> setting list" where
  "lineSettings sec [] = []"
| "lineSettings sec (LBlank # ls) = lineSettings sec ls"
| "lineSettings sec (LSection h # ls) = lineSettings (butlast (tl h)) ls"
| "lineSettings sec (LField p v # ls) = (sec, keyOf p, v) # lineSettings sec ls"

lemma printable_not_nl: "printable c \<Longrightarrow> c \<noteq> CHR 0x0A"
  by (auto simp: printable_def)

lemma byte_of_char: "(of_char c :: nat) = of_char d \<Longrightarrow> c = d"
  by (metis char_of_char)

lemma safe_quoteByte:
  assumes "printable c \<or> (of_char c :: nat) \<in> {8, 9, 10, 12, 13}"
  shows "list_all printable (quoteByte c) \<and>
    (quoteByte c = [c] \<and> printable c \<and> c \<noteq> chrQuote \<and> c \<noteq> chrBackslash \<or>
     (\<exists>d. quoteByte c = [chrBackslash, d] \<and> tomlEscape d = Some c))"
proof -
  have eq: "c = CHR 0x08" if "(of_char c :: nat) = 8"
    using that by (intro byte_of_char) simp
  moreover have "c = CHR 0x09" if "(of_char c :: nat) = 9"
    using that by (intro byte_of_char) simp
  moreover have "c = CHR 0x0A" if "(of_char c :: nat) = 10"
    using that by (intro byte_of_char) simp
  moreover have "c = CHR 0x0C" if "(of_char c :: nat) = 12"
    using that by (intro byte_of_char) simp
  moreover have "c = CHR 0x0D" if "(of_char c :: nat) = 13"
    using that by (intro byte_of_char) simp
  moreover have "\<not> printable c \<Longrightarrow> (of_char c :: nat) \<in> {8, 9, 10, 12, 13}" using assms by blast
  ultimately show ?thesis
    by (cases "printable c") (auto simp: quoteByte_def Let_def tomlEscape_def printable_def)
qed

lemma tomlUnescape_quoted:
  "tomlSafe s \<Longrightarrow> tomlUnescape (concat (map quoteByte s) @ [chrQuote]) = Some s"
proof (induction s)
  case Nil
  then show ?case by simp
next
  case (Cons c s)
  let ?rest = "concat (map quoteByte s) @ [chrQuote]"
  have IH: "tomlUnescape ?rest = Some s" using Cons by (simp add: tomlSafe_def)
  obtain d ds where rest: "?rest = d # ds" by (cases ?rest) auto
  have "printable c \<or> (of_char c :: nat) \<in> {8, 9, 10, 12, 13}" using Cons.prems by (simp add: tomlSafe_def)
  then consider "quoteByte c = [c]" "printable c" "c \<noteq> chrQuote" "c \<noteq> chrBackslash"
    | x where "quoteByte c = [chrBackslash, x]" "tomlEscape x = Some c"
    using safe_quoteByte by blast
  then show ?case
  proof cases
    case 1
    then show ?thesis using IH rest by simp
  next
    case 2
    then show ?thesis using IH by simp
  qed
qed

lemma quote_printable: "tomlSafe s \<Longrightarrow> list_all printable (quote s)"
proof -
  assume "tomlSafe s"
  then have "list_all printable (concat (map quoteByte s))"
    by (induction s) (use safe_quoteByte in \<open>auto simp: tomlSafe_def list_all_iff\<close>)
  then show ?thesis by (simp add: quote_def printable_def)
qed

lemma readValue_render: "goodValue v \<Longrightarrow> readValue (renderValue v) = Some v"
  by (cases v) (auto simp: readValue_def quote_def tomlUnescape_quoted split: list.splits)

lemma splitLines_line:
  "CHR 0x0A \<notin> set l \<Longrightarrow> splitLines acc (l @ CHR 0x0A # rest) = (rev acc @ l) # splitLines [] rest"
  by (induction l arbitrary: acc) auto

lemma cutAt_extend:
  "snd (cutAt p c) = (a, True) \<Longrightarrow> cutAt (p @ v) c = (fst (cutAt p c), a @ v, True)"
  by (induction p arbitrary: a) (auto split: if_splits prod.splits)

lemma renderValue_ends:
  assumes "goodValue v"
  shows "renderValue v \<noteq> [] \<and> \<not> isSpaceByte (hd (renderValue v)) \<and> \<not> isSpaceByte (last (renderValue v)) \<and>
    list_all printable (renderValue v)"
proof (cases v)
  case (TString s)
  then show ?thesis using assms quote_printable [of s] by (simp add: quote_def isSpaceByte_def)
next
  case (TRaw s)
  then have plain: "list_all (\<lambda>c. printable c \<and> c \<noteq> CHR '' '') s" "s \<noteq> []"
    using assms by (simp_all add: plainText_def)
  moreover have "\<not> isSpaceByte c" if "printable c" "c \<noteq> CHR '' ''" for c
    using that byte_of_char [of c "CHR '' ''"] by (auto simp: isSpaceByte_def printable_def)
  ultimately show ?thesis using TRaw by (auto simp: list_all_iff)
qed

lemma trimSpace_value:
  "v \<noteq> [] \<Longrightarrow> \<not> isSpaceByte (hd v) \<Longrightarrow> \<not> isSpaceByte (last v) \<Longrightarrow> trimSpace (CHR '' '' # v) = v"
proof -
  assume v: "v \<noteq> []" "\<not> isSpaceByte (hd v)" "\<not> isSpaceByte (last v)"
  have "dropWhile isSpaceByte (CHR '' '' # v) = v"
    using v by (cases v) (simp_all add: isSpaceByte_def)
  moreover have "dropWhile isSpaceByte (rev v) = rev v"
    using v by (cases "rev v") (auto simp: hd_rev [symmetric])
  ultimately show ?thesis by (simp add: trimSpace_def)
qed

lemma readLine_render:
  assumes "goodLine l"
  shows "CHR 0x0A \<notin> set (renderLine l) \<and> (\<exists>sec' xs. readLine sec (renderLine l) = Some (sec', xs) \<and>
    (\<forall>ls. lineSettings sec (l # ls) = xs @ lineSettings sec' ls))"
proof (cases l)
  case LBlank
  then show ?thesis by (simp add: readLine_def)
next
  case (LSection h)
  then show ?thesis using assms
    by (auto simp: readLine_def plainText_def list_all_iff dest: printable_not_nl)
next
  case (LField p v)
  have good: "goodValue v" "list_all printable p" "p \<noteq> []" "hd p \<noteq> CHR ''[''"
    "snd (cutAt p (CHR ''='')) = ('' '', True)"
    using assms LField by simp_all
  have "cutAt (p @ renderValue v) (CHR ''='') = (fst (cutAt p (CHR ''='')), '' '' @ renderValue v, True)"
    using cutAt_extend [OF good(5)] .
  moreover have "trimSpace ('' '' @ renderValue v) = renderValue v"
    using trimSpace_value renderValue_ends [OF good(1)] by simp
  ultimately have "readLine sec (p @ renderValue v) = Some (sec, [(sec, keyOf p, v)])"
    using good readValue_render [OF good(1)] by (simp add: readLine_def keyOf_def)
  moreover have "list_all printable (p @ renderValue v)" using good(2) renderValue_ends [OF good(1)] by simp
  ultimately show ?thesis using LField by (auto simp: list_all_iff dest: printable_not_nl)
qed

lemma read_renderLines:
  "list_all goodLine ls \<Longrightarrow> readLines sec (splitLines [] (renderLines ls)) = Some (lineSettings sec ls)"
proof (induction ls arbitrary: sec)
  case Nil
  then show ?case by (simp add: renderLines_def)
next
  case (Cons l ls)
  then obtain sec' xs where l: "CHR 0x0A \<notin> set (renderLine l)" "readLine sec (renderLine l) = Some (sec', xs)"
    "lineSettings sec (l # ls) = xs @ lineSettings sec' ls"
    using readLine_render [of l sec] by auto
  have "splitLines [] (renderLines (l # ls)) = renderLine l # splitLines [] (renderLines ls)"
    using splitLines_line [OF l(1), of "[]"] by (simp add: renderLines_def)
  then show ?case using Cons l by simp
qed

section \<open>The rendered document, line by line\<close>

definition coreLines :: "openShellGateway \<Rightarrow> string \<Rightarrow> tomlLine list" where
  "coreLines gw sandboxNS =
     [LSection ''[openshell]'', LField ''version = '' (TRaw ''1''), LBlank,
      LSection ''[openshell.gateway]'',
      LField ''bind_address          = '' (TString ''0.0.0.0:8080''),
      LField ''health_bind_address   = '' (TString ''0.0.0.0:8081''),
      LField ''metrics_bind_address  = '' (TString ''0.0.0.0:9090''),
      LField ''log_level             = '' (TString (logLevel gw)),
      LField ''sandbox_namespace     = '' (TString sandboxNS),
      LField ''default_image         = '' (TString (defaultImage gw)),
      LField ''supervisor_image      = '' (TString (supervisorImage gw)),
      LField ''enable_loopback_service_http = '' (TRaw ''true'')]"

definition tlsLines :: "openShellGateway \<Rightarrow> tomlLine list" where
  "tlsLines gw = (if tlsEnabled gw then
      [LField ''client_tls_secret_name = '' (TString (gw_name gw @ ''-client-tls'')),
       LBlank, LSection ''[openshell.gateway.tls]'',
       LField ''cert_path             = '' (TString ''/etc/openshell-tls/server/tls.crt''),
       LField ''key_path              = '' (TString ''/etc/openshell-tls/server/tls.key''),
       LField ''client_ca_path        = '' (TString ''/etc/openshell-tls/client-ca/ca.crt'')]
     else [LField ''disable_tls            = '' (TRaw ''true'')])"

definition authLines :: "openShellGateway \<Rightarrow> tomlLine list" where
  "authLines gw = (if au_allowUnauthenticated (gs_auth (gw_spec gw)) then
      [LBlank, LSection ''[openshell.gateway.auth]'', LField ''allow_unauthenticated_users = '' (TRaw ''true'')]
     else [])"

definition oidcLines :: "string list \<Rightarrow> tomlLine list" where
  "oidcLines oidcIssuer = (if oidcIssuer \<noteq> [] \<and> hd oidcIssuer \<noteq> [] then
      [LBlank, LSection ''[openshell.gateway.oidc]'',
       LField ''issuer        = '' (TString (hd oidcIssuer)),
       LField ''audience      = '' (TString ''openshell-cli''),
       LField ''jwks_ttl_secs = '' (TRaw ''300''),
       LField ''roles_claim   = '' (TString ''realm_access.roles''),
       LField ''admin_role    = '' (TString ''openshell-admin''),
       LField ''user_role     = '' (TString ''openshell-user'')]
     else [])"

definition jwtLines :: "openShellGateway \<Rightarrow> tomlLine list" where
  "jwtLines gw =
     [LBlank, LSection ''[openshell.gateway.gateway_jwt]'',
      LField ''signing_key_path = '' (TString ''/etc/openshell-jwt/signing.pem''),
      LField ''public_key_path  = '' (TString ''/etc/openshell-jwt/public.pem''),
      LField ''kid_path         = '' (TString ''/etc/openshell-jwt/kid''),
      LField ''gateway_id       = '' (TString (gw_name gw)),
      LField ''ttl_secs         = '' (TRaw ''3600''),
      LBlank, LSection ''[openshell.drivers.kubernetes]'',
      LField ''grpc_endpoint                = '' (TString (grpcEndpoint gw)),
      LField ''service_account_name         = '' (TString (gw_name gw @ ''-sandbox'')),
      LField ''supervisor_sideload_method   = '' (TString ''init-container''),
      LField ''sa_token_ttl_secs            = '' (TRaw ''3600'')]"

definition optionalLine :: "string \<Rightarrow> string \<Rightarrow> tomlLine list" where
  "optionalLine p v = (if v \<noteq> [] then [LField p (TString v)] else [])"

definition sandboxLines :: "sandboxSpec \<Rightarrow> tomlLine list" where
  "sandboxLines sb =
     optionalLine ''image_pull_policy            = '' (sb_imagePullPolicy sb) @
     optionalLine ''workspace_default_storage_size = '' (sb_workspaceStorageSize sb) @
     optionalLine ''default_runtime_class_name   = '' (sb_runtimeClassName sb) @
     optionalLine ''app_armor_profile            = '' (sb_appArmorProfile sb)"

definition gatewayLines :: "openShellGateway \<Rightarrow> string \<Rightarrow> string list \<Rightarrow> tomlLine list" where
  "gatewayLines gw sandboxNS oidcIssuer =
     coreLines gw sandboxNS @ tlsLines gw @ authLines gw @ oidcLines oidcIssuer @ jwtLines gw @
     sandboxLines (gs_sandbox (gw_spec gw))"

lemmas lines_defs = coreLines_def tlsLines_def authLines_def oidcLines_def jwtLines_def optionalLine_def
  sandboxLines_def gatewayLines_def

lemma renderLines_simps:
  "renderLines [] = []"
  "renderLines (l # ls) = renderLine l @ nl @ renderLines ls"
  "renderLines (xs @ ys) = renderLines xs @ renderLines ys"
  by (simp_all add: renderLines_def)

lemma renderLines_if: "renderLines (if b then xs else ys) = (if b then renderLines xs else renderLines ys)"
  by simp

lemma oidc_case:
  "(case is of [] \<Rightarrow> [] | i # _ \<Rightarrow> if i = [] then [] else f i) = (if is \<noteq> [] \<and> hd is \<noteq> [] then f (hd is) else [])"
  by (cases "is") simp_all

lemma RenderGatewayTOML_lines:
  "RenderGatewayTOML gw sandboxNS oidcIssuer = renderLines (gatewayLines gw sandboxNS oidcIssuer)"
  unfolding RenderGatewayTOML_def lines_defs Let_def oidc_case
  by (cases "tlsEnabled gw")
    (simp_all only: renderLines_simps renderLines_if renderLine.simps renderValue.simps append_assoc
      append_Nil append_Nil2 if_True if_False not_True_eq_False not_False_eq_True)

lemma tomlSafe_append [simp]: "tomlSafe (a @ b) = (tomlSafe a \<and> tomlSafe b)"
  by (simp add: tomlSafe_def)

lemma tomlSafe_derived:
  assumes "safeGateway gw sandboxNS oidcIssuer"
  shows "tomlSafe (logLevel gw)" and "tomlSafe (defaultImage gw)" and "tomlSafe (supervisorImage gw)"
    and "tomlSafe (grpcEndpoint gw)" and "oidcIssuer \<noteq> [] \<Longrightarrow> tomlSafe (hd oidcIssuer)"
    and "tomlSafe (gw_name gw)" and "tomlSafe sandboxNS"
  using assms
  by (auto simp: safeGateway_def Let_def logLevel_def defaultImage_def supervisorImage_def grpcEndpoint_def
      list_all_iff [of tomlSafe] hd_in_set) (simp_all add: tomlSafe_def printable_def)

lemma goodLine_optional:
  "tomlSafe v \<Longrightarrow> goodLine (LField p (TString [])) \<Longrightarrow> list_all goodLine (optionalLine p v)"
  by (simp add: optionalLine_def)

lemmas good_simps = list.pred_inject goodLine.simps goodValue.simps tomlSafe_append if_True if_False

lemma good_gatewayLines:
  assumes "safeGateway gw sandboxNS oidcIssuer"
  shows "list_all goodLine (gatewayLines gw sandboxNS oidcIssuer)"
proof -
  note safe = tomlSafe_derived [OF assms]
  have literal: "tomlSafe ''-client-tls''" "tomlSafe ''-sandbox''" by code_simp+
  have "list_all goodLine (coreLines gw sandboxNS)"
    by (simp only: coreLines_def good_simps safe) code_simp
  moreover have "list_all goodLine (tlsLines gw)"
    by (cases "tlsEnabled gw"; simp only: tlsLines_def good_simps safe literal; code_simp)
  moreover have "list_all goodLine (authLines gw)"
    by (cases "au_allowUnauthenticated (gs_auth (gw_spec gw))"; simp only: authLines_def good_simps; code_simp)
  moreover have "list_all goodLine (oidcLines oidcIssuer)"
  proof (cases "oidcIssuer \<noteq> [] \<and> hd oidcIssuer \<noteq> []")
    case True
    then have "tomlSafe (hd oidcIssuer)" using safe(5) by blast
    then show ?thesis by (simp only: oidcLines_def True good_simps simp_thms) code_simp
  next
    case False
    then show ?thesis by (auto simp: oidcLines_def)
  qed
  moreover have "list_all goodLine (jwtLines gw)"
    by (simp only: jwtLines_def good_simps safe literal) code_simp
  moreover have "list_all goodLine (sandboxLines (gs_sandbox (gw_spec gw)))"
    unfolding sandboxLines_def list_all_append
    by (intro conjI goodLine_optional; (use assms in \<open>simp add: safeGateway_def Let_def\<close>; fail)?; code_simp)
  ultimately show ?thesis unfolding gatewayLines_def list_all_append by blast
qed

text \<open>The settings read off the lines.\<close>

fun lastSection :: "string \<Rightarrow> tomlLine list \<Rightarrow> string" where
  "lastSection sec [] = sec"
| "lastSection sec (LSection h # ls) = lastSection (butlast (tl h)) ls"
| "lastSection sec (l # ls) = lastSection sec ls"

lemma lineSettings_append:
  "lineSettings sec (xs @ ys) = lineSettings sec xs @ lineSettings (lastSection sec xs) ys"
  by (induction sec xs rule: lastSection.induct) (simp_all split: tomlLine.splits)

lemmas key_simps = keyOf_def trimSpace_def isSpaceByte_def

lemma settings_core:
  "lineSettings [] (coreLines gw sandboxNS) =
     inSection ''openshell'' [(''version'', TRaw ''1'')] @
     inSection ''openshell.gateway''
       [(''bind_address'', TString ''0.0.0.0:8080''), (''health_bind_address'', TString ''0.0.0.0:8081''),
        (''metrics_bind_address'', TString ''0.0.0.0:9090''), (''log_level'', TString (logLevel gw)),
        (''sandbox_namespace'', TString sandboxNS), (''default_image'', TString (defaultImage gw)),
        (''supervisor_image'', TString (supervisorImage gw)), (''enable_loopback_service_http'', TRaw ''true'')]"
  "lastSection [] (coreLines gw sandboxNS) = ''openshell.gateway''"
  by (simp_all add: coreLines_def key_simps)

lemma settings_tls:
  "lineSettings ''openshell.gateway'' (tlsLines gw) =
     (if tlsEnabled gw
      then inSection ''openshell.gateway'' [(''client_tls_secret_name'', TString (gw_name gw @ ''-client-tls''))] @
        inSection ''openshell.gateway.tls''
         [(''cert_path'', TString ''/etc/openshell-tls/server/tls.crt''),
          (''key_path'', TString ''/etc/openshell-tls/server/tls.key''),
          (''client_ca_path'', TString ''/etc/openshell-tls/client-ca/ca.crt'')]
      else inSection ''openshell.gateway'' [(''disable_tls'', TRaw ''true'')])"
  by (simp add: tlsLines_def key_simps)

lemma settings_auth:
  "lineSettings sec (authLines gw) =
     (if au_allowUnauthenticated (gs_auth (gw_spec gw))
      then inSection ''openshell.gateway.auth'' [(''allow_unauthenticated_users'', TRaw ''true'')] else [])"
  by (simp add: authLines_def key_simps)

lemma settings_oidc:
  "lineSettings sec (oidcLines oidcIssuer) =
     (if oidcIssuer \<noteq> [] \<and> hd oidcIssuer \<noteq> [] then inSection ''openshell.gateway.oidc''
         [(''issuer'', TString (hd oidcIssuer)), (''audience'', TString ''openshell-cli''),
          (''jwks_ttl_secs'', TRaw ''300''), (''roles_claim'', TString ''realm_access.roles''),
          (''admin_role'', TString ''openshell-admin''), (''user_role'', TString ''openshell-user'')] else [])"
  by (simp add: oidcLines_def key_simps)

lemma settings_jwt:
  "lineSettings sec (jwtLines gw) =
     inSection ''openshell.gateway.gateway_jwt''
        [(''signing_key_path'', TString ''/etc/openshell-jwt/signing.pem''),
         (''public_key_path'', TString ''/etc/openshell-jwt/public.pem''),
         (''kid_path'', TString ''/etc/openshell-jwt/kid''), (''gateway_id'', TString (gw_name gw)),
         (''ttl_secs'', TRaw ''3600'')] @
     inSection ''openshell.drivers.kubernetes''
        [(''grpc_endpoint'', TString (grpcEndpoint gw)),
         (''service_account_name'', TString (gw_name gw @ ''-sandbox'')),
         (''supervisor_sideload_method'', TString ''init-container''), (''sa_token_ttl_secs'', TRaw ''3600'')]"
  "lastSection sec (jwtLines gw) = ''openshell.drivers.kubernetes''"
  by (simp_all add: jwtLines_def key_simps)

lemma settings_optional:
  "lineSettings sec (optionalLine p v) = inSection sec (optionalField (keyOf p) v)"
  "lastSection sec (optionalLine p v) = sec"
  by (simp_all add: optionalLine_def optionalField_def)

lemma settings_sandbox:
  "lineSettings sec (sandboxLines sb) = inSection sec
     (optionalField ''image_pull_policy'' (sb_imagePullPolicy sb) @
      optionalField ''workspace_default_storage_size'' (sb_workspaceStorageSize sb) @
      optionalField ''default_runtime_class_name'' (sb_runtimeClassName sb) @
      optionalField ''app_armor_profile'' (sb_appArmorProfile sb))"
proof -
  have "keyOf ''image_pull_policy            = '' = ''image_pull_policy''"
    "keyOf ''workspace_default_storage_size = '' = ''workspace_default_storage_size''"
    "keyOf ''default_runtime_class_name   = '' = ''default_runtime_class_name''"
    "keyOf ''app_armor_profile            = '' = ''app_armor_profile''"
    by (simp_all add: key_simps)
  then show ?thesis by (simp add: sandboxLines_def lineSettings_append settings_optional)
qed

lemma settings_gatewayLines:
  "lineSettings [] (gatewayLines gw sandboxNS oidcIssuer) = gatewaySettings gw sandboxNS oidcIssuer"
  unfolding gatewayLines_def lineSettings_append settings_core settings_tls settings_auth settings_oidc
    settings_jwt settings_sandbox gatewaySettings_def Let_def
  by (cases "tlsEnabled gw") (simp_all only: if_True if_False map_append append_assoc append_Nil)

lemma readTOML_render:
  assumes "safeGateway gw sandboxNS oidcIssuer"
  shows "readTOML (RenderGatewayTOML gw sandboxNS oidcIssuer) = Some (gatewaySettings gw sandboxNS oidcIssuer)"
  unfolding readTOML_def RenderGatewayTOML_lines
  by (simp only: read_renderLines [OF good_gatewayLines [OF assms]] settings_gatewayLines)

section \<open>Properties\<close>



text \<open>
  Outside that range the text is not TOML: Go's \<^verbatim>\<open>%q\<close> writes a bell character as \<^verbatim>\<open>\a\<close>, which TOML does
  not define, so a log level with one makes the whole document unreadable.
\<close>

theorem toml_rejects_bell:
  "readTOML (RenderGatewayTOML \<lparr>gw_meta = metaFor ''gw'' [],
     gw_spec = zeroGatewaySpec\<lparr>gs_logLevel := [CHR 0x07]\<rparr>, gw_status = zeroGatewayStatus\<rparr> ''ogo'' []) = None"
  by code_simp

end
