(* ===== verification/Pki.thy ===== *)
theory Pki
  imports Naming Jwt FakeGateway
begin

text \<open>
  \<^verbatim>\<open>src/internal/pki/pki.go\<close>: the self-signed certificates and signing keys of a gateway. Go's
  cryptographic packages are a parameter, the record \<open>pkiLib\<close>: keys and encodings are opaque byte
  strings, and \<open>pk_createCert\<close> is \<^verbatim>\<open>x509.CreateCertificate\<close>. A failing random source makes \<open>newSerial\<close>
  panic; that is not represented.
\<close>

section \<open>The cryptographic library\<close>

datatype keyUsage = KeyUsageCertSign | KeyUsageCRLSign | KeyUsageDigitalSignature | KeyUsageKeyEncipherment

datatype extKeyUsage = ExtKeyUsageServerAuth | ExtKeyUsageClientAuth

record x509cert =
  xc_serialNumber :: int
  xc_commonName :: string
  xc_notBefore :: int
  xc_notAfter :: int
  xc_keyUsage :: "keyUsage list"
  xc_extKeyUsage :: "extKeyUsage list"
  xc_basicConstraintsValid :: bool
  xc_isCA :: bool
  xc_ipAddresses :: "string list"
  xc_dnsNames :: "string list"

record 'w pkiLib =
  pk_genEC :: "'w \<Rightarrow> (goerr + string) \<times> 'w"
  pk_genRSA :: "nat \<Rightarrow> 'w \<Rightarrow> (goerr + string) \<times> 'w"
  pk_genEd25519 :: "'w \<Rightarrow> (goerr + string \<times> string) \<times> 'w"  \<comment> \<open>public and private key\<close>
  pk_randInt :: "int \<Rightarrow> 'w \<Rightarrow> int \<times> 'w"
  pk_publicKey :: "string \<Rightarrow> string"
  pk_createCert :: "x509cert \<Rightarrow> x509cert \<Rightarrow> string \<Rightarrow> string \<Rightarrow> 'w \<Rightarrow> (goerr + string) \<times> 'w"
    \<comment> \<open>template, parent, public key, signing key\<close>
  pk_parseCert :: "string \<Rightarrow> goerr + x509cert"
  pk_marshalEC :: "string \<Rightarrow> goerr + string"
  pk_marshalPKCS8 :: "string \<Rightarrow> goerr + string"
  pk_marshalPKIX :: "string \<Rightarrow> goerr + string"
  pk_parseIP :: "string \<Rightarrow> string option"

section \<open>Definitions\<close>

record pkiBundle =
  bd_CACert :: string
  bd_CAKey :: string
  bd_ServerCert :: string
  bd_ServerKey :: string
  bd_ClientCert :: string
  bd_ClientKey :: string

record jwtKeys =
  jk_SigningKey :: string
  jk_PublicKey :: string
  jk_KID :: string

definition hours :: "int \<Rightarrow> int" where
  "hours n = n * 3600 * 10 ^ 9"

definition newSerial :: "'w pkiLib \<Rightarrow> ('w sys, int) state" where
  "newSerial P = silent (pk_randInt P (2 ^ 128))"

definition pemEncodeCert :: "'w env \<Rightarrow> string \<Rightarrow> string" where
  "pemEncodeCert E der = e_pemEncode E ''CERTIFICATE'' der"

definition marshalECPrivateKey :: "'w env \<Rightarrow> 'w pkiLib \<Rightarrow> string \<Rightarrow> goerr + string" where
  "marshalECPrivateKey E P key = (case pk_marshalEC P key of
     Inl e \<Rightarrow> Inl (Wrapf ''marshaling EC private key: '' e [])
   | Inr der \<Rightarrow> Inr (e_pemEncode E ''EC PRIVATE KEY'' der))"

text \<open>The loop over the SANs: an IP address goes to one list of the template, a name to the other.\<close>

fun addSANs :: "'w pkiLib \<Rightarrow> string list \<Rightarrow> x509cert \<Rightarrow> x509cert" where
  "addSANs P [] t = t"
| "addSANs P (san # sans) t = addSANs P sans (case pk_parseIP P san of
     Some ip \<Rightarrow> t\<lparr>xc_ipAddresses := xc_ipAddresses t @ [ip]\<rparr>
   | None \<Rightarrow> t\<lparr>xc_dnsNames := xc_dnsNames t @ [san]\<rparr>)"

definition leafTemplate :: "int \<Rightarrow> string \<Rightarrow> int \<Rightarrow> int \<Rightarrow> extKeyUsage \<Rightarrow> x509cert" where
  "leafTemplate serial cn notBefore notAfter usage =
     \<lparr>xc_serialNumber = serial, xc_commonName = cn, xc_notBefore = notBefore, xc_notAfter = notAfter,
      xc_keyUsage = [KeyUsageDigitalSignature, KeyUsageKeyEncipherment], xc_extKeyUsage = [usage],
      xc_basicConstraintsValid = True, xc_isCA = False, xc_ipAddresses = [], xc_dnsNames = []\<rparr>"

definition caTemplate :: "int \<Rightarrow> int \<Rightarrow> int \<Rightarrow> x509cert" where
  "caTemplate serial notBefore notAfter =
     \<lparr>xc_serialNumber = serial, xc_commonName = ''openshell-ca'', xc_notBefore = notBefore,
      xc_notAfter = notAfter, xc_keyUsage = [KeyUsageCertSign, KeyUsageCRLSign], xc_extKeyUsage = [],
      xc_basicConstraintsValid = True, xc_isCA = True, xc_ipAddresses = [], xc_dnsNames = []\<rparr>"

definition issueCert :: "'w env \<Rightarrow> 'w pkiLib \<Rightarrow> x509cert \<Rightarrow> string \<Rightarrow> string \<Rightarrow> string list \<Rightarrow> extKeyUsage \<Rightarrow>
    ('w sys, goerr + string \<times> string) state" where
  "issueCert E P caCert caKey cn sans usage = do {
     r \<leftarrow> silent (pk_genEC P);
     (case r of
       Inl e \<Rightarrow> ret (Inl e)
     | Inr key \<Rightarrow> do {
         serial \<leftarrow> newSerial P;
         now1 \<leftarrow> timeNow E;
         now2 \<leftarrow> timeNow E;
         (let template = addSANs P sans
            (leafTemplate serial cn (now1 - hours 1) (now2 + hours (365 * 24)) usage) in do {
           c \<leftarrow> silent (pk_createCert P template caCert (pk_publicKey P key) caKey);
           (case c of
             Inl e \<Rightarrow> ret (Inl e)
           | Inr certDER \<Rightarrow> (case marshalECPrivateKey E P key of
               Inl e \<Rightarrow> ret (Inl e)
             | Inr keyBytes \<Rightarrow> ret (Inr (pemEncodeCert E certDER, keyBytes))))
         })
       })
   }"

definition GeneratePKI :: "'w env \<Rightarrow> 'w pkiLib \<Rightarrow> string list \<Rightarrow> ('w sys, goerr + pkiBundle) state" where
  "GeneratePKI E P sans = do {
     r \<leftarrow> silent (pk_genEC P);
     (case r of
       Inl e \<Rightarrow> ret (Inl (Wrapf ''generating CA key: '' e []))
     | Inr caKey \<Rightarrow> do {
         serial \<leftarrow> newSerial P;
         now1 \<leftarrow> timeNow E;
         now2 \<leftarrow> timeNow E;
         (let template = caTemplate serial (now1 - hours 1) (now2 + hours (10 * 365 * 24)) in do {
           c \<leftarrow> silent (pk_createCert P template template (pk_publicKey P caKey) caKey);
           (case c of
             Inl e \<Rightarrow> ret (Inl (Wrapf ''creating CA certificate: '' e []))
           | Inr caCertDER \<Rightarrow> (case pk_parseCert P caCertDER of
               Inl e \<Rightarrow> ret (Inl (Wrapf ''parsing CA certificate: '' e []))
             | Inr caCert \<Rightarrow> do {
                 sv \<leftarrow> issueCert E P caCert caKey ''openshell-server'' sans ExtKeyUsageServerAuth;
                 (case sv of
                   Inl e \<Rightarrow> ret (Inl (Wrapf ''issuing server certificate: '' e []))
                 | Inr (serverCert, serverKey) \<Rightarrow> do {
                     cl \<leftarrow> issueCert E P caCert caKey ''openshell-client'' [] ExtKeyUsageClientAuth;
                     (case cl of
                       Inl e \<Rightarrow> ret (Inl (Wrapf ''issuing client certificate: '' e []))
                     | Inr (clientCert, clientKey) \<Rightarrow> (case marshalECPrivateKey E P caKey of
                         Inl e \<Rightarrow> ret (Inl e)
                       | Inr caKeyBytes \<Rightarrow>
                           (let caCertPEM = pemEncodeCert E caCertDER in
                            ret (Inr \<lparr>bd_CACert = caCertPEM, bd_CAKey = caKeyBytes,
                              bd_ServerCert = serverCert @ caCertPEM, bd_ServerKey = serverKey,
                              bd_ClientCert = clientCert, bd_ClientKey = clientKey\<rparr>))))
                   })
               }))
         })
       })
   }"

definition keyID :: "'w env \<Rightarrow> string \<Rightarrow> string" where
  "keyID E pubBytes = hexEncode (take 16 (e_sha256 E pubBytes))"

definition GenerateRSAKeys :: "'w env \<Rightarrow> 'w pkiLib \<Rightarrow> ('w sys, goerr + jwtKeys) state" where
  "GenerateRSAKeys E P = do {
     r \<leftarrow> silent (pk_genRSA P 2048);
     (case r of
       Inl e \<Rightarrow> ret (Inl (Wrapf ''generating RSA key: '' e []))
     | Inr key \<Rightarrow> (case pk_marshalPKCS8 P key of
         Inl e \<Rightarrow> ret (Inl (Wrapf ''marshaling RSA private key: '' e []))
       | Inr privBytes \<Rightarrow>
          (let pubBytes = e_marshalPKCS1Public E key in
           ret (Inr \<lparr>jk_SigningKey = e_pemEncode E ''PRIVATE KEY'' privBytes,
             jk_PublicKey = e_pemEncode E ''RSA PUBLIC KEY'' pubBytes, jk_KID = keyID E pubBytes\<rparr>))))
   }"

definition GenerateJWTKeys :: "'w env \<Rightarrow> 'w pkiLib \<Rightarrow> ('w sys, goerr + jwtKeys) state" where
  "GenerateJWTKeys E P = do {
     r \<leftarrow> silent (pk_genEd25519 P);
     (case r of
       Inl e \<Rightarrow> ret (Inl (Wrapf ''generating Ed25519 key: '' e []))
     | Inr (pub, priv) \<Rightarrow> (case pk_marshalPKCS8 P priv of
         Inl e \<Rightarrow> ret (Inl (Wrapf ''marshaling private key: '' e []))
       | Inr privBytes \<Rightarrow> (case pk_marshalPKIX P pub of
           Inl e \<Rightarrow> ret (Inl (Wrapf ''marshaling public key: '' e []))
         | Inr pubBytes \<Rightarrow>
             ret (Inr \<lparr>jk_SigningKey = e_pemEncode E ''PRIVATE KEY'' privBytes,
               jk_PublicKey = e_pemEncode E ''PUBLIC KEY'' pubBytes, jk_KID = keyID E pubBytes\<rparr>))))
   }"

text \<open>The bytes \<open>HashSANs\<close> feeds to the hash: every SAN followed by a zero byte.\<close>

definition sansInput :: "string list \<Rightarrow> string" where
  "sansInput sans = concat (map (\<lambda>s. s @ [CHR 0x00]) sans)"

definition HashSANs :: "'w env \<Rightarrow> string list \<Rightarrow> string" where
  "HashSANs E sans = hexEncode (take 16 (e_sha256 E (sansInput sans)))"

section \<open>Lemmas\<close>

lemma addSANs_ips: "xc_ipAddresses (addSANs P sans t) = xc_ipAddresses t @ List.map_filter (pk_parseIP P) sans"
  by (induction sans arbitrary: t) (auto simp: List.map_filter_def split: option.splits)

lemma addSANs_names:
  "xc_dnsNames (addSANs P sans t) = xc_dnsNames t @ filter (\<lambda>s. pk_parseIP P s = None) sans"
  by (induction sans arbitrary: t) (auto split: option.splits)

lemma addSANs_rest:
  "xc_commonName (addSANs P sans t) = xc_commonName t"
  "xc_extKeyUsage (addSANs P sans t) = xc_extKeyUsage t"
  "xc_isCA (addSANs P sans t) = xc_isCA t"
  "xc_keyUsage (addSANs P sans t) = xc_keyUsage t"
  by (induction sans arbitrary: t) (auto split: option.splits)

text \<open>\<open>signedBy P parent key tpl der\<close>: some call of the library signed the template with that key.\<close>

definition signedBy :: "'w pkiLib \<Rightarrow> x509cert \<Rightarrow> string \<Rightarrow> x509cert \<Rightarrow> string \<Rightarrow> bool" where
  "signedBy P parent key tpl der = (\<exists>pub w w'. pk_createCert P tpl parent pub key w = (Inr der, w'))"

definition leafFor :: "'w pkiLib \<Rightarrow> string \<Rightarrow> string list \<Rightarrow> extKeyUsage \<Rightarrow> x509cert \<Rightarrow> bool" where
  "leafFor P cn sans usage t = (xc_commonName t = cn \<and> xc_extKeyUsage t = [usage] \<and> \<not> xc_isCA t \<and>
     xc_ipAddresses t = List.map_filter (pk_parseIP P) sans \<and>
     xc_dnsNames t = filter (\<lambda>s. pk_parseIP P s = None) sans)"

lemma leafFor_template: "leafFor P cn sans usage (addSANs P sans (leafTemplate serial cn nb na usage))"
  by (simp add: leafFor_def addSANs_ips addSANs_names addSANs_rest leafTemplate_def)

lemma signedByI: "pk_createCert P tpl parent pub key w = (Inr der, w') \<Longrightarrow> signedBy P parent key tpl der"
  unfolding signedBy_def by blast

lemma issueCert_wp:
  assumes "\<And>e t. Q (Inl e) t"
    and "\<And>tpl der key t. leafFor P cn sans usage tpl \<Longrightarrow> signedBy P caCert caKey tpl der \<Longrightarrow>
      Q (Inr (pemEncodeCert E der, key)) t"
  shows "wp (issueCert E P caCert caKey cn sans usage) Q s"
  unfolding issueCert_def newSerial_def timeNow_def Let_def
  by (intro wp_rules assms(1)) (rule assms(2) [OF leafFor_template signedByI], simp)

text \<open>What a successful \<open>GeneratePKI\<close> returns.\<close>

definition soundBundle :: "'w env \<Rightarrow> 'w pkiLib \<Rightarrow> string list \<Rightarrow> pkiBundle \<Rightarrow> bool" where
  "soundBundle E P sans b = (\<exists>caTpl caDER caCert caKey svTpl svDER clTpl clDER.
     xc_isCA caTpl \<and> KeyUsageCertSign \<in> set (xc_keyUsage caTpl) \<and>
     signedBy P caTpl caKey caTpl caDER \<and> pk_parseCert P caDER = Inr caCert \<and>
     leafFor P ''openshell-server'' sans ExtKeyUsageServerAuth svTpl \<and> signedBy P caCert caKey svTpl svDER \<and>
     leafFor P ''openshell-client'' [] ExtKeyUsageClientAuth clTpl \<and> signedBy P caCert caKey clTpl clDER \<and>
     bd_CACert b = pemEncodeCert E caDER \<and>
     bd_ServerCert b = pemEncodeCert E svDER @ pemEncodeCert E caDER \<and>
     bd_ClientCert b = pemEncodeCert E clDER)"

lemma soundBundleI:
  assumes "signedBy P (caTemplate serial nb na) caKey (caTemplate serial nb na) caDER"
    and "pk_parseCert P caDER = Inr caCert"
    and "leafFor P ''openshell-server'' sans ExtKeyUsageServerAuth svTpl" and "signedBy P caCert caKey svTpl svDER"
    and "leafFor P ''openshell-client'' [] ExtKeyUsageClientAuth clTpl" and "signedBy P caCert caKey clTpl clDER"
  shows "soundBundle E P sans \<lparr>bd_CACert = pemEncodeCert E caDER, bd_CAKey = ck,
    bd_ServerCert = pemEncodeCert E svDER @ pemEncodeCert E caDER, bd_ServerKey = sk,
    bd_ClientCert = pemEncodeCert E clDER, bd_ClientKey = lk\<rparr>"
  unfolding soundBundle_def
  apply (rule exI [of _ "caTemplate serial nb na"], rule exI [of _ caDER], rule exI [of _ caCert],
      rule exI [of _ caKey], rule exI [of _ svTpl], rule exI [of _ svDER], rule exI [of _ clTpl], rule exI [of _ clDER])
  using assms by (simp add: caTemplate_def)

lemma GeneratePKI_wp:
  assumes "\<And>e t. Q (Inl e) t" and "\<And>b t. soundBundle E P sans b \<Longrightarrow> Q (Inr b) t"
  shows "wp (GeneratePKI E P sans) Q s"
  unfolding GeneratePKI_def newSerial_def timeNow_def Let_def
  by (intro wp_rules issueCert_wp assms(1); clarsimp; rule assms(2); rule soundBundleI [OF signedByI]; assumption)

lemma sansInput_inject:
  assumes "list_all (\<lambda>s. CHR 0x00 \<notin> set s) xs" and "list_all (\<lambda>s. CHR 0x00 \<notin> set s) ys"
    and "sansInput xs = sansInput ys"
  shows "xs = ys"
  using assms
proof (induction xs arbitrary: ys)
  case Nil
  then show ?case by (cases ys) (auto simp: sansInput_def)
next
  case (Cons x xs)
  then obtain y ys' where ys: "ys = y # ys'" by (cases ys) (auto simp: sansInput_def)
  have "x @ CHR 0x00 # sansInput xs = y @ CHR 0x00 # sansInput ys'"
    using Cons.prems(3) ys by (simp add: sansInput_def)
  then have "x = y \<and> sansInput xs = sansInput ys'"
    using Cons.prems(1,2) ys sep_append_inject [of "CHR 0x00" x y "sansInput xs" "sansInput ys'"] by simp
  then show ?case using Cons ys by simp
qed

lemma hexDigits_inject: "m < 16 \<Longrightarrow> n < 16 \<Longrightarrow> hexDigits ! m = hexDigits ! n \<Longrightarrow> m = n"
proof -
  have "distinct hexDigits" "length hexDigits = 16" by code_simp+
  then show "m < 16 \<Longrightarrow> n < 16 \<Longrightarrow> hexDigits ! m = hexDigits ! n \<Longrightarrow> m = n"
    using nth_eq_iff_index_eq by metis
qed

lemma hexEncode_inject: "hexEncode xs = hexEncode ys \<Longrightarrow> xs = ys"
proof (induction xs arbitrary: ys)
  case Nil
  then show ?case by (cases ys) (auto simp: hexEncode_def)
next
  case (Cons x xs)
  then obtain y ys' where ys: "ys = y # ys'" by (cases ys) (auto simp: hexEncode_def)
  have hex: "hexDigits ! (byteVal x div 16) = hexDigits ! (byteVal y div 16)"
    "hexDigits ! (byteVal x mod 16) = hexDigits ! (byteVal y mod 16)" "hexEncode xs = hexEncode ys'"
    using Cons.prems ys by (simp_all add: hexEncode_def)
  have "byteVal x div 16 < 16" "byteVal y div 16 < 16" using byteVal_less [of x] byteVal_less [of y] by linarith+
  then have "byteVal x div 16 = byteVal y div 16" "byteVal x mod 16 = byteVal y mod 16"
    using hexDigits_inject hex(1,2) by simp_all
  then have "byteVal x = byteVal y" by (rule split_byte)
  then have "x = y" by (rule byte_eqI)
  then show ?case using Cons.IH [OF hex(3)] ys by simp
qed

section \<open>A concrete library\<close>

text \<open>A stand-in for the witnesses: keys are fixed strings, a certificate is its common name.\<close>

definition memPki :: "memWorld pkiLib" where
  "memPki = \<lparr>pk_genEC = (\<lambda>w. (Inr ''ec'', w)), pk_genRSA = (\<lambda>n w. (Inr ''rsa'', w)),
     pk_genEd25519 = (\<lambda>w. (Inr (''pub'', ''priv''), w)), pk_randInt = (\<lambda>b w. (7, w)),
     pk_publicKey = (\<lambda>k. ''pub-'' @ k),
     pk_createCert = (\<lambda>t p pub k w. (Inr (xc_commonName t @ concat (xc_ipAddresses t @ xc_dnsNames t)), w)),
     pk_parseCert = (\<lambda>der. Inr (caTemplate 0 0 0)), pk_marshalEC = Inr, pk_marshalPKCS8 = Inr,
     pk_marshalPKIX = Inr, pk_parseIP = (\<lambda>s. if s = ''127.0.0.1'' then Some s else None)\<rparr>"

section \<open>Properties\<close>



text \<open>
  The SAN hash detects drift. Two SAN lists without zero bytes whose hashes are equal are the same
  list, in the same order, unless the two encodings collide under the hash truncated to its first
  sixteen bytes.
\<close>

theorem san_hash_detects_drift:
  assumes "HashSANs E xs = HashSANs E ys"
    and "list_all (\<lambda>s. CHR 0x00 \<notin> set s) xs" and "list_all (\<lambda>s. CHR 0x00 \<notin> set s) ys"
    and "take 16 (e_sha256 E (sansInput xs)) = take 16 (e_sha256 E (sansInput ys)) \<Longrightarrow> sansInput xs = sansInput ys"
  shows "xs = ys"
proof -
  have "take 16 (e_sha256 E (sansInput xs)) = take 16 (e_sha256 E (sansInput ys))"
    using assms(1) unfolding HashSANs_def by (rule hexEncode_inject)
  then show ?thesis using assms by (intro sansInput_inject) auto
qed

theorem san_hash_detects_drift_witness:
  "HashSANs memEnv [''a''] = HashSANs memEnv [''a''] \<and> [''a''] = [''a''] \<and>
   HashSANs memEnv [''a'', ''b''] \<noteq> HashSANs memEnv [''ab'']"
proof -
  have ab: "take 16 (e_sha256 memEnv (sansInput [''a'', ''b''])) \<noteq> take 16 (e_sha256 memEnv (sansInput [''ab'']))"
    by code_simp
  have "[''a'', ''b''] = [''ab'']" if "HashSANs memEnv [''a'', ''b''] = HashSANs memEnv [''ab'']"
    using that by (rule san_hash_detects_drift) (use ab in auto)
  then have "HashSANs memEnv [''a'', ''b''] \<noteq> HashSANs memEnv [''ab'']" by auto
  then show ?thesis using san_hash_detects_drift [of memEnv "[''a'']" "[''a'']"] by simp
qed

end
