(* ===== verification/Detect.thy ===== *)
theory Detect
  imports FakeGateway
begin

text \<open>
  \<^verbatim>\<open>src/internal/openshift/detect.go\<close>: API-group detection with a time-to-live cache. Times are in
  nanoseconds, as \<^verbatim>\<open>time.Duration\<close> is. A check holds the cache's mutex throughout, so it is one step.
\<close>

section \<open>Definitions\<close>

definition positiveTTL :: int where
  "positiveTTL = 5 * 60 * 10 ^ 9"

definition negativeTTL :: int where
  "negativeTTL = 30 * 10 ^ 9"

definition check :: "'w env \<Rightarrow> string \<Rightarrow> cachedDetection \<Rightarrow> ('w sys, bool \<times> cachedDetection) state" where
  "check E groupVersion c = do {
     now \<leftarrow> timeNow E;
     if now < cc_expiry c then ret (cc_result c, c)
     else do {
       err \<leftarrow> kDiscover E groupVersion;
       now' \<leftarrow> timeNow E;
       (let r = (err = None) in
        ret (r, \<lparr>cc_result = r, cc_expiry = now' + (if r then positiveTTL else negativeTTL)\<rparr>))
     }
   }"

definition IsOpenShift :: "'w env \<Rightarrow> ('w sys, bool) state" where
  "IsOpenShift E = do {
     c \<leftarrow> gets isOpenShiftCache;
     rc \<leftarrow> check E ''route.openshift.io/v1'' c;
     _ \<leftarrow> modify (\<lambda>s. s\<lparr>isOpenShiftCache := snd rc\<rparr>);
     ret (fst rc)
   }"

definition HasGatewayAPI :: "'w env \<Rightarrow> ('w sys, bool) state" where
  "HasGatewayAPI E = do {
     c \<leftarrow> gets hasGatewayAPICache;
     rc \<leftarrow> check E ''gateway.networking.k8s.io/v1'' c;
     _ \<leftarrow> modify (\<lambda>s. s\<lparr>hasGatewayAPICache := snd rc\<rparr>);
     ret (fst rc)
   }"

definition HasGroupsAPI :: "'w env \<Rightarrow> ('w sys, bool) state" where
  "HasGroupsAPI E = do {
     c \<leftarrow> gets hasGroupsAPICache;
     rc \<leftarrow> check E ''user.openshift.io/v1'' c;
     _ \<leftarrow> modify (\<lambda>s. s\<lparr>hasGroupsAPICache := snd rc\<rparr>);
     ret (fst rc)
   }"

section \<open>A contract for caches with a time to live\<close>

text \<open>
  \<open>fill t v\<close> is the cache after a lookup that returned \<open>v\<close> at time \<open>t\<close>, \<open>usable c t\<close> says that
  the cache answers at time \<open>t\<close> without a new lookup, \<open>content\<close> is the answer it gives.
\<close>

locale ttl_cache =
  fixes fill :: "int \<Rightarrow> 'v \<Rightarrow> 'c"
    and usable :: "'c \<Rightarrow> int \<Rightarrow> bool"
    and content :: "'c \<Rightarrow> 'v"
    and ttl :: "'v \<Rightarrow> int"
  assumes usable_fill: "usable (fill t v) t' \<longleftrightarrow> t' < t + ttl v"
    and content_fill: "content (fill t v) = v"
begin

lemma bounded_staleness:
  "usable (fill t v) t' \<Longrightarrow> content (fill t v) = v \<and> t' - t < ttl v"
  by (simp add: usable_fill content_fill)

lemma expires: "t + ttl v \<le> t' \<Longrightarrow> \<not> usable (fill t v) t'"
  by (simp add: usable_fill)

end

definition detectionFill :: "int \<Rightarrow> bool \<Rightarrow> cachedDetection" where
  "detectionFill t r = \<lparr>cc_result = r, cc_expiry = t + (if r then positiveTTL else negativeTTL)\<rparr>"

interpretation detection: ttl_cache detectionFill "\<lambda>c t. t < cc_expiry c" cc_result
  "\<lambda>r. if r then positiveTTL else negativeTTL"
  by unfold_locales (simp_all add: detectionFill_def)

section \<open>Lemmas\<close>

lemma check_wp [wp_rules]:
  assumes "\<And>t0 w0 r c' s'. e_now E (world s) = (t0, w0) \<Longrightarrow>
      (if t0 < cc_expiry c then r = cc_result c \<and> c' = c \<and> s' = s\<lparr>world := w0\<rparr>
       else \<exists>err w1 t2 w2. e_discover E gv w0 = (err, w1) \<and> e_now E w1 = (t2, w2) \<and>
         r = (err = None) \<and> c' = detectionFill t2 r \<and>
         s' = s\<lparr>world := w2, calls := calls s @ [CDiscover gv]\<rparr>) \<Longrightarrow>
      Q (r, c') s'"
  shows "wp (check E gv c) Q s"
  using assms
  by (auto simp: check_def timeNow_def kDiscover_def wp_def silent_def invoke_def detectionFill_def Let_def
      split: prod.splits if_splits)

lemma onlyCalls_check [call_rules]: "(\<And>gv. P (CDiscover gv)) \<Longrightarrow> onlyCalls P (check E gv c)"
  unfolding check_def timeNow_def prim_defs by (intro call_rules)

lemma onlyCalls_detect [call_rules]:
  assumes "\<And>gv. P (CDiscover gv)"
  shows "onlyCalls P (IsOpenShift E)" and "onlyCalls P (HasGatewayAPI E)" and "onlyCalls P (HasGroupsAPI E)"
  unfolding IsOpenShift_def HasGatewayAPI_def HasGroupsAPI_def
  by (intro call_rules assms; simp)+

lemma check_fill:
  assumes "run_state (check E gv c) s = ((r, c'), t)"
  shows "r = cc_result c' \<and> (calls t = calls s \<and> c' = c \<or>
    calls t = calls s @ [CDiscover gv] \<and>
    (\<exists>w now w'. e_now E w = (now, w') \<and> w' = world t \<and> c' = detectionFill now r))"
  using assms
  by (auto simp: check_def timeNow_def kDiscover_def silent_def invoke_def detectionFill_def Let_def
      split: prod.splits if_splits)

lemma check_hit:
  assumes "e_now E (world s) = (now, w)" and "now < cc_expiry c"
  shows "run_state (check E gv c) s = ((cc_result c, c), s\<lparr>world := w\<rparr>)"
  using assms by (simp add: check_def timeNow_def silent_def)

section \<open>Properties\<close>

text \<open>
  Within its time to live the cache answers alone. After any check, another check whose clock
  reading is before the recorded expiry returns the same answer, keeps the cache and makes no
  discovery call.
\<close>

theorem detect_cache_answers:
  assumes "run_state (check E gv c) s = ((r, c'), t)"
    and "e_now E (world u) = (now, w)" and "now < cc_expiry c'"
  shows "run_state (check E gv c') u = ((r, c'), u\<lparr>world := w\<rparr>)"
  using check_hit [OF assms(2,3)] check_fill [OF assms(1)] by simp

theorem detect_cache_answers_witness:
  "let s = memSys \<lparr>mw_objs = [], mw_fake = newFakeOpenShellServer, mw_clock = 0\<rparr>;
       r = run_state (check memEnv ''route.openshift.io/v1'' (isOpenShiftCache s)) s
   in run_state (check memEnv ''route.openshift.io/v1'' (snd (fst r))) s =
        ((fst (fst r), snd (fst r)), s\<lparr>world := world s\<rparr>) \<and> calls (snd r) \<noteq> []"
proof -
  let ?s = "memSys \<lparr>mw_objs = [], mw_fake = newFakeOpenShellServer, mw_clock = 0\<rparr>"
  let ?r = "run_state (check memEnv ''route.openshift.io/v1'' (isOpenShiftCache ?s)) ?s"
  have expiry: "0 < cc_expiry (snd (fst ?r))" and calls: "calls (snd ?r) \<noteq> []" by code_simp+
  have now: "e_now memEnv (world ?s) = (0, world ?s)" by (simp add: memEnv_def memSys_def)
  have run: "?r = ((fst (fst ?r), snd (fst ?r)), snd ?r)" by simp
  show ?thesis unfolding Let_def using detect_cache_answers [OF run now expiry] calls by blast
qed

text \<open>
  An answer is never older than its time to live. If a check made a discovery call, the new cache
  entry is usable at exactly the times before the clock reading after that call plus five minutes for
  a positive and thirty seconds for a negative answer.
\<close>

theorem detect_bounded_staleness:
  assumes "run_state (check E gv c) s = ((r, c'), t)" and "calls t \<noteq> calls s"
  shows "\<exists>w filled. e_now E w = (filled, world t) \<and>
    (\<forall>now. now < cc_expiry c' \<longleftrightarrow> now - filled < (if r then 5 * 60 else 30) * 10 ^ 9)"
proof -
  obtain w filled where "e_now E w = (filled, world t)" "c' = detectionFill filled r"
    using check_fill [OF assms(1)] assms(2) by auto
  moreover have "now < cc_expiry (detectionFill filled r) \<longleftrightarrow> now - filled < (if r then 5 * 60 else 30) * 10 ^ 9" for now
    using detection.usable_fill [where t = filled and v = r and t' = now] by (auto simp: positiveTTL_def negativeTTL_def)
  ultimately show ?thesis by blast
qed

theorem detect_bounded_staleness_witness:
  "let s = memSys \<lparr>mw_objs = [], mw_fake = newFakeOpenShellServer, mw_clock = 0\<rparr>;
       r = run_state (check memEnv ''route.openshift.io/v1'' (isOpenShiftCache s)) s
   in \<exists>w filled. e_now memEnv w = (filled, world (snd r))"
proof -
  let ?s = "memSys \<lparr>mw_objs = [], mw_fake = newFakeOpenShellServer, mw_clock = 0\<rparr>"
  let ?r = "run_state (check memEnv ''route.openshift.io/v1'' (isOpenShiftCache ?s)) ?s"
  have changed: "calls (snd ?r) \<noteq> calls ?s" by code_simp
  have run: "?r = ((fst (fst ?r), snd (fst ?r)), snd ?r)" by simp
  show ?thesis unfolding Let_def using detect_bounded_staleness [OF run changed] by blast
qed

end
