(* ===== verification/Resources.thy ===== *)
theory Resources
  imports Config Pki Detect Controllers
begin

text \<open>
  The core resources of a gateway: the steps of phase two of the reconcile loop in
  \<^verbatim>\<open>src/internal/controller/openshellgateway_controller.go\<close>, from the namespaces to the network policy,
  without the Deployment, which has its own theory. A step gets the gateway resource and returns an
  error or none.
\<close>

section \<open>Mutating objects\<close>

definition withLabels :: "smap \<Rightarrow> kobj \<Rightarrow> kobj" where
  "withLabels ls ob = ob\<lparr>ob_meta := (ob_meta ob)\<lparr>om_labels := ls\<rparr>\<rparr>"

definition withAnnotations :: "smap \<Rightarrow> kobj \<Rightarrow> kobj" where
  "withAnnotations as ob = ob\<lparr>ob_meta := (ob_meta ob)\<lparr>om_annotations := as\<rparr>\<rparr>"

abbreviation withBody :: "body \<Rightarrow> kobj \<Rightarrow> kobj" where
  "withBody b ob \<equiv> ob\<lparr>ob_body := b\<rparr>"

text \<open>\<^verbatim>\<open>CreationTimestamp.IsZero()\<close>: the object does not exist in the cluster yet.\<close>

definition isNew :: "kobj \<Rightarrow> bool" where
  "isNew ob = (om_creationTimestamp (ob_meta ob) = zeroTime)"

text \<open>\<^verbatim>\<open>CreateOrUpdate\<close> with a callback that cannot fail and only changes the object.\<close>

definition ensure :: "'w env \<Rightarrow> kobj \<Rightarrow> (kobj \<Rightarrow> kobj) \<Rightarrow> ('w sys, goerr option) state" where
  "ensure E obj mutate = createOrUpdate E obj (\<lambda>ob. ret (Inr (mutate ob)))"

text \<open>An em dash in the source's messages, as UTF-8 bytes.\<close>

abbreviation emDash :: string where
  "emDash \<equiv> [CHR 0xE2, CHR 0x80, CHR 0x94]"

text \<open>Results of \<^verbatim>\<open>unstructured.Nested...\<close>: a missing field is the zero value; the error is returned or ignored.\<close>

definition nestedOr :: "'a \<Rightarrow> 'a nested \<Rightarrow> goerr + 'a" where
  "nestedOr d n = (case n of NFound x \<Rightarrow> Inr x | NAbsent \<Rightarrow> Inr d | NError e \<Rightarrow> Inl e)"

definition nestedIgnore :: "'a \<Rightarrow> 'a nested \<Rightarrow> 'a" where
  "nestedIgnore d n = (case n of NFound x \<Rightarrow> x | _ \<Rightarrow> d)"

section \<open>Validation, namespaces, service accounts and RBAC\<close>

definition validateDatabaseSecret :: "'w env \<Rightarrow> openShellGateway \<Rightarrow> ('w sys, goerr option) state" where
  "validateDatabaseSecret E gw =
     (let ns = gatewayNamespace gw; secretName = databaseSecretName gw in
      if secretName = []
      then ret (Some (Errorf ''either spec.database.secretName or spec.database.embedded must be set''))
      else do {
        r \<leftarrow> kGet E KSecret (nsn ns secretName);
        (case r of
          Inl e \<Rightarrow> if e_isNotFound E e
            then ret (Some (Errorf (''database secret '' @ quote secretName @ '' not found in namespace '' @ quote ns)))
            else ret (Some (Wrapf ''checking database secret: '' e []))
        | Inr ob \<Rightarrow> if \<not> hasKey (sec_data (secretOf ob)) ''uri''
            then ret (Some (Errorf (''database secret '' @ quote secretName @ '' missing required key '' @ quote ''uri'')))
            else ret None)
      })"

definition reconcileNamespace :: "'w env \<Rightarrow> openShellGateway \<Rightarrow> ('w sys, goerr option) state" where
  "reconcileNamespace E gw = do {
     r \<leftarrow> foreach (\<lambda>nsName _. do {
         err \<leftarrow> ensure E (mkObj KNamespace (metaFor nsName []) BNone)
           (\<lambda>ob. withLabels (AList.update labelManagedBy managedByValue (ob_labels ob)) ob);
         (case err of
           Some e \<Rightarrow> ret (Inl (Wrapf (''ensuring namespace '' @ nsName @ '': '') e []))
         | None \<Rightarrow> ret (Inr ()))
       }) (uniqueNamespaces gw) ();
     (case r of Inl e \<Rightarrow> ret (Some e) | Inr _ \<Rightarrow> ret None)
   }"

definition reconcileGatewayServiceAccount :: "'w env \<Rightarrow> openShellGateway \<Rightarrow> ('w sys, goerr option) state" where
  "reconcileGatewayServiceAccount E gw =
     ensure E (mkObj KServiceAccount (metaFor (gw_name gw) (gatewayNamespace gw)) BNone)
       (withLabels (gatewayLabels gw))"

definition reconcileSandboxServiceAccount :: "'w env \<Rightarrow> openShellGateway \<Rightarrow> ('w sys, goerr option) state" where
  "reconcileSandboxServiceAccount E gw =
     ensure E (mkObj KServiceAccount (metaFor (gw_name gw @ ''-sandbox'') (sandboxNamespace gw)) BNone)
       (withLabels (gatewayLabels gw))"

abbreviation rule :: "string list \<Rightarrow> string list \<Rightarrow> string list \<Rightarrow> policyRule" where
  "rule gs rs vs \<equiv> \<lparr>ru_apiGroups = gs, ru_resources = rs, ru_verbs = vs\<rparr>"

definition nodeReaderRules :: "policyRule list" where
  "nodeReaderRules =
     [rule [''authentication.k8s.io''] [''tokenreviews''] [''create''],
      rule [''''] [''nodes''] [''get'', ''list'', ''watch''],
      rule [''user.openshift.io''] [''groups''] [''get'']]"

definition sandboxRules :: "policyRule list" where
  "sandboxRules =
     [rule [''agents.x-k8s.io''] [''sandboxes'', ''sandboxes/status'']
        [''create'', ''delete'', ''get'', ''list'', ''patch'', ''update'', ''watch''],
      rule [''''] [''events''] [''get'', ''list'', ''watch''],
      rule [''''] [''pods''] [''get'']]"

definition reconcileClusterRole :: "'w env \<Rightarrow> openShellGateway \<Rightarrow> ('w sys, goerr option) state" where
  "reconcileClusterRole E gw =
     ensure E (mkObj KClusterRole (metaFor (gw_name gw @ ''-node-reader'') []) (BRules []))
       (\<lambda>ob. withBody (BRules nodeReaderRules) (withLabels (gatewayLabels gw) ob))"

definition reconcileClusterRoleBinding :: "'w env \<Rightarrow> openShellGateway \<Rightarrow> ('w sys, goerr option) state" where
  "reconcileClusterRoleBinding E gw =
     ensure E (mkObj KClusterRoleBinding (metaFor (gw_name gw @ ''-node-reader'') []) BNone)
       (\<lambda>ob. withBody (BBinding
           \<lparr>rf_apiGroup = ''rbac.authorization.k8s.io'', rf_kind = ''ClusterRole'', rf_name = gw_name gw @ ''-node-reader''\<rparr>
           [\<lparr>su_kind = ''ServiceAccount'', su_name = gw_name gw, su_namespace = gatewayNamespace gw\<rparr>])
         (withLabels (gatewayLabels gw) ob))"

definition reconcileRole :: "'w env \<Rightarrow> openShellGateway \<Rightarrow> ('w sys, goerr option) state" where
  "reconcileRole E gw =
     ensure E (mkObj KRole (metaFor (gw_name gw @ ''-sandbox'') (sandboxNamespace gw)) (BRules []))
       (\<lambda>ob. withBody (BRules sandboxRules) (withLabels (gatewayLabels gw) ob))"

definition reconcileRoleBinding :: "'w env \<Rightarrow> openShellGateway \<Rightarrow> ('w sys, goerr option) state" where
  "reconcileRoleBinding E gw =
     ensure E (mkObj KRoleBinding (metaFor (gw_name gw @ ''-sandbox'') (sandboxNamespace gw)) BNone)
       (\<lambda>ob. withBody (BBinding
           \<lparr>rf_apiGroup = ''rbac.authorization.k8s.io'', rf_kind = ''Role'', rf_name = gw_name gw @ ''-sandbox''\<rparr>
           [\<lparr>su_kind = ''ServiceAccount'', su_name = gw_name gw, su_namespace = gatewayNamespace gw\<rparr>])
         (withLabels (gatewayLabels gw) ob))"

definition reconcileSCCBinding :: "'w env \<Rightarrow> openShellGateway \<Rightarrow> ('w sys, goerr option) state" where
  "reconcileSCCBinding E gw =
     ensure E (mkObj KClusterRoleBinding (metaFor (gw_name gw @ ''-sandbox-scc-privileged'') []) BNone)
       (\<lambda>ob. withBody (BBinding
           \<lparr>rf_apiGroup = ''rbac.authorization.k8s.io'', rf_kind = ''ClusterRole'',
            rf_name = ''system:openshift:scc:privileged''\<rparr>
           [\<lparr>su_kind = ''ServiceAccount'', su_name = gw_name gw @ ''-sandbox'', su_namespace = sandboxNamespace gw\<rparr>])
         (withLabels (gatewayLabels gw) ob))"

section \<open>Certificates\<close>

abbreviation sansHashAnnotation :: string where
  "sansHashAnnotation \<equiv> ''ogo.aknochow.io/pki-sans-hash''"

definition tlsSecretData :: "string \<Rightarrow> string \<Rightarrow> string \<Rightarrow> body" where
  "tlsSecretData crt key ca = BSecret \<lparr>sec_type = ''kubernetes.io/tls'',
     sec_data = [(''tls.crt'', crt), (''tls.key'', key), (''ca.crt'', ca)]\<rparr>"

definition serverTLSSecret :: "openShellGateway \<Rightarrow> string \<Rightarrow> pkiBundle \<Rightarrow> kobj \<Rightarrow> kobj" where
  "serverTLSSecret gw sansHash bd ob =
     withBody (tlsSecretData (bd_ServerCert bd) (bd_ServerKey bd) (bd_CACert bd))
       (withAnnotations (AList.update sansHashAnnotation sansHash (om_annotations (ob_meta ob)))
         (withLabels (gatewayLabels gw) ob))"

definition clientTLSSecret :: "openShellGateway \<Rightarrow> pkiBundle \<Rightarrow> kobj \<Rightarrow> kobj" where
  "clientTLSSecret gw bd ob =
     withBody (tlsSecretData (bd_ClientCert bd) (bd_ClientKey bd) (bd_CACert bd))
       (withLabels (gatewayLabels gw) ob)"

abbreviation emptySecret :: "string \<Rightarrow> string \<Rightarrow> kobj" where
  "emptySecret name ns \<equiv> mkObj KSecret (metaFor name ns) (BSecret \<lparr>sec_type = [], sec_data = []\<rparr>)"

definition reconcileSelfSignedTLS :: "'w env \<Rightarrow> 'w pkiLib \<Rightarrow> openShellGateway \<Rightarrow> ('w sys, goerr option) state" where
  "reconcileSelfSignedTLS E P gw =
     (let ns = gatewayNamespace gw;
          serverSecretName = gw_name gw @ ''-server-tls'';
          clientSecretName = gw_name gw @ ''-client-tls'';
          sans = computeServerSANs gw;
          sansHash = HashSANs E sans in do {
        sr \<leftarrow> kGet E KSecret (nsn ns serverSecretName);
        (case (case sr of Inl e \<Rightarrow> if e_isNotFound E e then None else Some e | Inr _ \<Rightarrow> None) of
          Some e \<Rightarrow> ret (Some (Wrapf ''checking server TLS secret: '' e []))
        | None \<Rightarrow> do {
            cr \<leftarrow> kGet E KSecret (nsn ns clientSecretName);
            (case (case cr of Inl e \<Rightarrow> if e_isNotFound E e then None else Some e | Inr _ \<Rightarrow> None) of
              Some e \<Rightarrow> ret (Some (Wrapf ''checking client TLS secret: '' e []))
            | None \<Rightarrow>
              if (case (sr, cr) of (Inr sob, Inr _) \<Rightarrow>
                   mget (om_annotations (ob_meta sob)) sansHashAnnotation = sansHash | _ \<Rightarrow> False)
              then ret None
              else do {
                b \<leftarrow> GeneratePKI E P sans;
                (case b of
                  Inl e \<Rightarrow> ret (Some (Wrapf ''generating PKI: '' e []))
                | Inr bd \<Rightarrow> do {
                    err \<leftarrow> ensure E (emptySecret serverSecretName ns) (serverTLSSecret gw sansHash bd);
                    (case err of
                      Some e \<Rightarrow> ret (Some (Wrapf ''creating server TLS secret: '' e []))
                    | None \<Rightarrow> do {
                        err' \<leftarrow> ensure E (emptySecret clientSecretName ns) (clientTLSSecret gw bd);
                        (case err' of
                          Some e \<Rightarrow> ret (Some (Wrapf ''creating client TLS secret: '' e []))
                        | None \<Rightarrow> ret None)
                      })
                  })
              })
          })
      })"

definition issuerName :: "openShellGateway \<Rightarrow> string" where
  "issuerName gw = (let n = cm_issuerName (tls_certManager (gs_tls (gw_spec gw))) in
     if n = [] then ''letsencrypt'' else n)"

definition issuerKind :: "openShellGateway \<Rightarrow> string" where
  "issuerKind gw = (let n = cm_issuerKind (tls_certManager (gs_tls (gw_spec gw))) in
     if n = [] then ''ClusterIssuer'' else n)"

definition certificateObj :: "openShellGateway \<Rightarrow> string \<Rightarrow> string \<Rightarrow> kobj" where
  "certificateObj gw secretName hostname =
     mkObj KCertificate ((metaFor secretName (gatewayNamespace gw))\<lparr>om_labels := gatewayLabels gw\<rparr>)
       (BUnstructured [(''spec'', JMap
         [(''secretName'', JStr secretName), (''dnsNames'', JList [JStr hostname]),
          (''issuerRef'', JMap [(''name'', JStr (issuerName gw)), (''kind'', JStr (issuerKind gw))])])])"

text \<open>The part of \<open>reconcileGatewayTLSCert\<close> that brings an existing Certificate in line.\<close>

definition syncCertificate :: "'w env \<Rightarrow> openShellGateway \<Rightarrow> string \<Rightarrow> kobj \<Rightarrow> ('w sys, goerr option) state" where
  "syncCertificate E gw hostname existing =
     (let c = contentOf existing in
      case nestedOr [] (e_nestedStrings E c [''spec'', ''dnsNames'']) of
        Inl e \<Rightarrow> ret (Some (Wrapf ''reading existing Certificate dnsNames: '' e []))
      | Inr existingDNSNames \<Rightarrow> (case nestedOr [] (e_nestedString E c [''spec'', ''issuerRef'', ''name'']) of
          Inl e \<Rightarrow> ret (Some (Wrapf ''reading existing Certificate issuerRef.name: '' e []))
        | Inr existingIssuerName \<Rightarrow> (case nestedOr [] (e_nestedString E c [''spec'', ''issuerRef'', ''kind'']) of
            Inl e \<Rightarrow> ret (Some (Wrapf ''reading existing Certificate issuerRef.kind: '' e []))
          | Inr existingIssuerKind \<Rightarrow>
              if existingDNSNames = [hostname] \<and> existingIssuerName = issuerName gw \<and> existingIssuerKind = issuerKind gw
              then ret None
              else (case e_setNested E c (JList [JStr hostname]) [''spec'', ''dnsNames''] of
                Inl e \<Rightarrow> ret (Some (Wrapf ''updating Certificate dnsNames: '' e []))
              | Inr c1 \<Rightarrow> (case e_setNested E c1 (JStr (issuerName gw)) [''spec'', ''issuerRef'', ''name''] of
                  Inl e \<Rightarrow> ret (Some (Wrapf ''updating Certificate issuerRef.name: '' e []))
                | Inr c2 \<Rightarrow> (case e_setNested E c2 (JStr (issuerKind gw)) [''spec'', ''issuerRef'', ''kind''] of
                    Inl e \<Rightarrow> ret (Some (Wrapf ''updating Certificate issuerRef.kind: '' e []))
                  | Inr c3 \<Rightarrow> kUpdate E (withBody (BUnstructured c3) existing)))))))"

definition reconcileGatewayTLSCert :: "'w env \<Rightarrow> openShellGateway \<Rightarrow> string \<Rightarrow> string \<Rightarrow> ('w sys, goerr option) state" where
  "reconcileGatewayTLSCert E gw secretName hostname = do {
     r \<leftarrow> kGet E KCertificate (nsn (gatewayNamespace gw) secretName);
     (case r of
       Inl e \<Rightarrow> if e_isNotFound E e then do {
           c \<leftarrow> kCreate E (certificateObj gw secretName hostname);
           ret (errOf c)
         }
         else do {
           d \<leftarrow> kDiscover E ''cert-manager.io/v1'';
           (case d of
             Some _ \<Rightarrow> ret (Some (Errorf (''cert-manager CRDs not installed '' @ emDash @ '' required for Gateway API TLS'')))
           | None \<Rightarrow> ret (Some e))
         }
     | Inr existing \<Rightarrow> syncCertificate E gw hostname existing)
   }"

definition reconcileTLS :: "'w env \<Rightarrow> 'w pkiLib \<Rightarrow> openShellGateway \<Rightarrow> ('w sys, goerr option) state" where
  "reconcileTLS E P gw =
     (if \<not> tlsEnabled gw then ret None
      else if tls_serverCertSecretName (gs_tls (gw_spec gw)) \<noteq> [] then ret None
      else do {
        err \<leftarrow> reconcileSelfSignedTLS E P gw;
        (case err of
          Some e \<Rightarrow> ret (Some e)
        | None \<Rightarrow>
            if cm_enabled (tls_certManager (gs_tls (gw_spec gw))) \<and> routeHostname gw \<noteq> [] then do {
              err' \<leftarrow> reconcileGatewayTLSCert E gw (gw_name gw @ ''-gateway-tls'') (routeHostname gw);
              (case err' of
                Some e \<Rightarrow> ret (Some (Wrapf ''reconciling cert-manager TLS certificate: '' e []))
              | None \<Rightarrow> ret None)
            }
            else ret None)
      })"

section \<open>CA bundles\<close>

definition serverTLSCA :: "'w env \<Rightarrow> openShellGateway \<Rightarrow> ('w sys, goerr + string) state" where
  "serverTLSCA E gw =
     (let configured = tls_serverCertSecretName (gs_tls (gw_spec gw));
          external = (configured \<noteq> []);
          secretName = (if external then configured else gw_name gw @ ''-server-tls'') in do {
        r \<leftarrow> kGet E KSecret (nsn (gatewayNamespace gw) secretName);
        (case r of
          Inl e \<Rightarrow> ret (Inl (Wrapf ''reading server TLS CA: '' e []))
        | Inr ob \<Rightarrow>
           (let ca = mget (sec_data (secretOf ob)) ''ca.crt'' in
            if ca = [] \<and> external
            then ret (Inl (Errorf (''server TLS secret '' @ quote secretName @
              '' (spec.tls.serverCertSecretName) has no ca.crt; external server certificates must include the issuing CA under the ca.crt key '' @
              emDash @ '' a rotating leaf tls.crt certificate cannot be published as stable trust material'')))
            else (let ca' = (if ca = [] then mget (sec_data (secretOf ob)) ''tls.crt'' else ca) in
              if ca' = []
              then ret (Inl (Errorf (''server TLS secret '' @ quote secretName @ '' has neither ca.crt nor tls.crt'')))
              else ret (Inr ca'))))
      })"

definition caMutate :: "openShellGateway \<Rightarrow> string \<Rightarrow> string \<Rightarrow> kobj \<Rightarrow> goerr + kobj" where
  "caMutate gw name ca ob =
     (if \<not> isNew ob \<and> \<not> managedByGateway (ob_labels ob) gw
      then Inl (Errorf (''existing ConfigMap '' @ gatewayNamespace gw @ ''/'' @ name @ '' is not managed by OGO''))
      else Inr (withBody (BConfigMap \<lparr>cfg_data = [(''ca.crt'', ca)], cfg_binaryData = []\<rparr>)
             (withLabels (gatewayLabels gw) ob)))"

definition reconcileCAConfigMap :: "'w env \<Rightarrow> openShellGateway \<Rightarrow> string \<Rightarrow> bool \<Rightarrow> ('w sys, goerr option) state" where
  "reconcileCAConfigMap E gw name enabled =
     (let namespace = gatewayNamespace gw in
      if \<not> enabled then do {
        r \<leftarrow> kGet E KConfigMap (nsn namespace name);
        (case r of
          Inl e \<Rightarrow> if e_isNotFound E e then ret None else ret (Some e)
        | Inr configMap \<Rightarrow>
            if managedByGateway (ob_labels configMap) gw then kDelete E configMap else ret None)
      }
      else do {
        ca \<leftarrow> serverTLSCA E gw;
        (case ca of
          Inl e \<Rightarrow> ret (Some e)
        | Inr destinationCA \<Rightarrow>
            createOrUpdate E (mkObj KConfigMap (metaFor name namespace) (BConfigMap \<lparr>cfg_data = [], cfg_binaryData = []\<rparr>))
              (\<lambda>ob. ret (caMutate gw name destinationCA ob)))
      })"

definition reconcileAuthBridgeCA :: "'w env \<Rightarrow> openShellGateway \<Rightarrow> ('w sys, goerr option) state" where
  "reconcileAuthBridgeCA E gw =
     (if tlsEnabled gw then do {
        isOCP \<leftarrow> IsOpenShift E;
        reconcileCAConfigMap E gw (gw_name gw @ authCASuffix) (authBridgeEnabled gw isOCP)
      }
      else reconcileCAConfigMap E gw (gw_name gw @ authCASuffix) False)"

definition reconcileGatewayCA :: "'w env \<Rightarrow> openShellGateway \<Rightarrow> ('w sys, goerr option) state" where
  "reconcileGatewayCA E gw = reconcileCAConfigMap E gw (gw_name gw @ gatewayCASuffix) (tlsEnabled gw)"

section \<open>Signing keys\<close>

definition keySecret :: "openShellGateway \<Rightarrow> string \<Rightarrow> jwtKeys \<Rightarrow> kobj" where
  "keySecret gw secretName keys =
     mkObj KSecret ((metaFor secretName (gatewayNamespace gw))\<lparr>om_labels := gatewayLabels gw\<rparr>)
       (BSecret \<lparr>sec_type = ''Opaque'', sec_data =
         [(''signing.pem'', jk_SigningKey keys), (''public.pem'', jk_PublicKey keys), (''kid'', jk_KID keys)]\<rparr>)"

definition ensureEd25519KeySecret :: "'w env \<Rightarrow> 'w pkiLib \<Rightarrow> openShellGateway \<Rightarrow> string \<Rightarrow> ('w sys, goerr option) state" where
  "ensureEd25519KeySecret E P gw secretName = do {
     r \<leftarrow> kGet E KSecret (nsn (gatewayNamespace gw) secretName);
     (case r of
       Inr _ \<Rightarrow> ret None
     | Inl e \<Rightarrow>
         if \<not> e_isNotFound E e then ret (Some (Wrapf (''checking key secret '' @ secretName @ '': '') e []))
         else do {
           k \<leftarrow> GenerateJWTKeys E P;
           (case k of
             Inl e' \<Rightarrow> ret (Some (Wrapf (''generating keys for '' @ secretName @ '': '') e' []))
           | Inr keys \<Rightarrow> do {
               c \<leftarrow> kCreate E (keySecret gw secretName keys);
               ret (errOf c)
             })
         })
   }"

definition reconcileJWTKeys :: "'w env \<Rightarrow> 'w pkiLib \<Rightarrow> openShellGateway \<Rightarrow> ('w sys, goerr option) state" where
  "reconcileJWTKeys E P gw = ensureEd25519KeySecret E P gw (gw_name gw @ ''-jwt-keys'')"

definition reconcileAuthBridgeKeys :: "'w env \<Rightarrow> 'w pkiLib \<Rightarrow> openShellGateway \<Rightarrow> ('w sys, goerr option) state" where
  "reconcileAuthBridgeKeys E P gw =
     (let secretName = gw_name gw @ ''-auth-bridge-keys'' in do {
        r \<leftarrow> kGet E KSecret (nsn (gatewayNamespace gw) secretName);
        (case r of
          Inr _ \<Rightarrow> ret None
        | Inl e \<Rightarrow>
            if \<not> e_isNotFound E e then ret (Some (Wrapf ''checking auth-bridge keys: '' e []))
            else do {
              k \<leftarrow> GenerateRSAKeys E P;
              (case k of
                Inl e' \<Rightarrow> ret (Some (Wrapf ''generating auth-bridge RSA keys: '' e' []))
              | Inr keys \<Rightarrow> do {
                  c \<leftarrow> kCreate E (keySecret gw secretName keys);
                  ret (errOf c)
                })
            })
      })"

section \<open>Configuration, service and network policy\<close>

definition oidcIssuerFor :: "openShellGateway \<Rightarrow> bool \<Rightarrow> string" where
  "oidcIssuerFor gw isOCP = (if authBridgeEnabled gw isOCP then authBridgeInternalURL gw else [])"

definition reconcileConfigMap :: "'w env \<Rightarrow> openShellGateway \<Rightarrow> ('w sys, goerr option) state" where
  "reconcileConfigMap E gw = do {
     isOCP \<leftarrow> IsOpenShift E;
     (let toml = RenderGatewayTOML gw (sandboxNamespace gw) [oidcIssuerFor gw isOCP] in
      ensure E (mkObj KConfigMap (metaFor (gw_name gw @ ''-config'') (gatewayNamespace gw))
          (BConfigMap \<lparr>cfg_data = [], cfg_binaryData = []\<rparr>))
        (\<lambda>ob. withBody (BConfigMap ((configMapOf ob)\<lparr>cfg_data := [(''gateway.toml'', toml)]\<rparr>))
          (withLabels (gatewayLabels gw) ob)))
   }"

definition servicePorts :: "openShellGateway \<Rightarrow> bool \<Rightarrow> servicePort list" where
  "servicePorts gw isOCP =
     [\<lparr>sp_name = ''grpc'', sp_port = 8080, sp_targetPort = StrPort ''grpc'', sp_protocol = ''TCP'',
       sp_appProtocol = Some ''grpc''\<rparr>,
      \<lparr>sp_name = ''metrics'', sp_port = 9090, sp_targetPort = StrPort ''metrics'', sp_protocol = ''TCP'',
       sp_appProtocol = None\<rparr>] @
     (if authBridgeEnabled gw isOCP
      then [\<lparr>sp_name = ''auth'', sp_port = 8085,
        sp_targetPort = StrPort (if tlsEnabled gw then ''auth-tls'' else ''auth''), sp_protocol = ''TCP'',
        sp_appProtocol = None\<rparr>]
      else [])"

definition reconcileService :: "'w env \<Rightarrow> openShellGateway \<Rightarrow> ('w sys, goerr option) state" where
  "reconcileService E gw =
     createOrUpdate E (mkObj KService (metaFor (gw_name gw) (gatewayNamespace gw))
         (BService \<lparr>sv_type = [], sv_selector = [], sv_ports = []\<rparr>))
       (\<lambda>ob. do {
          isOCP \<leftarrow> IsOpenShift E;
          ret (Inr (withBody (BService \<lparr>sv_type = ''ClusterIP'', sv_selector = selectorLabels gw,
              sv_ports = servicePorts gw isOCP\<rparr>)
            (withLabels (gatewayLabels gw) ob)))
        })"

definition sandboxNetworkPolicy :: "openShellGateway \<Rightarrow> networkPolicyBody" where
  "sandboxNetworkPolicy gw =
     \<lparr>nl_podSelector = [(''openshell.ai/managed-by'', ''openshell'')], nl_policyTypes = [''Ingress''],
      nl_fromNamespaceSelector = [(''kubernetes.io/metadata.name'', gatewayNamespace gw)],
      nl_fromPodSelector = selectorLabels gw, nl_ports = [(''TCP'', IntPort 2222)]\<rparr>"

definition reconcileNetworkPolicy :: "'w env \<Rightarrow> openShellGateway \<Rightarrow> ('w sys, goerr option) state" where
  "reconcileNetworkPolicy E gw =
     (let name = gw_name gw @ ''-sandbox-ssh''; ns = sandboxNamespace gw in
      if np_enabled (gs_networkPolicy (gw_spec gw)) = Some False then do {
        r \<leftarrow> kGet E KNetworkPolicy (nsn ns name);
        (case r of
          Inl _ \<Rightarrow> ret None
        | Inr existing \<Rightarrow> do {
            err \<leftarrow> kDelete E existing;
            (case err of
              Some e \<Rightarrow> if e_isNotFound E e then ret None
                else ret (Some (Wrapf ''cleaning up disabled NetworkPolicy: '' e []))
            | None \<Rightarrow> ret None)
          })
      }
      else ensure E (mkObj KNetworkPolicy (metaFor name ns) BNone)
        (\<lambda>ob. withBody (BNetworkPolicy (sandboxNetworkPolicy gw)) (withLabels (gatewayLabels gw) ob)))"

section \<open>Lemmas\<close>

lemma ensure_eq: "ensure E obj mutate = do {
     r \<leftarrow> invoke (CFetch obj) (e_couFetch E obj);
     (case r of
       Inl e \<Rightarrow> ret (Some e)
     | Inr ob \<Rightarrow> invoke (CCommit ob (mutate ob)) (e_couCommit E ob (mutate ob)))
   }"
  by (simp add: ensure_def createOrUpdate_def cong: sum.case_cong)

lemma ensure_wp:
  assumes "\<And>e t. Q (Some e) t"
    and "\<And>ob t. calls t = calls s @ [CFetch obj, CCommit ob (mutate ob)] \<Longrightarrow> Q None t"
  shows "wp (ensure E obj mutate) Q s"
  unfolding ensure_eq
  apply (intro wp_rules assms(1))
  subgoal for r w ob r' w' by (cases r') (auto intro: assms)
  done

lemma onlyCalls_ensure [call_rules]:
  "P (CFetch obj) \<Longrightarrow> (\<And>ob. P (CCommit ob (mutate ob))) \<Longrightarrow> onlyCalls P (ensure E obj mutate)"
  unfolding ensure_eq by (intro call_rules) auto

lemma onlyCalls_GeneratePKI [call_rules]: "onlyCalls P (GeneratePKI E L sans)"
  unfolding GeneratePKI_def issueCert_def newSerial_def timeNow_def by (intro call_rules)

lemma onlyCalls_keys [call_rules]:
  "onlyCalls P (GenerateRSAKeys E L)" "onlyCalls P (GenerateJWTKeys E L)"
  unfolding GenerateRSAKeys_def GenerateJWTKeys_def by (intro call_rules)+

lemma wp_noCalls:
  assumes "onlyCalls (\<lambda>_. False) m" and "wp m (\<lambda>r t. calls t = calls s \<longrightarrow> Q r t) s"
  shows "wp m Q s"
proof -
  have "wp m (\<lambda>_ t. calls t = calls s) s"
    by (rule wp_mono [OF wp_calls [OF assms(1)]]) (auto simp: list_all_iff)
  then show ?thesis using assms(2) by (auto simp: wp_def split: prod.splits)
qed

lemma GeneratePKI_quiet_wp:
  assumes "\<And>e t. calls t = calls s \<Longrightarrow> Q (Inl e) t"
    and "\<And>b t. soundBundle E P sans b \<Longrightarrow> calls t = calls s \<Longrightarrow> Q (Inr b) t"
  shows "wp (GeneratePKI E P sans) Q s"
  by (rule wp_noCalls [OF onlyCalls_GeneratePKI], rule GeneratePKI_wp) (use assms in blast)+

text \<open>What a successful run of \<open>reconcileSelfSignedTLS\<close> did.\<close>

abbreviation tlsGets :: "openShellGateway \<Rightarrow> call list" where
  "tlsGets gw \<equiv> [CGet KSecret (nsn (gatewayNamespace gw) (gw_name gw @ ''-server-tls'')),
     CGet KSecret (nsn (gatewayNamespace gw) (gw_name gw @ ''-client-tls''))]"

abbreviation tlsWrites :: "'w env \<Rightarrow> openShellGateway \<Rightarrow> pkiBundle \<Rightarrow> kobj \<Rightarrow> kobj \<Rightarrow> call list" where
  "tlsWrites E gw bd sob cob \<equiv>
     [CFetch (emptySecret (gw_name gw @ ''-server-tls'') (gatewayNamespace gw)),
      CCommit sob (serverTLSSecret gw (HashSANs E (computeServerSANs gw)) bd sob),
      CFetch (emptySecret (gw_name gw @ ''-client-tls'') (gatewayNamespace gw)),
      CCommit cob (clientTLSSecret gw bd cob)]"

definition storedHash :: "'w env \<Rightarrow> openShellGateway \<Rightarrow> string \<Rightarrow> bool" where
  "storedHash E gw h = (\<exists>w w' sob. e_get E KSecret (nsn (gatewayNamespace gw) (gw_name gw @ ''-server-tls'')) w = (Inr sob, w') \<and>
     mget (om_annotations (ob_meta sob)) sansHashAnnotation = h)"

lemma reconcileSelfSignedTLS_wp:
  assumes "\<And>e t. Q (Some e) t"
    and "\<And>t. calls t = calls s @ tlsGets gw \<Longrightarrow> storedHash E gw (HashSANs E (computeServerSANs gw)) \<Longrightarrow> Q None t"
    and "\<And>t bd sob cob. calls t = calls s @ tlsGets gw @ tlsWrites E gw bd sob cob \<Longrightarrow>
      soundBundle E P (computeServerSANs gw) bd \<Longrightarrow> Q None t"
  shows "wp (reconcileSelfSignedTLS E P gw) Q s"
  unfolding reconcileSelfSignedTLS_def prim_defs Let_def
  apply (intro wp_rules GeneratePKI_quiet_wp ensure_wp assms(1); (simp; fail)?)
  subgoal for r w ra wa
    apply (rule assms(2), simp)
    unfolding storedHash_def
    apply (cases r; cases ra)
       apply simp_all
    apply (rule exI [of _ "world s"], blast)
    done
  subgoal for r w ra wa b t bd ob ta oba tb
    by (rule assms(3) [where bd = bd and sob = ob and cob = oba]) simp_all
  done

section \<open>Properties\<close>


definition tlsGateway :: openShellGateway where
  "tlsGateway = \<lparr>gw_meta = metaFor ''gw'' [], gw_spec = zeroGatewaySpec, gw_status = zeroGatewayStatus\<rparr>"

abbreviation emptyWorld :: memWorld where
  "emptyWorld \<equiv> \<lparr>mw_objs = [], mw_fake = newFakeOpenShellServer, mw_clock = 0\<rparr>"

text \<open>A cluster in which nothing exists and every write succeeds.\<close>

definition freshEnv :: "memWorld env" where
  "freshEnv = memEnv\<lparr>e_get := (\<lambda>k n w. (Inl notFoundErr, w)), e_list := (\<lambda>k l w. (Inr [], w)),
     e_create := (\<lambda>ob w. (Inr ob, w)), e_couFetch := (\<lambda>ob w. (Inr ob, w)),
     e_couCommit := (\<lambda>a b w. (None, w)), e_update := (\<lambda>ob w. (None, w)), e_delete := (\<lambda>ob w. (None, w))\<rparr>"

lemma freshEnv_simps [simp]:
  "e_get freshEnv k n w = (Inl notFoundErr, w)" "e_list freshEnv k l w = (Inr [], w)"
  "e_create freshEnv ob w = (Inr ob, w)" "e_couFetch freshEnv ob w = (Inr ob, w)"
  "e_couCommit freshEnv ob ob' w = (None, w)" "e_update freshEnv ob w = (None, w)"
  "e_delete freshEnv ob w = (None, w)" "e_isNotFound freshEnv notFoundErr"
  "e_now freshEnv w = (mw_clock w, w)"
  by (simp_all add: freshEnv_def memEnv_def)

lemma memPki_simps [simp]:
  "pk_genEC memPki w = (Inr ''ec'', w)" "pk_randInt memPki b w = (7, w)"
  "\<exists>der. pk_createCert memPki t p pub k w = (Inr der, w)" "pk_marshalEC memPki k = Inr k"
  "pk_parseCert memPki der = Inr (caTemplate 0 0 0)"
  by (simp_all add: memPki_def)

lemma run_ensure_fresh [simp]:
  "run_state (ensure freshEnv obj f) s = (None, s\<lparr>calls := calls s @ [CFetch obj, CCommit obj (f obj)]\<rparr>)"
  by (simp add: ensure_eq invoke_def)

lemma run_kGet_fresh [simp]: "run_state (kGet freshEnv k n) s = (Inl notFoundErr, s\<lparr>calls := calls s @ [CGet k n]\<rparr>)"
  by (simp add: kGet_def invoke_def)

lemma run_issueCert_mem:
  "\<exists>c k. run_state (issueCert freshEnv memPki ca key cn sans usage) s = (Inr (c, k), s)"
  by (simp add: issueCert_def silent_def newSerial_def timeNow_def Let_def marshalECPrivateKey_def memPki_def)

lemma run_GeneratePKI_mem: "\<exists>b. run_state (GeneratePKI freshEnv memPki sans) s = (Inr b, s)"
proof -
  obtain c k where "run_state (issueCert freshEnv memPki (caTemplate 0 0 0) ''ec'' ''openshell-server'' sans ExtKeyUsageServerAuth) s = (Inr (c, k), s)"
    using run_issueCert_mem by blast
  moreover obtain c' k' where "run_state (issueCert freshEnv memPki (caTemplate 0 0 0) ''ec'' ''openshell-client'' [] ExtKeyUsageClientAuth) s = (Inr (c', k'), s)"
    using run_issueCert_mem by blast
  ultimately show ?thesis
    by (simp add: GeneratePKI_def silent_def newSerial_def timeNow_def Let_def marshalECPrivateKey_def memPki_def)
qed


end
