(* ===== verification/Dependencies.thy ===== *)
theory Dependencies
  imports Resources
begin

text \<open>
  The auto-provisioned dependencies of a gateway, one group of definitions per file
  \<^verbatim>\<open>src/internal/controller/dep_*.go\<close>: Envoy Gateway, the privileged SCC of its proxies, the embedded
  PostgreSQL and the OpenShift groups, each with \<open>Enabled\<close>, \<open>Reconcile\<close> and \<open>Cleanup\<close> as in the
  interface \<open>DependencyReconciler\<close> of \<^verbatim>\<open>dependency.go\<close>. Reconciling returns a condition and an error.

  The embedded manifests and the YAML library are the parameter \<open>yamlLib\<close>: \<open>ym_file\<close> is the embedded
  file system, \<open>ym_split\<close> gives the documents that successive \<^verbatim>\<open>Read\<close> calls return and the error that
  ends the reading, if it is not the end of the data, and \<open>ym_decode\<close> decodes one document. A failing
  random source makes \<open>generatePassword\<close> panic; that is not represented.
\<close>

record yamlLib =
  ym_file :: "string \<Rightarrow> goerr + string"
  ym_split :: "string \<Rightarrow> string list \<times> goerr option"
  ym_decode :: "string \<Rightarrow> goerr + kobj"

record 'w dependencyReconciler =
  dr_Name :: string
  dr_Enabled :: "openShellGateway \<Rightarrow> ('w sys, bool) state"
  dr_Reconcile :: "openShellGateway \<Rightarrow> ('w sys, condition \<times> goerr option) state"
  dr_Cleanup :: "openShellGateway \<Rightarrow> ('w sys, goerr option) state"

abbreviation dependencyFailed :: "string \<Rightarrow> string \<Rightarrow> string \<Rightarrow> goerr \<Rightarrow> condition \<times> goerr option" where
  "dependencyFailed ty reason msg e \<equiv> (mkCond ty ConditionFalse reason msg, Some e)"

abbreviation dependencyReady :: "string \<Rightarrow> string \<Rightarrow> string \<Rightarrow> condition \<times> goerr option" where
  "dependencyReady ty reason msg \<equiv> (mkCond ty ConditionTrue reason msg, None)"

section \<open>OpenShift groups\<close>

abbreviation "componentGroups \<equiv> ''openshift-groups''"

definition groupNames :: "openShellGateway \<Rightarrow> string list" where
  "groupNames gw = (let o' = au_openShift (gs_auth (gw_spec gw)) in [oa_userGroup o', oa_adminGroup o'])"

definition groupsEnabled :: "'w env \<Rightarrow> openShellGateway \<Rightarrow> ('w sys, bool) state" where
  "groupsEnabled E gw = do {
     has \<leftarrow> HasGroupsAPI E;
     (let o' = au_openShift (gs_auth (gw_spec gw)) in
      if \<not> has then ret False
      else if oa_autoCreateGroups o' = Some False then ret False
      else ret (oa_userGroup o' \<noteq> []))
   }"

definition groupObj :: "openShellGateway \<Rightarrow> string \<Rightarrow> kobj" where
  "groupObj gw groupName = mkObj KGroup ((metaFor groupName [])\<lparr>om_labels := ownershipLabels componentGroups gw\<rparr>)
     (BUnstructured [(''users'', JList [])])"

definition groupsReconcile :: "'w env \<Rightarrow> openShellGateway \<Rightarrow> ('w sys, condition \<times> goerr option) state" where
  "groupsReconcile E gw = do {
     r \<leftarrow> foreach (\<lambda>groupName made.
         if groupName = [] then ret (Inr made)
         else do {
           g \<leftarrow> kGet E KGroup (nsn [] groupName);
           (case g of
             Inr _ \<Rightarrow> ret (Inr made)
           | Inl e \<Rightarrow>
               if \<not> e_isNotFound E e
               then ret (Inl (dependencyFailed ConditionOpenShiftGroups ''CheckFailed''
                 (''Failed to check group '' @ groupName @ '': '' @ errText e) e))
               else do {
                 c \<leftarrow> kCreate E (groupObj gw groupName);
                 (case c of
                   Inl e' \<Rightarrow> ret (Inl (dependencyFailed ConditionOpenShiftGroups ''CreateFailed''
                     (''Failed to create group '' @ groupName @ '': '' @ errText e') e'))
                 | Inr _ \<Rightarrow> ret (Inr (made @ [groupName])))
               })
         }) (groupNames gw) [];
     (case r of
       Inl res \<Rightarrow> ret res
     | Inr made \<Rightarrow>
         if made \<noteq> []
         then ret (dependencyReady ConditionOpenShiftGroups ''Created''
           (''Created groups: ['' @ joinWith '' '' made @ '']''))
         else ret (dependencyReady ConditionOpenShiftGroups ''PreExisting'' ''Groups exist''))
   }"

text \<open>Deleting objects only if they carry the ownership label; failures are logged.\<close>

definition deleteOwned :: "'w env \<Rightarrow> kobj \<Rightarrow> ('w sys, unit) state" where
  "deleteOwned E ob = (if isOwnedByOGO (ob_labels ob)
     then do { _ \<leftarrow> kDelete E ob; ret () } else ret ())"

definition cleanupKeys :: "'w env \<Rightarrow> (kind \<times> nsName) list \<Rightarrow> ('w sys, goerr option) state" where
  "cleanupKeys E keys = do {
     _ \<leftarrow> foreach (\<lambda>(k, n) _. do {
         r \<leftarrow> kGet E k n;
         (case r of
           Inl _ \<Rightarrow> ret (Inr ())
         | Inr ob \<Rightarrow> do { _ \<leftarrow> deleteOwned E ob; ret (Inr ()) })
       }) keys () :: ('w sys, unit + unit) state;
     ret None
   }"

definition groupsCleanup :: "'w env \<Rightarrow> openShellGateway \<Rightarrow> ('w sys, goerr option) state" where
  "groupsCleanup E gw = cleanupKeys E (map (\<lambda>g. (KGroup, nsn [] g)) (filter (\<lambda>g. g \<noteq> []) (groupNames gw)))"

definition GroupsReconciler :: "'w env \<Rightarrow> 'w dependencyReconciler" where
  "GroupsReconciler E = \<lparr>dr_Name = ''OpenShiftGroupsReady'', dr_Enabled = groupsEnabled E,
     dr_Reconcile = groupsReconcile E, dr_Cleanup = groupsCleanup E\<rparr>"

section \<open>SCC bindings\<close>

definition sccBinding :: "smap \<Rightarrow> string \<Rightarrow> string \<Rightarrow> string \<Rightarrow> string \<Rightarrow> kobj" where
  "sccBinding labels name role sa ns = mkObj KClusterRoleBinding ((metaFor name [])\<lparr>om_labels := labels\<rparr>)
     (BUnstructured
       [(''roleRef'', JMap [(''apiGroup'', JStr ''rbac.authorization.k8s.io''), (''kind'', JStr ''ClusterRole''),
          (''name'', JStr role)]),
        (''subjects'', JList [JMap [(''kind'', JStr ''ServiceAccount''), (''name'', JStr sa),
          (''namespace'', JStr ns)]])])"

abbreviation "componentEnvoyProxySCC \<equiv> ''envoy-proxy-scc''"

definition envoyProxySCCEnabled :: "'w env \<Rightarrow> openShellGateway \<Rightarrow> ('w sys, bool) state" where
  "envoyProxySCCEnabled E gw = do {
     isOCP \<leftarrow> IsOpenShift E;
     (if \<not> isOCP then ret False
      else case ga_enabled (rt_gatewayAPI (gs_route (gw_spec gw))) of
        Some False \<Rightarrow> ret False
      | None \<Rightarrow> HasGatewayAPI E
      | Some True \<Rightarrow> ret True)
   }"

definition proxyAccount :: "string \<Rightarrow> bool" where
  "proxyAccount sa = (hasPrefix sa ''envoy-'' \<and> sa \<noteq> ''envoy-gateway'' \<and> sa \<noteq> ''eg-gateway-helm-certgen'')"

definition envoyProxySCCReconcile :: "'w env \<Rightarrow> openShellGateway \<Rightarrow> ('w sys, condition \<times> goerr option) state" where
  "envoyProxySCCReconcile E gw = do {
     l \<leftarrow> kList E KServiceAccount \<lparr>lo_namespace = Some envoyGatewaySystemNS, lo_labels = []\<rparr>;
     (case l of
       Inl e \<Rightarrow> ret (dependencyFailed ConditionEnvoyProxySCCReady ''ListFailed''
         (''Failed to list ServiceAccounts: '' @ errText e) e)
     | Inr accounts \<Rightarrow> do {
         r \<leftarrow> foreach (\<lambda>sa granted.
             if \<not> proxyAccount (ob_name sa) then ret (Inr granted)
             else (let bindingName = ''envoy-proxy-'' @ ob_name sa @ ''-privileged'' in do {
               g \<leftarrow> kGet E KClusterRoleBinding (nsn [] bindingName);
               (case g of
                 Inr _ \<Rightarrow> ret (Inr (granted + 1))
               | Inl _ \<Rightarrow> do {
                   c \<leftarrow> kCreate E (sccBinding (ownershipLabels componentEnvoyProxySCC gw) bindingName
                     ''system:openshift:scc:privileged'' (ob_name sa) envoyGatewaySystemNS);
                   (case c of
                     Inl e \<Rightarrow>
                       if e_isAlreadyExists E e then ret (Inr (granted + 1))
                       else ret (Inl (dependencyFailed ConditionEnvoyProxySCCReady ''GrantFailed''
                         (''Failed to grant SCC to '' @ ob_name sa @ '': '' @ errText e) e))
                   | Inr _ \<Rightarrow> ret (Inr (granted + 1)))
                 })
             })) accounts (0 :: int);
         (case r of
           Inl res \<Rightarrow> ret res
         | Inr granted \<Rightarrow> ret (dependencyReady ConditionEnvoyProxySCCReady ''Granted''
             (if granted > 0
              then ''Granted privileged SCC to '' @ intDec granted @ '' Envoy proxy ServiceAccount(s)''
              else ''No Envoy proxy ServiceAccounts found yet'')))
       })
   }"

definition envoyProxySCCCleanup :: "'w env \<Rightarrow> openShellGateway \<Rightarrow> ('w sys, goerr option) state" where
  "envoyProxySCCCleanup E gw = do {
     l \<leftarrow> kList E KClusterRoleBinding \<lparr>lo_namespace = None, lo_labels = ownershipLabels componentEnvoyProxySCC gw\<rparr>;
     (case l of
       Inl _ \<Rightarrow> ret None
     | Inr bindings \<Rightarrow> do {
         _ \<leftarrow> foreach (\<lambda>crb _. do { _ \<leftarrow> deleteOwned E crb; ret (Inr ()) }) bindings () :: ('w sys, unit + unit) state;
         ret None
       })
   }"

definition EnvoyProxySCCReconciler :: "'w env \<Rightarrow> 'w dependencyReconciler" where
  "EnvoyProxySCCReconciler E = \<lparr>dr_Name = ''EnvoyProxySCCReady'', dr_Enabled = envoyProxySCCEnabled E,
     dr_Reconcile = envoyProxySCCReconcile E, dr_Cleanup = envoyProxySCCCleanup E\<rparr>"

section \<open>Embedded PostgreSQL\<close>

abbreviation "componentPostgres \<equiv> ''embedded-postgresql''"
abbreviation "pgUser \<equiv> ''openshell''"
abbreviation "pgDatabase \<equiv> ''openshell''"

definition postgresEnabled :: "openShellGateway \<Rightarrow> bool" where
  "postgresEnabled gw = (db_embedded (gs_database (gw_spec gw)) \<and> db_secretName (gs_database (gw_spec gw)) = [])"

definition generatePassword :: "'w env \<Rightarrow> ('w sys, string) state" where
  "generatePassword E = do { b \<leftarrow> randBytes E 16; ret (hexEncode b) }"

definition passwordSecret :: "openShellGateway \<Rightarrow> string \<Rightarrow> kobj" where
  "passwordSecret gw password =
     mkObj KSecret ((metaFor (gw_name gw @ ''-pg-password'') (gatewayNamespace gw))\<lparr>om_labels := ownershipLabels componentPostgres gw\<rparr>)
       (BSecret \<lparr>sec_type = [], sec_data = [(''password'', password)]\<rparr>)"

definition ensurePasswordSecret :: "'w env \<Rightarrow> openShellGateway \<Rightarrow> ('w sys, goerr + string) state" where
  "ensurePasswordSecret E gw = do {
     r \<leftarrow> kGet E KSecret (nsn (gatewayNamespace gw) (gw_name gw @ ''-pg-password''));
     (case r of
       Inr ob \<Rightarrow> ret (Inr (mget (sec_data (secretOf ob)) ''password''))
     | Inl e \<Rightarrow>
         if \<not> e_isNotFound E e then ret (Inl (Wrapf ''checking password secret: '' e []))
         else do {
           password \<leftarrow> generatePassword E;
           c \<leftarrow> kCreate E (passwordSecret gw password);
           (case c of Inl e' \<Rightarrow> ret (Inl e') | Inr _ \<Rightarrow> ret (Inr password))
         })
   }"

definition pgStorageSize :: "openShellGateway \<Rightarrow> string" where
  "pgStorageSize gw = (case db_embeddedConfig (gs_database (gw_spec gw)) of
     Some c \<Rightarrow> if ec_storageSize c \<noteq> [] then ec_storageSize c else ''1Gi''
   | None \<Rightarrow> ''1Gi'')"

text \<open>\<^verbatim>\<open>resource.MustParse\<close> of a malformed size panics; the API server's schema validates the field.\<close>

definition ensurePVC :: "'w env \<Rightarrow> openShellGateway \<Rightarrow> ('w sys, goerr option) state" where
  "ensurePVC E gw =
     ensure E (mkObj KPersistentVolumeClaim (metaFor (gw_name gw @ ''-pg-data'') (gatewayNamespace gw)) BNone)
       (\<lambda>ob. if isNew ob
         then withBody (BPVC \<lparr>pv_accessModes = [''ReadWriteOnce''], pv_requests = [(''storage'', pgStorageSize gw)]\<rparr>)
           (withLabels (ownershipLabels componentPostgres gw) ob)
         else ob)"

definition pgImage :: "openShellGateway \<Rightarrow> string" where
  "pgImage gw = (case db_embeddedConfig (gs_database (gw_spec gw)) of
     Some c \<Rightarrow> if ec_image c \<noteq> [] then ec_image c else ''registry.redhat.io/rhel9/postgresql-16:latest''
   | None \<Rightarrow> ''registry.redhat.io/rhel9/postgresql-16:latest'')"

definition pgContainer :: "openShellGateway \<Rightarrow> container" where
  "pgContainer gw =
     \<lparr>ct_name = ''postgresql'', ct_image = pgImage gw, ct_args = [],
      ct_env = [(''POSTGRESQL_USER'', EnvValue pgUser),
        (''POSTGRESQL_PASSWORD'', EnvSecretKeyRef (gw_name gw @ ''-pg-password'') ''password''),
        (''POSTGRESQL_DATABASE'', EnvValue pgDatabase)],
      ct_ports = [\<lparr>cp_name = [], cp_containerPort = 5432, cp_protocol = ''TCP''\<rparr>],
      ct_startupProbe = None,
      ct_livenessProbe = Some \<lparr>pb_handler = TCPSocket (IntPort 5432), pb_initialDelaySeconds = 30,
        pb_periodSeconds = 30, pb_failureThreshold = 0\<rparr>,
      ct_readinessProbe = Some \<lparr>pb_handler = TCPSocket (IntPort 5432), pb_initialDelaySeconds = 5,
        pb_periodSeconds = 10, pb_failureThreshold = 0\<rparr>,
      ct_resources = \<lparr>rq_requests = [(''memory'', ''128Mi'')], rq_limits = [(''memory'', ''256Mi'')]\<rparr>,
      ct_volumeMounts = [\<lparr>vm_name = ''pgdata'', vm_mountPath = ''/var/lib/pgsql/data'', vm_readOnly = False\<rparr>],
      ct_securityContext = \<lparr>sx_allowPrivilegeEscalation = Some False, sx_runAsNonRoot = Some True,
        sx_drop = [''ALL'']\<rparr>\<rparr>"

definition pgDeployment :: "openShellGateway \<Rightarrow> kobj \<Rightarrow> kobj" where
  "pgDeployment gw ob =
     withBody (BDeployment
       \<lparr>dp_replicas = Some 1, dp_selector = [(''app'', gw_name gw @ ''-pg'')], dp_strategy = ''Recreate'',
        dp_template = \<lparr>tp_labels = [(''app'', gw_name gw @ ''-pg'')], tp_annotations = [],
          tp_spec = \<lparr>pd_serviceAccountName = [], pd_terminationGracePeriodSeconds = None,
            pd_containers = [pgContainer gw], pd_volumes = [(''pgdata'', VolPVC (gw_name gw @ ''-pg-data''))],
            pd_securityContext = None\<rparr>\<rparr>,
        dp_readyReplicas = (case ob_body ob of BDeployment d \<Rightarrow> dp_readyReplicas d | _ \<Rightarrow> 0)\<rparr>)
       (withAnnotations [(''ogo.aknochow.io/dev-only'', ''true''), (''ogo.aknochow.io/warning'', ''Not for production use'')]
         (withLabels (ownershipLabels componentPostgres gw) ob))"

definition pgEnsureDeployment :: "'w env \<Rightarrow> openShellGateway \<Rightarrow> ('w sys, goerr option) state" where
  "pgEnsureDeployment E gw =
     ensure E (mkObj KDeployment (metaFor (gw_name gw @ ''-pg'') (gatewayNamespace gw)) BNone) (pgDeployment gw)"

definition pgEnsureService :: "'w env \<Rightarrow> openShellGateway \<Rightarrow> ('w sys, goerr option) state" where
  "pgEnsureService E gw =
     ensure E (mkObj KService (metaFor (gw_name gw @ ''-pg'') (gatewayNamespace gw)) BNone)
       (\<lambda>ob. withBody (BService \<lparr>sv_type = [], sv_selector = [(''app'', gw_name gw @ ''-pg'')],
           sv_ports = [\<lparr>sp_name = [], sp_port = 5432, sp_targetPort = IntPort 5432, sp_protocol = ''TCP'',
             sp_appProtocol = None\<rparr>]\<rparr>)
         (withLabels (ownershipLabels componentPostgres gw) ob))"

definition pgURI :: "openShellGateway \<Rightarrow> string \<Rightarrow> string" where
  "pgURI gw password = ''postgresql://'' @ pgUser @ '':'' @ password @ ''@'' @ (gw_name gw @ ''-pg'') @ ''.'' @
     gatewayNamespace gw @ ''.svc:5432/'' @ pgDatabase @ ''?sslmode=disable''"

definition uriSecret :: "openShellGateway \<Rightarrow> string \<Rightarrow> kobj" where
  "uriSecret gw password =
     mkObj KSecret ((metaFor (gw_name gw @ ''-pg-uri'') (gatewayNamespace gw))\<lparr>om_labels := ownershipLabels componentPostgres gw\<rparr>)
       (BSecret \<lparr>sec_type = [], sec_data = [(''uri'', pgURI gw password)]\<rparr>)"

definition ensureURISecret :: "'w env \<Rightarrow> openShellGateway \<Rightarrow> string \<Rightarrow> ('w sys, goerr option) state" where
  "ensureURISecret E gw password = do {
     r \<leftarrow> kGet E KSecret (nsn (gatewayNamespace gw) (gw_name gw @ ''-pg-uri''));
     (case r of
       Inr _ \<Rightarrow> ret None
     | Inl e \<Rightarrow>
         if \<not> e_isNotFound E e then ret (Some (Wrapf ''checking URI secret: '' e []))
         else do {
           c \<leftarrow> kCreate E (uriSecret gw password);
           ret (errOf c)
         })
   }"

abbreviation pgFailed :: "string \<Rightarrow> goerr \<Rightarrow> condition \<times> goerr option" where
  "pgFailed what e \<equiv> dependencyFailed ConditionDatabaseReady ''ProvisionFailed'' (what @ errText e) e"

definition postgresReconcile :: "'w env \<Rightarrow> openShellGateway \<Rightarrow> ('w sys, condition \<times> goerr option) state" where
  "postgresReconcile E gw = do {
     p \<leftarrow> ensurePasswordSecret E gw;
     (case p of
       Inl e \<Rightarrow> ret (pgFailed ''Failed to create password secret: '' e)
     | Inr password \<Rightarrow> do {
         e1 \<leftarrow> ensurePVC E gw;
         (case e1 of
           Some e \<Rightarrow> ret (pgFailed ''Failed to create PVC: '' e)
         | None \<Rightarrow> do {
             e2 \<leftarrow> pgEnsureDeployment E gw;
             (case e2 of
               Some e \<Rightarrow> ret (pgFailed ''Failed to create deployment: '' e)
             | None \<Rightarrow> do {
                 e3 \<leftarrow> pgEnsureService E gw;
                 (case e3 of
                   Some e \<Rightarrow> ret (pgFailed ''Failed to create service: '' e)
                 | None \<Rightarrow> do {
                     e4 \<leftarrow> ensureURISecret E gw password;
                     (case e4 of
                       Some e \<Rightarrow> ret (pgFailed ''Failed to create URI secret: '' e)
                     | None \<Rightarrow> ret (dependencyReady ConditionDatabaseReady ''EmbeddedProvisioned''
                         ''Dev-only embedded PostgreSQL is running (not for production)''))
                   })
               })
           })
       })
   }"

definition postgresCleanup :: "'w env \<Rightarrow> openShellGateway \<Rightarrow> ('w sys, goerr option) state" where
  "postgresCleanup E gw = (let ns = gatewayNamespace gw in cleanupKeys E
     [(KDeployment, nsn ns (gw_name gw @ ''-pg'')), (KService, nsn ns (gw_name gw @ ''-pg'')),
      (KSecret, nsn ns (gw_name gw @ ''-pg-password'')), (KSecret, nsn ns (gw_name gw @ ''-pg-uri'')),
      (KPersistentVolumeClaim, nsn ns (gw_name gw @ ''-pg-data''))])"

definition PostgreSQLReconciler :: "'w env \<Rightarrow> 'w dependencyReconciler" where
  "PostgreSQLReconciler E = \<lparr>dr_Name = ''DatabaseReady'', dr_Enabled = (\<lambda>gw. ret (postgresEnabled gw)),
     dr_Reconcile = postgresReconcile E, dr_Cleanup = postgresCleanup E\<rparr>"

section \<open>Envoy Gateway\<close>

abbreviation "componentEnvoyGateway \<equiv> ''envoy-gateway''"
abbreviation "envoyVersion \<equiv> ''v1.3.2''"

definition envoyGatewayEnabled :: "'w env \<Rightarrow> openShellGateway \<Rightarrow> ('w sys, bool) state" where
  "envoyGatewayEnabled E gw =
     (let ga = rt_gatewayAPI (gs_route (gw_spec gw)) in
      if ga_enabled ga = Some False then ret False
      else if ga_installEnvoyGateway ga = Some False then ret False
      else if ga_enabled ga = Some True then ret True
      else HasGatewayAPI E)"

definition shouldGrantSCCs :: "openShellGateway \<Rightarrow> bool" where
  "shouldGrantSCCs gw = (ga_grantSCCs (rt_gatewayAPI (gs_route (gw_spec gw))) \<noteq> Some False)"

definition kindName :: "kind \<Rightarrow> string" where
  "kindName k = (case k of KSecret \<Rightarrow> ''Secret'' | KConfigMap \<Rightarrow> ''ConfigMap'' | KNamespace \<Rightarrow> ''Namespace''
     | KServiceAccount \<Rightarrow> ''ServiceAccount'' | KClusterRole \<Rightarrow> ''ClusterRole''
     | KClusterRoleBinding \<Rightarrow> ''ClusterRoleBinding'' | KRole \<Rightarrow> ''Role'' | KRoleBinding \<Rightarrow> ''RoleBinding''
     | KPersistentVolumeClaim \<Rightarrow> ''PersistentVolumeClaim'' | KDeployment \<Rightarrow> ''Deployment''
     | KService \<Rightarrow> ''Service'' | KNetworkPolicy \<Rightarrow> ''NetworkPolicy'' | KRoute \<Rightarrow> ''Route''
     | KGateway \<Rightarrow> ''Gateway'' | KGRPCRoute \<Rightarrow> ''GRPCRoute'' | KBackendTrafficPolicy \<Rightarrow> ''BackendTrafficPolicy''
     | KCertificate \<Rightarrow> ''Certificate'' | KOAuthClient \<Rightarrow> ''OAuthClient'' | KGroup \<Rightarrow> ''Group''
     | KGatewayClass \<Rightarrow> ''GatewayClass'' | KOpenShellGateway \<Rightarrow> ''OpenShellGateway''
     | KOpenShellProvider \<Rightarrow> ''OpenShellProvider'' | KOpenShellPolicy \<Rightarrow> ''OpenShellPolicy''
     | KOpenShellWorkspaceMember \<Rightarrow> ''OpenShellWorkspaceMember''
     | KCustomResourceDefinition \<Rightarrow> ''CustomResourceDefinition'' | KJob \<Rightarrow> ''Job'' | KOther n \<Rightarrow> n)"

fun containsStr :: "string \<Rightarrow> string \<Rightarrow> bool" where
  "containsStr [] p = (p = [])"
| "containsStr (c # s) p = (hasPrefix (c # s) p \<or> containsStr s p)"

definition kindMissing :: string where
  "kindMissing = ''Object '' @ [CHR 0x27] @ ''Kind'' @ [CHR 0x27] @ '' is missing''"

definition mergeLabels :: "smap \<Rightarrow> smap \<Rightarrow> smap" where
  "mergeLabels labels existing = fold (\<lambda>(k, v) m. AList.update k v m) labels existing"

text \<open>One document of a manifest: \<open>Inl\<close> leaves the loop with an error, \<open>Inr\<close> goes on.\<close>

definition applyObject :: "'w env \<Rightarrow> openShellGateway \<Rightarrow> kobj \<Rightarrow> ('w sys, goerr + unit) state" where
  "applyObject E gw obj0 =
     (let obj = withLabels (mergeLabels (ownershipLabels componentEnvoyGateway gw) (ob_labels obj0)) obj0 in do {
        r \<leftarrow> kGet E (ob_kind obj) (nsn (ob_namespace obj) (ob_name obj));
        (case r of
          Inr existing \<Rightarrow>
            if ob_kind existing = KCustomResourceDefinition \<or> ob_kind existing = KJob then ret (Inr ())
            else if \<not> isOwnedByOGO (ob_labels existing) then ret (Inr ())
            else do {
              err \<leftarrow> kUpdate E (obj\<lparr>ob_meta := (ob_meta obj)\<lparr>om_resourceVersion := om_resourceVersion (ob_meta existing)\<rparr>\<rparr>);
              (case err of
                Some e \<Rightarrow> ret (Inl (Wrapf (''updating '' @ kindName (ob_kind obj) @ ''/'' @ ob_name obj @ '': '') e []))
              | None \<Rightarrow> ret (Inr ()))
            }
        | Inl _ \<Rightarrow> do {
            c \<leftarrow> kCreate E obj;
            (case c of
              Inl e \<Rightarrow>
                if e_isAlreadyExists E e then ret (Inr ())
                else ret (Inl (Wrapf (''creating '' @ kindName (ob_kind obj) @ ''/'' @ ob_name obj @ '': '') e []))
            | Inr _ \<Rightarrow> ret (Inr ()))
          })
      })"

definition applyDocument :: "'w env \<Rightarrow> yamlLib \<Rightarrow> openShellGateway \<Rightarrow> string \<Rightarrow> ('w sys, goerr + unit) state" where
  "applyDocument E Y gw raw =
     (let doc = trimSpace raw in
      if doc = [] \<or> doc = ''---'' then ret (Inr ())
      else (case ym_decode Y doc of
        Inl e \<Rightarrow> if containsStr (errText e) kindMissing then ret (Inr ())
          else ret (Inl (Wrapf ''decoding manifest: '' e []))
      | Inr obj \<Rightarrow> if ob_kind obj = KOther [] then ret (Inr ()) else applyObject E gw obj))"

definition applyManifests :: "'w env \<Rightarrow> yamlLib \<Rightarrow> openShellGateway \<Rightarrow> string \<Rightarrow> ('w sys, goerr option) state" where
  "applyManifests E Y gw data = (case ym_split Y data of (docs, readErr) \<Rightarrow> do {
     r \<leftarrow> foreach (\<lambda>doc _. applyDocument E Y gw doc) docs ();
     (case r of
       Inl e \<Rightarrow> ret (Some e)
     | Inr _ \<Rightarrow> (case readErr of
         Some e \<Rightarrow> ret (Some (Wrapf ''reading YAML document: '' e []))
       | None \<Rightarrow> ret None))
   })"

definition applyManifestFile :: "'w env \<Rightarrow> yamlLib \<Rightarrow> openShellGateway \<Rightarrow> string \<Rightarrow> ('w sys, goerr option) state" where
  "applyManifestFile E Y gw filename = (case ym_file Y filename of
     Inl e \<Rightarrow> ret (Some (Wrapf (''reading embedded manifest '' @ filename @ '': '') e []))
   | Inr data \<Rightarrow> applyManifests E Y gw data)"

definition grantOpenShiftSCCs :: "'w env \<Rightarrow> openShellGateway \<Rightarrow> ('w sys, goerr option) state" where
  "grantOpenShiftSCCs E gw = do {
     r \<leftarrow> foreach (\<lambda>(name, sa, scc) _. do {
         g \<leftarrow> kGet E KClusterRoleBinding (nsn [] name);
         (case g of
           Inr _ \<Rightarrow> ret (Inr ())
         | Inl _ \<Rightarrow> do {
             c \<leftarrow> kCreate E (sccBinding (ownershipLabels componentEnvoyGateway gw) name
               (''system:openshift:scc:'' @ scc) sa envoyGatewaySystemNS);
             (case c of
               Inl e \<Rightarrow>
                 if e_isAlreadyExists E e then ret (Inr ())
                 else ret (Inl (Wrapf (''creating SCC binding '' @ name @ '': '') e []))
             | Inr _ \<Rightarrow> ret (Inr ()))
           })
       })
       [(''eg-gateway-helm-certgen-anyuid'', ''eg-gateway-helm-certgen'', ''anyuid''),
        (''envoy-gateway-anyuid'', ''envoy-gateway'', ''anyuid'')] ();
     (case r of Inl e \<Rightarrow> ret (Some e) | Inr _ \<Rightarrow> ret None)
   }"

abbreviation envoyFailed :: "string \<Rightarrow> string \<Rightarrow> goerr \<Rightarrow> condition \<times> goerr option" where
  "envoyFailed reason msg e \<equiv> dependencyFailed ConditionEnvoyGatewayReady reason msg e"

text \<open>The installation: the Gateway API CRDs unless the cluster has them, the CRDs of Envoy, the components.\<close>

definition installEnvoyGateway :: "'w env \<Rightarrow> yamlLib \<Rightarrow> openShellGateway \<Rightarrow>
    ('w sys, (condition \<times> goerr option) + unit) state" where
  "installEnvoyGateway E Y gw = do {
     has \<leftarrow> HasGatewayAPI E;
     e1 \<leftarrow> (if \<not> has then applyManifestFile E Y gw ''gatewayapi-crds.yaml'' else ret None);
     (case e1 of
       Some e \<Rightarrow> ret (Inl (envoyFailed ''InstallFailed'' ''Failed to install Gateway API CRDs - see operator logs for details'' e))
     | None \<Rightarrow> do {
         e2 \<leftarrow> applyManifestFile E Y gw ''envoygateway-crds.yaml'';
         (case e2 of
           Some e \<Rightarrow> ret (Inl (envoyFailed ''InstallFailed'' ''Failed to install Envoy Gateway CRDs - see operator logs for details'' e))
         | None \<Rightarrow> do {
             e3 \<leftarrow> applyManifestFile E Y gw ''components.yaml'';
             (case e3 of
               Some e \<Rightarrow> ret (Inl (envoyFailed ''InstallFailed'' ''Failed to install Envoy Gateway - see operator logs for details'' e))
             | None \<Rightarrow> ret (Inr ()))
           })
       })
   }"

definition envoyGatewayReconcile :: "'w env \<Rightarrow> yamlLib \<Rightarrow> openShellGateway \<Rightarrow>
    ('w sys, condition \<times> goerr option) state" where
  "envoyGatewayReconcile E Y gw =
     (let gcName = gatewayClassName gw in do {
        r \<leftarrow> kGet E KGatewayClass (nsn [] gcName);
        (let early = (case r of
             Inr gc \<Rightarrow> if \<not> isOwnedByOGO (ob_labels gc)
               then Some (dependencyReady ConditionEnvoyGatewayReady ''External'' (''GatewayClass '' @ quote gcName @ '' already exists''))
               else None
           | Inl e \<Rightarrow> if \<not> e_isNotFound E e \<and> \<not> e_isNoMatch E e
               then Some (envoyFailed ''CheckFailed'' ''Failed to check GatewayClass - see operator logs for details'' e)
               else None);
             alreadyInstalled = (case r of Inr _ \<Rightarrow> True | Inl _ \<Rightarrow> False) in
         case early of
           Some res \<Rightarrow> ret res
         | None \<Rightarrow>
             if gcName \<noteq> staticGatewayClassName
             then ret (envoyFailed ''InvalidConfig''
               (''route.gatewayAPI.gatewayClassName '' @ quote gcName @ '' requires an externally-managed '' @
                ''GatewayClass - the auto-install path can only create one named '' @ quote staticGatewayClassName)
               (Errorf (''custom gatewayClassName '' @ quote gcName @ '' requires an externally-managed GatewayClass'')))
             else do {
               isOCP \<leftarrow> IsOpenShift E;
               inst \<leftarrow> (if \<not> alreadyInstalled then installEnvoyGateway E Y gw else ret (Inr ()));
               (case inst of
                 Inl res \<Rightarrow> ret res
               | Inr _ \<Rightarrow> do {
                   scc \<leftarrow> (if isOCP \<and> shouldGrantSCCs gw then grantOpenShiftSCCs E gw else ret None);
                   (case scc of
                     Some e \<Rightarrow> ret (envoyFailed ''SCCFailed'' ''Failed to grant SCCs - see operator logs for details'' e)
                   | None \<Rightarrow> ret (dependencyReady ConditionEnvoyGatewayReady ''Installed''
                       (''Envoy Gateway '' @ envoyVersion @ '' installed by OGO'' @
                        (if isOCP \<and> \<not> shouldGrantSCCs gw
                         then '' (grantSCCs: false '' @ emDash @
                           '' SCC grants skipped, pods won'' @ [CHR 0x27] @ ''t schedule until granted separately)''
                         else []))))
                 })
             })
      })"

text \<open>Nothing is deleted; the branches differ only in what is logged.\<close>

definition envoyGatewayCleanup :: "'w env \<Rightarrow> openShellGateway \<Rightarrow> ('w sys, goerr option) state" where
  "envoyGatewayCleanup E gw = do {
     r \<leftarrow> kGet E KGatewayClass (nsn [] (gatewayClassName gw));
     (case r of
       Inl e \<Rightarrow> if e_isNotFound E e \<or> e_isNoMatch E e then ret None
         else ret (Some (Wrapf ''checking GatewayClass for cleanup: '' e []))
     | Inr _ \<Rightarrow> ret None)
   }"

definition EnvoyGatewayReconciler :: "'w env \<Rightarrow> yamlLib \<Rightarrow> 'w dependencyReconciler" where
  "EnvoyGatewayReconciler E Y = \<lparr>dr_Name = ''EnvoyGatewayReady'', dr_Enabled = envoyGatewayEnabled E,
     dr_Reconcile = envoyGatewayReconcile E Y, dr_Cleanup = envoyGatewayCleanup E\<rparr>"

definition dependencies :: "'w env \<Rightarrow> yamlLib \<Rightarrow> 'w dependencyReconciler list" where
  "dependencies E Y = [EnvoyGatewayReconciler E Y, EnvoyProxySCCReconciler E, PostgreSQLReconciler E, GroupsReconciler E]"

section \<open>The contract of a dependency\<close>

text \<open>
  What the gateway controller relies on: \<open>Reconcile\<close> returns a condition of the dependency's own type
  that is true exactly if there is no error, it deletes nothing and everything it creates or updates
  directly carries the ownership label, \<open>Cleanup\<close> writes nothing and deletes only objects with that
  label, and \<open>Enabled\<close> only reads.
\<close>

definition ownedWrite :: "call \<Rightarrow> bool" where
  "ownedWrite c = (case c of
     CCreate ob \<Rightarrow> isOwnedByOGO (ob_labels ob)
   | CUpdate ob \<Rightarrow> isOwnedByOGO (ob_labels ob)
   | CDelete _ \<Rightarrow> False | CStatusUpdate _ \<Rightarrow> False | CDial _ _ \<Rightarrow> False | CRpc _ _ \<Rightarrow> False
   | _ \<Rightarrow> True)"

definition ownedDelete :: "call \<Rightarrow> bool" where
  "ownedDelete c = (case c of
     CDelete ob \<Rightarrow> isOwnedByOGO (ob_labels ob)
   | CGet _ _ \<Rightarrow> True | CList _ _ \<Rightarrow> True | _ \<Rightarrow> False)"

definition isDetection :: "call \<Rightarrow> bool" where
  "isDetection c = (case c of CDiscover _ \<Rightarrow> True | _ \<Rightarrow> False)"

lemma owned_simps [simp]:
  "ownedWrite (CCreate ob) = isOwnedByOGO (ob_labels ob)" "ownedWrite (CUpdate ob) = isOwnedByOGO (ob_labels ob)"
  "ownedWrite (CGet k n)" "ownedWrite (CList k l)" "ownedWrite (CFetch ob)" "ownedWrite (CCommit ob ob')"
  "ownedWrite (CDiscover gv)" "\<not> ownedWrite (CDelete ob)"
  "ownedDelete (CDelete ob) = isOwnedByOGO (ob_labels ob)" "ownedDelete (CGet k n)" "ownedDelete (CList k l)"
  "\<not> ownedDelete (CCreate ob)" "\<not> ownedDelete (CUpdate ob)" "isDetection (CDiscover gv)"
  by (simp_all add: ownedWrite_def ownedDelete_def isDetection_def)

definition agrees :: "string \<Rightarrow> condition \<times> goerr option \<Rightarrow> bool" where
  "agrees name r = (cd_type (fst r) = name \<and>
     cd_status (fst r) = (if snd r = None then ConditionTrue else ConditionFalse))"

lemma agrees_simps [simp]:
  "agrees name (mkCond ty st reason msg, err) = (ty = name \<and> st = (if err = None then ConditionTrue else ConditionFalse))"
  by (simp add: agrees_def)

locale dependency =
  fixes name :: string
    and enabled :: "openShellGateway \<Rightarrow> ('w sys, bool) state"
    and recon :: "openShellGateway \<Rightarrow> ('w sys, condition \<times> goerr option) state"
    and cleanup :: "openShellGateway \<Rightarrow> ('w sys, goerr option) state"
  assumes enabled_calls: "onlyCalls isDetection (enabled gw)"
    and recon_agrees: "results (agrees name) (recon gw)"
    and recon_calls: "onlyCalls ownedWrite (recon gw)"
    and cleanup_calls: "onlyCalls ownedDelete (cleanup gw)"
begin

lemma ready_iff:
  assumes "run_state (recon gw) s = ((c, err), t)"
  shows "cd_type c = name \<and> (cd_status c = ConditionTrue \<longleftrightarrow> err = None)"
  using resultsD [OF recon_agrees assms] by (auto simp: agrees_def split: if_splits)

lemma deletes_only_owned:
  assumes "run_state (cleanup gw) s = (r, t)" and "CDelete ob \<in> set (newCalls s t)"
  shows "isOwnedByOGO (ob_labels ob)"
  using onlyCalls_newCalls [OF cleanup_calls assms] by simp

lemma creates_only_owned:
  assumes "run_state (recon gw) s = (r, t)" and "CCreate ob \<in> set (newCalls s t)"
  shows "isOwnedByOGO (ob_labels ob)"
  using onlyCalls_newCalls [OF recon_calls assms] by simp

end

section \<open>The four dependencies meet it\<close>

lemma onlyCalls_prod_app [call_rules]:
  "(\<And>x y. r = (x, y) \<Longrightarrow> onlyCalls P (f x y a)) \<Longrightarrow> onlyCalls P ((case r of (x, y) \<Rightarrow> f x y) a)"
  by (cases r) simp

lemma onlyCalls_cleanupKeys: "onlyCalls ownedDelete (cleanupKeys E keys)"
  unfolding cleanupKeys_def deleteOwned_def prim_defs by (intro call_rules) auto

lemma agrees_groups: "results (agrees ConditionOpenShiftGroups) (groupsReconcile E gw)"
  unfolding groupsReconcile_def
  by (rule results_bind_via [OF results_foreach [where Q = "agrees ConditionOpenShiftGroups"]])
    (intro result_rules; simp)+

interpretation groups: dependency ConditionOpenShiftGroups "groupsEnabled E" "groupsReconcile E" "groupsCleanup E"
  for E :: "'w env"
proof (unfold_locales, goal_cases)
  case (1 gw)
  show ?case unfolding groupsEnabled_def by (intro call_rules) simp
next
  case (2 gw)
  show ?case by (rule agrees_groups)
next
  case (3 gw)
  show ?case unfolding groupsReconcile_def prim_defs by (intro call_rules) (simp_all add: groupObj_def)
next
  case (4 gw)
  show ?case unfolding groupsCleanup_def by (rule onlyCalls_cleanupKeys)
qed

lemma agrees_proxySCC: "results (agrees ConditionEnvoyProxySCCReady) (envoyProxySCCReconcile E gw)"
  unfolding envoyProxySCCReconcile_def
  by (rule results_bind, rule results_sum, intro result_rules, simp,
      rule results_bind_via [OF results_foreach [where Q = "agrees ConditionEnvoyProxySCCReady"]])
    (intro result_rules; simp)+

interpretation proxySCC: dependency ConditionEnvoyProxySCCReady "envoyProxySCCEnabled E" "envoyProxySCCReconcile E"
  "envoyProxySCCCleanup E" for E :: "'w env"
proof (unfold_locales, goal_cases)
  case (1 gw)
  show ?case unfolding envoyProxySCCEnabled_def
    by (intro call_rules) (auto split: option.splits bool.splits intro!: call_rules)
next
  case (2 gw)
  show ?case by (rule agrees_proxySCC)
next
  case (3 gw)
  show ?case unfolding envoyProxySCCReconcile_def prim_defs by (intro call_rules) (simp_all add: sccBinding_def)
next
  case (4 gw)
  show ?case unfolding envoyProxySCCCleanup_def deleteOwned_def prim_defs by (intro call_rules) simp_all
qed

lemma agrees_postgres: "results (agrees ConditionDatabaseReady) (postgresReconcile E gw)"
  unfolding postgresReconcile_def by (intro result_rules) simp_all

interpretation postgres: dependency ConditionDatabaseReady "\<lambda>gw. ret (postgresEnabled gw)" "postgresReconcile E"
  "postgresCleanup E" for E :: "'w env"
proof (unfold_locales, goal_cases)
  case (1 gw)
  show ?case by simp
next
  case (2 gw)
  show ?case by (rule agrees_postgres)
next
  case (3 gw)
  show ?case
    unfolding postgresReconcile_def ensurePasswordSecret_def generatePassword_def randBytes_def ensurePVC_def
      pgEnsureDeployment_def pgEnsureService_def ensureURISecret_def prim_defs
    by (intro call_rules) (simp_all add: passwordSecret_def uriSecret_def)
next
  case (4 gw)
  show ?case unfolding postgresCleanup_def Let_def by (rule onlyCalls_cleanupKeys)
qed

lemma isOwned_mergeLabels: "isOwnedByOGO (mergeLabels (ownershipLabels c gw) labels)"
  by (simp add: isOwnedByOGO_def mergeLabels_def ownershipLabels_def mget_def update_conv')

lemma onlyCalls_applyManifestFile [call_rules]: "onlyCalls ownedWrite (applyManifestFile E Y gw f)"
  unfolding applyManifestFile_def applyManifests_def applyDocument_def applyObject_def prim_defs
  by (intro call_rules) (simp_all add: withLabels_def isOwned_mergeLabels)

lemma onlyCalls_grantOpenShiftSCCs [call_rules]: "onlyCalls ownedWrite (grantOpenShiftSCCs E gw)"
  unfolding grantOpenShiftSCCs_def prim_defs by (intro call_rules) (simp_all add: sccBinding_def)

lemma installEnvoyGateway_leaves:
  "results (leaves (agrees ConditionEnvoyGatewayReady)) (installEnvoyGateway E Y gw)"
  unfolding installEnvoyGateway_def by (intro result_rules) simp_all

lemma agrees_envoyGateway: "results (agrees ConditionEnvoyGatewayReady) (envoyGatewayReconcile E Y gw)"
proof -
  have inst: "results (leaves (agrees ConditionEnvoyGatewayReady))
      (if b then installEnvoyGateway E Y gw else ret (Inr ()))" for b
    by (intro result_rules installEnvoyGateway_leaves) simp
  show ?thesis
    unfolding envoyGatewayReconcile_def Let_def
    apply (rule results_bind)
    apply (rule results_option)
     apply (rule results_if)
      apply (intro result_rules, simp)
     apply (rule results_bind)
     apply (rule results_bind_via [OF inst])
     apply (intro result_rules; simp)
    apply (rule results_return)
    apply (simp split: sum.splits if_splits)
    apply (auto split: sum.splits if_splits)
    done
qed

interpretation envoyGateway: dependency ConditionEnvoyGatewayReady "envoyGatewayEnabled E" "envoyGatewayReconcile E Y"
  "envoyGatewayCleanup E" for E :: "'w env" and Y :: yamlLib
proof (unfold_locales, goal_cases)
  case (1 gw)
  show ?case unfolding envoyGatewayEnabled_def by (intro call_rules) simp
next
  case (2 gw)
  show ?case by (rule agrees_envoyGateway)
next
  case (3 gw)
  show ?case unfolding envoyGatewayReconcile_def installEnvoyGateway_def prim_defs by (intro call_rules) simp_all
next
  case (4 gw)
  show ?case unfolding envoyGatewayCleanup_def prim_defs by (intro call_rules) simp_all
qed

text \<open>Every entry of \<open>dependencies\<close> is one of the four.\<close>

lemma dependencies_meet_contract:
  assumes "d \<in> set (dependencies E Y)"
  shows "dependency (dr_Name d) (dr_Enabled d) (dr_Reconcile d) (dr_Cleanup d)"
  using assms groups.dependency_axioms proxySCC.dependency_axioms postgres.dependency_axioms
    envoyGateway.dependency_axioms
  by (auto simp: dependencies_def GroupsReconciler_def EnvoyProxySCCReconciler_def PostgreSQLReconciler_def
      EnvoyGatewayReconciler_def)

section \<open>A concrete cluster with a group\<close>

definition groupGateway :: openShellGateway where
  "groupGateway = tlsGateway\<lparr>gw_spec := zeroGatewaySpec\<lparr>gs_auth := (gs_auth zeroGatewaySpec)
     \<lparr>au_openShift := (au_openShift (gs_auth zeroGatewaySpec))\<lparr>oa_userGroup := ''u''\<rparr>\<rparr>\<rparr>\<rparr>"

definition groupSys :: "memWorld sys" where
  "groupSys = memSys (emptyWorld\<lparr>mw_objs := [groupObj groupGateway ''u'']\<rparr>)"

definition noYaml :: yamlLib where
  "noYaml = \<lparr>ym_file = (\<lambda>f. Inr []), ym_split = (\<lambda>d. ([], None)), ym_decode = (\<lambda>d. Inl (Errorf [])) \<rparr>"

section \<open>Properties\<close>



text \<open>
  The condition of a dependency tells the truth about its error. Whatever the cluster answers,
  the condition that \<open>Reconcile\<close> of a dependency returns has the dependency's name as its type, is
  true exactly if no error is returned, and false otherwise.
\<close>

theorem dependency_condition_agrees:
  assumes "d \<in> set (dependencies E Y)" and "run_state (dr_Reconcile d gw) s = ((c, err), t)"
  shows "cd_type c = dr_Name d \<and> cd_status c = (if err = None then ConditionTrue else ConditionFalse)"
  using resultsD [OF dependency.recon_agrees [OF dependencies_meet_contract [OF assms(1)]] assms(2)]
  by (simp add: agrees_def)

theorem dependency_condition_agrees_witness:
  "\<exists>c err t. run_state (groupsReconcile memEnv groupGateway) groupSys = ((c, err), t) \<and>
     cd_type c = ''OpenShiftGroupsReady'' \<and> cd_status c = ConditionTrue"
proof -
  let ?d = "GroupsReconciler memEnv"
  obtain c err t where run: "run_state (dr_Reconcile ?d groupGateway) groupSys = ((c, err), t)"
    by (metis prod.exhaust)
  have mem: "?d \<in> set (dependencies memEnv noYaml)" by (simp add: dependencies_def)
  have "snd (fst (run_state (groupsReconcile memEnv groupGateway) groupSys)) = None" by code_simp
  then have "err = None" using run by (simp add: GroupsReconciler_def)
  then show ?thesis using dependency_condition_agrees [OF mem run] run by (auto simp: GroupsReconciler_def)
qed

text \<open>
  The connection string is never brought in line with a new password: if the password Secret is lost
  while the URI Secret is still there, a new password is generated and stored, the step reports
  success, and the URI Secret keeps the old password.
\<close>

definition lostPasswordEnv :: "memWorld env" where
  "lostPasswordEnv = freshEnv\<lparr>e_get := (\<lambda>k n w. if nn_name n = ''gw-pg-uri'' then (Inr (uriSecret tlsGateway ''old''), w)
     else (Inl notFoundErr, w))\<rparr>"

theorem stale_uri_after_lost_password:
  "let r = run_state (postgresReconcile lostPasswordEnv tlsGateway) (memSys emptyWorld); cs = calls (snd r) in
   snd (fst r) = None \<and> (\<exists>pw. pw \<noteq> ''old'' \<and> CCreate (passwordSecret tlsGateway pw) \<in> set cs) \<and>
   \<not> (\<exists>pw. CCreate (uriSecret tlsGateway pw) \<in> set cs)"
proof -
  have env: "e_get lostPasswordEnv k n w = (if nn_name n = ''gw-pg-uri'' then (Inr (uriSecret tlsGateway ''old''), w)
       else (Inl notFoundErr, w))"
    "e_isNotFound lostPasswordEnv notFoundErr" "e_create lostPasswordEnv ob w = (Inr ob, w)"
    "e_couFetch lostPasswordEnv ob w = (Inr ob, w)" "e_couCommit lostPasswordEnv ob ob' w = (None, w)"
    "e_rand lostPasswordEnv m w = (replicate m (CHR ''r''), w)" for k n w ob ob' m
    by (simp_all add: lostPasswordEnv_def freshEnv_def memEnv_def)
  let ?pw = "hexEncode (replicate 16 (CHR ''r''))"
  have pw: "?pw \<noteq> ''old''" by code_simp
  have names: "gw_name tlsGateway = ''gw''" by (simp add: tlsGateway_def)
  show ?thesis
    unfolding Let_def postgresReconcile_def ensurePasswordSecret_def generatePassword_def randBytes_def ensurePVC_def
      pgEnsureDeployment_def pgEnsureService_def ensureURISecret_def kGet_def kCreate_def ensure_eq invoke_def silent_def
    using pw by (simp add: env names passwordSecret_def uriSecret_def memSys_def; blast)
qed

end
