(* ===== verification/Deployment.thy ===== *)
theory Deployment
  imports Resources
begin

text \<open>
  The gateway's Deployment and its state volume: \<open>ensureGatewayStatePVC\<close>, \<open>reconcileDeployment\<close> and
  \<open>databaseSecretRevision\<close> of \<^verbatim>\<open>src/internal/controller/openshellgateway_controller.go\<close>. The pod
  template is a function of the resource and of whether the cluster is OpenShift; the callback of
  \<^verbatim>\<open>CreateOrUpdate\<close> also sets a condition on the resource, so the step returns the resource too.
\<close>

section \<open>State volume\<close>

definition gatewayStateClaim :: pvcSpec where
  "gatewayStateClaim = \<lparr>pv_accessModes = [''ReadWriteOnce''], pv_requests = [(''storage'', ''1Gi'')]\<rparr>"

definition ensureGatewayStatePVC :: "'w env \<Rightarrow> openShellGateway \<Rightarrow> string \<Rightarrow> ('w sys, goerr option) state" where
  "ensureGatewayStatePVC E gw ns =
     ensure E (mkObj KPersistentVolumeClaim (metaFor (gw_name gw @ ''-state'') ns) BNone)
       (\<lambda>ob. if isNew ob then withBody (BPVC gatewayStateClaim) (withLabels (gatewayLabels gw) ob) else ob)"

section \<open>The pod template\<close>

text \<open>The image reference and the condition that says whether \<^verbatim>\<open>imageTag\<close> was used.\<close>

definition imageConfig :: "openShellGateway \<Rightarrow> string \<times> condition" where
  "imageConfig gw =
     (let image = (if gs_image (gw_spec gw) = [] then ''ghcr.io/nvidia/openshell/gateway'' else gs_image (gw_spec gw));
          tag = gs_imageTag (gw_spec gw);
          fine = mkCond ConditionImageConfigValid ConditionTrue ''OK'' [] in
      if tag \<noteq> [] then
        (if containsByte image (CHR ''@'')
         then (image, mkCond ConditionImageConfigValid ConditionFalse ''ImageTagIgnored''
                (''spec.imageTag '' @ quote tag @
                 '' is ignored because spec.image is already digest-pinned ('' @ image @ '')''))
         else (image @ '':'' @ tag, fine))
      else (image, fine))"

abbreviation httpProbe :: "string \<Rightarrow> string \<Rightarrow> string \<Rightarrow> int \<Rightarrow> int \<Rightarrow> int \<Rightarrow> probe" where
  "httpProbe path port scheme initial period failures \<equiv>
     \<lparr>pb_handler = HTTPGet path (StrPort port) scheme, pb_initialDelaySeconds = initial,
      pb_periodSeconds = period, pb_failureThreshold = failures\<rparr>"

abbreviation tcpPort :: "string \<Rightarrow> int \<Rightarrow> containerPort" where
  "tcpPort name port \<equiv> \<lparr>cp_name = name, cp_containerPort = port, cp_protocol = ''TCP''\<rparr>"

abbreviation mount :: "string \<Rightarrow> string \<Rightarrow> bool \<Rightarrow> volumeMount" where
  "mount name path ro \<equiv> \<lparr>vm_name = name, vm_mountPath = path, vm_readOnly = ro\<rparr>"

definition gatewayContainer :: "openShellGateway \<Rightarrow> bool \<Rightarrow> container" where
  "gatewayContainer gw isOCP =
     \<lparr>ct_name = ''openshell-gateway'',
      ct_image = fst (imageConfig gw),
      ct_args = [''--config'', ''/etc/openshell/gateway.toml''],
      ct_env = [(''OPENSHELL_DB_URL'', EnvSecretKeyRef (databaseSecretName gw) ''uri''),
                (''HOME'', EnvValue ''/home/openshell'')],
      ct_ports = [tcpPort ''grpc'' 8080, tcpPort ''health'' 8081, tcpPort ''metrics'' 9090],
      ct_startupProbe = Some (httpProbe ''/healthz'' ''health'' [] 0 2 30),
      ct_livenessProbe = Some (httpProbe ''/healthz'' ''health'' [] 2 5 3),
      ct_readinessProbe = Some (httpProbe ''/readyz'' ''health'' [] 1 2 3),
      ct_resources = gs_resources (gw_spec gw),
      ct_volumeMounts =
        [mount ''gateway-config'' ''/etc/openshell'' True, mount ''sandbox-jwt'' ''/etc/openshell-jwt'' True,
         mount ''gateway-state'' ''/home/openshell'' False] @
        (if tlsEnabled gw
         then [mount ''tls-cert'' ''/etc/openshell-tls/server'' True,
               mount ''tls-client-ca'' ''/etc/openshell-tls/client-ca'' True]
         else []),
      ct_securityContext =
        \<lparr>sx_allowPrivilegeEscalation = Some False, sx_runAsNonRoot = (if isOCP then None else Some True),
         sx_drop = [''ALL'']\<rparr>\<rparr>"

definition gatewayVolumes :: "openShellGateway \<Rightarrow> (string \<times> volumeSource) list" where
  "gatewayVolumes gw =
     [(''gateway-config'', VolConfigMap (gw_name gw @ ''-config'')),
      (''sandbox-jwt'', VolSecret (gw_name gw @ ''-jwt-keys'') (Some 256) []),
      (''auth-bridge-keys'', VolSecret (gw_name gw @ ''-auth-bridge-keys'') (Some 256) []),
      (''gateway-state'', VolPVC (gw_name gw @ ''-state''))] @
     (if tlsEnabled gw
      then (let configured = tls_serverCertSecretName (gs_tls (gw_spec gw)) in
        [(''tls-cert'', VolSecret (if configured \<noteq> [] then configured else gw_name gw @ ''-server-tls'') None []),
         (''tls-client-ca'', VolSecret (gw_name gw @ ''-client-tls'') None [(''ca.crt'', ''ca.crt'')])])
      else [])"

definition authBridgeEnv :: "openShellGateway \<Rightarrow> (string \<times> envSource) list" where
  "authBridgeEnv gw =
     [(''AUTH_BRIDGE_ISSUER'', EnvValue (authBridgeInternalURL gw)),
      (''AUTH_BRIDGE_EXTERNAL_ISSUER'', EnvValue (authBridgeExternalURL gw)),
      (''AUTH_BRIDGE_OPENSHIFT_ISSUER'', EnvValue (''https://oauth-openshift.'' @ clusterDomain gw)),
      (''AUTH_BRIDGE_CLIENT_ID'', EnvValue ''openshell''),
      (''AUTH_BRIDGE_CLIENT_SECRET'', EnvSecretKeyRef (gw_name gw @ ''-oauth-client'') ''secret''),
      (''AUTH_BRIDGE_USER_GROUP'', EnvValue (oa_userGroup (au_openShift (gs_auth (gw_spec gw))))),
      (''AUTH_BRIDGE_ADMIN_GROUP'', EnvValue (oa_adminGroup (au_openShift (gs_auth (gw_spec gw))))),
      (''AUTH_BRIDGE_TOKEN_TTL'', EnvValue (tokenTTL gw)),
      (''AUTH_BRIDGE_SIGNING_KEY'', EnvValue ''/etc/auth-bridge-keys/signing.pem''),
      (''AUTH_BRIDGE_PUBLIC_KEY'', EnvValue ''/etc/auth-bridge-keys/public.pem''),
      (''AUTH_BRIDGE_KID'', EnvValue ''/etc/auth-bridge-keys/kid'')] @
     (if tlsEnabled gw
      then [(''AUTH_BRIDGE_LISTEN'', EnvValue ''127.0.0.1:8085''), (''AUTH_BRIDGE_TLS_LISTEN'', EnvValue '':8443''),
            (''AUTH_BRIDGE_TLS_CERT'', EnvValue ''/etc/auth-bridge-tls/tls.crt''),
            (''AUTH_BRIDGE_TLS_KEY'', EnvValue ''/etc/auth-bridge-tls/tls.key'')]
      else [])"

definition authBridgeContainer :: "openShellGateway \<Rightarrow> container" where
  "authBridgeContainer gw =
     (let authPortName = (if tlsEnabled gw then ''auth-tls'' else ''auth'');
          authPort = (if tlsEnabled gw then 8443 else 8085);
          probeScheme = (if tlsEnabled gw then ''HTTPS'' else ''HTTP'') in
      \<lparr>ct_name = ''auth-bridge'',
       ct_image = authBridgeImage gw,
       ct_args = [],
       ct_env = authBridgeEnv gw,
       ct_ports = [tcpPort authPortName authPort],
       ct_startupProbe = Some (httpProbe ''/healthz'' authPortName probeScheme 0 2 15),
       ct_livenessProbe = Some (httpProbe ''/healthz'' authPortName probeScheme 0 10 0),
       ct_readinessProbe = Some (httpProbe ''/healthz'' authPortName probeScheme 1 5 0),
       ct_resources = \<lparr>rq_requests = [(''cpu'', ''10m''), (''memory'', ''32Mi'')],
         rq_limits = [(''cpu'', ''100m''), (''memory'', ''128Mi'')]\<rparr>,
       ct_volumeMounts = [mount ''auth-bridge-keys'' ''/etc/auth-bridge-keys'' True] @
         (if tlsEnabled gw then [mount ''tls-cert'' ''/etc/auth-bridge-tls'' True] else []),
       ct_securityContext =
         \<lparr>sx_allowPrivilegeEscalation = Some False, sx_runAsNonRoot = None, sx_drop = [''ALL'']\<rparr>\<rparr>)"

definition gatewayPodSpec :: "openShellGateway \<Rightarrow> bool \<Rightarrow> podSpec" where
  "gatewayPodSpec gw isOCP =
     \<lparr>pd_serviceAccountName = gw_name gw, pd_terminationGracePeriodSeconds = Some 5,
      pd_containers = gatewayContainer gw isOCP #
        (if authBridgeEnabled gw isOCP then [authBridgeContainer gw] else []),
      pd_volumes = gatewayVolumes gw,
      pd_securityContext = (if isOCP then None else Some (1000, 1000))\<rparr>"

section \<open>The Deployment\<close>

abbreviation configHashAnnotation :: string where
  "configHashAnnotation \<equiv> ''ogo.aknochow.io/config-hash''"

definition computeConfigHash :: "'w env \<Rightarrow> string \<Rightarrow> string" where
  "computeConfigHash E toml = hexEncode (take 16 (e_sha256 E toml))"

definition databaseSecretRevision :: "'w env \<Rightarrow> openShellGateway \<Rightarrow> ('w sys, goerr + string) state" where
  "databaseSecretRevision E gw =
     (let secretName = databaseSecretName gw in
      if secretName = [] then ret (Inr [])
      else do {
        r \<leftarrow> kGet E KSecret (nsn (gatewayNamespace gw) secretName);
        (case r of
          Inl e \<Rightarrow> ret (Inl e)
        | Inr ob \<Rightarrow> ret (Inr (om_uid (ob_meta ob) @ ''/'' @ om_resourceVersion (ob_meta ob))))
      })"

definition configHashInput :: "openShellGateway \<Rightarrow> bool \<Rightarrow> string \<Rightarrow> string" where
  "configHashInput gw isOCP revision =
     RenderGatewayTOML gw (sandboxNamespace gw) [oidcIssuerFor gw isOCP] @
     nl @ ''database_secret_revision='' @ revision"

definition gatewayTemplate :: "'w env \<Rightarrow> openShellGateway \<Rightarrow> bool \<Rightarrow> string \<Rightarrow> podTemplate" where
  "gatewayTemplate E gw isOCP revision =
     \<lparr>tp_labels = gatewayLabels gw,
      tp_annotations = [(configHashAnnotation, computeConfigHash E (configHashInput gw isOCP revision))],
      tp_spec = gatewayPodSpec gw isOCP\<rparr>"

definition deploymentOf :: "kobj \<Rightarrow> deploymentBody" where
  "deploymentOf ob = (case ob_body ob of BDeployment d \<Rightarrow> d
     | _ \<Rightarrow> \<lparr>dp_replicas = None, dp_selector = [], dp_strategy = [],
         dp_template = \<lparr>tp_labels = [], tp_annotations = [], tp_spec =
           \<lparr>pd_serviceAccountName = [], pd_terminationGracePeriodSeconds = None, pd_containers = [],
            pd_volumes = [], pd_securityContext = None\<rparr>\<rparr>,
         dp_readyReplicas = 0\<rparr>)"

definition gatewayDeployment :: "'w env \<Rightarrow> openShellGateway \<Rightarrow> bool \<Rightarrow> string \<Rightarrow> kobj \<Rightarrow> kobj" where
  "gatewayDeployment E gw isOCP revision ob =
     withBody (BDeployment ((deploymentOf ob)
         \<lparr>dp_replicas := Some (case gs_replicas (gw_spec gw) of None \<Rightarrow> 1 | Some n \<Rightarrow> n),
          dp_selector := selectorLabels gw,
          dp_template := gatewayTemplate E gw isOCP revision\<rparr>))
       (withLabels (gatewayLabels gw) ob)"

definition setCondition :: "'w env \<Rightarrow> condition \<Rightarrow> openShellGateway \<Rightarrow> openShellGateway" where
  "setCondition E c gw = gw\<lparr>gw_status := (gw_status gw)\<lparr>gt_conditions := e_setCond E (gt_conditions (gw_status gw)) c\<rparr>\<rparr>"

text \<open>
  The callback fails if the database Secret cannot be read; only if it does not, the condition is set
  on the resource the caller goes on with. \<^verbatim>\<open>CreateOrUpdate\<close> is written out because of that second
  result.
\<close>

definition reconcileDeployment :: "'w env \<Rightarrow> openShellGateway \<Rightarrow>
    ('w sys, openShellGateway \<times> goerr option) state" where
  "reconcileDeployment E gw =
     (let ns = gatewayNamespace gw in do {
        isOCP \<leftarrow> IsOpenShift E;
        perr \<leftarrow> ensureGatewayStatePVC E gw ns;
        (case perr of
          Some e \<Rightarrow> ret (gw, Some (Wrapf ''ensure gateway state PVC: '' e []))
        | None \<Rightarrow> (let deploy = mkObj KDeployment (metaFor (gw_name gw) ns) BNone in do {
            r \<leftarrow> invoke (CFetch deploy) (e_couFetch E deploy);
            (case r of
              Inl e \<Rightarrow> ret (gw, Some e)
            | Inr ob \<Rightarrow> do {
                rev \<leftarrow> databaseSecretRevision E gw;
                (case rev of
                  Inl e \<Rightarrow> ret (gw, Some (Wrapf ''get database secret revision: '' e []))
                | Inr revision \<Rightarrow> (let ob' = gatewayDeployment E gw isOCP revision ob in do {
                    err \<leftarrow> invoke (CCommit ob ob') (e_couCommit E ob ob');
                    ret (setCondition E (snd (imageConfig gw)) gw, err)
                  }))
              })
          }))
      })"

section \<open>Well-formed pods\<close>

text \<open>
  What the Kubernetes API and a working pod require of the names in a pod template: volumes, containers
  and ports are named apart, every mount names a volume, no path is mounted twice in a container, and
  every probe of a container names one of its own ports.
\<close>

definition portNames :: "container \<Rightarrow> string list" where
  "portNames c = map cp_name (ct_ports c)"

definition probePort :: "probe option \<Rightarrow> string list" where
  "probePort p = (case p of None \<Rightarrow> [] | Some q \<Rightarrow>
     (case pb_handler q of HTTPGet _ (StrPort n) _ \<Rightarrow> [n] | TCPSocket (StrPort n) \<Rightarrow> [n] | _ \<Rightarrow> []))"

definition goodContainer :: "podSpec \<Rightarrow> container \<Rightarrow> bool" where
  "goodContainer p c =
     (list_all (\<lambda>m. vm_name m \<in> set (map fst (pd_volumes p))) (ct_volumeMounts c) \<and>
      distinct (map vm_mountPath (ct_volumeMounts c)) \<and>
      distinct (map fst (ct_env c)) \<and>
      list_all (\<lambda>n. n \<in> set (portNames c))
        (probePort (ct_startupProbe c) @ probePort (ct_livenessProbe c) @ probePort (ct_readinessProbe c)))"

definition goodPod :: "podSpec \<Rightarrow> bool" where
  "goodPod p =
     (distinct (map fst (pd_volumes p)) \<and> distinct (map ct_name (pd_containers p)) \<and>
      distinct (concat (map portNames (pd_containers p))) \<and>
      distinct (concat (map (\<lambda>c. map cp_containerPort (ct_ports c)) (pd_containers p))) \<and>
      list_all (goodContainer p) (pd_containers p))"

definition targetsPod :: "servicePort \<Rightarrow> podSpec \<Rightarrow> bool" where
  "targetsPod sp p = (case sp_targetPort sp of
     StrPort n \<Rightarrow> n \<in> set (concat (map portNames (pd_containers p)))
   | IntPort i \<Rightarrow> i \<in> set (concat (map (\<lambda>c. map cp_containerPort (ct_ports c)) (pd_containers p))))"

definition selects :: "smap \<Rightarrow> smap \<Rightarrow> bool" where
  "selects sel labels = list_all (\<lambda>(k, v). map_of labels k = Some v) sel"

lemmas pod_defs = gatewayPodSpec_def gatewayContainer_def gatewayVolumes_def authBridgeContainer_def
  authBridgeEnv_def Let_def

section \<open>Properties\<close>


text \<open>Only the last line of the hash input holds the revision.\<close>

lemma last_line_inject:
  assumes "CHR 0x0A \<notin> set x" and "CHR 0x0A \<notin> set y" and "a @ CHR 0x0A # x = b @ CHR 0x0A # y"
  shows "a = b \<and> x = y"
proof -
  have "rev x @ CHR 0x0A # rev a = rev y @ CHR 0x0A # rev b"
    using arg_cong [OF assms(3), of rev] by simp
  then have "rev x = rev y \<and> rev a = rev b" using assms(1,2) by (intro sep_append_inject) auto
  then show ?thesis by simp
qed



text \<open>
  A tagged gateway image gets a second tag: \<open>imageConfig\<close> looks only for a digest, so an image with a
  tag of its own and an \<^verbatim>\<open>imageTag\<close> give a reference with two tags, reported as valid.
  \<open>supervisorImage\<close> leaves such an image alone.
\<close>

theorem image_tag_appended_twice:
  "let sp = zeroGatewaySpec\<lparr>gs_image := ''reg/gateway:v1'', gs_supervisorImage := ''reg/supervisor:v1'', gs_imageTag := ''v2''\<rparr>;
       gw = \<lparr>gw_meta = metaFor ''gw'' [], gw_spec = sp, gw_status = zeroGatewayStatus\<rparr>
   in imageConfig gw = (''reg/gateway:v1:v2'', mkCond ConditionImageConfigValid ConditionTrue ''OK'' []) \<and>
      supervisorImage gw = ''reg/supervisor:v1''"
  by code_simp

end
