(* ===== verification/Routing.thy ===== *)
theory Routing
  imports Deployment
begin

text \<open>
  How a gateway is reached from outside: the OpenShift Routes, the Gateway API resources and the
  OAuth client, from \<^verbatim>\<open>src/internal/controller/openshellgateway_controller.go\<close>. Steps that set a
  condition on the resource return the resource they go on with. The zero-value condition with which
  \<open>reconcileEnvoyRoute\<close> says that there is nothing to report is \<^const>\<open>None\<close>. Its \<^verbatim>\<open>sort.Slice\<close> by name
  is a stable sort here; two Services of a namespace never have the same name.
\<close>

section \<open>Routes\<close>

definition routeObj :: "openShellGateway \<Rightarrow> string \<Rightarrow> string \<Rightarrow> (string \<times> jval) list \<Rightarrow> kobj" where
  "routeObj gw name ns spec = mkObj KRoute ((metaFor name ns)\<lparr>om_labels := gatewayLabels gw\<rparr>)
     (BUnstructured [(''spec'', JMap spec)])"

definition managedSelector :: "openShellGateway \<Rightarrow> listOpts" where
  "managedSelector gw = \<lparr>lo_namespace = None,
     lo_labels = [(labelManagedBy, managedByValue), (labelInstance, gw_name gw)]\<rparr>"

text \<open>The map \<open>desired\<close> of \<open>reconcileObsoleteRoutes\<close>: the keys of the Routes that should exist.\<close>

definition desiredRoute :: "openShellGateway \<Rightarrow> bool \<Rightarrow> bool \<Rightarrow> nsName \<Rightarrow> bool" where
  "desiredRoute gw useGWAPI authEnabled key =
     (if key = nsn (gatewayNamespace gw) (gw_name gw) then routeEnabled gw \<and> \<not> useGWAPI
      else if key = nsn envoyGatewaySystemNS (gw_name gw @ ''-gw'') then routeEnabled gw \<and> useGWAPI
      else if key = nsn (gatewayNamespace gw) (gw_name gw @ ''-auth'') then routeEnabled gw \<and> authEnabled
      else False)"

definition managedRouteNames :: "openShellGateway \<Rightarrow> string list" where
  "managedRouteNames gw = [gw_name gw, gw_name gw @ ''-gw'', gw_name gw @ ''-auth'']"

text \<open>A loop that deletes the objects of a list that satisfy a condition; \<^verbatim>\<open>NotFound\<close> is no error.\<close>

definition deleteEach :: "'w env \<Rightarrow> (kobj \<Rightarrow> bool) \<Rightarrow> string \<Rightarrow> kobj list \<Rightarrow> ('w sys, goerr option) state" where
  "deleteEach E which what obs = do {
     r \<leftarrow> foreach (\<lambda>ob _.
         if \<not> which ob then ret (Inr ())
         else do {
           err \<leftarrow> kDelete E ob;
           (case err of
             Some e \<Rightarrow> if e_isNotFound E e then ret (Inr ())
               else ret (Inl (Wrapf (what @ ob_namespace ob @ ''/'' @ ob_name ob @ '': '') e []))
           | None \<Rightarrow> ret (Inr ()))
         }) obs ();
     (case r of Inl e \<Rightarrow> ret (Some e) | Inr _ \<Rightarrow> ret None)
   }"

definition reconcileObsoleteRoutes :: "'w env \<Rightarrow> openShellGateway \<Rightarrow> bool \<Rightarrow> bool \<Rightarrow> ('w sys, goerr option) state" where
  "reconcileObsoleteRoutes E gw useGWAPI authEnabled = do {
     l \<leftarrow> kList E KRoute (managedSelector gw);
     (case l of
       Inl e \<Rightarrow> ret (Some (Wrapf ''listing managed Routes: '' e []))
     | Inr routes \<Rightarrow> deleteEach E
         (\<lambda>ob. ob_name ob \<in> set (managedRouteNames gw) \<and>
            \<not> desiredRoute gw useGWAPI authEnabled (nsn (ob_namespace ob) (ob_name ob)))
         ''deleting obsolete Route '' routes)
   }"

definition deleteManagedRoutes :: "'w env \<Rightarrow> openShellGateway \<Rightarrow> ('w sys, goerr option) state" where
  "deleteManagedRoutes E gw = do {
     l \<leftarrow> kList E KRoute (managedSelector gw);
     (case l of
       Inl e \<Rightarrow> ret (Some (Wrapf ''listing managed Routes: '' e []))
     | Inr routes \<Rightarrow> deleteEach E (\<lambda>_. True) ''deleting managed Route '' routes)
   }"

definition routeTermination :: "openShellGateway \<Rightarrow> string" where
  "routeTermination gw = (if tlsEnabled gw then ''passthrough'' else ''edge'')"

definition routeSpecFor :: "openShellGateway \<Rightarrow> (string \<times> jval) list" where
  "routeSpecFor gw =
     [(''to'', JMap [(''kind'', JStr ''Service''), (''name'', JStr (gw_name gw))]),
      (''port'', JMap [(''targetPort'', JStr ''grpc'')]),
      (''tls'', JMap ((''termination'', JStr (routeTermination gw)) #
        (if \<not> tlsEnabled gw then [(''insecureEdgeTerminationPolicy'', JStr ''Redirect'')] else [])))] @
     (if routeHostname gw \<noteq> [] then [(''host'', JStr (routeHostname gw))] else [])"

definition reconcileRoute :: "'w env \<Rightarrow> openShellGateway \<Rightarrow> ('w sys, goerr option) state" where
  "reconcileRoute E gw =
     (if \<not> routeEnabled gw then ret None
      else (let ns = gatewayNamespace gw; route = routeObj gw (gw_name gw) ns (routeSpecFor gw) in do {
        r \<leftarrow> kGet E KRoute (nsn ns (gw_name gw));
        (case r of
          Inl e \<Rightarrow> if e_isNotFound E e then do {
              c \<leftarrow> kCreate E route;
              ret (errOf c)
            }
            else ret (Some e)
        | Inr existing \<Rightarrow>
            if \<not> managedByGateway (ob_labels existing) gw
            then ret (Some (Errorf (''route '' @ ns @ ''/'' @ gw_name gw @ '' exists but is not managed by OGO'')))
            else (let c = contentOf existing;
                existingHost = nestedIgnore [] (e_nestedString E c [''spec'', ''host'']);
                existingTLS = nestedIgnore [] (e_nestedString E c [''spec'', ''tls'', ''termination'']) in
              if (routeHostname gw \<noteq> [] \<and> existingHost \<noteq> routeHostname gw) \<or> existingTLS \<noteq> routeTermination gw then do {
                err \<leftarrow> kDelete E existing;
                (case err of
                  Some e \<Rightarrow> ret (Some (Wrapf ''deleting route for spec change: '' e []))
                | None \<Rightarrow> do {
                    c' \<leftarrow> kCreate E route;
                    ret (errOf c')
                  })
              }
              else ret None))
      }))"

section \<open>Gateway API\<close>

definition gatewayObjFor :: "openShellGateway \<Rightarrow> kobj" where
  "gatewayObjFor gw = mkObj KGateway ((metaFor (gw_name gw) (gatewayNamespace gw))\<lparr>om_labels := gatewayLabels gw\<rparr>)
     (BUnstructured [(''spec'', JMap
       [(''gatewayClassName'', JStr (gatewayClassName gw)),
        (''listeners'', JList [JMap
          [(''name'', JStr ''https''), (''port'', JInt 443), (''protocol'', JStr ''HTTPS''),
           (''hostname'', JStr (routeHostname gw)),
           (''tls'', JMap [(''mode'', JStr ''Terminate''),
             (''certificateRefs'', JList [JMap [(''name'', JStr (gw_name gw @ ''-gateway-tls''))]])]),
           (''allowedRoutes'', JMap [(''namespaces'', JMap [(''from'', JStr ''Same'')])])]])])])"

definition grpcRouteObj :: "openShellGateway \<Rightarrow> kobj" where
  "grpcRouteObj gw = mkObj KGRPCRoute ((metaFor (gw_name gw) (gatewayNamespace gw))\<lparr>om_labels := gatewayLabels gw\<rparr>)
     (BUnstructured [(''spec'', JMap
       [(''parentRefs'', JList [JMap [(''name'', JStr (gw_name gw))]]),
        (''hostnames'', JList [JStr (routeHostname gw)]),
        (''rules'', JList [JMap [(''backendRefs'', JList [JMap
          [(''name'', JStr (gw_name gw)), (''port'', JInt 8080)]])]])])])"

definition trafficPolicyObj :: "openShellGateway \<Rightarrow> kobj" where
  "trafficPolicyObj gw =
     mkObj KBackendTrafficPolicy ((metaFor (gw_name gw @ ''-timeout'') (gatewayNamespace gw))\<lparr>om_labels := gatewayLabels gw\<rparr>)
     (BUnstructured [(''spec'', JMap
       [(''targetRefs'', JList [JMap [(''group'', JStr ''gateway.networking.k8s.io''), (''kind'', JStr ''GRPCRoute''),
          (''name'', JStr (gw_name gw))]]),
        (''timeout'', JMap [(''http'', JMap [(''requestTimeout'', JStr ''0s'')])])])])"

definition listenerHostname :: "'w env \<Rightarrow> (string \<times> jval) list \<Rightarrow> string" where
  "listenerHostname E c = (case nestedIgnore [] (e_nestedSlice E c [''spec'', ''listeners'']) of
     JMap l # _ \<Rightarrow> (case map_of l ''hostname'' of Some (JStr h) \<Rightarrow> h | _ \<Rightarrow> [])
   | _ \<Rightarrow> [])"

abbreviation hostnameMissing :: condition where
  "hostnameMissing \<equiv> mkCond ConditionEnvoyRouteReady ConditionFalse reasonHostnameMissing
     ''route.hostname is required when using Gateway API''"

text \<open>The GRPCRoute and the traffic policy, once the Gateway exists as desired.\<close>

definition reconcileGRPCRoute :: "'w env \<Rightarrow> openShellGateway \<Rightarrow> ('w sys, goerr option) state" where
  "reconcileGRPCRoute E gw = do {
     r \<leftarrow> kGet E KGRPCRoute (nsn (gatewayNamespace gw) (gw_name gw));
     (case r of
       Inl e \<Rightarrow> if e_isNotFound E e then do {
           c \<leftarrow> kCreate E (grpcRouteObj gw);
           (case c of Inl e' \<Rightarrow> ret (Some (Wrapf ''creating GRPCRoute: '' e' [])) | Inr _ \<Rightarrow> ret None)
         }
         else ret (Some (Wrapf ''getting GRPCRoute: '' e []))
     | Inr _ \<Rightarrow> ret None)
   }"

definition reconcileTrafficPolicy :: "'w env \<Rightarrow> openShellGateway \<Rightarrow> ('w sys, goerr option) state" where
  "reconcileTrafficPolicy E gw = do {
     r \<leftarrow> kGet E KBackendTrafficPolicy (nsn (gatewayNamespace gw) (gw_name gw @ ''-timeout''));
     (case r of
       Inl e \<Rightarrow> if e_isNotFound E e then do { _ \<leftarrow> kCreate E (trafficPolicyObj gw); ret None } else ret None
     | Inr _ \<Rightarrow> ret None)
   }"

text \<open>The Gateway itself: \<open>Inl\<close> returns from the function, \<open>Inr\<close> goes on.\<close>

definition reconcileGatewayCR :: "'w env \<Rightarrow> openShellGateway \<Rightarrow> ('w sys, goerr option + unit) state" where
  "reconcileGatewayCR E gw = do {
     r \<leftarrow> kGet E KGateway (nsn (gatewayNamespace gw) (gw_name gw));
     (case r of
       Inl e \<Rightarrow> if e_isNotFound E e then do {
           c \<leftarrow> kCreate E (gatewayObjFor gw);
           (case c of Inl e' \<Rightarrow> ret (Inl (Some (Wrapf ''creating Gateway: '' e' []))) | Inr _ \<Rightarrow> ret (Inr ()))
         }
         else ret (Inl (Some (Wrapf ''getting Gateway: '' e [])))
     | Inr existing \<Rightarrow>
        (let c = contentOf existing;
             existingClass = nestedIgnore [] (e_nestedString E c [''spec'', ''gatewayClassName'']) in
         if listenerHostname E c \<noteq> routeHostname gw \<or> existingClass \<noteq> gatewayClassName gw then do {
           err \<leftarrow> kDelete E existing;
           (case err of
             Some e \<Rightarrow> if e_isNotFound E e then ret (Inl None)
               else ret (Inl (Some (Wrapf ''deleting drifted Gateway: '' e [])))
           | None \<Rightarrow> ret (Inl None))
         }
         else ret (Inr ())))
   }"

definition reconcileGatewayAPI :: "'w env \<Rightarrow> openShellGateway \<Rightarrow> ('w sys, openShellGateway \<times> goerr option) state" where
  "reconcileGatewayAPI E gw =
     (if routeHostname gw = [] then ret (setCondition E hostnameMissing gw, None)
      else do {
        cerr \<leftarrow> reconcileGatewayTLSCert E gw (gw_name gw @ ''-gateway-tls'') (routeHostname gw);
        (case cerr of
          Some e \<Rightarrow> ret (gw, Some (Wrapf ''reconciling gateway TLS certificate: '' e []))
        | None \<Rightarrow> do {
            g \<leftarrow> reconcileGatewayCR E gw;
            (case g of
              Inl err \<Rightarrow> ret (gw, err)
            | Inr _ \<Rightarrow> do {
                rerr \<leftarrow> reconcileGRPCRoute E gw;
                (case rerr of
                  Some e \<Rightarrow> ret (gw, Some e)
                | None \<Rightarrow> do { perr \<leftarrow> reconcileTrafficPolicy E gw; ret (gw, perr) })
              })
          })
      })"

section \<open>The Route to the Envoy proxy\<close>

definition owningGatewaySelector :: "openShellGateway \<Rightarrow> listOpts" where
  "owningGatewaySelector gw = \<lparr>lo_namespace = Some envoyGatewaySystemNS,
     lo_labels = [(''gateway.envoyproxy.io/owning-gateway-name'', gw_name gw),
       (''gateway.envoyproxy.io/owning-gateway-namespace'', gatewayNamespace gw)]\<rparr>"

definition envoyRouteObj :: "openShellGateway \<Rightarrow> kobj \<Rightarrow> kobj" where
  "envoyRouteObj gw envoySvc = routeObj gw (gw_name gw @ ''-gw'') (ob_namespace envoySvc)
     [(''host'', JStr (routeHostname gw)),
      (''to'', JMap [(''kind'', JStr ''Service''), (''name'', JStr (ob_name envoySvc))]),
      (''port'', JMap [(''targetPort'', JInt 10443)]),
      (''tls'', JMap [(''termination'', JStr ''passthrough'')])]"

abbreviation envoyRouteCond :: "conditionStatus \<Rightarrow> string \<Rightarrow> string \<Rightarrow> condition" where
  "envoyRouteCond st rs msg \<equiv> mkCond ConditionEnvoyRouteReady st rs msg"

text \<open>The Service that is picked when the selector matches \<open>svcs\<close>, which is not empty.\<close>

definition pickService :: "kobj list \<Rightarrow> kobj" where
  "pickService svcs = hd (if 1 < length svcs then sort_key (\<lambda>ob. ob_name ob) svcs else svcs)"

definition createEnvoyRoute :: "'w env \<Rightarrow> openShellGateway \<Rightarrow> kobj \<Rightarrow> ('w sys, condition \<times> goerr option) state" where
  "createEnvoyRoute E gw envoySvc = do {
     c \<leftarrow> kCreate E (envoyRouteObj gw envoySvc);
     (case c of
       Inl e \<Rightarrow> ret (envoyRouteCond ConditionFalse ''CreateFailed'' ''Failed to create Route - see operator logs for details'',
         Some (Wrapf ''creating envoy route: '' e []))
     | Inr _ \<Rightarrow> ret (envoyRouteCond ConditionTrue ''Created''
         (''Route '' @ gw_name gw @ ''-gw'' @ '' created for host '' @ routeHostname gw), None))
   }"

definition syncEnvoyRoute :: "'w env \<Rightarrow> openShellGateway \<Rightarrow> kobj \<Rightarrow> kobj \<Rightarrow> ('w sys, condition \<times> goerr option) state" where
  "syncEnvoyRoute E gw envoySvc existing =
     (if \<not> managedByGateway (ob_labels existing) gw
      then ret (envoyRouteCond ConditionFalse ''OwnershipConflict'' ''Route exists but is not managed by OGO'',
        Some (Errorf (''route '' @ ob_namespace existing @ ''/'' @ ob_name existing @ '' exists but is not managed by OGO'')))
      else (let c = contentOf existing;
          existingHost = nestedIgnore [] (e_nestedString E c [''spec'', ''host'']);
          existingToName = nestedIgnore [] (e_nestedString E c [''spec'', ''to'', ''name'']) in
        if existingHost \<noteq> routeHostname gw \<or> existingToName \<noteq> ob_name envoySvc then do {
          err \<leftarrow> kDelete E existing;
          (case err of
            Some e \<Rightarrow> ret (envoyRouteCond ConditionFalse ''UpdateFailed''
                ''Failed to delete drifted Route - see operator logs for details'',
              Some (Wrapf ''deleting drifted envoy route: '' e []))
          | None \<Rightarrow> do {
              c' \<leftarrow> kCreate E (envoyRouteObj gw envoySvc);
              (case c' of
                Inl e \<Rightarrow> ret (envoyRouteCond ConditionFalse ''RecreateFailed''
                    ''Deleted the drifted Route but failed to recreate it - no Route exists until the next reconcile retries this; see operator logs for details'',
                  Some (Wrapf ''recreating drifted envoy route: '' e []))
              | Inr _ \<Rightarrow> ret (envoyRouteCond ConditionTrue ''Created''
                  (''Route '' @ gw_name gw @ ''-gw'' @ '' recreated for host '' @ routeHostname gw), None))
            })
        }
        else ret (envoyRouteCond ConditionTrue ''Exists''
          (''Route '' @ gw_name gw @ ''-gw'' @ '' exists for host '' @ routeHostname gw), None)))"

definition reconcileEnvoyRoute :: "'w env \<Rightarrow> openShellGateway \<Rightarrow> ('w sys, condition option \<times> goerr option) state" where
  "reconcileEnvoyRoute E gw =
     (if \<not> routeEnabled gw then ret (None, None)
      else if routeHostname gw = [] then ret (Some hostnameMissing, None)
      else do {
        l \<leftarrow> kList E KService (owningGatewaySelector gw);
        (case l of
          Inl e \<Rightarrow> ret (Some (envoyRouteCond ConditionFalse ''ListFailed''
              ''Failed to list Envoy proxy services - see operator logs for details''),
            Some (Wrapf ''listing Envoy proxy services: '' e []))
        | Inr svcs \<Rightarrow>
            if svcs = [] then ret (Some (envoyRouteCond ConditionFalse ''ProxyServiceNotFound''
              ''Waiting for Envoy Gateway to provision the proxy Service (labeled gateway.envoyproxy.io/owning-gateway-name/-namespace) before the Route can be created''),
              None)
            else (let envoySvc = pickService svcs in do {
              r \<leftarrow> kGet E KRoute (nsn (ob_namespace envoySvc) (gw_name gw @ ''-gw''));
              (case r of
                Inl e \<Rightarrow> if e_isNotFound E e then do {
                    ce \<leftarrow> createEnvoyRoute E gw envoySvc;
                    ret (Some (fst ce), snd ce)
                  }
                  else ret (Some (envoyRouteCond ConditionFalse ''GetFailed'' ''Failed to get existing Route - see operator logs for details''),
                    Some (Wrapf ''getting envoy route: '' e []))
              | Inr existing \<Rightarrow> do {
                  ce \<leftarrow> syncEnvoyRoute E gw envoySvc existing;
                  ret (Some (fst ce), snd ce)
                })
            }))
      })"

section \<open>The auth-bridge Route and the OAuth client\<close>

definition authBridgeRouteTLS :: "'w env \<Rightarrow> openShellGateway \<Rightarrow> ('w sys, goerr + (string \<times> jval) list) state" where
  "authBridgeRouteTLS E gw =
     (if \<not> tlsEnabled gw
      then ret (Inr [(''termination'', JStr ''edge''), (''insecureEdgeTerminationPolicy'', JStr ''Redirect'')])
      else (let configMapName = gw_name gw @ authCASuffix in do {
        r \<leftarrow> kGet E KConfigMap (nsn (gatewayNamespace gw) configMapName);
        (case r of
          Inl e \<Rightarrow> ret (Inl (Wrapf ''reading auth-bridge CA ConfigMap: '' e []))
        | Inr ob \<Rightarrow> (let destinationCA = mget (cfg_data (configMapOf ob)) ''ca.crt'' in
            if destinationCA = []
            then ret (Inl (Errorf (''auth-bridge CA ConfigMap '' @ quote configMapName @ '' is missing ca.crt'')))
            else ret (Inr [(''termination'', JStr ''reencrypt''),
              (''insecureEdgeTerminationPolicy'', JStr ''Redirect''),
              (''destinationCACertificate'', JStr destinationCA)])))
      }))"

definition authBridgeHost :: "openShellGateway \<Rightarrow> string" where
  "authBridgeHost gw = (if routeHostname gw \<noteq> [] then ''openshell-auth.'' @ domainSuffix (routeHostname gw) else [])"

text \<open>The Route's spec; a host is set when there is one.\<close>

definition authRouteSpec :: "openShellGateway \<Rightarrow> (string \<times> jval) list \<Rightarrow> string \<Rightarrow> (string \<times> jval) list" where
  "authRouteSpec gw tlsConfig host =
     [(''to'', JMap [(''kind'', JStr ''Service''), (''name'', JStr (gw_name gw)), (''weight'', JInt 100)]),
      (''port'', JMap [(''targetPort'', JStr ''auth'')]),
      (''tls'', JMap tlsConfig),
      (''wildcardPolicy'', JStr ''None'')] @
     (if host \<noteq> [] then [(''host'', JStr host)] else [])"

definition syncAuthRoute :: "'w env \<Rightarrow> openShellGateway \<Rightarrow> (string \<times> jval) list \<Rightarrow> kobj \<Rightarrow> ('w sys, goerr option) state" where
  "syncAuthRoute E gw tlsConfig existing =
     (case nestedOr [] (e_nestedMap E (contentOf existing) [''spec'']) of
       Inl e \<Rightarrow> ret (Some (Wrapf ''reading auth-bridge Route spec: '' e []))
     | Inr existingSpec \<Rightarrow>
        (let existingHost = nestedIgnore [] (e_nestedString E (contentOf existing) [''spec'', ''host'']);
             host = (if authBridgeHost gw = [] then existingHost else authBridgeHost gw);
             spec = authRouteSpec gw tlsConfig host in
         if e_deepEqual E existingSpec spec then ret None
         else kUpdate E (withBody (BUnstructured (AList.update ''spec'' (JMap spec) (contentOf existing))) existing)))"

definition reconcileAuthBridgeRoute :: "'w env \<Rightarrow> openShellGateway \<Rightarrow> ('w sys, goerr option) state" where
  "reconcileAuthBridgeRoute E gw =
     (if \<not> routeEnabled gw then ret None
      else (let ns = gatewayNamespace gw; routeName = gw_name gw @ ''-auth'' in do {
        r \<leftarrow> kGet E KRoute (nsn ns routeName);
        (case r of
          Inl e \<Rightarrow> if \<not> e_isNotFound E e then ret (Some e)
            else do {
              tc \<leftarrow> authBridgeRouteTLS E gw;
              (case tc of
                Inl e' \<Rightarrow> ret (Some e')
              | Inr tlsConfig \<Rightarrow> do {
                  c \<leftarrow> kCreate E (routeObj gw routeName ns (authRouteSpec gw tlsConfig (authBridgeHost gw)));
                  ret (errOf c)
                })
            }
        | Inr existing \<Rightarrow>
            if \<not> managedByGateway (ob_labels existing) gw
            then ret (Some (Errorf (''route '' @ ns @ ''/'' @ routeName @ '' exists but is not managed by OGO'')))
            else do {
              tc \<leftarrow> authBridgeRouteTLS E gw;
              (case tc of
                Inl e' \<Rightarrow> ret (Some e')
              | Inr tlsConfig \<Rightarrow> syncAuthRoute E gw tlsConfig existing)
            })
      }))"

definition generateOAuthSecret :: "'w env \<Rightarrow> ('w sys, string) state" where
  "generateOAuthSecret E = do { b \<leftarrow> randBytes E 24; ret (hexEncode b) }"

definition oauthSecretObj :: "openShellGateway \<Rightarrow> string \<Rightarrow> kobj" where
  "oauthSecretObj gw clientSecret =
     mkObj KSecret ((metaFor (gw_name gw @ ''-oauth-client'') (gatewayNamespace gw))\<lparr>om_labels := gatewayLabels gw\<rparr>)
       (BSecret \<lparr>sec_type = ''Opaque'', sec_data = [(''secret'', clientSecret)]\<rparr>)"

definition oauthCallbackURL :: "openShellGateway \<Rightarrow> string" where
  "oauthCallbackURL gw = authBridgeExternalURL gw @ ''/callback''"

definition oauthClientObj :: "openShellGateway \<Rightarrow> string \<Rightarrow> kobj" where
  "oauthClientObj gw clientSecret =
     mkObj KOAuthClient ((metaFor ''openshell'' [])\<lparr>om_labels := gatewayLabels gw\<rparr>)
       (BUnstructured [(''secret'', JStr clientSecret), (''grantMethod'', JStr ''auto''),
         (''redirectURIs'', JList [JStr (oauthCallbackURL gw)])])"

text \<open>The secret the namespace holds, created if there is none. The client fills the created object in.\<close>

definition ensureOAuthSecret :: "'w env \<Rightarrow> openShellGateway \<Rightarrow> ('w sys, goerr + string) state" where
  "ensureOAuthSecret E gw = do {
     r \<leftarrow> kGet E KSecret (nsn (gatewayNamespace gw) (gw_name gw @ ''-oauth-client''));
     (case r of
       Inl e \<Rightarrow> if e_isNotFound E e then do {
           clientSecret \<leftarrow> generateOAuthSecret E;
           c \<leftarrow> kCreate E (oauthSecretObj gw clientSecret);
           (case c of
             Inl e' \<Rightarrow> ret (Inl (Wrapf ''creating OAuth client secret: '' e' []))
           | Inr secret \<Rightarrow> ret (Inr (mget (sec_data (secretOf secret)) ''secret'')))
         }
         else ret (Inl e)
     | Inr secret \<Rightarrow> ret (Inr (mget (sec_data (secretOf secret)) ''secret'')))
   }"

definition syncOAuthClient :: "'w env \<Rightarrow> openShellGateway \<Rightarrow> string \<Rightarrow> kobj \<Rightarrow> ('w sys, goerr option) state" where
  "syncOAuthClient E gw clientSecret existing =
     (let c = contentOf existing in
      case nestedOr [] (e_nestedString E c [''secret'']) of
        Inl e \<Rightarrow> ret (Some (Wrapf ''reading existing OAuthClient secret: '' e []))
      | Inr existingSecret \<Rightarrow> (case nestedOr [] (e_nestedStrings E c [''redirectURIs'']) of
          Inl e \<Rightarrow> ret (Some (Wrapf ''reading existing OAuthClient redirectURIs: '' e []))
        | Inr existingRedirectURIs \<Rightarrow> (case nestedOr [] (e_nestedString E c [''grantMethod'']) of
            Inl e \<Rightarrow> ret (Some (Wrapf ''reading existing OAuthClient grantMethod: '' e []))
          | Inr existingGrantMethod \<Rightarrow>
              if existingSecret = clientSecret \<and> existingRedirectURIs = [oauthCallbackURL gw] \<and> existingGrantMethod = ''auto''
              then ret None
              else kUpdate E (withBody (BUnstructured
                (AList.update ''grantMethod'' (JStr ''auto'')
                  (AList.update ''redirectURIs'' (JList [JStr (oauthCallbackURL gw)])
                    (AList.update ''secret'' (JStr clientSecret) c)))) existing))))"

definition reconcileOAuthClient :: "'w env \<Rightarrow> openShellGateway \<Rightarrow> ('w sys, goerr option) state" where
  "reconcileOAuthClient E gw = do {
     sr \<leftarrow> ensureOAuthSecret E gw;
     (case sr of
       Inl e \<Rightarrow> ret (Some e)
     | Inr clientSecret \<Rightarrow> do {
         r \<leftarrow> kGet E KOAuthClient (nsn [] ''openshell'');
         (case r of
           Inl e \<Rightarrow> if e_isNotFound E e then do {
               c \<leftarrow> kCreate E (oauthClientObj gw clientSecret);
               ret (errOf c)
             }
             else ret (Some e)
         | Inr existing \<Rightarrow> syncOAuthClient E gw clientSecret existing)
       })
   }"

section \<open>Routing on OpenShift\<close>

abbreviation ssoHostnameMissing :: condition where
  "ssoHostnameMissing \<equiv> mkCond ConditionBrowserSSOReady ConditionFalse reasonHostnameMissing
     ''spec.route.hostname is required when OpenShift browser SSO (spec.auth.openshift.enabled) and routing are both enabled; set it explicitly, or disable browser SSO for headless-only (mTLS/ServiceAccount) access''"

abbreviation ssoReady :: condition where
  "ssoReady \<equiv> mkCond ConditionBrowserSSOReady ConditionTrue ''Ready'' ''Browser SSO hostname configured''"

text \<open>The branch that runs after the SCC binding when the auth bridge is enabled.\<close>

definition reconcileBrowserSSO :: "'w env \<Rightarrow> openShellGateway \<Rightarrow> bool \<Rightarrow>
    ('w sys, openShellGateway \<times> string \<times> goerr option) state" where
  "reconcileBrowserSSO E gw authEnabled =
     (if \<not> authEnabled then ret (gw, [], None)
      else if browserSSOMissingHostname gw authEnabled then ret (setCondition E ssoHostnameMissing gw, [], None)
      else (let gw' = setCondition E ssoReady gw in do {
        rerr \<leftarrow> reconcileAuthBridgeRoute E gw';
        (case rerr of
          Some e \<Rightarrow> ret (gw', ''AuthBridgeRoute'', Some e)
        | None \<Rightarrow> do {
            oerr \<leftarrow> reconcileOAuthClient E gw';
            (case oerr of
              Some e \<Rightarrow> ret (gw', ''OAuthClient'', Some e)
            | None \<Rightarrow> ret (gw', [], None))
          })
      }))"

text \<open>The Route to the gateway: the one to the Envoy proxy, or the plain one.\<close>

definition reconcileMainRoute :: "'w env \<Rightarrow> openShellGateway \<Rightarrow> bool \<Rightarrow>
    ('w sys, openShellGateway \<times> string \<times> goerr option) state" where
  "reconcileMainRoute E gw useGWAPI =
     (if useGWAPI then do {
        ce \<leftarrow> reconcileEnvoyRoute E gw;
        ret ((case fst ce of None \<Rightarrow> gw | Some c \<Rightarrow> setCondition E c gw), ''EnvoyRoute'', snd ce)
      }
      else do {
        err \<leftarrow> reconcileRoute E gw;
        ret (gw, ''Route'', err)
      })"

definition reconcileOpenShiftRouting :: "'w env \<Rightarrow> openShellGateway \<Rightarrow> bool \<Rightarrow> bool \<Rightarrow>
    ('w sys, openShellGateway \<times> string \<times> goerr option) state" where
  "reconcileOpenShiftRouting E gw useGWAPI authEnabled = do {
     oerr \<leftarrow> reconcileObsoleteRoutes E gw useGWAPI authEnabled;
     (case oerr of
       Some e \<Rightarrow> ret (gw, ''RouteCleanup'', Some e)
     | None \<Rightarrow> do {
         mr \<leftarrow> reconcileMainRoute E gw useGWAPI;
         (case mr of (gw', step, rerr) \<Rightarrow> (case rerr of
           Some e \<Rightarrow> ret (gw', step, Some e)
         | None \<Rightarrow> do {
             serr \<leftarrow> reconcileSCCBinding E gw';
             (case serr of
               Some e \<Rightarrow> ret (gw', ''SCCBinding'', Some e)
             | None \<Rightarrow> reconcileBrowserSSO E gw' authEnabled)
           }))
       })
   }"

section \<open>Obsolete Routes\<close>

text \<open>A run of the deleting loop without an error deleted exactly the selected objects, in order.\<close>

lemma deleteEach_wp:
  assumes "\<And>e t. Q (Some e) t" and "\<And>t. calls t = calls s @ map CDelete (filter which obs) \<Longrightarrow> Q None t"
  shows "wp (deleteEach E which what obs) Q s"
  unfolding deleteEach_def kDelete_def
proof (rule wp_bindI, rule foreach_wp_prefix [where I = "\<lambda>zs _ t. calls t = calls s @ map CDelete (filter which zs)"], goal_cases)
  case 1
  show ?case by simp
next
  case (2 zs ob rest a t)
  show ?case by (intro wp_rules) (use 2 assms in \<open>auto split: option.splits\<close>)
next
  case (3 a t)
  then show ?case using assms by simp
qed

definition obsoleteRoute :: "openShellGateway \<Rightarrow> bool \<Rightarrow> bool \<Rightarrow> kobj \<Rightarrow> bool" where
  "obsoleteRoute gw useGWAPI authEnabled ob =
     (ob_name ob \<in> set (managedRouteNames gw) \<and>
      \<not> desiredRoute gw useGWAPI authEnabled (nsn (ob_namespace ob) (ob_name ob)))"

section \<open>Properties\<close>


text \<open>A plain Route left over from before the Gateway API was switched on.\<close>

definition leftoverSys :: "memWorld sys" where
  "leftoverSys = memSys (emptyWorld\<lparr>mw_objs := [routeObj exampleGateway ''gw'' ''ogo'' []]\<rparr>)"


section \<open>The OAuth client follows the Secret\<close>

definition secretSource :: "'w env \<Rightarrow> openShellGateway \<Rightarrow> kobj \<Rightarrow> bool" where
  "secretSource E gw sob =
     (mayGet E KSecret (nsn (gatewayNamespace gw) (gw_name gw @ ''-oauth-client'')) (Inr sob) \<or>
      (\<exists>clientSecret w w'. e_create E (oauthSecretObj gw clientSecret) w = (Inr sob, w')))"

abbreviation oauthSecretOf :: "kobj \<Rightarrow> string" where
  "oauthSecretOf sob \<equiv> mget (sec_data (secretOf sob)) ''secret''"

text \<open>An OAuthClient object with the right content, and one that the environment reads as having it.\<close>

definition oauthContent :: "openShellGateway \<Rightarrow> string \<Rightarrow> kobj \<Rightarrow> bool" where
  "oauthContent gw secret ob =
     (map_of (contentOf ob) ''secret'' = Some (JStr secret) \<and>
      map_of (contentOf ob) ''redirectURIs'' = Some (JList [JStr (oauthCallbackURL gw)]) \<and>
      map_of (contentOf ob) ''grantMethod'' = Some (JStr ''auto''))"

definition oauthReads :: "'w env \<Rightarrow> openShellGateway \<Rightarrow> string \<Rightarrow> kobj \<Rightarrow> bool" where
  "oauthReads E gw secret ob =
     (nestedOr [] (e_nestedString E (contentOf ob) [''secret'']) = Inr secret \<and>
      nestedOr [] (e_nestedStrings E (contentOf ob) [''redirectURIs'']) = Inr [oauthCallbackURL gw] \<and>
      nestedOr [] (e_nestedString E (contentOf ob) [''grantMethod'']) = Inr ''auto'')"

lemma ensureOAuthSecret_results:
  "results (\<lambda>r. \<forall>secret. r = Inr secret \<longrightarrow> (\<exists>sob. secretSource E gw sob \<and> secret = oauthSecretOf sob)) (ensureOAuthSecret E gw)"
proof -
  have create: "results (\<lambda>c. \<forall>sob. c = Inr sob \<longrightarrow> secretSource E gw sob) (kCreate E (oauthSecretObj gw clientSecret))" for clientSecret
    unfolding results_def kCreate_def invoke_def secretSource_def by (auto split: prod.splits)
  show ?thesis unfolding ensureOAuthSecret_def
    apply (rule results_bind_via [OF results_kGet], rule results_sum)
     apply (rule results_if)
      apply (rule results_bind)
      apply (rule results_bind_via [OF create], rule results_sum)
       apply (intro result_rules; simp)
      apply (intro result_rules, blast)
     apply (intro result_rules; simp)
    apply (intro result_rules, simp add: secretSource_def, blast)
    done
qed

lemma oauthContent_created: "oauthContent gw secret (oauthClientObj gw secret)"
  by (simp add: oauthContent_def oauthClientObj_def contentOf_def)

lemma oauthContent_updated:
  "oauthContent gw secret (withBody (BUnstructured
     (AList.update ''grantMethod'' (JStr ''auto'') (AList.update ''redirectURIs'' (JList [JStr (oauthCallbackURL gw)])
       (AList.update ''secret'' (JStr secret) c)))) ob)"
  by (simp add: oauthContent_def contentOf_def update_conv')

definition oauthSettled :: "'w env \<Rightarrow> openShellGateway \<Rightarrow> string \<Rightarrow> call list \<Rightarrow> bool" where
  "oauthSettled E gw secret cs =
     ((\<exists>ob. CCreate ob \<in> set cs \<and> ob_kind ob = KOAuthClient \<and> ob_name ob = ''openshell'' \<and> oauthContent gw secret ob) \<or>
      (\<exists>existing. mayGet E KOAuthClient (nsn [] ''openshell'') (Inr existing) \<and>
         (oauthReads E gw secret existing \<or>
          (\<exists>ob. CUpdate ob \<in> set cs \<and> ob_meta ob = ob_meta existing \<and> oauthContent gw secret ob))))"

lemma syncOAuthClient_wp:
  assumes "\<And>e t. Q (Some e) t" and "mayGet E KOAuthClient (nsn [] ''openshell'') (Inr existing)"
    and "\<And>t cs. calls t = calls s @ cs \<Longrightarrow> oauthSettled E gw secret cs \<Longrightarrow> Q None t"
  shows "wp (syncOAuthClient E gw secret existing) Q s"
  unfolding syncOAuthClient_def Let_def kUpdate_def
proof (intro wp_rules assms(1), goal_cases)
  case (1 a b c)
  show ?case
    by (rule assms(3) [of _ "[]"]) (use 1 assms(2) in \<open>auto simp: oauthSettled_def oauthReads_def\<close>)
next
  case (2 a b c r w)
  let ?ob = "withBody (BUnstructured (AList.update ''grantMethod'' (JStr ''auto'')
      (AList.update ''redirectURIs'' (JList [JStr (oauthCallbackURL gw)])
        (AList.update ''secret'' (JStr secret) (contentOf existing))))) existing"
  have "oauthSettled E gw secret [CUpdate ?ob]"
    unfolding oauthSettled_def using assms(2) oauthContent_updated by (intro disjI2 exI [of _ existing]) auto
  then show ?case by (cases r) (auto intro: assms(1,3))
qed

lemma oauthSettled_mono: "oauthSettled E gw secret ds \<Longrightarrow> oauthSettled E gw secret (cs @ ds)"
  unfolding oauthSettled_def by auto

lemma oauthClient_settles:
  assumes "secretSource E gw sob" and "calls u = calls s @ cs"
  shows "wp (do {
       r \<leftarrow> kGet E KOAuthClient (nsn [] ''openshell'');
       (case r of
         Inl e \<Rightarrow> if e_isNotFound E e then do {
             c \<leftarrow> kCreate E (oauthClientObj gw (oauthSecretOf sob));
             ret (errOf c)
           }
           else ret (Some e)
       | Inr existing \<Rightarrow> syncOAuthClient E gw (oauthSecretOf sob) existing)
     }) (\<lambda>r t. r = None \<longrightarrow> (\<exists>sob. secretSource E gw sob \<and> oauthSettled E gw (oauthSecretOf sob) (newCalls s t))) u"
  unfolding kGet_def kCreate_def
proof (intro wp_rules syncOAuthClient_wp, goal_cases)
  case (1 r w e r' w')
  have "oauthSettled E gw (oauthSecretOf sob) [CCreate (oauthClientObj gw (oauthSecretOf sob))]"
    unfolding oauthSettled_def using oauthContent_created by (auto simp: oauthClientObj_def)
  then have "oauthSettled E gw (oauthSecretOf sob) ((cs @ [CGet KOAuthClient (nsn [] ''openshell'')]) @
      [CCreate (oauthClientObj gw (oauthSecretOf sob))])" by (rule oauthSettled_mono)
  then show ?case using assms by auto
next
  case (5 r w existing t ds)
  have "oauthSettled E gw (oauthSecretOf sob) ((cs @ [CGet KOAuthClient (nsn [] ''openshell'')]) @ ds)"
    by (rule oauthSettled_mono [OF 5(4)])
  then show ?case using assms 5(3) by auto
qed (auto simp: mayGet_def)

text \<open>
  C28: the OAuth client follows the Secret of the namespace. When the step that keeps the cluster-wide
  OAuthClient succeeds, there is a Secret, read or just created, whose value the client has: the client
  was created with it, was updated to it, or was read with it already, and in each case with the single
  redirect address of the current host name and the automatic grant method.
\<close>

theorem oauth_client_in_sync:
  assumes "run_state (reconcileOAuthClient E gw) s = (None, t)"
  shows "\<exists>sob. secretSource E gw sob \<and> oauthSettled E gw (oauthSecretOf sob) (newCalls s t)"
proof -
  let ?Q = "\<lambda>r t. r = None \<longrightarrow> (\<exists>sob. secretSource E gw sob \<and> oauthSettled E gw (oauthSecretOf sob) (newCalls s t))"
  have calls: "onlyCalls (\<lambda>_. True) (ensureOAuthSecret E gw)"
    unfolding ensureOAuthSecret_def generateOAuthSecret_def randBytes_def prim_defs by (intro call_rules) simp_all
  have "wp (reconcileOAuthClient E gw) ?Q s"
    unfolding reconcileOAuthClient_def
  proof (rule wp_bindI, rule wp_mono [OF wp_conj [OF results_wp [OF ensureOAuthSecret_results] wp_calls [OF calls]]], assumption, goal_cases)
    case (1 r u)
    then obtain cs where u: "calls u = calls s @ cs" by blast
    show ?case
    proof (cases r)
      case (Inr secret)
      then obtain sob where "secretSource E gw sob" "secret = oauthSecretOf sob" using 1 by blast
      then show ?thesis using oauthClient_settles [OF _ u] Inr by simp
    qed simp
  qed
  from wpD [OF this assms] show ?thesis by simp
qed

theorem oauth_client_in_sync_witness:
  "\<exists>sob. secretSource freshEnv exampleGateway sob \<and> oauthSettled freshEnv exampleGateway (oauthSecretOf sob)
     (newCalls (memSys emptyWorld) (snd (run_state (reconcileOAuthClient freshEnv exampleGateway) (memSys emptyWorld))))"
proof -
  let ?r = "run_state (reconcileOAuthClient freshEnv exampleGateway) (memSys emptyWorld)"
  have "fst ?r = None" by code_simp
  then have "?r = (None, snd ?r)" by (simp add: prod_eq_iff)
  then show ?thesis by (rule oauth_client_in_sync)
qed

text \<open>
  A Gateway is deleted for drift without a look at its labels: one that somebody else created under the
  gateway's name, in its namespace, is removed, where a Route in the same situation is left alone and
  reported.
\<close>

definition foreignGateway :: kobj where
  "foreignGateway = mkObj KGateway (metaFor ''gw'' ''ogo'') (BUnstructured [(''spec'', JMap [(''gatewayClassName'', JStr ''other'')])])"

theorem foreign_gateway_deleted:
  "let gw = exampleGateway\<lparr>gw_spec := (gw_spec exampleGateway)\<lparr>gs_route := (gs_route zeroGatewaySpec)\<lparr>rt_hostname := ''h.example''\<rparr>\<rparr>\<rparr>;
       s = memSys (emptyWorld\<lparr>mw_objs := [foreignGateway]\<rparr>);
       r = run_state (reconcileGatewayAPI memEnv gw) s
   in snd (fst r) = None \<and> CDelete foreignGateway \<in> set (newCalls s (snd r)) \<and>
      \<not> managedByGateway (ob_labels foreignGateway) gw"
  by code_simp

end
