(* ===== verification/Status.thy ===== *)
theory Status
  imports Deployment
begin

text \<open>
  How the gateway controller reports: \<open>updateStatus\<close> and \<open>setDegraded\<close> of
  \<^verbatim>\<open>src/internal/controller/openshellgateway_controller.go\<close>. The decision part of \<open>updateStatus\<close>, which
  makes no call, is cut into one function per group of statements; \<open>updateStatus\<close> composes them in
  the order of the code. The locale \<open>status_conditions\<close> states what apimachinery documents of the
  functions on condition lists.
\<close>

section \<open>The decision\<close>

definition podsReady :: "deploymentBody \<Rightarrow> bool" where
  "podsReady deploy =
     (let desiredReplicas = (case dp_replicas deploy of None \<Rightarrow> 1 | Some n \<Rightarrow> n) in
      dp_readyReplicas deploy > 0 \<and> dp_readyReplicas deploy = desiredReplicas)"

text \<open>A condition of the resource at hand that is there and not true blocks, if its feature is active.\<close>

definition blocking :: "'w env \<Rightarrow> openShellGateway \<Rightarrow> string \<Rightarrow> bool \<Rightarrow> bool" where
  "blocking E gw condType featureActive =
     (case e_findCond E (gt_conditions (gw_status gw)) condType of
       None \<Rightarrow> False
     | Some c \<Rightarrow> featureActive \<and> cd_status c \<noteq> ConditionTrue)"

abbreviation envoyRouteBlocking :: "'w env \<Rightarrow> openShellGateway \<Rightarrow> bool \<Rightarrow> bool" where
  "envoyRouteBlocking E gw \<equiv> blocking E gw ConditionEnvoyRouteReady"

abbreviation browserSSOBlocking :: "'w env \<Rightarrow> openShellGateway \<Rightarrow> bool \<Rightarrow> bool" where
  "browserSSOBlocking E gw \<equiv> blocking E gw ConditionBrowserSSOReady"

definition dropInactive :: "'w env \<Rightarrow> bool \<Rightarrow> bool \<Rightarrow> condition list \<Rightarrow> condition list" where
  "dropInactive E envoyRouteActive authBridgeActive cs =
     (let cs' = (if \<not> envoyRouteActive then e_removeCond E cs ConditionEnvoyRouteReady else cs) in
      if \<not> authBridgeActive then e_removeCond E cs' ConditionBrowserSSOReady else cs')"

definition blockedReason :: "bool \<Rightarrow> string" where
  "blockedReason sso = (if sso then reasonHostnameMissing else ''EnvoyRouteNotReady'')"

definition blockedMessage :: "bool \<Rightarrow> string" where
  "blockedMessage sso = (if sso
     then ''spec.route.hostname is required for OpenShift browser SSO '' @ emDash @ '' see the BrowserSSOReady condition''
     else ''Waiting for the Envoy Gateway Route to become ready'')"

definition progressingReason :: "bool \<Rightarrow> string" where
  "progressingReason sso = (if sso then ''WaitingForConfig'' else ''Deploying'')"

text \<open>The \<^verbatim>\<open>switch\<close>: the phase and the conditions \<open>Available\<close> and \<open>Progressing\<close>.\<close>

definition phaseFor :: "bool \<Rightarrow> bool \<Rightarrow> bool \<Rightarrow> string \<times> condition \<times> condition" where
  "phaseFor ready envoyBlocks ssoBlocks =
     (let blocked = (envoyBlocks \<or> ssoBlocks) in
      if ready \<and> \<not> blocked then (PhaseRunning,
        mkCond ConditionAvailable ConditionTrue ''Ready'' ''Gateway is running'',
        mkCond ConditionProgressing ConditionFalse ''Complete'' ''Rollout complete'')
      else if ready \<and> blocked then (PhaseCreating,
        mkCond ConditionAvailable ConditionFalse (blockedReason ssoBlocks) (blockedMessage ssoBlocks),
        mkCond ConditionProgressing ConditionTrue (progressingReason ssoBlocks) (blockedMessage ssoBlocks))
      else (PhaseCreating,
        mkCond ConditionAvailable ConditionFalse ''NotReady'' ''Waiting for pods'',
        mkCond ConditionProgressing ConditionTrue ''Deploying'' ''Gateway pods starting''))"

definition reportedTypes :: "string list" where
  "reportedTypes = [ConditionEnvoyGatewayReady, ConditionDatabaseReady, ConditionEnvoyProxySCCReady,
     ConditionOpenShiftGroups, ConditionEnvoyRouteReady, ConditionBrowserSSOReady, ConditionImageConfigValid]"

text \<open>The loop that copies the conditions set during this reconcile to the latest status.\<close>

fun copyConditions :: "'w env \<Rightarrow> openShellGateway \<Rightarrow> bool \<Rightarrow> bool \<Rightarrow> string list \<Rightarrow> condition list \<Rightarrow> condition list" where
  "copyConditions E gw envoyRouteActive authBridgeActive [] cs = cs"
| "copyConditions E gw envoyRouteActive authBridgeActive (condType # rest) cs =
     copyConditions E gw envoyRouteActive authBridgeActive rest
       (if condType = ConditionEnvoyRouteReady \<and> \<not> envoyRouteActive then cs
        else if condType = ConditionBrowserSSOReady \<and> \<not> authBridgeActive then cs
        else (case e_findCond E (gt_conditions (gw_status gw)) condType of
          None \<Rightarrow> cs
        | Some c \<Rightarrow> e_setCond E cs c))"

definition gatewayURL :: "openShellGateway \<Rightarrow> string" where
  "gatewayURL gw =
     (if routeEnabled gw \<and> routeHostname gw \<noteq> [] then ''https://'' @ routeHostname gw @ '':443''
      else ''https://'' @ gw_name gw @ ''.'' @ gatewayNamespace gw @ ''.svc.cluster.local:8080'')"

abbreviation notDegraded :: condition where
  "notDegraded \<equiv> mkCond ConditionDegraded ConditionFalse ''OK'' []"

definition statusConditions :: "'w env \<Rightarrow> openShellGateway \<Rightarrow> bool \<Rightarrow> bool \<Rightarrow> condition \<Rightarrow> condition \<Rightarrow>
    condition list \<Rightarrow> condition list" where
  "statusConditions E gw envoyRouteActive authBridgeActive available progressing cs =
     copyConditions E gw envoyRouteActive authBridgeActive reportedTypes
       (e_setCond E (e_setCond E (e_setCond E (dropInactive E envoyRouteActive authBridgeActive cs)
         available) progressing) notDegraded)"

definition statusFor :: "'w env \<Rightarrow> openShellGateway \<Rightarrow> deploymentBody \<Rightarrow> bool \<Rightarrow> bool \<Rightarrow>
    openShellGatewayStatus \<Rightarrow> openShellGatewayStatus" where
  "statusFor E gw deploy envoyRouteActive authEnabled latest =
     (case phaseFor (podsReady deploy) (envoyRouteBlocking E gw envoyRouteActive)
          (browserSSOBlocking E gw authEnabled) of
       (phase, available, progressing) \<Rightarrow>
         latest\<lparr>gt_phase := phase,
           gt_conditions := statusConditions E gw envoyRouteActive authEnabled available progressing (gt_conditions latest),
           gt_gatewayURL := gatewayURL gw,
           gt_clientCertSecretName := gw_name gw @ ''-client-tls'',
           gt_observedGeneration := om_generation (gw_meta gw)\<rparr>)"

definition deploymentMissing :: "'w env \<Rightarrow> openShellGatewayStatus \<Rightarrow> openShellGatewayStatus" where
  "deploymentMissing E latest = latest\<lparr>gt_phase := PhaseFailed,
     gt_conditions := e_setCond E (gt_conditions latest)
       (mkCond ConditionAvailable ConditionFalse ''DeploymentNotFound'' ''Gateway deployment not found'')\<rparr>"

section \<open>Writing the status\<close>

abbreviation withStatus :: "openShellGatewayStatus \<Rightarrow> openShellGateway \<Rightarrow> openShellGateway" where
  "withStatus st gw \<equiv> gw\<lparr>gw_status := st\<rparr>"

text \<open>The discovery runs only if routing is enabled: \<open>&&\<close> does not evaluate its right side otherwise.\<close>

definition envoyRouteInUse :: "'w env \<Rightarrow> openShellGateway \<Rightarrow> ('w sys, bool) state" where
  "envoyRouteInUse E gw =
     (if \<not> routeEnabled gw then ret False
      else do { hasGWAPI \<leftarrow> HasGatewayAPI E; ret (gatewayAPIEnabled gw hasGWAPI) })"

definition updateStatus :: "'w env \<Rightarrow> openShellGateway \<Rightarrow> bool \<Rightarrow> ('w sys, goerr option) state" where
  "updateStatus E gw authEnabled = do {
     r \<leftarrow> kGet E KOpenShellGateway (nsn [] (gw_name gw));
     (case r of
       Inl e \<Rightarrow> ret (Some e)
     | Inr ob \<Rightarrow> (let latest = gatewayOf ob in do {
         d \<leftarrow> kGet E KDeployment (nsn (gatewayNamespace gw) (gw_name gw));
         (case d of
           Inl _ \<Rightarrow> kStatusUpdate E (gatewayObj (withStatus (deploymentMissing E (gw_status latest)) latest))
         | Inr deploy \<Rightarrow> do {
             envoyRouteActive \<leftarrow> envoyRouteInUse E gw;
             kStatusUpdate E (gatewayObj (withStatus
               (statusFor E gw (deploymentOf deploy) envoyRouteActive authEnabled (gw_status latest)) latest))
           })
       }))
   }"

definition degradedStatus :: "'w env \<Rightarrow> openShellGateway \<Rightarrow> string \<Rightarrow> goerr \<Rightarrow> openShellGatewayStatus \<Rightarrow> openShellGatewayStatus" where
  "degradedStatus E gw step reconcileErr latest =
     latest\<lparr>gt_phase := PhaseFailed, gt_observedGeneration := om_generation (gw_meta gw),
       gt_conditions := e_setCond E (gt_conditions latest)
         (mkCond ConditionDegraded ConditionTrue ''ReconcileError'' (step @ '': '' @ errText reconcileErr))\<rparr>"

definition setDegraded :: "'w env \<Rightarrow> openShellGateway \<Rightarrow> string \<Rightarrow> goerr \<Rightarrow> ('w sys, goerr) state" where
  "setDegraded E gw step reconcileErr = do {
     r \<leftarrow> kGet E KOpenShellGateway (nsn [] (gw_name gw));
     (case r of
       Inl _ \<Rightarrow> ret reconcileErr
     | Inr ob \<Rightarrow> (let latest = gatewayOf ob in do {
         _ \<leftarrow> kStatusUpdate E (gatewayObj (withStatus (degradedStatus E gw step reconcileErr (gw_status latest)) latest));
         ret reconcileErr
       }))
   }"

section \<open>The contract of condition lists\<close>

text \<open>
  What the documentation of \<^verbatim>\<open>meta.SetStatusCondition\<close>, \<^verbatim>\<open>FindStatusCondition\<close> and
  \<^verbatim>\<open>RemoveStatusCondition\<close> says: after setting a condition the list holds it under its type, with the
  status, reason and message given, and every other type is as before; a removed type is not found; a
  condition that is found has the type asked for.
\<close>

locale status_conditions =
  fixes setC :: "condition list \<Rightarrow> condition \<Rightarrow> condition list"
    and findC :: "condition list \<Rightarrow> string \<Rightarrow> condition option"
    and removeC :: "condition list \<Rightarrow> string \<Rightarrow> condition list"
  assumes find_set: "findC (setC cs c) ty = (if ty = cd_type c then Some c else findC cs ty)"
    and find_remove: "findC (removeC cs ty') ty = (if ty = ty' then None else findC cs ty)"
    and find_type: "findC cs ty = Some c \<Longrightarrow> cd_type c = ty"
begin

lemma set_commute: "cd_type c \<noteq> cd_type d \<Longrightarrow> findC (setC (setC cs c) d) ty = findC (setC (setC cs d) c) ty"
  by (simp add: find_set)

lemma set_idem: "findC (setC (setC cs c) c) ty = findC (setC cs c) ty"
  by (simp add: find_set)

end

lemma find_memSetCond:
  "find (\<lambda>d. cd_type d = ty) (memSetCond cs c) = (if ty = cd_type c then Some c else find (\<lambda>d. cd_type d = ty) cs)"
  by (induction cs c rule: memSetCond.induct) auto

interpretation memConditions: status_conditions memSetCond "\<lambda>cs ty. find (\<lambda>c. cd_type c = ty) cs"
  "\<lambda>cs ty. filter (\<lambda>c. cd_type c \<noteq> ty) cs"
proof (unfold_locales, goal_cases)
  case (1 cs c ty)
  show ?case by (rule find_memSetCond)
next
  case (2 cs ty' ty)
  show ?case by (induction cs) auto
next
  case (3 cs ty c)
  then show ?case by (auto simp: find_Some_iff)
qed

text \<open>The two guards of the copying loop.\<close>

definition reportable :: "bool \<Rightarrow> bool \<Rightarrow> string \<Rightarrow> bool" where
  "reportable envoy auth ty =
     (\<not> (ty = ConditionEnvoyRouteReady \<and> \<not> envoy) \<and> \<not> (ty = ConditionBrowserSSOReady \<and> \<not> auth))"

lemma copyConditions_step:
  "copyConditions E gw envoy auth (a # types) cs = copyConditions E gw envoy auth types
     (if reportable envoy auth a then (case e_findCond E (gt_conditions (gw_status gw)) a of
        None \<Rightarrow> cs | Some c \<Rightarrow> e_setCond E cs c) else cs)"
  by (simp add: reportable_def)

text \<open>An environment whose condition functions meet the contract.\<close>

locale condition_env = status_conditions "e_setCond E" "e_findCond E" "e_removeCond E" for E :: "'w env"
begin

text \<open>What a copied list holds under a type: the condition of this reconcile if it is to be reported.\<close>

lemma find_copyConditions:
  "e_findCond E (copyConditions E gw envoy auth types cs) ty =
    (if ty \<in> set types \<and> reportable envoy auth ty
     then (case e_findCond E (gt_conditions (gw_status gw)) ty of None \<Rightarrow> e_findCond E cs ty | Some c \<Rightarrow> Some c)
     else e_findCond E cs ty)"
proof (induction types arbitrary: cs)
  case Nil
  show ?case by simp
next
  case (Cons a types)
  let ?cs = "if reportable envoy auth a then (case e_findCond E (gt_conditions (gw_status gw)) a of
      None \<Rightarrow> cs | Some c \<Rightarrow> e_setCond E cs c) else cs"
  have "e_findCond E ?cs ty = (if ty = a \<and> reportable envoy auth a
      then (case e_findCond E (gt_conditions (gw_status gw)) a of None \<Rightarrow> e_findCond E cs a | Some c \<Rightarrow> Some c)
      else e_findCond E cs ty)"
    by (simp add: find_set find_type split: option.splits)
  then show ?case
    unfolding copyConditions_step Cons.IH [of ?cs] by (auto split: option.splits)
qed

lemma find_dropInactive:
  "e_findCond E (dropInactive E envoy auth cs) ty =
    (if ty = ConditionEnvoyRouteReady \<and> \<not> envoy \<or> ty = ConditionBrowserSSOReady \<and> \<not> auth then None
     else e_findCond E cs ty)"
  by (simp add: dropInactive_def Let_def find_remove)

text \<open>The reported list, type by type.\<close>

lemma find_statusConditions:
  assumes "cd_type available = ConditionAvailable" and "cd_type progressing = ConditionProgressing"
  shows "e_findCond E (statusConditions E gw envoy auth available progressing cs) ConditionAvailable = Some available"
    and "e_findCond E (statusConditions E gw envoy auth available progressing cs) ConditionProgressing = Some progressing"
    and "e_findCond E (statusConditions E gw envoy auth available progressing cs) ConditionDegraded = Some notDegraded"
    and "\<not> envoy \<Longrightarrow>
      e_findCond E (statusConditions E gw envoy auth available progressing cs) ConditionEnvoyRouteReady = None"
    and "\<not> auth \<Longrightarrow>
      e_findCond E (statusConditions E gw envoy auth available progressing cs) ConditionBrowserSSOReady = None"
  using assms unfolding statusConditions_def find_copyConditions
  by (simp_all add: find_set find_dropInactive reportedTypes_def reportable_def)

lemma find_reported:
  assumes "ty \<in> set reportedTypes" and "e_findCond E (gt_conditions (gw_status gw)) ty = Some c"
    and "reportable envoy auth ty"
  shows "e_findCond E (statusConditions E gw envoy auth available progressing cs) ty = Some c"
  using assms by (simp add: statusConditions_def find_copyConditions)

lemma statusFor_phase:
  "gt_phase (statusFor E gw deploy envoy auth latest) =
     (if podsReady deploy \<and> \<not> envoyRouteBlocking E gw envoy \<and> \<not> browserSSOBlocking E gw auth
      then PhaseRunning else PhaseCreating)"
  by (simp add: statusFor_def phaseFor_def Let_def)

lemma statusFor_available:
  "\<exists>c. e_findCond E (gt_conditions (statusFor E gw deploy envoy auth latest)) ConditionAvailable = Some c \<and>
     cd_status c = (if gt_phase (statusFor E gw deploy envoy auth latest) = PhaseRunning then ConditionTrue else ConditionFalse)"
  "\<exists>c. e_findCond E (gt_conditions (statusFor E gw deploy envoy auth latest)) ConditionProgressing = Some c \<and>
     cd_status c = (if gt_phase (statusFor E gw deploy envoy auth latest) = PhaseRunning then ConditionFalse else ConditionTrue)"
  by (simp_all add: statusFor_def phaseFor_def Let_def find_statusConditions)

lemma statusFor_degraded:
  "e_findCond E (gt_conditions (statusFor E gw deploy envoy auth latest)) ConditionDegraded = Some notDegraded"
  by (simp add: statusFor_def phaseFor_def Let_def find_statusConditions)

text \<open>In a running status a precondition that does not hold belongs to a feature that is not in use.\<close>

lemma statusFor_unblocked:
  assumes "gt_phase (statusFor E gw deploy envoy auth latest) = PhaseRunning"
    and "ty \<in> {ConditionEnvoyRouteReady, ConditionBrowserSSOReady}"
    and "e_findCond E (gt_conditions (gw_status gw)) ty = Some c" and "cd_status c \<noteq> ConditionTrue"
  shows "e_findCond E (gt_conditions (statusFor E gw deploy envoy auth latest)) ty = None"
proof -
  have "\<not> blocking E gw ConditionEnvoyRouteReady envoy \<and> \<not> blocking E gw ConditionBrowserSSOReady auth"
    using assms(1) unfolding statusFor_phase by (simp split: if_splits)
  then have "ty = ConditionEnvoyRouteReady \<and> \<not> envoy \<or> ty = ConditionBrowserSSOReady \<and> \<not> auth"
    using assms(2-4) by (auto simp: blocking_def)
  then show ?thesis by (elim disjE) (simp_all add: statusFor_def phaseFor_def Let_def find_statusConditions)
qed

lemma deploymentMissing_available:
  "\<exists>c. e_findCond E (gt_conditions (deploymentMissing E st)) ConditionAvailable = Some c \<and> cd_status c = ConditionFalse"
  by (simp add: deploymentMissing_def find_set)

end

interpretation memCondition: condition_env memEnv
  using memConditions.status_conditions_axioms by (simp add: condition_env_def memEnv_def)

section \<open>The status that is written\<close>

lemma onlyCalls_envoyRouteInUse [call_rules]: "(\<And>gv. P (CDiscover gv)) \<Longrightarrow> onlyCalls P (envoyRouteInUse E gw)"
  unfolding envoyRouteInUse_def by (intro call_rules)

abbreviation reports :: "openShellGateway \<Rightarrow> openShellGatewayStatus \<Rightarrow> kobj" where
  "reports latest st \<equiv> gatewayObj (withStatus st latest)"

lemma updateStatus_writes:
  assumes "run_state (updateStatus E gw auth) s = (r, t)" and "CStatusUpdate ob \<in> set (newCalls s t)"
  shows "\<exists>latest. ob = reports latest (deploymentMissing E (gw_status latest)) \<or>
    (\<exists>d envoy. mayGet E KDeployment (nsn (gatewayNamespace gw) (gw_name gw)) (Inr d) \<and>
      ob = reports latest (statusFor E gw (deploymentOf d) envoy auth (gw_status latest)))"
proof -
  let ?P = "\<lambda>c. \<forall>ob. c = CStatusUpdate ob \<longrightarrow> (\<exists>latest. ob = reports latest (deploymentMissing E (gw_status latest)) \<or>
    (\<exists>d envoy. mayGet E KDeployment (nsn (gatewayNamespace gw) (gw_name gw)) (Inr d) \<and>
      ob = reports latest (statusFor E gw (deploymentOf d) envoy auth (gw_status latest))))"
  have "onlyCalls ?P (updateStatus E gw auth)"
    unfolding updateStatus_def Let_def kStatusUpdate_def
    apply (rule onlyCalls_kGet_bind, simp)
    apply (rule onlyCalls_sum, simp)
    apply (rule onlyCalls_kGet_bind, simp)
    apply (rule onlyCalls_sum)
     apply (rule onlyCalls_invoke, blast)
    apply (intro call_rules; blast)
    done
  from onlyCalls_newCalls [OF this assms] show ?thesis by blast
qed

section \<open>Properties\<close>


text \<open>A gateway whose only pod is ready.\<close>

definition readyDeployment :: kobj where
  "readyDeployment = mkObj KDeployment (metaFor ''gw'' ''ogo'') (BDeployment
     \<lparr>dp_replicas = Some 1, dp_selector = [], dp_strategy = [],
      dp_template = \<lparr>tp_labels = [], tp_annotations = [], tp_spec =
        \<lparr>pd_serviceAccountName = [], pd_terminationGracePeriodSeconds = None, pd_containers = [],
         pd_volumes = [], pd_securityContext = None\<rparr>\<rparr>,
      dp_readyReplicas = 1\<rparr>)"


text \<open>
  The conditions that a failing step set on the resource are lost: the status that \<open>setDegraded\<close>
  writes does not depend on them.
\<close>

theorem degraded_drops_conditions:
  "setDegraded E (setCondition E c gw) step e = setDegraded E gw step e"
proof -
  have "degradedStatus E (setCondition E c gw) step e = degradedStatus E gw step e"
    by (rule ext) (simp add: degradedStatus_def setCondition_def)
  moreover have "gw_name (setCondition E c gw) = gw_name gw" by (simp add: setCondition_def)
  ultimately show ?thesis by (simp only: setDegraded_def)
qed

end
