(* ===== verification/GatewayReconcile.thy ===== *)
theory GatewayReconcile
  imports Dependencies Routing Status Singleton
begin

text \<open>
  The reconcile loop of the gateway controller, \<open>Reconcile\<close> and \<open>reconcileDelete\<close> of
  \<^verbatim>\<open>src/internal/controller/openshellgateway_controller.go\<close>, and its two watch mappers. It puts together
  the singleton choice, the dependencies, the core resources, the routing and the status. A step that
  sets a condition hands the resource on; the steps that do not are wrapped by \<open>plainStep\<close>.
\<close>

section \<open>Deletion\<close>

abbreviation namedObj :: "kind \<Rightarrow> string \<Rightarrow> string \<Rightarrow> kobj" where
  "namedObj k name ns \<equiv> mkObj k (metaFor name ns) BNone"

text \<open>The Gateway API resources, deleted in any case; a failure is only logged.\<close>

definition gatewayAPIObjects :: "openShellGateway \<Rightarrow> kobj list" where
  "gatewayAPIObjects gw =
     [namedObj KGateway (gw_name gw) (gatewayNamespace gw),
      namedObj KGRPCRoute (gw_name gw) (gatewayNamespace gw),
      namedObj KBackendTrafficPolicy (gw_name gw @ ''-timeout'') (gatewayNamespace gw)]"

definition clusterResources :: "openShellGateway \<Rightarrow> bool \<Rightarrow> kobj list" where
  "clusterResources gw isOCP =
     [namedObj KClusterRole (gw_name gw @ ''-node-reader'') [],
      namedObj KClusterRoleBinding (gw_name gw @ ''-node-reader'') []] @
     (if isOCP then [namedObj KClusterRoleBinding (gw_name gw @ ''-sandbox-scc-privileged'') []] else [])"

definition crossNSResources :: "openShellGateway \<Rightarrow> kobj list" where
  "crossNSResources gw =
     (if sandboxNamespace gw \<noteq> gatewayNamespace gw
      then [namedObj KServiceAccount (gw_name gw @ ''-sandbox'') (sandboxNamespace gw),
            namedObj KRole (gw_name gw @ ''-sandbox'') (sandboxNamespace gw),
            namedObj KRoleBinding (gw_name gw @ ''-sandbox'') (sandboxNamespace gw),
            namedObj KNetworkPolicy (gw_name gw @ ''-sandbox-ssh'') (sandboxNamespace gw)]
      else [])"

text \<open>A loop that goes on after an error and collects the errors; its result is the list of them.\<close>

fun collect :: "('x \<Rightarrow> ('s, goerr option) state) \<Rightarrow> 'x list \<Rightarrow> ('s, goerr list) state" where
  "collect f [] = ret []"
| "collect f (x # xs) = do {
     r \<leftarrow> f x;
     es \<leftarrow> collect f xs;
     ret ((case r of None \<Rightarrow> [] | Some e \<Rightarrow> [e]) @ es)
   }"

definition deleteIgnoring :: "'w env \<Rightarrow> kobj \<Rightarrow> ('w sys, goerr option) state" where
  "deleteIgnoring E ob = do {
     err \<leftarrow> kDelete E ob;
     (case err of Some e \<Rightarrow> ret (ignoreNotFound E e) | None \<Rightarrow> ret None)
   }"

definition cleanupRoutes :: "'w env \<Rightarrow> openShellGateway \<Rightarrow> ('w sys, goerr list) state" where
  "cleanupRoutes E gw = do {
     err \<leftarrow> deleteManagedRoutes E gw;
     (case err of
       Some e \<Rightarrow> ret (if \<not> e_isNoMatch E e \<and> \<not> e_isNotFound E e then [e] else [])
     | None \<Rightarrow> ret [])
   }"

definition deleteCA :: "'w env \<Rightarrow> openShellGateway \<Rightarrow> string \<Rightarrow> ('w sys, goerr option) state" where
  "deleteCA E gw suffix = do {
     r \<leftarrow> kGet E KConfigMap (nsn (gatewayNamespace gw) (gw_name gw @ suffix));
     (case r of
       Inl e \<Rightarrow> ret (ignoreNotFound E e)
     | Inr ca \<Rightarrow> if managedByGateway (ob_labels ca) gw then deleteIgnoring E ca else ret None)
   }"

text \<open>The part of \<open>reconcileDelete\<close> before the finalizer; its result is \<open>cleanupErrors\<close>.\<close>

definition cleanupAll :: "'w env \<Rightarrow> yamlLib \<Rightarrow> openShellGateway \<Rightarrow> ('w sys, goerr list) state" where
  "cleanupAll E Y gw = do {
     _ \<leftarrow> collect (\<lambda>d. dr_Cleanup d gw) (rev (dependencies E Y));
     isOCP \<leftarrow> IsOpenShift E;
     _ \<leftarrow> collect (deleteIgnoring E) (gatewayAPIObjects gw);
     routeErrs \<leftarrow> cleanupRoutes E gw;
     clusterErrs \<leftarrow> collect (deleteIgnoring E) (clusterResources gw isOCP);
     crossErrs \<leftarrow> collect (deleteIgnoring E) (crossNSResources gw);
     caErrs \<leftarrow> collect (deleteCA E gw) [authCASuffix, gatewayCASuffix];
     ret (routeErrs @ clusterErrs @ crossErrs @ caErrs)
   }"

definition withoutFinalizer :: "'w env \<Rightarrow> openShellGateway \<Rightarrow> openShellGateway" where
  "withoutFinalizer E gw = gw\<lparr>gw_meta := e_removeFinalizer E (gw_meta gw) gatewayFinalizer\<rparr>"

definition gatewayReconcileDelete :: "'w env \<Rightarrow> yamlLib \<Rightarrow> openShellGateway \<Rightarrow> ('w sys, outcome) state" where
  "gatewayReconcileDelete E Y gw =
     (if \<not> e_hasFinalizer E (gw_meta gw) gatewayFinalizer then ret (noRequeue, None)
      else do {
        cleanupErrors \<leftarrow> cleanupAll E Y gw;
        if cleanupErrors \<noteq> []
        then ret (requeueAfter 30, Some (Errorf (''cleanup incomplete: '' @ natDec (length cleanupErrors) @ '' errors'')))
        else do {
          err \<leftarrow> kUpdate E (gatewayObj (withoutFinalizer E gw));
          ret (noRequeue, err)
        }
      })"

section \<open>The steps\<close>

type_synonym 'w step = "openShellGateway \<Rightarrow> ('w sys, openShellGateway \<times> goerr option) state"

definition plainStep :: "(openShellGateway \<Rightarrow> ('w sys, goerr option) state) \<Rightarrow> 'w step" where
  "plainStep f gw = do { err \<leftarrow> f gw; ret (gw, err) }"

definition steps :: "'w env \<Rightarrow> 'w pkiLib \<Rightarrow> (string \<times> 'w step) list" where
  "steps E P =
     [(''Namespace'', plainStep (reconcileNamespace E)),
      (''GatewayServiceAccount'', plainStep (reconcileGatewayServiceAccount E)),
      (''SandboxServiceAccount'', plainStep (reconcileSandboxServiceAccount E)),
      (''ClusterRole'', plainStep (reconcileClusterRole E)),
      (''ClusterRoleBinding'', plainStep (reconcileClusterRoleBinding E)),
      (''Role'', plainStep (reconcileRole E)),
      (''RoleBinding'', plainStep (reconcileRoleBinding E)),
      (''TLS'', plainStep (reconcileTLS E P)),
      (''AuthBridgeCA'', plainStep (reconcileAuthBridgeCA E)),
      (''GatewayCA'', plainStep (reconcileGatewayCA E)),
      (''JWTKeys'', plainStep (reconcileJWTKeys E P)),
      (''AuthBridgeKeys'', plainStep (reconcileAuthBridgeKeys E P)),
      (''ConfigMap'', plainStep (reconcileConfigMap E)),
      (''Deployment'', reconcileDeployment E),
      (''Service'', plainStep (reconcileService E)),
      (''NetworkPolicy'', plainStep (reconcileNetworkPolicy E))]"

text \<open>A failure: the resource as it is then, the name of the step and the error.\<close>

type_synonym failure = "openShellGateway \<times> string \<times> goerr"

definition runSteps :: "(string \<times> 'w step) list \<Rightarrow> openShellGateway \<Rightarrow> ('w sys, failure + openShellGateway) state" where
  "runSteps = foreach (\<lambda>st gw. do {
     r \<leftarrow> snd st gw;
     (case snd r of
       Some e \<Rightarrow> ret (Inl (fst r, fst st, e))
     | None \<Rightarrow> ret (Inr (fst r)))
   })"

definition runDependencies :: "'w env \<Rightarrow> 'w dependencyReconciler list \<Rightarrow> openShellGateway \<Rightarrow>
    ('w sys, failure + openShellGateway) state" where
  "runDependencies E = foreach (\<lambda>d gw. do {
     en \<leftarrow> dr_Enabled d gw;
     if \<not> en then ret (Inr gw)
     else do {
       ce \<leftarrow> dr_Reconcile d gw;
       (let gw' = setCondition E (fst ce) gw in
        case snd ce of
          Some e \<Rightarrow> ret (Inl (gw', dr_Name d, e))
        | None \<Rightarrow> ret (Inr gw'))
     }
   })"

definition degraded :: "'w env \<Rightarrow> failure \<Rightarrow> ('w sys, outcome) state" where
  "degraded E f = (case f of (gw, step, e) \<Rightarrow> do {
     e' \<leftarrow> setDegraded E gw step e;
     ret (requeueAfter 30, Some e')
   })"

text \<open>The part after the core resources: Gateway API and OpenShift routing.\<close>

definition reconcileEdge :: "'w env \<Rightarrow> openShellGateway \<Rightarrow> bool \<Rightarrow> bool \<Rightarrow> bool \<Rightarrow>
    ('w sys, failure + openShellGateway) state" where
  "reconcileEdge E gw isOCP useGWAPI authEnabled = do {
     g \<leftarrow> (if useGWAPI then reconcileGatewayAPI E gw else ret (gw, None));
     (case snd g of
       Some e \<Rightarrow> ret (Inl (fst g, ''GatewayAPI'', e))
     | None \<Rightarrow>
         if isOCP then do {
           r \<leftarrow> reconcileOpenShiftRouting E (fst g) useGWAPI authEnabled;
           (case r of (gw', step, err) \<Rightarrow>
             (case err of Some e \<Rightarrow> ret (Inl (gw', step, e)) | None \<Rightarrow> ret (Inr gw')))
         }
         else ret (Inr (fst g)))
   }"

text \<open>Everything from the detection to the status, for a resource that is not being deleted.\<close>

definition provision :: "'w env \<Rightarrow> 'w pkiLib \<Rightarrow> yamlLib \<Rightarrow> openShellGateway \<Rightarrow> ('w sys, outcome) state" where
  "provision E P Y gw = do {
     isOCP \<leftarrow> IsOpenShift E;
     hasGWAPI \<leftarrow> HasGatewayAPI E;
     (let useGWAPI = gatewayAPIEnabled gw hasGWAPI; authEnabled = authBridgeEnabled gw isOCP in do {
       dr \<leftarrow> runDependencies E (dependencies E Y) gw;
       (case dr of
         Inl f \<Rightarrow> degraded E f
       | Inr gw1 \<Rightarrow> do {
           verr \<leftarrow> validateDatabaseSecret E gw1;
           (case verr of
             Some e \<Rightarrow> degraded E (gw1, ''DatabaseSecret'', e)
           | None \<Rightarrow> do {
               sr \<leftarrow> runSteps (steps E P) gw1;
               (case sr of
                 Inl f \<Rightarrow> degraded E f
               | Inr gw2 \<Rightarrow> do {
                   er \<leftarrow> reconcileEdge E gw2 isOCP useGWAPI authEnabled;
                   (case er of
                     Inl f \<Rightarrow> degraded E f
                   | Inr gw3 \<Rightarrow> do {
                       err \<leftarrow> updateStatus E gw3 authEnabled;
                       ret (requeueAfter requeueInterval, err)
                     })
                 })
             })
         })
     })
   }"

section \<open>Reconcile\<close>

text \<open>The singleton test: the oldest gateway, if it is another one.\<close>

definition supersededBy :: "openShellGateway \<Rightarrow> kobj list \<Rightarrow> string option" where
  "supersededBy gw items =
     (if length items > 1 then
        (case oldestByCreationTimestamp objTimestamp items of
          None \<Rightarrow> None
        | Some oldest \<Rightarrow> if gw_name gw \<noteq> ob_name oldest then Some (ob_name oldest) else None)
      else None)"

definition multipleGateways :: "'w env \<Rightarrow> string \<Rightarrow> openShellGateway \<Rightarrow> openShellGateway" where
  "multipleGateways E oldest gw =
     (let gw' = setCondition E (mkCond ConditionDegraded ConditionTrue ''MultipleGateways''
        (''Only one OpenShellGateway is allowed per cluster; '' @ quote oldest @ '' is the active instance'')) gw in
      gw'\<lparr>gw_status := (gw_status gw')\<lparr>gt_phase := PhaseFailed\<rparr>\<rparr>)"

definition gatewayReconcile :: "'w env \<Rightarrow> 'w pkiLib \<Rightarrow> yamlLib \<Rightarrow> nsName \<Rightarrow> ('w sys, outcome) state" where
  "gatewayReconcile E P Y req = do {
     r \<leftarrow> kGet E KOpenShellGateway req;
     (case r of
       Inl e \<Rightarrow> ret (noRequeue, ignoreNotFound E e)
     | Inr ob \<Rightarrow> (let gw = gatewayOf ob in do {
         l \<leftarrow> kList E KOpenShellGateway listAll;
         (case l of
           Inl e \<Rightarrow> ret (noRequeue, Some e)
         | Inr items \<Rightarrow> (case supersededBy gw items of
             Some oldest \<Rightarrow> do {
               err \<leftarrow> kStatusUpdate E (gatewayObj (multipleGateways E oldest gw));
               ret (noRequeue, err)
             }
           | None \<Rightarrow>
               if \<not> notDeleting (gw_meta gw) then gatewayReconcileDelete E Y gw
               else if \<not> e_hasFinalizer E (gw_meta gw) gatewayFinalizer then do {
                 err \<leftarrow> kUpdate E (gatewayObj (gw\<lparr>gw_meta := e_addFinalizer E (gw_meta gw) gatewayFinalizer\<rparr>));
                 (case err of Some e \<Rightarrow> ret (noRequeue, Some e) | None \<Rightarrow> ret (requeueAfter 1, None))
               }
               else provision E P Y gw))
       }))
   }"

section \<open>Watches\<close>

definition findGatewayForManagedResource :: "kobj \<Rightarrow> nsName list" where
  "findGatewayForManagedResource ob =
     (let labels = ob_labels ob in
      if mget labels labelManagedBy \<noteq> managedByValue then []
      else (let name = mget labels labelInstance in
        if name = [] then [] else [nsn [] name]))"

definition findGatewaysForDatabaseSecret :: "'w env \<Rightarrow> kobj \<Rightarrow> ('w sys, nsName list) state" where
  "findGatewaysForDatabaseSecret E ob = do {
     l \<leftarrow> kList E KOpenShellGateway listAll;
     (case l of
       Inl _ \<Rightarrow> ret []
     | Inr items \<Rightarrow> ret (map (\<lambda>g. nsn [] (gw_name g)) (filter (\<lambda>g.
         gatewayNamespace g = ob_namespace ob \<and> databaseSecretName g = ob_name ob) (map gatewayOf items))))
   }"

section \<open>Loops with an invariant\<close>

lemma results_foreach_inv:
  assumes "I a"
    and "\<And>x a. x \<in> set xs \<Longrightarrow> I a \<Longrightarrow> results (\<lambda>r. case r of Inl e \<Rightarrow> J e | Inr a' \<Rightarrow> I a') (body x a)"
  shows "results (\<lambda>r. case r of Inl e \<Rightarrow> J e | Inr a' \<Rightarrow> I a') (foreach body xs a)"
  using assms
proof (induction xs arbitrary: a)
  case Nil
  then show ?case by (simp add: results_def)
next
  case (Cons x xs)
  have body: "results (\<lambda>r. case r of Inl e \<Rightarrow> J e | Inr a' \<Rightarrow> I a') (body x a)" using Cons.prems by simp
  show ?case unfolding foreach.simps
    by (rule results_bind_via [OF body], rule results_sum)
      (use Cons in \<open>auto intro: results_return\<close>)
qed

lemma onlyCalls_foreach_inv:
  assumes "I a"
    and "\<And>x a. x \<in> set xs \<Longrightarrow> I a \<Longrightarrow> onlyCalls P (body x a)"
    and "\<And>x a. x \<in> set xs \<Longrightarrow> I a \<Longrightarrow> results (\<lambda>r. case r of Inl e \<Rightarrow> J e | Inr a' \<Rightarrow> I a') (body x a)"
  shows "onlyCalls P (foreach body xs a)"
  using assms
proof (induction xs arbitrary: a)
  case Nil
  then show ?case by simp
next
  case (Cons x xs)
  have body: "onlyCalls P (body x a)" "results (\<lambda>r. case r of Inl e \<Rightarrow> J e | Inr a' \<Rightarrow> I a') (body x a)"
    using Cons.prems by simp_all
  show ?case unfolding foreach.simps
    by (rule onlyCalls_bind_via [OF body]) (use Cons in \<open>auto split: sum.splits\<close>)
qed

lemma onlyCalls_collect [call_rules]: "(\<And>x. x \<in> set xs \<Longrightarrow> onlyCalls P (f x)) \<Longrightarrow> onlyCalls P (collect f xs)"
  by (induction xs) (auto intro!: call_rules)

section \<open>The resource keeps its identity\<close>

definition sameGateway :: "openShellGateway \<Rightarrow> openShellGateway \<Rightarrow> bool" where
  "sameGateway gw gw' = (gw_meta gw' = gw_meta gw \<and> gw_spec gw' = gw_spec gw)"

lemma sameGateway_refl [simp]: "sameGateway gw gw"
  by (simp add: sameGateway_def)

lemma sameGateway_setCondition [simp]: "sameGateway gw (setCondition E c gw') = sameGateway gw gw'"
  by (simp add: sameGateway_def setCondition_def)

lemma results_prod [result_rules]:
  "(\<And>x y. r = (x, y) \<Longrightarrow> results Q (f x y)) \<Longrightarrow> results Q (case r of (x, y) \<Rightarrow> f x y)"
  by (simp split: prod.splits)

lemma same_reconcileDeployment: "results (\<lambda>r. sameGateway gw (fst r)) (reconcileDeployment E gw)"
  unfolding reconcileDeployment_def Let_def by (intro result_rules) simp_all

lemma same_plainStep: "results (\<lambda>r. sameGateway gw (fst r)) (plainStep f gw)"
  unfolding plainStep_def by (intro result_rules) simp

lemma sameGateway_trans: "sameGateway a b \<Longrightarrow> sameGateway b c \<Longrightarrow> sameGateway a c"
  by (simp add: sameGateway_def)

lemma same_reconcileGatewayAPI: "results (\<lambda>r. sameGateway gw (fst r)) (reconcileGatewayAPI E gw)"
  unfolding reconcileGatewayAPI_def by (intro result_rules) simp_all

lemma same_reconcileMainRoute: "results (\<lambda>r. sameGateway gw (fst r)) (reconcileMainRoute E gw useGWAPI)"
  unfolding reconcileMainRoute_def by (intro result_rules) (simp_all split: option.splits)

lemma same_reconcileBrowserSSO: "results (\<lambda>r. sameGateway gw (fst r)) (reconcileBrowserSSO E gw auth)"
  unfolding reconcileBrowserSSO_def Let_def by (intro result_rules) simp_all

lemma same_steps: "st \<in> set (steps E P) \<Longrightarrow> results (\<lambda>r. sameGateway gw (fst r)) (snd st gw)"
  unfolding steps_def by (auto simp: same_plainStep same_reconcileDeployment)

text \<open>A failure is reported with one of these names, for the gateway at hand.\<close>

definition edgeSteps :: "string list" where
  "edgeSteps = [''GatewayAPI'', ''RouteCleanup'', ''EnvoyRoute'', ''Route'', ''SCCBinding'', ''AuthBridgeRoute'', ''OAuthClient'']"

definition failsAs :: "openShellGateway \<Rightarrow> string set \<Rightarrow> failure + openShellGateway \<Rightarrow> bool" where
  "failsAs gw names r = (case r of Inl f \<Rightarrow> sameGateway gw (fst f) \<and> fst (snd f) \<in> names | Inr g \<Rightarrow> sameGateway gw g)"

lemma failsAs_simps [simp]:
  "failsAs gw names (Inl f) = (sameGateway gw (fst f) \<and> fst (snd f) \<in> names)" "failsAs gw names (Inr g) = sameGateway gw g"
  by (simp_all add: failsAs_def)

lemma fails_runDependencies: "results (failsAs gw (dr_Name ` set ds)) (runDependencies E ds gw)"
  unfolding runDependencies_def failsAs_def [abs_def]
  by (rule results_foreach_inv) (auto intro!: result_rules)

lemma fails_runSteps:
  assumes "sameGateway gw gw'"
  shows "results (failsAs gw (fst ` set (steps E P))) (runSteps (steps E P) gw')"
  unfolding runSteps_def failsAs_def [abs_def]
proof (rule results_foreach_inv, goal_cases)
  case 1
  show ?case by (rule assms)
next
  case (2 st g)
  show ?case
    by (rule results_bind_via [OF same_steps [OF 2(1), of g]], intro result_rules)
      (use 2 in \<open>auto intro: sameGateway_trans\<close>)
qed

lemma fails_MainRoute:
  "results (\<lambda>r. sameGateway gw (fst r) \<and> fst (snd r) \<in> set edgeSteps) (reconcileMainRoute E gw useGWAPI)"
  unfolding reconcileMainRoute_def by (intro result_rules) (simp_all add: edgeSteps_def split: option.splits)

lemma fails_BrowserSSO:
  "sameGateway gw gw' \<Longrightarrow> results (\<lambda>r. sameGateway gw (fst r) \<and> (snd (snd r) \<noteq> None \<longrightarrow> fst (snd r) \<in> set edgeSteps))
     (reconcileBrowserSSO E gw' auth)"
  unfolding reconcileBrowserSSO_def Let_def by (intro result_rules) (simp_all add: edgeSteps_def)

lemma fails_OpenShiftRouting:
  assumes "sameGateway gw gw'"
  shows "results (\<lambda>r. sameGateway gw (fst r) \<and> (snd (snd r) \<noteq> None \<longrightarrow> fst (snd r) \<in> set edgeSteps))
     (reconcileOpenShiftRouting E gw' useGWAPI auth)"
  unfolding reconcileOpenShiftRouting_def
  apply (rule results_bind, rule results_option)
   apply (rule results_bind_via [OF fails_MainRoute])
   apply (rule results_prod, rule results_prod, rule results_option)
    apply (rule results_bind, rule results_option)
     apply (rule fails_BrowserSSO)
  using assms
     apply (auto intro!: result_rules simp: edgeSteps_def intro: sameGateway_trans)
  done

lemma fails_Edge:
  assumes "sameGateway gw gw'"
  shows "results (failsAs gw (set edgeSteps)) (reconcileEdge E gw' isOCP useGWAPI auth)"
proof -
  have same: "results (\<lambda>r. sameGateway gw (fst r)) (if useGWAPI then reconcileGatewayAPI E gw' else ret (gw', None))"
    using same_reconcileGatewayAPI [of gw'] assms by (auto simp: results_def sameGateway_def)
  show ?thesis unfolding reconcileEdge_def
    apply (rule results_bind_via [OF same], rule results_option)
     apply (rule results_if)
      apply (rule results_bind_via [OF fails_OpenShiftRouting], assumption)
      apply (auto intro!: result_rules simp: edgeSteps_def)
    done
qed

section \<open>What may be deleted\<close>

text \<open>
  What the Kubernetes API documents of reads: a \<^verbatim>\<open>Get\<close> returns the object of the kind, namespace and
  name asked for, a \<^verbatim>\<open>List\<close> with label requirements only objects that carry the labels.
\<close>

locale object_store =
  fixes E :: "'w env"
  assumes get_key: "e_get E k n w = (Inr ob, w') \<Longrightarrow>
      ob_kind ob = k \<and> ob_namespace ob = nn_namespace n \<and> ob_name ob = nn_name n"
    and list_labels: "e_list E k l w = (Inr obs, w') \<Longrightarrow> ob \<in> set obs \<Longrightarrow> labelsMatch (lo_labels l) ob"
begin

lemma mayGet_key:
  "mayGet E k n (Inr ob) \<Longrightarrow> ob_kind ob = k \<and> ob_namespace ob = nn_namespace n \<and> ob_name ob = nn_name n"
  unfolding mayGet_def using get_key by blast

lemma mayList_managed:
  "mayList E KRoute (managedSelector gw) (Inr obs) \<Longrightarrow> ob \<in> set obs \<Longrightarrow> managedByGateway (ob_labels ob) gw"
  unfolding mayList_def
  by (elim exE, drule (1) list_labels) (simp add: managedSelector_def labelsMatch_def managedByGateway_def mget_def)

end

interpretation memStore: object_store memEnv
proof (unfold_locales, goal_cases)
  case (1 k n w ob w')
  then show ?case
    by (auto simp: memEnv_def memGet_def sameKey_def find_Some_iff split: option.splits)
next
  case (2 k l w obs w' ob)
  then show ?case by (auto simp: memEnv_def memList_def)
qed

text \<open>The objects whose kind, namespace and name are made from the gateway's.\<close>

definition ownKeys :: "openShellGateway \<Rightarrow> (kind \<times> string \<times> string) list" where
  "ownKeys gw = (let n = gw_name gw; ns = gatewayNamespace gw; sns = sandboxNamespace gw in
     [(KGateway, ns, n), (KGRPCRoute, ns, n), (KBackendTrafficPolicy, ns, n @ ''-timeout''),
      (KClusterRole, [], n @ ''-node-reader''), (KClusterRoleBinding, [], n @ ''-node-reader''),
      (KClusterRoleBinding, [], n @ ''-sandbox-scc-privileged''),
      (KServiceAccount, sns, n @ ''-sandbox''), (KRole, sns, n @ ''-sandbox''),
      (KRoleBinding, sns, n @ ''-sandbox''), (KNetworkPolicy, sns, n @ ''-sandbox-ssh'')])"

definition mayDelete :: "openShellGateway \<Rightarrow> kobj \<Rightarrow> bool" where
  "mayDelete gw ob = (isOwnedByOGO (ob_labels ob) \<or> managedByGateway (ob_labels ob) gw \<or>
     (ob_kind ob, ob_namespace ob, ob_name ob) \<in> set (ownKeys gw))"

definition safeCall :: "openShellGateway \<Rightarrow> call \<Rightarrow> bool" where
  "safeCall gw c = (case c of CDelete ob \<Rightarrow> mayDelete gw ob | _ \<Rightarrow> True)"

lemma safeCall_simps [simp]:
  "safeCall gw (CGet k n)" "safeCall gw (CList k l)" "safeCall gw (CCreate ob)" "safeCall gw (CUpdate ob)"
  "safeCall gw (CStatusUpdate ob)" "safeCall gw (CFetch ob)" "safeCall gw (CCommit ob ob')" "safeCall gw (CDiscover gv)"
  "safeCall gw (CDelete ob) = mayDelete gw ob"
  by (simp_all add: safeCall_def)

lemma names_sameGateway:
  assumes "sameGateway gw gw'"
  shows "gw_name gw' = gw_name gw" and "gatewayNamespace gw' = gatewayNamespace gw"
    and "sandboxNamespace gw' = sandboxNamespace gw" and "managedByGateway ls gw' = managedByGateway ls gw"
    and "safeCall gw' = safeCall gw"
  using assms
  by (simp_all add: sameGateway_def gatewayNamespace_def sandboxNamespace_def managedByGateway_def
      safeCall_def [abs_def] mayDelete_def ownKeys_def cong: call.case_cong)

lemma mayDelete_owned [simp]: "isOwnedByOGO (ob_labels ob) \<Longrightarrow> mayDelete gw ob"
  and mayDelete_managed [simp]: "managedByGateway (ob_labels ob) gw \<Longrightarrow> mayDelete gw ob"
  by (simp_all add: mayDelete_def)

context object_store
begin

lemma safe_CAConfigMap [call_rules]: "onlyCalls (safeCall gw) (reconcileCAConfigMap E gw name enabled)"
  unfolding reconcileCAConfigMap_def serverTLSCA_def prim_defs by (intro call_rules) simp_all

lemma safe_NetworkPolicy: "onlyCalls (safeCall gw) (reconcileNetworkPolicy E gw)"
  unfolding reconcileNetworkPolicy_def Let_def
  apply (rule onlyCalls_if)
   apply (rule onlyCalls_kGet_bind, simp)
   apply (rule onlyCalls_sum, simp)
  unfolding prim_defs
   apply (intro call_rules; simp add: mayGet_key mayDelete_def ownKeys_def Let_def)
  apply (intro call_rules; simp)
  done

lemma safe_steps:
  assumes "st \<in> set (steps E P)"
  shows "onlyCalls (safeCall gw) (snd st gw)"
proof -
  have plain: "onlyCalls (safeCall gw) (plainStep f gw)" if "onlyCalls (safeCall gw) (f gw)" for f
    unfolding plainStep_def using that by (intro call_rules)
  have simple: "onlyCalls (safeCall gw) (reconcileNamespace E gw)" "onlyCalls (safeCall gw) (reconcileGatewayServiceAccount E gw)"
    "onlyCalls (safeCall gw) (reconcileSandboxServiceAccount E gw)" "onlyCalls (safeCall gw) (reconcileClusterRole E gw)"
    "onlyCalls (safeCall gw) (reconcileClusterRoleBinding E gw)" "onlyCalls (safeCall gw) (reconcileRole E gw)"
    "onlyCalls (safeCall gw) (reconcileRoleBinding E gw)" "onlyCalls (safeCall gw) (reconcileConfigMap E gw)"
    unfolding reconcileNamespace_def reconcileGatewayServiceAccount_def reconcileSandboxServiceAccount_def
      reconcileClusterRole_def reconcileClusterRoleBinding_def reconcileRole_def reconcileRoleBinding_def reconcileConfigMap_def
    by ((intro call_rules; simp)+)
  have tls: "onlyCalls (safeCall gw) (reconcileTLS E P gw)"
    unfolding reconcileTLS_def reconcileSelfSignedTLS_def reconcileGatewayTLSCert_def syncCertificate_def Let_def prim_defs
    by (intro call_rules; simp)
  have ca: "onlyCalls (safeCall gw) (reconcileAuthBridgeCA E gw)" "onlyCalls (safeCall gw) (reconcileGatewayCA E gw)"
    unfolding reconcileAuthBridgeCA_def reconcileGatewayCA_def by (intro call_rules; simp)+
  have keys: "onlyCalls (safeCall gw) (reconcileJWTKeys E P gw)" "onlyCalls (safeCall gw) (reconcileAuthBridgeKeys E P gw)"
    unfolding reconcileJWTKeys_def reconcileAuthBridgeKeys_def ensureEd25519KeySecret_def prim_defs Let_def
    by (intro call_rules; simp)+
  have service: "onlyCalls (safeCall gw) (reconcileService E gw)"
    unfolding reconcileService_def by (intro call_rules; simp)
  have deployment: "onlyCalls (safeCall gw) (reconcileDeployment E gw)"
    unfolding reconcileDeployment_def ensureGatewayStatePVC_def databaseSecretRevision_def Let_def prim_defs
    by (intro call_rules; simp)
  show ?thesis
    using assms unfolding steps_def
    by (auto intro!: plain simple tls ca keys service deployment safe_NetworkPolicy)
qed

lemma safe_deleteEach:
  "(\<And>ob. ob \<in> set obs \<Longrightarrow> which ob \<Longrightarrow> mayDelete gw ob) \<Longrightarrow> onlyCalls (safeCall gw) (deleteEach E which what obs)"
  unfolding deleteEach_def prim_defs by (intro call_rules) simp_all

lemma safe_managedRoutes:
  "onlyCalls (safeCall gw) (reconcileObsoleteRoutes E gw useGWAPI auth)" "onlyCalls (safeCall gw) (deleteManagedRoutes E gw)"
  unfolding reconcileObsoleteRoutes_def deleteManagedRoutes_def
  by (rule onlyCalls_kList_bind, simp, rule onlyCalls_sum, simp, rule safe_deleteEach, simp add: mayList_managed)+

lemma safe_GatewayAPI: "onlyCalls (safeCall gw) (reconcileGatewayAPI E gw)"
proof -
  have cr: "onlyCalls (safeCall gw) (reconcileGatewayCR E gw)"
    unfolding reconcileGatewayCR_def
    apply (rule onlyCalls_kGet_bind, simp)
    unfolding prim_defs
    apply (intro call_rules; simp add: mayGet_key mayDelete_def ownKeys_def Let_def)
    done
  show ?thesis
    unfolding reconcileGatewayAPI_def reconcileGRPCRoute_def reconcileTrafficPolicy_def reconcileGatewayTLSCert_def
      syncCertificate_def Let_def prim_defs
    by (intro call_rules cr; simp)
qed

lemma safe_MainRoute: "onlyCalls (safeCall gw) (reconcileMainRoute E gw useGWAPI)"
  unfolding reconcileMainRoute_def reconcileEnvoyRoute_def createEnvoyRoute_def syncEnvoyRoute_def reconcileRoute_def
    Let_def prim_defs
  by (intro call_rules; simp)

lemma safe_BrowserSSO: "sameGateway gw gw' \<Longrightarrow> onlyCalls (safeCall gw) (reconcileBrowserSSO E gw' auth)"
  unfolding reconcileBrowserSSO_def reconcileAuthBridgeRoute_def authBridgeRouteTLS_def syncAuthRoute_def
    reconcileOAuthClient_def ensureOAuthSecret_def generateOAuthSecret_def randBytes_def syncOAuthClient_def Let_def prim_defs
  by (intro call_rules; simp)

lemma safe_OpenShiftRouting: "onlyCalls (safeCall gw) (reconcileOpenShiftRouting E gw useGWAPI auth)"
  unfolding reconcileOpenShiftRouting_def
  apply (rule onlyCalls_bind [OF safe_managedRoutes(1)], rule onlyCalls_option)
   apply (rule onlyCalls_bind_via [OF safe_MainRoute same_reconcileMainRoute])
  unfolding reconcileSCCBinding_def
   apply (intro call_rules safe_BrowserSSO; simp)
  apply simp
  done

lemma safe_dependency:
  assumes "d \<in> set (dependencies E Y)"
  shows "onlyCalls (safeCall gw) (dr_Enabled d gw')" and "onlyCalls (safeCall gw) (dr_Reconcile d gw')"
    and "onlyCalls (safeCall gw) (dr_Cleanup d gw')"
proof -
  note meets = dependencies_meet_contract [OF assms]
  show "onlyCalls (safeCall gw) (dr_Enabled d gw')"
    by (rule onlyCalls_mono [OF dependency.enabled_calls [OF meets]]) (simp add: isDetection_def safeCall_def split: call.splits)
  show "onlyCalls (safeCall gw) (dr_Reconcile d gw')"
    by (rule onlyCalls_mono [OF dependency.recon_calls [OF meets]]) (simp add: ownedWrite_def safeCall_def split: call.splits)
  show "onlyCalls (safeCall gw) (dr_Cleanup d gw')"
    by (rule onlyCalls_mono [OF dependency.cleanup_calls [OF meets]]) (simp add: ownedDelete_def safeCall_def split: call.splits)
qed

lemma safe_runDependencies: "onlyCalls (safeCall gw) (runDependencies E (dependencies E Y) gw)"
  unfolding runDependencies_def by (intro call_rules safe_dependency)

lemma safe_runSteps:
  assumes "sameGateway gw gw'"
  shows "onlyCalls (safeCall gw) (runSteps (steps E P) gw')"
  unfolding runSteps_def
proof (rule onlyCalls_foreach_inv [where I = "sameGateway gw" and J = "\<lambda>_. True"], goal_cases)
  case 1
  show ?case by (rule assms)
next
  case (2 st g)
  have "onlyCalls (safeCall gw) (snd st g)" using safe_steps [OF 2(1), of g] names_sameGateway(5) [OF 2(2)] by simp
  then show ?case by (intro call_rules)
next
  case (3 st g)
  show ?case
    by (rule results_bind_via [OF same_steps [OF 3(1), of g]], intro result_rules)
      (use 3(2) in \<open>auto intro: sameGateway_trans\<close>)
qed

lemma safe_degraded: "onlyCalls (safeCall gw) (degraded E f)"
  unfolding degraded_def setDegraded_def Let_def prim_defs by (intro call_rules) simp_all

lemma safe_Edge:
  assumes "sameGateway gw gw'"
  shows "onlyCalls (safeCall gw) (reconcileEdge E gw' isOCP useGWAPI auth)"
proof -
  have api: "onlyCalls (safeCall gw) (if useGWAPI then reconcileGatewayAPI E gw' else ret (gw', None))"
    using safe_GatewayAPI [of gw'] names_sameGateway(5) [OF assms] by simp
  have same: "results (\<lambda>r. sameGateway gw (fst r)) (if useGWAPI then reconcileGatewayAPI E gw' else ret (gw', None))"
    using same_reconcileGatewayAPI [of gw'] assms by (auto simp: results_def sameGateway_def)
  show ?thesis unfolding reconcileEdge_def
  proof (rule onlyCalls_bind_via [OF api same], goal_cases)
    case (1 g)
    have "onlyCalls (safeCall gw) (reconcileOpenShiftRouting E (fst g) useGWAPI auth)"
      using safe_OpenShiftRouting [of "fst g"] names_sameGateway(5) [OF 1] by simp
    then show ?case by (intro call_rules)
  qed
qed

lemma safe_provision: "onlyCalls (safeCall gw) (provision E P Y gw)"
  unfolding provision_def Let_def
  apply (rule onlyCalls_bind, intro call_rules, simp)
  apply (rule onlyCalls_bind, intro call_rules, simp)
  apply (rule onlyCalls_bind_via [OF safe_runDependencies fails_runDependencies])
  apply (rule onlyCalls_sum, rule safe_degraded)
  apply (rule onlyCalls_bind)
  unfolding validateDatabaseSecret_def Let_def prim_defs
   apply (intro call_rules; simp)
  apply (rule onlyCalls_option)
   apply simp
   apply (frule safe_runSteps, frule fails_runSteps, erule (1) onlyCalls_bind_via)
   apply (rule onlyCalls_sum, rule safe_degraded)
  apply simp
   apply (rule onlyCalls_bind, erule safe_Edge)
   apply (rule onlyCalls_sum, rule safe_degraded)
  unfolding updateStatus_def Let_def prim_defs
   apply (intro call_rules; simp)
  apply (rule safe_degraded)
  done

lemma safe_delete: "onlyCalls (safeCall gw) (gatewayReconcileDelete E Y gw)"
proof -
  have del: "onlyCalls (safeCall gw) (deleteIgnoring E ob)" if "mayDelete gw ob" for ob
    unfolding deleteIgnoring_def prim_defs using that by (intro call_rules) simp
  have own: "onlyCalls (safeCall gw) (collect (deleteIgnoring E) obs)" if "list_all (mayDelete gw) obs" for obs
    using that by (intro onlyCalls_collect del) (simp add: list_all_iff)
  have lists: "list_all (mayDelete gw) (gatewayAPIObjects gw)" "list_all (mayDelete gw) (clusterResources gw isOCP)"
    "list_all (mayDelete gw) (crossNSResources gw)" for isOCP
    by (simp_all add: gatewayAPIObjects_def clusterResources_def crossNSResources_def mayDelete_def ownKeys_def Let_def
        noMeta_def)
  have routes: "onlyCalls (safeCall gw) (cleanupRoutes E gw)"
    unfolding cleanupRoutes_def by (intro call_rules safe_managedRoutes)
  have ca: "onlyCalls (safeCall gw) (deleteCA E gw suffix)" for suffix
    unfolding deleteCA_def kGet_def by (intro call_rules del) simp_all
  have deps: "onlyCalls (safeCall gw) (collect (\<lambda>d. dr_Cleanup d gw) (rev (dependencies E Y)))"
    by (rule onlyCalls_collect, rule safe_dependency(3)) simp
  have "onlyCalls (safeCall gw) (cleanupAll E Y gw)"
    unfolding cleanupAll_def
    by (intro onlyCalls_bind deps own lists routes onlyCalls_collect ca onlyCalls_return onlyCalls_detect) simp
  then show ?thesis unfolding gatewayReconcileDelete_def kUpdate_def by (intro call_rules) simp_all
qed

end

section \<open>The branches of Reconcile\<close>

abbreviation looked :: "nsName \<Rightarrow> call list" where
  "looked req \<equiv> [CGet KOpenShellGateway req, CList KOpenShellGateway listAll]"

lemma gatewayReconcile_current:
  assumes "run_state (gatewayReconcile E P Y req) s = (r, t)" and "e_get E KOpenShellGateway req (world s) = (Inr ob, w)"
    and "e_list E KOpenShellGateway listAll w = (Inr items, w')" and "supersededBy (gatewayOf ob) items = None"
  shows "run_state (if \<not> notDeleting (gw_meta (gatewayOf ob)) then gatewayReconcileDelete E Y (gatewayOf ob)
      else if \<not> e_hasFinalizer E (gw_meta (gatewayOf ob)) gatewayFinalizer then do {
        err \<leftarrow> kUpdate E (gatewayObj ((gatewayOf ob)\<lparr>gw_meta := e_addFinalizer E (gw_meta (gatewayOf ob)) gatewayFinalizer\<rparr>));
        (case err of Some e \<Rightarrow> ret (noRequeue, Some e) | None \<Rightarrow> ret (requeueAfter 1, None))
      }
      else provision E P Y (gatewayOf ob)) (s\<lparr>world := w', calls := calls s @ looked req\<rparr>) = (r, t)"
  using assms by (simp add: gatewayReconcile_def Let_def kGet_def kList_def invoke_def del: if_split_asm)

lemma gatewayReconcile_cases:
  assumes "run_state (gatewayReconcile E P Y req) s = (r, t)"
  obtains (unread) "set (newCalls s t) \<subseteq> set (looked req)"
  | (superseded) ob items oldest w w' where "e_get E KOpenShellGateway req (world s) = (Inr ob, w)"
      "e_list E KOpenShellGateway listAll w = (Inr items, w')" "supersededBy (gatewayOf ob) items = Some oldest"
      "newCalls s t = looked req @ [CStatusUpdate (gatewayObj (multipleGateways E oldest (gatewayOf ob)))]"
  | (unmarked) ob items w w' where "e_get E KOpenShellGateway req (world s) = (Inr ob, w)"
      "e_list E KOpenShellGateway listAll w = (Inr items, w')" "supersededBy (gatewayOf ob) items = None"
      "notDeleting (gw_meta (gatewayOf ob))" "\<not> e_hasFinalizer E (gw_meta (gatewayOf ob)) gatewayFinalizer"
      "newCalls s t = looked req @ [CUpdate (gatewayObj ((gatewayOf ob)
         \<lparr>gw_meta := e_addFinalizer E (gw_meta (gatewayOf ob)) gatewayFinalizer\<rparr>))]"
  | (chosen) ob items w w' m where "e_get E KOpenShellGateway req (world s) = (Inr ob, w)"
      "e_list E KOpenShellGateway listAll w = (Inr items, w')" "supersededBy (gatewayOf ob) items = None"
      "m = (if notDeleting (gw_meta (gatewayOf ob)) then provision E P Y (gatewayOf ob)
        else gatewayReconcileDelete E Y (gatewayOf ob))"
      "notDeleting (gw_meta (gatewayOf ob)) \<Longrightarrow> e_hasFinalizer E (gw_meta (gatewayOf ob)) gatewayFinalizer"
      "run_state m (s\<lparr>world := w', calls := calls s @ looked req\<rparr>) = (r, t)"
proof -
  obtain g w where g: "e_get E KOpenShellGateway req (world s) = (g, w)" by fastforce
  obtain l w' where l: "e_list E KOpenShellGateway listAll w = (l, w')" by fastforce
  note run = assms [unfolded gatewayReconcile_def Let_def prim_defs invoke_def]
  show thesis
  proof (cases g)
    case (Inl e)
    then show thesis using run g unread by auto
  next
    case ob: (Inr ob)
    show thesis
    proof (cases l)
      case (Inl e)
      then show thesis using run g l ob unread by auto
    next
      case items: (Inr items)
      show thesis
      proof (cases "supersededBy (gatewayOf ob) items")
        case (Some oldest)
        then show thesis using run g l ob items superseded [of ob w items w' oldest] by (auto split: prod.splits)
      next
        case None
        let ?gw = "gatewayOf ob"
        let ?t = "s\<lparr>world := w', calls := calls s @ looked req\<rparr>"
        note rest = gatewayReconcile_current [OF assms g [unfolded ob] l [unfolded items] None]
        show thesis
        proof (cases "notDeleting (gw_meta ?gw) \<and> \<not> e_hasFinalizer E (gw_meta ?gw) gatewayFinalizer")
          case True
          then have "newCalls s t = looked req @
              [CUpdate (gatewayObj (?gw\<lparr>gw_meta := e_addFinalizer E (gw_meta ?gw) gatewayFinalizer\<rparr>))]"
            using rest by (auto simp: kUpdate_def invoke_def newCalls_def split: prod.splits option.splits)
          then show thesis using g l ob items None True by (intro unmarked) simp_all
        next
          case False
          then have "run_state (if notDeleting (gw_meta ?gw) then provision E P Y ?gw
              else gatewayReconcileDelete E Y ?gw) ?t = (r, t)"
            using rest by (cases "notDeleting (gw_meta ?gw)") simp_all
          then show thesis using g l ob items None False by (intro chosen) (simp_all, blast)
        qed
      qed
    qed
  qed
qed

lemma newCalls_trans:
  assumes "run_state m (s\<lparr>world := w, calls := calls s @ cs\<rparr>) = (r, t)"
    and "onlyCalls Q m"
  shows "\<exists>ds. newCalls s t = cs @ ds \<and> newCalls (s\<lparr>world := w, calls := calls s @ cs\<rparr>) t = ds \<and> list_all Q ds"
  using onlyCallsD [OF assms(2,1)] by (auto simp: newCalls_def list_all_iff)

lemma onlyCalls_any: "onlyCalls P m \<Longrightarrow> onlyCalls (\<lambda>_. True) m"
  by (erule onlyCalls_mono) simp

lemma gatewayOf_meta [simp]: "gw_meta (gatewayOf ob) = ob_meta ob"
  by (simp add: gatewayOf_def split: body.splits)

section \<open>Properties\<close>

text \<open>
  C4: the gateway controller deletes nothing that is not its own. If reads return what was asked for,
  every object that a reconcile deletes either carries the label of objects which the operator
  provisioned, or the labels of this very gateway, or is one of the ten objects whose kind, namespace
  and name are made from the gateway's name and namespaces; a Route or a ConfigMap is never among
  those ten, so without the labels it is left alone.
\<close>

theorem gateway_deletes_only_its_own:
  assumes "object_store E" and "run_state (gatewayReconcile E P Y req) s = (r, t)"
    and "CDelete d \<in> set (newCalls s t)"
  shows "\<exists>ob w. e_get E KOpenShellGateway req (world s) = (Inr ob, w) \<and>
    (isOwnedByOGO (ob_labels d) \<or> managedByGateway (ob_labels d) (gatewayOf ob) \<or>
     (ob_kind d, ob_namespace d, ob_name d) \<in> set (ownKeys (gatewayOf ob)) \<and> ob_kind d \<notin> {KRoute, KConfigMap})"
  using assms(2)
proof (cases rule: gatewayReconcile_cases)
  case (chosen ob items w w' m)
  have "onlyCalls (safeCall (gatewayOf ob)) m"
    unfolding chosen(4) using object_store.safe_provision [OF assms(1)] object_store.safe_delete [OF assms(1)] by simp
  from newCalls_trans [OF chosen(6) this] have "safeCall (gatewayOf ob) (CDelete d)"
    using assms(3) by (auto simp: list_all_iff)
  then show ?thesis using chosen(1) by (auto simp: mayDelete_def ownKeys_def Let_def)
qed (use assms(3) in auto)

text \<open>A cluster with the gateway, being deleted, and a Route of it.\<close>

definition doomedGateway :: openShellGateway where
  "doomedGateway = exampleGateway\<lparr>gw_meta := (metaFor ''gw'' [])
     \<lparr>om_deletionTimestamp := Some 1, om_finalizers := [gatewayFinalizer]\<rparr>\<rparr>"

definition doomedSys :: "memWorld sys" where
  "doomedSys = memSys (emptyWorld\<lparr>mw_objs := [gatewayObj doomedGateway, routeObj doomedGateway ''gw'' ''ogo'' []]\<rparr>)"

lemma doomed_deletes_route:
  "CDelete (routeObj doomedGateway ''gw'' ''ogo'' []) \<in>
     set (newCalls doomedSys (snd (run_state (gatewayReconcile memEnv memPki noYaml (nsn [] ''gw'')) doomedSys)))"
  by code_simp

theorem gateway_deletes_only_its_own_witness:
  "\<exists>ob w. e_get memEnv KOpenShellGateway (nsn [] ''gw'') (world doomedSys) = (Inr ob, w) \<and>
     managedByGateway (ob_labels (routeObj doomedGateway ''gw'' ''ogo'' [])) (gatewayOf ob)"
proof -
  let ?r = "run_state (gatewayReconcile memEnv memPki noYaml (nsn [] ''gw'')) doomedSys"
  let ?d = "routeObj doomedGateway ''gw'' ''ogo'' []"
  have run: "?r = (fst ?r, snd ?r)" by simp
  have "\<not> isOwnedByOGO (ob_labels ?d)" "ob_kind ?d = KRoute"
    by (simp_all add: routeObj_def isOwnedByOGO_def gatewayLabels_def)
  then show ?thesis
    using gateway_deletes_only_its_own [OF memStore.object_store_axioms run doomed_deletes_route] by auto
qed

lemma supersededBy_None:
  assumes "supersededBy gw items = None" and "1 < length items"
  shows "\<exists>oldest \<in> set items. ob_name oldest = gw_name gw \<and> (\<forall>y \<in> set items. objTimestamp oldest \<le> objTimestamp y)"
proof -
  have "items \<noteq> []" using assms(2) by auto
  then obtain x where x: "x \<in> set items" "oldestByCreationTimestamp objTimestamp items = Some x"
    using oldest.pick_total by blast
  then have "ob_name x = gw_name gw" using assms by (simp add: supersededBy_def split: if_splits)
  then show ?thesis using x oldest.pick_min [OF x(2)] by blast
qed

definition isWrite :: "call \<Rightarrow> bool" where
  "isWrite c = (case c of CCreate _ \<Rightarrow> True | CUpdate _ \<Rightarrow> True | CDelete _ \<Rightarrow> True | CCommit _ _ \<Rightarrow> True | _ \<Rightarrow> False)"

lemma isWrite_simps [simp]:
  "\<not> isWrite (CGet k n)" "\<not> isWrite (CList k l)" "\<not> isWrite (CStatusUpdate ob)" "isWrite (CDelete ob)"
  by (simp_all add: isWrite_def)

text \<open>
  C6: one gateway acts. Whenever a reconcile of a gateway writes anything but a status, the gateway was
  read, the gateways were listed, and if there was more than one, the oldest of them bears this
  gateway's name; and unless the write is an update, the gateway carried the operator's finalizer, so
  nothing is created, changed or deleted for it before its deletion would be noticed.
\<close>

theorem gateway_acts_when_chosen:
  assumes "run_state (gatewayReconcile E P Y req) s = (r, t)" and "c \<in> set (newCalls s t)" and "isWrite c"
  shows "\<exists>ob items w w'. e_get E KOpenShellGateway req (world s) = (Inr ob, w) \<and>
    e_list E KOpenShellGateway listAll w = (Inr items, w') \<and>
    (1 < length items \<longrightarrow> (\<exists>oldest \<in> set items. ob_name oldest = ob_name ob \<and>
       (\<forall>y \<in> set items. objTimestamp oldest \<le> objTimestamp y))) \<and>
    (isUpdate c \<or> e_hasFinalizer E (ob_meta ob) gatewayFinalizer)"
  using assms(1)
proof (cases rule: gatewayReconcile_cases)
  case unread
  then show ?thesis using assms(2,3) by auto
next
  case (superseded ob items oldest w w')
  then show ?thesis using assms(2,3) by auto
next
  case (unmarked ob items w w')
  then have "isUpdate c" using assms(2,3) by auto
  then show ?thesis using unmarked(1,2) supersededBy_None [OF unmarked(3)] by auto
next
  case (chosen ob items w w' m)
  have "e_hasFinalizer E (ob_meta ob) gatewayFinalizer"
  proof (rule ccontr)
    assume none: "\<not> e_hasFinalizer E (ob_meta ob) gatewayFinalizer"
    then have "m = ret (noRequeue, None)" using chosen(4,5) by (auto simp: gatewayReconcileDelete_def)
    then have "newCalls s t = looked req" using chosen(6) by auto
    then show False using assms(2,3) by auto
  qed
  then show ?thesis using chosen(1,2) supersededBy_None [OF chosen(3)] by auto
qed

theorem gateway_acts_when_chosen_witness:
  "\<exists>ob items w w'. e_get memEnv KOpenShellGateway (nsn [] ''gw'') (world doomedSys) = (Inr ob, w) \<and>
     e_list memEnv KOpenShellGateway listAll w = (Inr items, w') \<and> e_hasFinalizer memEnv (ob_meta ob) gatewayFinalizer"
proof -
  let ?r = "run_state (gatewayReconcile memEnv memPki noYaml (nsn [] ''gw'')) doomedSys"
  have run: "?r = (fst ?r, snd ?r)" by simp
  from gateway_acts_when_chosen [OF run doomed_deletes_route] show ?thesis by (auto simp: isUpdate_def)
qed

section \<open>Releasing the finalizer\<close>

text \<open>A delete of the object was answered by success or by \<^verbatim>\<open>NotFound\<close>.\<close>

definition released :: "'w env \<Rightarrow> kobj \<Rightarrow> bool" where
  "released E d = (\<exists>w err w'. e_delete E d w = (err, w') \<and> (case err of None \<Rightarrow> True | Some e \<Rightarrow> e_isNotFound E e))"

abbreviation handled :: "'w env \<Rightarrow> call list \<Rightarrow> kobj \<Rightarrow> bool" where
  "handled E cs d \<equiv> CDelete d \<in> set cs \<and> released E d"

text \<open>A CA ConfigMap is gone, belongs to someone else, or was deleted.\<close>

definition caHandled :: "'w env \<Rightarrow> openShellGateway \<Rightarrow> call list \<Rightarrow> string \<Rightarrow> bool" where
  "caHandled E gw cs suffix = (\<exists>r. mayGet E KConfigMap (nsn (gatewayNamespace gw) (gw_name gw @ suffix)) r \<and>
     (case r of Inl e \<Rightarrow> e_isNotFound E e | Inr ca \<Rightarrow> managedByGateway (ob_labels ca) gw \<longrightarrow> handled E cs ca))"

lemma mayGetI: "e_get E k n w = (r, w') \<Longrightarrow> mayGet E k n r"
  unfolding mayGet_def by blast

lemma caHandled_absent:
  "mayGet E KConfigMap (nsn (gatewayNamespace gw) (gw_name gw @ suffix)) (Inl e) \<Longrightarrow> e_isNotFound E e \<Longrightarrow>
   caHandled E gw cs suffix"
  unfolding caHandled_def by (intro exI [of _ "Inl e"]) simp

lemma caHandled_found:
  "mayGet E KConfigMap (nsn (gatewayNamespace gw) (gw_name gw @ suffix)) (Inr ca) \<Longrightarrow>
   (managedByGateway (ob_labels ca) gw \<Longrightarrow> handled E cs ca) \<Longrightarrow> caHandled E gw cs suffix"
  unfolding caHandled_def by (intro exI [of _ "Inr ca"]) simp

lemma caHandled_mono:
  assumes "caHandled E gw cs suffix" and "set cs \<subseteq> set ds"
  shows "caHandled E gw ds suffix"
proof -
  obtain r where r: "mayGet E KConfigMap (nsn (gatewayNamespace gw) (gw_name gw @ suffix)) r"
    "case r of Inl e \<Rightarrow> e_isNotFound E e | Inr ca \<Rightarrow> managedByGateway (ob_labels ca) gw \<longrightarrow> handled E cs ca"
    using assms(1) unfolding caHandled_def by blast
  show ?thesis
  proof (cases r)
    case (Inl e)
    then show ?thesis using r by (auto intro: caHandled_absent)
  next
    case (Inr ca)
    then show ?thesis using r assms(2) by (intro caHandled_found [of _ _ _ ca]) auto
  qed
qed

lemma deleteIgnoring_wp:
  "wp (deleteIgnoring E d) (\<lambda>r t. calls t = calls s @ [CDelete d] \<and> (r = None \<longrightarrow> released E d)) s"
  unfolding deleteIgnoring_def kDelete_def
  by (intro wp_rules) (auto simp: released_def ignoreNotFound_def split: if_splits intro: exI [of _ "world s"])

lemma deleteCA_wp:
  "wp (deleteCA E gw suffix) (\<lambda>r t. \<exists>cs. calls t = calls s @ cs \<and> (r = None \<longrightarrow> caHandled E gw cs suffix)) s"
  unfolding deleteCA_def kGet_def
proof (intro wp_rules, goal_cases)
  case (1 r w e)
  then show ?case by (auto simp: ignoreNotFound_def intro!: caHandled_absent mayGetI split: if_splits)
next
  case (2 r w ca)
  show ?case
    by (rule wp_mono [OF deleteIgnoring_wp]) (use 2 in \<open>auto intro!: caHandled_found mayGetI\<close>)
next
  case (3 r w ca)
  then show ?case by (auto intro!: caHandled_found mayGetI)
qed

lemma collect_wp:
  assumes f: "\<And>x s. x \<in> set xs \<Longrightarrow> wp (f x) (\<lambda>r t. \<exists>cs. calls t = calls s @ cs \<and> (r = None \<longrightarrow> H cs x)) s"
    and mono: "\<And>cs ds x. H cs x \<Longrightarrow> set cs \<subseteq> set ds \<Longrightarrow> H ds x"
  shows "wp (collect f xs) (\<lambda>es t. \<exists>cs. calls t = calls s @ cs \<and> (es = [] \<longrightarrow> (\<forall>x \<in> set xs. H cs x))) s"
  using f
proof (induction xs arbitrary: s)
  case Nil
  then show ?case by simp
next
  case (Cons x xs)
  have step: "wp (collect f xs) (\<lambda>es u. \<exists>cs. calls u = calls s @ cs \<and>
      ((case r of None \<Rightarrow> [] | Some e \<Rightarrow> [e]) @ es = [] \<longrightarrow> (\<forall>y \<in> set (x # xs). H cs y))) t"
    if t: "calls t = calls s @ cs" "r = None \<longrightarrow> H cs x" for r t cs
  proof (rule wp_mono [OF Cons.IH], use Cons.prems in simp, elim exE conjE, goal_cases)
    case (1 es u ds)
    have "\<forall>y \<in> set (x # xs). H (cs @ ds) y" if "r = None" "es = []"
      using that t(2) 1(2) by (auto intro: mono)
    then show ?case using t(1) 1(1) by (intro exI [of _ "cs @ ds"]) (auto split: option.splits)
  qed
  show ?case unfolding collect.simps
    by (rule wp_bindI, rule wp_mono [OF Cons.prems]) (auto intro!: wp_bindI wp_mono [OF step])
qed

lemma quiet_cleanup: "onlyCalls (\<lambda>c. \<not> isUpdate c) (cleanupAll E Y gw)"
proof -
  have del: "onlyCalls (\<lambda>c. \<not> isUpdate c) (deleteIgnoring E ob)" for ob
    unfolding deleteIgnoring_def kDelete_def by (intro call_rules) (simp add: isUpdate_def)
  have routes: "onlyCalls (\<lambda>c. \<not> isUpdate c) (cleanupRoutes E gw)"
    unfolding cleanupRoutes_def deleteManagedRoutes_def deleteEach_def kList_def kDelete_def
    by (intro call_rules) (simp_all add: isUpdate_def)
  have ca: "onlyCalls (\<lambda>c. \<not> isUpdate c) (deleteCA E gw suffix)" for suffix
    unfolding deleteCA_def kGet_def by (intro call_rules del) simp
  have deps: "onlyCalls (\<lambda>c. \<not> isUpdate c) (dr_Cleanup d gw)" if "d \<in> set (rev (dependencies E Y))" for d
    by (rule onlyCalls_mono [OF dependency.cleanup_calls [OF dependencies_meet_contract]])
      (use that in \<open>auto simp: ownedDelete_def isUpdate_def split: call.splits\<close>)
  show ?thesis unfolding cleanupAll_def
    by (intro onlyCalls_bind onlyCalls_collect del deps routes ca onlyCalls_return onlyCalls_detect) (simp_all add: isUpdate_def)
qed

lemma wp_extends: "onlyCalls P m \<Longrightarrow> (\<And>r t cs. calls t = calls s @ cs \<Longrightarrow> Q r t) \<Longrightarrow> wp m Q s"
  by (erule wp_callsI)

definition cleanedUp :: "'w env \<Rightarrow> openShellGateway \<Rightarrow> bool \<Rightarrow> call list \<Rightarrow> bool" where
  "cleanedUp E gw isOCP cs =
     ((\<forall>d \<in> set (clusterResources gw isOCP @ crossNSResources gw). handled E cs d) \<and>
      (\<forall>suffix \<in> {authCASuffix, gatewayCASuffix}. caHandled E gw cs suffix))"

lemma cleanupAll_wp:
  "wp (cleanupAll E Y gw) (\<lambda>es t. \<exists>cs. calls t = calls s @ cs \<and> (es = [] \<longrightarrow> (\<exists>isOCP. cleanedUp E gw isOCP cs))) s"
proof -
  have dels: "wp (collect (deleteIgnoring E) obs)
      (\<lambda>es t. \<exists>cs. calls t = calls u @ cs \<and> (es = [] \<longrightarrow> (\<forall>d \<in> set obs. handled E cs d))) u" for obs u
    by (rule collect_wp, rule wp_mono [OF deleteIgnoring_wp]) auto
  have cas: "wp (collect (deleteCA E gw) sufs)
      (\<lambda>es t. \<exists>cs. calls t = calls u @ cs \<and> (es = [] \<longrightarrow> (\<forall>suffix \<in> set sufs. caHandled E gw cs suffix))) u" for sufs u
    by (rule collect_wp [OF deleteCA_wp caHandled_mono])
  have deps: "onlyCalls ownedDelete (collect (\<lambda>d. dr_Cleanup d gw) (rev (dependencies E Y)))"
    by (rule onlyCalls_collect, rule dependency.cleanup_calls [OF dependencies_meet_contract]) simp
  have routes: "onlyCalls (\<lambda>_. True) (cleanupRoutes E gw)"
    unfolding cleanupRoutes_def deleteManagedRoutes_def deleteEach_def kList_def kDelete_def by (intro call_rules) simp_all
  show ?thesis unfolding cleanupAll_def
    apply (rule wp_bindI, rule wp_extends [OF deps])
    apply (rule wp_bindI, rule wp_extends [OF onlyCalls_detect(1) [of "\<lambda>_. True"]], simp)
    apply (rule wp_bindI, rule wp_mono [OF dels], elim exE conjE)
    apply (rule wp_bindI, rule wp_extends [OF routes])
    apply (rule wp_bindI, rule wp_mono [OF dels], elim exE conjE)
    apply (rule wp_bindI, rule wp_mono [OF dels], elim exE conjE)
    apply (rule wp_bindI, rule wp_mono [OF cas], elim exE conjE)
    apply (rule wp_retI)
    subgoal for _ _ cs1 isOCP _ cs2 _ _ cs3 _ _ cs4 _ _ cs5 _ _ cs6 _ _ cs7
      by (rule exI [of _ "cs1 @ cs2 @ cs3 @ cs4 @ cs5 @ cs6 @ cs7"])
        (auto simp: cleanedUp_def intro!: exI [of _ isOCP] elim: caHandled_mono)
    done
qed



end
