(* ===== verification/GatewayOrder.thy ===== *)
theory GatewayOrder
  imports GatewayReconcile
begin

text \<open>
  The order in which a reconcile of the gateway controller works, what it reports when a step fails, and
  which Secret its check of the database reads. The big-step relation \<open>ranAll\<close> is the
  specification of the loop over the steps: every step of a list ranAll once, in order, without an error,
  each on the resource the one before left.
\<close>

section \<open>Running steps in order\<close>

inductive ranAll :: "(string \<times> 'w step) list \<Rightarrow> openShellGateway \<Rightarrow> 'w sys \<Rightarrow> openShellGateway \<Rightarrow> 'w sys \<Rightarrow> bool" where
  ranAll_Nil: "ranAll [] gw s gw s"
| ranAll_Cons: "run_state (snd st gw) s = ((gw', None), s') \<Longrightarrow> ranAll sts gw' s' gw'' s'' \<Longrightarrow> ranAll (st # sts) gw s gw'' s''"

inductive_simps ranAll_Nil_iff [simp]: "ranAll [] gw s gw' s'"
inductive_cases ranAll_ConsE: "ranAll (st # sts) gw s gw'' s''"

definition stoppedAt :: "(string \<times> 'w step) list \<Rightarrow> openShellGateway \<Rightarrow> 'w sys \<Rightarrow> failure \<Rightarrow> 'w sys \<Rightarrow> bool" where
  "stoppedAt sts gw s f t = (\<exists>pre h post g u. sts = pre @ (fst (snd f), h) # post \<and> ranAll pre gw s g u \<and>
     run_state (h g) u = ((fst f, Some (snd (snd f))), t))"

lemma runSteps_Cons:
  "run_state (runSteps (st # sts) gw) s =
     (case run_state (snd st gw) s of ((gw', err), s') \<Rightarrow>
        (case err of Some e \<Rightarrow> (Inl (gw', fst st, e), s') | None \<Rightarrow> run_state (runSteps sts gw') s'))"
  by (simp add: runSteps_def split: prod.splits option.splits)

lemma runSteps_Nil [simp]: "run_state (runSteps [] gw) s = (Inr gw, s)"
  by (simp add: runSteps_def)

lemma stoppedAt_Nil [simp]: "\<not> stoppedAt [] gw s f t"
  by (simp add: stoppedAt_def)

lemma stoppedAt_Cons:
  assumes "run_state (snd st gw) s = ((gw', err), s')"
  shows "stoppedAt (st # sts) gw s f t \<longleftrightarrow>
    (case err of Some e \<Rightarrow> f = (gw', fst st, e) \<and> t = s' | None \<Rightarrow> stoppedAt sts gw' s' f t)"
proof (cases err)
  case None
  have "stoppedAt sts gw' s' f t" if "stoppedAt (st # sts) gw s f t"
  proof -
    obtain pre h post g u where d: "st # sts = pre @ (fst (snd f), h) # post" "ranAll pre gw s g u"
      "run_state (h g) u = ((fst f, Some (snd (snd f))), t)"
      using \<open>stoppedAt (st # sts) gw s f t\<close> unfolding stoppedAt_def by blast
    obtain pre' where pre: "pre = st # pre'" "sts = pre' @ (fst (snd f), h) # post"
      using d assms None by (cases pre) auto
    then have "ranAll pre' gw' s' g u" using d(2) assms None by (auto elim: ranAll_ConsE)
    then show ?thesis unfolding stoppedAt_def using pre(2) d(3) by blast
  qed
  moreover have "stoppedAt (st # sts) gw s f t" if "stoppedAt sts gw' s' f t"
  proof -
    obtain pre h post g u where d: "sts = pre @ (fst (snd f), h) # post" "ranAll pre gw' s' g u"
      "run_state (h g) u = ((fst f, Some (snd (snd f))), t)"
      using \<open>stoppedAt sts gw' s' f t\<close> unfolding stoppedAt_def by blast
    have "ranAll (st # pre) gw s g u" using assms None d(2) by (auto intro: ranAll_Cons)
    then show ?thesis unfolding stoppedAt_def using d(1,3) by (intro exI [of _ "st # pre"] exI [of _ h] exI [of _ post] exI [of _ g] exI [of _ u]) simp
  qed
  ultimately show ?thesis using None by auto
next
  case (Some e)
  have "f = (gw', fst st, e) \<and> t = s'" if "stoppedAt (st # sts) gw s f t"
  proof -
    obtain pre h post g u where d: "st # sts = pre @ (fst (snd f), h) # post" "ranAll pre gw s g u"
      "run_state (h g) u = ((fst f, Some (snd (snd f))), t)"
      using \<open>stoppedAt (st # sts) gw s f t\<close> unfolding stoppedAt_def by blast
    have "pre = []" using d(1,2) assms Some by (cases pre) (auto elim: ranAll_ConsE)
    then show ?thesis using d assms Some by (auto simp: prod_eq_iff)
  qed
  moreover have "stoppedAt (st # sts) gw s (gw', fst st, e) s'"
    unfolding stoppedAt_def using assms Some
    by - (rule exI [of _ "[]"], rule exI [of _ "snd st"], rule exI [of _ sts], auto)
  ultimately show ?thesis using Some by auto
qed

lemma runSteps_refines:
  "run_state (runSteps sts gw) s = (r, t) \<longleftrightarrow>
    (case r of Inr gw' \<Rightarrow> ranAll sts gw s gw' t | Inl f \<Rightarrow> stoppedAt sts gw s f t)"
proof (induction sts arbitrary: gw s)
  case Nil
  then show ?case by (auto split: sum.splits)
next
  case (Cons st sts)
  obtain gw' err s' where st: "run_state (snd st gw) s = ((gw', err), s')" by (metis prod.exhaust)
  show ?case
  proof (cases err)
    case None
    then have "ranAll (st # sts) gw s g t \<longleftrightarrow> ranAll sts gw' s' g t" for g
      using st by (auto elim: ranAll_ConsE intro: ranAll_Cons)
    then show ?thesis using None st Cons.IH [of gw' s'] stoppedAt_Cons [OF st, of sts]
      by (auto simp: runSteps_Cons split: sum.splits)
  next
    case (Some e)
    then have "\<not> ranAll (st # sts) gw s g t" for g using st by (auto elim: ranAll_ConsE)
    then show ?thesis using Some st stoppedAt_Cons [OF st, of sts]
      by (auto simp: runSteps_Cons split: sum.splits)
  qed
qed

section \<open>Properties\<close>


text \<open>What \<open>degraded\<close> adds to the history.\<close>

lemma degraded_wp:
  assumes "\<And>t cs. calls t = calls s @ CGet KOpenShellGateway (nsn [] (gw_name gw)) # cs \<Longrightarrow>
      cs = [] \<or> (\<exists>latest. cs = [CStatusUpdate (reports latest (degradedStatus E gw step e (gw_status latest)))]) \<Longrightarrow>
      Q (requeueAfter 30, Some e) t"
  shows "wp (degraded E (gw, step, e)) Q s"
  unfolding degraded_def setDegraded_def Let_def prim_defs
  by (simp only: prod.case) (intro wp_rules; rule assms; simp; blast)

definition failureReported :: "'w env \<Rightarrow> openShellGateway \<Rightarrow> string set \<Rightarrow> outcome \<Rightarrow> call list \<Rightarrow> bool" where
  "failureReported E gw names r cs = (\<exists>gwf step e pre rest. r = (requeueAfter 30, Some e) \<and> sameGateway gw gwf \<and>
     step \<in> names \<and> cs = pre @ CGet KOpenShellGateway (nsn [] (gw_name gw)) # rest \<and>
     (rest = [] \<or> (\<exists>latest. rest = [CStatusUpdate (reports latest (degradedStatus E gwf step e (gw_status latest)))])))"

lemma degraded_reports:
  assumes "sameGateway gw (fst f)" and "fst (snd f) \<in> names"
  shows "wp (degraded E f) (\<lambda>r t. failureReported E gw names r (calls t)) s"
proof (cases f)
  case (fields gwf step e)
  have name: "gw_name gwf = gw_name gw" using assms(1) fields by (simp add: sameGateway_def)
  show ?thesis unfolding fields
  proof (rule degraded_wp, goal_cases)
    case (1 t cs)
    then show ?case unfolding failureReported_def
      using assms fields name
      by (intro exI [of _ gwf] exI [of _ step] exI [of _ e] exI [of _ "calls s"] exI [of _ cs]) simp
  qed
qed

definition stepNames :: "string set" where
  "stepNames = set [ConditionEnvoyGatewayReady, ConditionEnvoyProxySCCReady, ConditionDatabaseReady,
     ConditionOpenShiftGroups, ''DatabaseSecret'', ''Namespace'', ''GatewayServiceAccount'', ''SandboxServiceAccount'',
     ''ClusterRole'', ''ClusterRoleBinding'', ''Role'', ''RoleBinding'', ''TLS'', ''AuthBridgeCA'', ''GatewayCA'',
     ''JWTKeys'', ''AuthBridgeKeys'', ''ConfigMap'', ''Deployment'', ''Service'', ''NetworkPolicy'', ''GatewayAPI'',
     ''RouteCleanup'', ''EnvoyRoute'', ''Route'', ''SCCBinding'', ''AuthBridgeRoute'', ''OAuthClient'']"

lemma stepNames_cover:
  "dr_Name ` set (dependencies E Y) \<subseteq> stepNames" "''DatabaseSecret'' \<in> stepNames"
  "fst ` set (steps E P) \<subseteq> stepNames" "set edgeSteps \<subseteq> stepNames"
  by (simp_all add: stepNames_def dependencies_def steps_def edgeSteps_def GroupsReconciler_def
      EnvoyProxySCCReconciler_def PostgreSQLReconciler_def EnvoyGatewayReconciler_def)

lemma degraded_reports_names:
  "failsAs gw names (Inl f) \<Longrightarrow> names \<subseteq> stepNames \<Longrightarrow>
   wp (degraded E f) (\<lambda>r t. fst r = requeueAfter 30 \<longrightarrow> failureReported E gw stepNames r (calls t)) s"
  by (rule wp_mono [OF degraded_reports [where names = stepNames]]) auto



text \<open>The only call of the database check.\<close>

lemma validateDatabaseSecret_calls:
  assumes "run_state (validateDatabaseSecret E g) u = (r, v)"
  shows "newCalls u v = (if databaseSecretName g = [] then []
    else [CGet KSecret (nsn (gatewayNamespace g) (databaseSecretName g))])"
proof -
  have "wp (validateDatabaseSecret E g) (\<lambda>_ v. newCalls u v = (if databaseSecretName g = [] then []
      else [CGet KSecret (nsn (gatewayNamespace g) (databaseSecretName g))])) u"
    unfolding validateDatabaseSecret_def Let_def kGet_def by (intro wp_rules) (simp_all add: newCalls_def)
  from wpD [OF this assms] show ?thesis .
qed

end
