(* ===== verification/Watches.thy ===== *)
theory Watches
  imports Provider Policy Member GatewayOrder
begin

text \<open>
  Which event in the cluster makes which controller reconcile which resource: the four
  \<open>SetupWithManager\<close> functions of \<^verbatim>\<open>src/internal/controller\<close>. A registration is a table: the kind the
  controller is for, and the kinds it watches, each with a predicate on events and a map from the
  changed object to requests. Delivering events is controller-runtime's work; \<open>asksFor\<close> says what a
  table requests. The two predicates of controller-runtime the tables use are parameters.
\<close>

section \<open>Definitions\<close>

datatype clusterEvent = Created kobj | Updated kobj kobj | Deleted kobj | Generic kobj

primrec eventType :: "clusterEvent \<Rightarrow> watchEvent" where
  "eventType (Created ob) = CreateEvent"
| "eventType (Updated old new) = UpdateEvent"
| "eventType (Deleted ob) = DeleteEvent"
| "eventType (Generic ob) = GenericEvent"

text \<open>The objects a handler is called with: both versions for an update.\<close>

primrec eventObjects :: "clusterEvent \<Rightarrow> kobj list" where
  "eventObjects (Created ob) = [ob]"
| "eventObjects (Updated old new) = [old, new]"
| "eventObjects (Deleted ob) = [ob]"
| "eventObjects (Generic ob) = [ob]"

record predicateLib =
  pq_generationChanged :: "clusterEvent \<Rightarrow> bool"
  pq_resourceVersionChanged :: "clusterEvent \<Rightarrow> bool"

record 'w watchRow =
  wt_kind :: kind
  wt_mapper :: "kobj \<Rightarrow> ('w sys, nsName list) state"
  wt_predicate :: "clusterEvent \<Rightarrow> bool"

record 'w controllerSetup =
  cs_name :: string
  cs_for :: kind
  cs_watches :: "'w watchRow list"

definition gatewaySetup :: "'w env \<Rightarrow> 'w controllerSetup" where
  "gatewaySetup E =
     (let labelMatcher = (\<lambda>ob. ret (findGatewayForManagedResource ob));
          databaseSecretMatcher = findGatewaysForDatabaseSecret E in
      \<lparr>cs_name = ''openshellgateway'', cs_for = KOpenShellGateway,
       cs_watches =
         [\<lparr>wt_kind = KDeployment, wt_mapper = labelMatcher, wt_predicate = (\<lambda>_. True)\<rparr>,
          \<lparr>wt_kind = KService, wt_mapper = labelMatcher, wt_predicate = (\<lambda>_. True)\<rparr>,
          \<lparr>wt_kind = KConfigMap, wt_mapper = labelMatcher, wt_predicate = (\<lambda>_. True)\<rparr>,
          \<lparr>wt_kind = KSecret, wt_mapper = databaseSecretMatcher, wt_predicate = (\<lambda>_. True)\<rparr>]\<rparr>)"

definition providerSetup :: "'w env \<Rightarrow> predicateLib \<Rightarrow> 'w controllerSetup" where
  "providerSetup E L =
     \<lparr>cs_name = ''openshellprovider'', cs_for = KOpenShellProvider,
      cs_watches =
        [\<lparr>wt_kind = KSecret, wt_mapper = findProvidersForSecret E, wt_predicate = pq_resourceVersionChanged L\<rparr>,
         \<lparr>wt_kind = KOpenShellGateway, wt_mapper = (\<lambda>_. findProvidersForGateway E), wt_predicate = (\<lambda>_. True)\<rparr>]\<rparr>"

definition policySetup :: "'w env \<Rightarrow> predicateLib \<Rightarrow> 'w controllerSetup" where
  "policySetup E L =
     \<lparr>cs_name = ''openshellpolicy'', cs_for = KOpenShellPolicy,
      cs_watches =
        [\<lparr>wt_kind = KOpenShellGateway, wt_mapper = (\<lambda>_. findAllPolicies E), wt_predicate = pq_generationChanged L\<rparr>,
         \<lparr>wt_kind = KOpenShellPolicy, wt_mapper = (\<lambda>_. findAllPolicies E),
          wt_predicate = (\<lambda>ev. policySelfWatchPredicate (eventType ev))\<rparr>]\<rparr>"

definition memberSetup :: "'w controllerSetup" where
  "memberSetup = \<lparr>cs_name = ''openshellworkspacemember'', cs_for = KOpenShellWorkspaceMember, cs_watches = []\<rparr>"

text \<open>The requests a table makes for an event, the maps being run in state \<open>s\<close>.\<close>

definition rowAsks :: "'w sys \<Rightarrow> clusterEvent \<Rightarrow> 'w watchRow \<Rightarrow> nsName list" where
  "rowAsks s ev row =
     (if wt_predicate row ev
      then concat (map (\<lambda>ob. fst (run_state (wt_mapper row ob) s)) (filter (\<lambda>ob. ob_kind ob = wt_kind row) (eventObjects ev)))
      else [])"

definition asksFor :: "'w controllerSetup \<Rightarrow> clusterEvent \<Rightarrow> 'w sys \<Rightarrow> nsName list" where
  "asksFor S ev s =
     map (\<lambda>ob. requestFor (ob_meta ob)) (filter (\<lambda>ob. ob_kind ob = cs_for S) (eventObjects ev)) @
     concat (map (rowAsks s ev) (cs_watches S))"

text \<open>
  The scheme of \<^verbatim>\<open>src/api/v1alpha1/groupversion_info.go\<close> and \<^verbatim>\<open>src/cmd/main.go\<close>: the types the client can
  decode, each under its group and version. What client-go and the meta package register is a parameter.
\<close>

type_synonym groupVersion = "string \<times> string"
type_synonym scheme = "(groupVersion \<times> string) list"

definition GroupVersion :: groupVersion where
  "GroupVersion = (''gateway.ogo.aknochow.io'', ''v1alpha1'')"

definition addKnownTypes :: "(groupVersion \<Rightarrow> scheme \<Rightarrow> scheme) \<Rightarrow> scheme \<Rightarrow> scheme" where
  "addKnownTypes metaTypes sch = metaTypes GroupVersion (sch @ map (Pair GroupVersion)
     [''OpenShellGateway'', ''OpenShellGatewayList'', ''OpenShellProvider'', ''OpenShellProviderList'',
      ''OpenShellPolicy'', ''OpenShellPolicyList'', ''OpenShellWorkspaceMember'', ''OpenShellWorkspaceMemberList''])"

definition operatorScheme :: "(scheme \<Rightarrow> scheme) \<Rightarrow> (groupVersion \<Rightarrow> scheme \<Rightarrow> scheme) \<Rightarrow> scheme" where
  "operatorScheme clientgo metaTypes = addKnownTypes metaTypes (clientgo [])"

text \<open>The Go type of a kind of this API group.\<close>

definition ownType :: "kind \<Rightarrow> string option" where
  "ownType k = (case k of
     KOpenShellGateway \<Rightarrow> Some ''OpenShellGateway'' | KOpenShellProvider \<Rightarrow> Some ''OpenShellProvider''
   | KOpenShellPolicy \<Rightarrow> Some ''OpenShellPolicy'' | KOpenShellWorkspaceMember \<Rightarrow> Some ''OpenShellWorkspaceMember''
   | _ \<Rightarrow> None)"

section \<open>Lemmas\<close>

text \<open>An event is about objects of one kind.\<close>

abbreviation about :: "clusterEvent \<Rightarrow> kind \<Rightarrow> bool" where
  "about ev k \<equiv> \<forall>ob \<in> set (eventObjects ev). ob_kind ob = k"

lemma eventObjects_nonempty [simp]: "eventObjects ev \<noteq> []"
  by (cases ev) auto

lemma filter_about: "about ev k \<Longrightarrow> filter (\<lambda>ob. ob_kind ob = k') (eventObjects ev) = (if k = k' then eventObjects ev else [])"
  by (auto intro: filter_True filter_False)

lemma asksFor_about:
  assumes "about ev k"
  shows "set (asksFor S ev s) =
    (if k = cs_for S then (\<lambda>ob. requestFor (ob_meta ob)) ` set (eventObjects ev) else {}) \<union>
    (\<Union>row \<in> set (cs_watches S). if wt_kind row = k \<and> wt_predicate row ev
       then (\<Union>ob \<in> set (eventObjects ev). set (fst (run_state (wt_mapper row ob) s))) else {})"
proof -
  have "set (rowAsks s ev row) = (if wt_kind row = k \<and> wt_predicate row ev
       then (\<Union>ob \<in> set (eventObjects ev). set (fst (run_state (wt_mapper row ob) s))) else {})" for row
    by (auto simp: rowAsks_def filter_about [OF assms])
  then show ?thesis by (auto simp: asksFor_def filter_about [OF assms])
qed

lemmas setup_defs = gatewaySetup_def providerSetup_def policySetup_def memberSetup_def Let_def

text \<open>
  The client can decode what the controllers are for: each controller is for a kind of this API group, and
  that kind and its list are registered, as are the ones it watches, if the meta package only adds types.
\<close>

definition registered :: "scheme \<Rightarrow> kind \<Rightarrow> bool" where
  "registered sch k = (case ownType k of None \<Rightarrow> False
     | Some t \<Rightarrow> (GroupVersion, t) \<in> set sch \<and> (GroupVersion, t @ ''List'') \<in> set sch)"

theorem controllers_registered:
  assumes "\<And>gv sch. set sch \<subseteq> set (metaTypes gv sch)"
  shows "list_all (registered (operatorScheme clientgo metaTypes))
    [cs_for (gatewaySetup E), cs_for (providerSetup E L), cs_for (policySetup E L), cs_for memberSetup]"
    and "\<forall>row \<in> set (cs_watches (gatewaySetup E) @ cs_watches (providerSetup E L) @ cs_watches (policySetup E L)).
      ownType (wt_kind row) \<noteq> None \<longrightarrow> registered (operatorScheme clientgo metaTypes) (wt_kind row)"
proof -
  have own: "registered (operatorScheme clientgo metaTypes) k" if "ownType k \<noteq> None" for k
  proof -
    let ?ts = "[''OpenShellGateway'', ''OpenShellGatewayList'', ''OpenShellProvider'', ''OpenShellProviderList'',
      ''OpenShellPolicy'', ''OpenShellPolicyList'', ''OpenShellWorkspaceMember'', ''OpenShellWorkspaceMemberList'']"
    have "Pair GroupVersion ` set ?ts \<subseteq> set (operatorScheme clientgo metaTypes)"
      using assms [of "clientgo [] @ map (Pair GroupVersion) ?ts" GroupVersion]
      unfolding operatorScheme_def addKnownTypes_def by (simp only: set_append set_map Un_subset_iff)
    then show ?thesis using that by (auto simp: registered_def ownType_def split: kind.splits)
  qed
  show "list_all (registered (operatorScheme clientgo metaTypes))
    [cs_for (gatewaySetup E), cs_for (providerSetup E L), cs_for (policySetup E L), cs_for memberSetup]"
    by (simp add: setup_defs own ownType_def)
  show "\<forall>row \<in> set (cs_watches (gatewaySetup E) @ cs_watches (providerSetup E L) @ cs_watches (policySetup E L)).
      ownType (wt_kind row) \<noteq> None \<longrightarrow> registered (operatorScheme clientgo metaTypes) (wt_kind row)"
    using own by blast
qed

lemma run_findAllPolicies:
  assumes "e_list E KOpenShellPolicy listAll (world s) = (Inr items, w)"
  shows "set (fst (run_state (findAllPolicies E) s)) = (\<lambda>ob. requestFor (ob_meta ob)) ` set items"
  using assms by (auto simp: findAllPolicies_def kList_def invoke_def requestFor_def)

lemma run_findProvidersForSecret:
  assumes "e_list E KOpenShellProvider \<lparr>lo_namespace = Some (ob_namespace ob), lo_labels = []\<rparr> (world s) = (Inr items, w)"
  shows "set (fst (run_state (findProvidersForSecret E ob) s)) = (\<lambda>p. requestFor (pr_meta p)) `
    {p \<in> providerOf ` set items. \<exists>ref \<in> snd ` set (ps_credentials (pr_spec p)). sk_name ref = ob_name ob}"
  using assms by (force simp: findProvidersForSecret_def kList_def invoke_def list_ex_iff)

lemma run_findGatewaysForDatabaseSecret:
  assumes "e_list E KOpenShellGateway listAll (world s) = (Inr items, w)"
  shows "set (fst (run_state (findGatewaysForDatabaseSecret E ob) s)) = (\<lambda>g. nsn [] (gw_name g)) `
    {g \<in> gatewayOf ` set items. gatewayNamespace g = ob_namespace ob \<and> databaseSecretName g = ob_name ob}"
  using assms by (force simp: findGatewaysForDatabaseSecret_def kList_def invoke_def)

text \<open>The Secrets a provider sync resolves are those its credentials name, in its own namespace.\<close>

definition namedSecret :: "openShellProvider \<Rightarrow> nsName \<Rightarrow> bool" where
  "namedSecret p k = (\<exists>ref \<in> snd ` set (ps_credentials (pr_spec p)). k = nsn (pr_namespace p) (sk_name ref))"

lemma credentialRef_named: "envVar \<in> fst ` set (ps_credentials (pr_spec p)) \<Longrightarrow>
    namedSecret p (nsn (pr_namespace p) (sk_name (credentialRef p envVar)))"
  by (force simp: namedSecret_def credentialRef_def split: option.splits dest: map_of_SomeD
    simp: map_of_eq_None_iff)

lemma resolveCredentials_reads:
  "onlyCalls (\<lambda>c. \<forall>k. c = CGet KSecret k \<longrightarrow> namedSecret p k) (resolveCredentials E p)"
  unfolding resolveCredentials_def credentialStep_def providerSetNotReady_def Let_def kGet_def kStatusUpdate_def
  by (intro call_rules) (auto intro: credentialRef_named)

text \<open>The watch by labels leads back to the gateway that wrote them.\<close>

lemma labels_wake_owner:
  assumes "about ev k" and "k \<in> {KDeployment, KService, KConfigMap}"
    and "\<forall>ob \<in> set (eventObjects ev). ob_labels ob = gatewayLabels gw" and "gw_name gw \<noteq> []"
  shows "set (asksFor (gatewaySetup E) ev s) = {nsn [] (gw_name gw)}"
proof -
  have "findGatewayForManagedResource ob = [nsn [] (gw_name gw)]" if "ob_labels ob = gatewayLabels gw" for ob
    using that assms(4) by (simp add: findGatewayForManagedResource_def gatewayLabels_def mget_def)
  then have found: "(\<Union>ob \<in> set (eventObjects ev). set (findGatewayForManagedResource ob)) = {nsn [] (gw_name gw)}"
    using assms(3) by (cases ev) simp_all
  from assms(2) consider "k = KDeployment" | "k = KService" | "k = KConfigMap" by blast
  then show ?thesis unfolding asksFor_about [OF assms(1)] by cases (simp_all add: setup_defs found)
qed

lemma databaseCheck_reads:
  assumes "n \<noteq> []"
  shows "(\<forall>u. newCalls u (snd (run_state (validateDatabaseSecret E gw) u)) = [CGet KSecret (nsn ns n)]) \<longleftrightarrow>
      gatewayNamespace gw = ns \<and> databaseSecretName gw = n"
proof -
  have "newCalls u (snd (run_state (validateDatabaseSecret E gw) u)) = (if databaseSecretName gw = [] then []
      else [CGet KSecret (nsn (gatewayNamespace gw) (databaseSecretName gw))])" for u
    by (rule validateDatabaseSecret_calls) (rule prod.collapse [symmetric])
  then show ?thesis using assms by auto
qed

lemma gateway_secret_asks:
  assumes "\<forall>ob \<in> set (eventObjects ev). ob_kind ob = KSecret \<and> ob_namespace ob = ns \<and> ob_name ob = n"
    and "e_list E KOpenShellGateway listAll (world s) = (Inr gws, w)"
  shows "set (asksFor (gatewaySetup E) ev s) = (\<lambda>g. nsn [] (gw_name g)) `
      {g \<in> gatewayOf ` set gws. gatewayNamespace g = ns \<and> databaseSecretName g = n}"
proof -
  have ab: "about ev KSecret" using assms(1) by blast
  have "set (asksFor (gatewaySetup E) ev s) =
      (\<Union>ob \<in> set (eventObjects ev). set (fst (run_state (findGatewaysForDatabaseSecret E ob) s)))"
    unfolding asksFor_about [OF ab] by (simp add: setup_defs)
  also have "\<dots> = (\<Union>ob \<in> set (eventObjects ev). (\<lambda>g. nsn [] (gw_name g)) `
      {g \<in> gatewayOf ` set gws. gatewayNamespace g = ns \<and> databaseSecretName g = n})"
    by (rule SUP_cong [OF refl]) (use assms(1) in \<open>simp add: run_findGatewaysForDatabaseSecret [OF assms(2)]\<close>)
  finally show ?thesis by (simp only: UN_constant set_empty eventObjects_nonempty if_False)
qed

lemma provider_secret_asks:
  assumes "\<forall>ob \<in> set (eventObjects ev). ob_kind ob = KSecret \<and> ob_namespace ob = ns \<and> ob_name ob = n"
    and "e_list E KOpenShellProvider \<lparr>lo_namespace = Some ns, lo_labels = []\<rparr> (world s) = (Inr ps, w)"
  shows "set (asksFor (providerSetup E L) ev s) = (if pq_resourceVersionChanged L ev then (\<lambda>p. requestFor (pr_meta p)) `
      {p \<in> providerOf ` set ps. \<exists>ref \<in> snd ` set (ps_credentials (pr_spec p)). sk_name ref = n} else {})"
proof -
  have ab: "about ev KSecret" using assms(1) by blast
  have "set (asksFor (providerSetup E L) ev s) = (if pq_resourceVersionChanged L ev
      then (\<Union>ob \<in> set (eventObjects ev). set (fst (run_state (findProvidersForSecret E ob) s))) else {})"
    unfolding asksFor_about [OF ab] by (simp add: setup_defs)
  moreover have "(\<Union>ob \<in> set (eventObjects ev). set (fst (run_state (findProvidersForSecret E ob) s))) =
      (\<Union>ob \<in> set (eventObjects ev). (\<lambda>p. requestFor (pr_meta p)) `
      {p \<in> providerOf ` set ps. \<exists>ref \<in> snd ` set (ps_credentials (pr_spec p)). sk_name ref = n})"
    by (rule SUP_cong [OF refl]) (use assms in \<open>simp add: run_findProvidersForSecret\<close>)
  ultimately show ?thesis by (simp only: UN_constant set_empty eventObjects_nonempty if_False)
qed

section \<open>Example\<close>

definition plainPredicates :: predicateLib where
  "plainPredicates =
     \<lparr>pq_generationChanged = (\<lambda>ev. case ev of
        Updated old new \<Rightarrow> om_generation (ob_meta old) \<noteq> om_generation (ob_meta new) | _ \<Rightarrow> True),
      pq_resourceVersionChanged = (\<lambda>ev. case ev of
        Updated old new \<Rightarrow> om_resourceVersion (ob_meta old) \<noteq> om_resourceVersion (ob_meta new) | _ \<Rightarrow> True)\<rparr>"

definition watchedGateway :: kobj where
  "watchedGateway = gatewayObj (exampleGateway\<lparr>gw_spec := zeroGatewaySpec\<lparr>gs_database :=
     \<lparr>db_embedded = False, db_embeddedConfig = None, db_secretName = ''db''\<rparr>\<rparr>\<rparr>)"

definition watchedProvider :: kobj where
  "watchedProvider = providerObj \<lparr>pr_meta = metaFor ''prov'' ''ogo'',
     pr_spec = zeroProviderSpec\<lparr>ps_credentials := [(''TOKEN'', \<lparr>sk_name = ''db'', sk_key = ''uri''\<rparr>)]\<rparr>,
     pr_status = zeroProviderStatus\<rparr>"

section \<open>Properties\<close>

text \<open>
  C30: a change of a Secret reaches exactly the resources that depend on it. For every event about a
  Secret, when gateways and providers can be listed: the gateway controller is asked to reconcile a
  gateway if and only if the check that gateway's reconcile makes of its database Secret reads this
  Secret; the provider controller is asked, unless the event is an update that changed no resource
  version, to reconcile exactly the providers of that namespace with a credential from this Secret; and
  whenever resolving a provider's credentials reads this Secret, that provider is among them.
\<close>

theorem secret_watch_exact:
  assumes "\<forall>ob \<in> set (eventObjects ev). ob_kind ob = KSecret \<and> ob_namespace ob = ns \<and> ob_name ob = n" and "n \<noteq> []"
    and "e_list E KOpenShellGateway listAll (world s) = (Inr gws, w)"
    and "e_list E KOpenShellProvider \<lparr>lo_namespace = Some ns, lo_labels = []\<rparr> (world s) = (Inr ps, w')"
  shows "(nsn [] g \<in> set (asksFor (gatewaySetup E) ev s) \<longleftrightarrow> (\<exists>gw \<in> gatewayOf ` set gws. gw_name gw = g \<and>
      (\<forall>u. newCalls u (snd (run_state (validateDatabaseSecret E gw) u)) = [CGet KSecret (nsn ns n)]))) \<and>
    set (asksFor (providerSetup E L) ev s) = (if pq_resourceVersionChanged L ev
      then {requestFor (pr_meta p) |p. p \<in> providerOf ` set ps \<and>
        (\<exists>ref \<in> snd ` set (ps_credentials (pr_spec p)). sk_name ref = n)} else {}) \<and>
    (pq_resourceVersionChanged L ev \<longrightarrow> (\<forall>p \<in> providerOf ` set ps. \<forall>u.
      CGet KSecret (nsn ns n) \<in> set (newCalls u (snd (run_state (resolveCredentials E p) u))) \<longrightarrow>
      requestFor (pr_meta p) \<in> set (asksFor (providerSetup E L) ev s)))"
proof (intro conjI impI ballI allI)
  show "nsn [] g \<in> set (asksFor (gatewaySetup E) ev s) \<longleftrightarrow> (\<exists>gw \<in> gatewayOf ` set gws. gw_name gw = g \<and>
      (\<forall>u. newCalls u (snd (run_state (validateDatabaseSecret E gw) u)) = [CGet KSecret (nsn ns n)]))"
    unfolding gateway_secret_asks [OF assms(1,3)] databaseCheck_reads [OF assms(2)] by (auto simp: image_iff)
  show "set (asksFor (providerSetup E L) ev s) = (if pq_resourceVersionChanged L ev
      then {requestFor (pr_meta p) |p. p \<in> providerOf ` set ps \<and>
        (\<exists>ref \<in> snd ` set (ps_credentials (pr_spec p)). sk_name ref = n)} else {})"
    unfolding provider_secret_asks [OF assms(1,4)] by (simp only: image_Collect mem_Collect_eq)
  fix p u assume p: "pq_resourceVersionChanged L ev" "p \<in> providerOf ` set ps"
    "CGet KSecret (nsn ns n) \<in> set (newCalls u (snd (run_state (resolveCredentials E p) u)))"
  then have "namedSecret p (nsn ns n)"
    using onlyCalls_newCalls [OF resolveCredentials_reads prod.collapse [symmetric]] by blast
  then have "\<exists>ref \<in> snd ` set (ps_credentials (pr_spec p)). sk_name ref = n" by (auto simp: namedSecret_def)
  with p(1,2) show "requestFor (pr_meta p) \<in> set (asksFor (providerSetup E L) ev s)"
    unfolding provider_secret_asks [OF assms(1,4)] by auto
qed

theorem secret_watch_exact_witness:
  "let s = memSys (emptyWorld\<lparr>mw_objs := [watchedGateway, watchedProvider]\<rparr>);
       ev = Created (emptySecret ''db'' ''ogo'')
   in (\<exists>gw \<in> gatewayOf ` set [watchedGateway]. gw_name gw = ''gw'' \<and>
        (\<forall>u. newCalls u (snd (run_state (validateDatabaseSecret memEnv gw) u)) = [CGet KSecret (nsn ''ogo'' ''db'')])) \<and>
      set (asksFor (providerSetup memEnv plainPredicates) ev s) = {nsn ''ogo'' ''prov''}"
proof -
  let ?s = "memSys (emptyWorld\<lparr>mw_objs := [watchedGateway, watchedProvider]\<rparr>)"
  let ?ev = "Created (emptySecret ''db'' ''ogo'')"
  have ev: "\<forall>ob \<in> set (eventObjects ?ev). ob_kind ob = KSecret \<and> ob_namespace ob = ''ogo'' \<and> ob_name ob = ''db''" by simp
  have gws: "e_list memEnv KOpenShellGateway listAll (world ?s) = (Inr [watchedGateway], world ?s)"
    and ps: "e_list memEnv KOpenShellProvider \<lparr>lo_namespace = Some ''ogo'', lo_labels = []\<rparr> (world ?s) =
      (Inr [watchedProvider], world ?s)"
    by (simp_all add: memEnv_def memList_def memSys_def gatewayObj_def providerObj_def labelsMatch_def
      watchedGateway_def watchedProvider_def)
  have asked: "nsn [] ''gw'' \<in> set (asksFor (gatewaySetup memEnv) ?ev ?s)" by code_simp
  have rv: "pq_resourceVersionChanged plainPredicates ?ev" by (simp add: plainPredicates_def)
  note w = secret_watch_exact [OF ev _ gws ps, of "''gw''" plainPredicates]
  have "set (asksFor (providerSetup memEnv plainPredicates) ?ev ?s) = {nsn ''ogo'' ''prov''}"
    using w rv by (simp add: watchedProvider_def requestFor_def)
  then show ?thesis using w asked unfolding Let_def by blast
qed

text \<open>
  C31: the policy controller settles. A change of a gateway that leaves its generation alone, such as a
  status update, wakes no policy; an update of a policy wakes that policy only, so that policies never
  wake each other by writing their own status; the deletion of a policy, a new gateway and a changed
  gateway spec wake every listed policy, so that the next policy in line is promoted at once.
\<close>

theorem policy_watch_settles:
  assumes "\<And>ev. pq_generationChanged L ev = (case ev of
      Updated old new \<Rightarrow> om_generation (ob_meta old) \<noteq> om_generation (ob_meta new) | _ \<Rightarrow> True)"
    and "e_list E KOpenShellPolicy listAll (world s) = (Inr items, w)"
    and "asks = (\<lambda>ev. set (asksFor (policySetup E L) ev s))" and "everyone = (\<lambda>ob. requestFor (ob_meta ob)) ` set items"
  shows "(\<forall>old new. ob_kind old = KOpenShellGateway \<longrightarrow> ob_kind new = KOpenShellGateway \<longrightarrow>
      asks (Updated old new) = (if om_generation (ob_meta old) = om_generation (ob_meta new) then {} else everyone)) \<and>
    (\<forall>old new. ob_kind old = KOpenShellPolicy \<longrightarrow> ob_kind new = KOpenShellPolicy \<longrightarrow>
      asks (Updated old new) = {requestFor (ob_meta old), requestFor (ob_meta new)}) \<and>
    (\<forall>ob. ob_kind ob = KOpenShellPolicy \<longrightarrow> asks (Deleted ob) = insert (requestFor (ob_meta ob)) everyone) \<and>
    (\<forall>ob. ob_kind ob = KOpenShellGateway \<longrightarrow> asks (Created ob) = everyone)"
proof -
  note all = run_findAllPolicies [OF assms(2), folded assms(4)]
  have "asks (Updated old new) = (if om_generation (ob_meta old) = om_generation (ob_meta new) then {} else everyone)"
    if "ob_kind old = KOpenShellGateway" "ob_kind new = KOpenShellGateway" for old new
    using that unfolding assms(3) by (simp add: asksFor_about [of _ KOpenShellGateway] setup_defs assms(1) all)
  moreover have "asks (Updated old new) = {requestFor (ob_meta old), requestFor (ob_meta new)}"
    if "ob_kind old = KOpenShellPolicy" "ob_kind new = KOpenShellPolicy" for old new
    using that unfolding assms(3)
    by (simp add: asksFor_about [of _ KOpenShellPolicy] setup_defs policySelfWatchPredicate_def)
  moreover have "asks (Deleted ob) = insert (requestFor (ob_meta ob)) everyone" if "ob_kind ob = KOpenShellPolicy" for ob
    using that unfolding assms(3)
    by (simp add: asksFor_about [of _ KOpenShellPolicy] setup_defs policySelfWatchPredicate_def all)
  moreover have "asks (Created ob) = everyone" if "ob_kind ob = KOpenShellGateway" for ob
    using that unfolding assms(3) by (simp add: asksFor_about [of _ KOpenShellGateway] setup_defs assms(1) all)
  ultimately show ?thesis by blast
qed

theorem policy_watch_settles_witness:
  "let ob = gatewayObj exampleGateway; s = memSys (emptyWorld\<lparr>mw_objs := [policyObj
         \<lparr>pl_meta = metaFor ''a'' ''x'', pl_spec = zeroPolicySpec, pl_status = zeroPolicyStatus\<rparr>]\<rparr>)
   in set (asksFor (policySetup memEnv plainPredicates) (Updated ob ob) s) = {} \<and>
      set (asksFor (policySetup memEnv plainPredicates) (Created ob) s) = {nsn ''x'' ''a''}"
proof -
  let ?p = "policyObj \<lparr>pl_meta = metaFor ''a'' ''x'', pl_spec = zeroPolicySpec, pl_status = zeroPolicyStatus\<rparr>"
  let ?s = "memSys (emptyWorld\<lparr>mw_objs := [?p]\<rparr>)"
  have listed: "e_list memEnv KOpenShellPolicy listAll (world ?s) = (Inr [?p], world ?s)"
    by (simp add: memEnv_def memList_def memSys_def policyObj_def labelsMatch_def)
  have law: "pq_generationChanged plainPredicates ev = (case ev of
      Updated old new \<Rightarrow> om_generation (ob_meta old) \<noteq> om_generation (ob_meta new) | _ \<Rightarrow> True)" for ev
    by (simp add: plainPredicates_def)
  have "ob_kind (gatewayObj exampleGateway) = KOpenShellGateway"
    "(\<lambda>ob. requestFor (ob_meta ob)) ` set [?p] = {nsn ''x'' ''a''}"
    by (simp_all add: gatewayObj_def policyObj_def requestFor_def)
  then show ?thesis using policy_watch_settles [OF law listed refl refl] unfolding Let_def by presburger
qed

text \<open>
  The embedded database is not watched: its Deployment carries the labels of a dependency, which have no
  instance label, so its events wake no gateway.
\<close>

theorem postgres_deployment_wakes_nobody:
  assumes "ob_kind ob = KDeployment"
  shows "asksFor (gatewaySetup E) (Created (pgDeployment gw ob)) s = []"
proof -
  have "ob_kind (pgDeployment gw ob) = KDeployment" "ob_labels (pgDeployment gw ob) = ownershipLabels componentPostgres gw"
    using assms by (simp_all add: pgDeployment_def withLabels_def withAnnotations_def)
  then show ?thesis
    by (simp add: asksFor_def rowAsks_def setup_defs findGatewayForManagedResource_def ownershipLabels_def mget_def)
qed

end
