(* ===== verification/Provisioned.thy ===== *)
theory Provisioned
  imports GatewayOrder
begin

text \<open>
  What the pod of a gateway needs and when it is there: the objects its volumes and its environment
  refer to, against the steps of the gateway controller that provide them. Two small calculi follow the
  structure of a program: \<open>retains R m\<close> (what \<open>m\<close> does not lose) and \<open>secures ok R m\<close> (what holds when \<open>m\<close>
  returns a result that is \<open>ok\<close>).
\<close>

section \<open>Retaining and securing\<close>

named_theorems retain_rules "rules for what a program does not lose"

definition retains :: "('w \<Rightarrow> bool) \<Rightarrow> ('w sys, 'a) state \<Rightarrow> bool" where
  "retains R m = (\<forall>s. R (world s) \<longrightarrow> R (world (snd (run_state m s))))"

definition secures :: "('a \<Rightarrow> bool) \<Rightarrow> ('w \<Rightarrow> bool) \<Rightarrow> ('w sys, 'a) state \<Rightarrow> bool" where
  "secures ok R m = (\<forall>s. ok (fst (run_state m s)) \<longrightarrow> R (world (snd (run_state m s))))"

lemma retains_return [retain_rules, simp]: "retains R (ret x)"
  by (simp add: retains_def)

lemma retains_bind [retain_rules]: "retains R m \<Longrightarrow> (\<And>x. retains R (f x)) \<Longrightarrow> retains R (State_Monad.bind m f)"
  by (simp add: retains_def split_beta)

lemma retains_bind_via:
  "retains R m \<Longrightarrow> results S m \<Longrightarrow> (\<And>x. S x \<Longrightarrow> retains R (f x)) \<Longrightarrow> retains R (State_Monad.bind m f)"
  by (simp add: retains_def results_def split_beta)

lemma retains_if [retain_rules]: "(b \<Longrightarrow> retains R m) \<Longrightarrow> (\<not> b \<Longrightarrow> retains R n) \<Longrightarrow> retains R (if b then m else n)"
  by simp

lemma retains_sum [retain_rules]:
  "(\<And>e. r = Inl e \<Longrightarrow> retains R (f e)) \<Longrightarrow> (\<And>x. r = Inr x \<Longrightarrow> retains R (g x)) \<Longrightarrow>
   retains R (case r of Inl e \<Rightarrow> f e | Inr x \<Rightarrow> g x)"
  by (simp split: sum.splits)

lemma retains_option [retain_rules]:
  "(r = None \<Longrightarrow> retains R m) \<Longrightarrow> (\<And>x. r = Some x \<Longrightarrow> retains R (g x)) \<Longrightarrow>
   retains R (case r of None \<Rightarrow> m | Some x \<Rightarrow> g x)"
  by (simp split: option.splits)

lemma retains_prod [retain_rules]:
  "(\<And>x y. r = (x, y) \<Longrightarrow> retains R (f x y)) \<Longrightarrow> retains R (case r of (x, y) \<Rightarrow> f x y)"
  by (simp split: prod.splits)

lemma retains_Let [retain_rules]: "(\<And>y. y = x \<Longrightarrow> retains R (f y)) \<Longrightarrow> retains R (let y = x in f y)"
  by simp

lemma retains_foreach [retain_rules]:
  "(\<And>x a. x \<in> set xs \<Longrightarrow> retains R (body x a)) \<Longrightarrow> retains R (foreach body xs a)"
  by (induction xs arbitrary: a) (auto intro!: retain_rules split: sum.splits)

lemma retains_gets [retain_rules, simp]: "retains R (gets f)"
  by (simp add: retains_def)

lemma retains_modify [retain_rules]: "(\<And>s. world (f s) = world s) \<Longrightarrow> retains R (modify f)"
  by (simp add: retains_def)

lemma retains_invoke: "(\<And>w. R w \<Longrightarrow> R (snd (h w))) \<Longrightarrow> retains R (invoke c h)"
  by (simp add: retains_def invoke_def split_beta)

lemma retains_silent: "(\<And>w. R w \<Longrightarrow> R (snd (h w))) \<Longrightarrow> retains R (silent h)"
  by (simp add: retains_def silent_def split_beta)

lemma secures_ret: "\<not> ok x \<Longrightarrow> secures ok R (ret x)"
  by (simp add: secures_def)

lemma secures_later: "(\<And>x. secures ok R (f x)) \<Longrightarrow> secures ok R (State_Monad.bind m f)"
  by (simp add: secures_def split_beta)

lemma secures_now:
  assumes "secures ok' R m" and "\<And>x. ok' x \<Longrightarrow> retains R (f x)" and "\<And>x. \<not> ok' x \<Longrightarrow> secures ok R (f x)"
  shows "secures ok R (State_Monad.bind m f)"
proof -
  have "R (world (snd (run_state (f (fst (run_state m s))) (snd (run_state m s)))))"
    if "ok (fst (run_state (f (fst (run_state m s))) (snd (run_state m s))))" for s
    using that assms by (cases "ok' (fst (run_state m s))") (simp_all add: secures_def retains_def)
  then show ?thesis by (simp add: secures_def split_beta)
qed

lemma secures_if: "(b \<Longrightarrow> secures ok R m) \<Longrightarrow> (\<not> b \<Longrightarrow> secures ok R n) \<Longrightarrow> secures ok R (if b then m else n)"
  by simp

lemma secures_sum:
  "(\<And>e. r = Inl e \<Longrightarrow> secures ok R (f e)) \<Longrightarrow> (\<And>x. r = Inr x \<Longrightarrow> secures ok R (g x)) \<Longrightarrow>
   secures ok R (case r of Inl e \<Rightarrow> f e | Inr x \<Rightarrow> g x)"
  by (simp split: sum.splits)

lemma secures_option:
  "(r = None \<Longrightarrow> secures ok R m) \<Longrightarrow> (\<And>x. r = Some x \<Longrightarrow> secures ok R (g x)) \<Longrightarrow>
   secures ok R (case r of None \<Rightarrow> m | Some x \<Rightarrow> g x)"
  by (simp split: option.splits)

lemma secures_Let: "(\<And>y. y = x \<Longrightarrow> secures ok R (f y)) \<Longrightarrow> secures ok R (let y = x in f y)"
  by simp

lemma secures_invoke: "(\<And>w x w'. h w = (x, w') \<Longrightarrow> ok x \<Longrightarrow> R w') \<Longrightarrow> secures ok R (invoke c h)"
  by (simp add: secures_def invoke_def split_beta) (metis prod.collapse)

lemma secures_mono: "secures ok R m \<Longrightarrow> (\<And>x. ok' x \<Longrightarrow> ok x) \<Longrightarrow> secures ok' R m"
  by (simp add: secures_def)

lemmas secure_rules = secures_if secures_sum secures_option secures_Let

section \<open>A store of objects\<close>

abbreviation objKey :: "kobj \<Rightarrow> nsName" where
  "objKey ob \<equiv> nsn (ob_namespace ob) (ob_name ob)"

text \<open>The keys of objects a pod may refer to: no step of the controller deletes one of these.\<close>

definition podKey :: "openShellGateway \<Rightarrow> kind \<Rightarrow> nsName \<Rightarrow> bool" where
  "podKey gw k n = (k = KSecret \<or> k = KPersistentVolumeClaim \<or> k = KConfigMap \<and> nn_name n = gw_name gw @ ''-config'')"

definition sourceKey :: "volumeSource \<Rightarrow> kind \<times> string" where
  "sourceKey v = (case v of VolConfigMap n \<Rightarrow> (KConfigMap, n) | VolSecret n mode items \<Rightarrow> (KSecret, n)
     | VolPVC n \<Rightarrow> (KPersistentVolumeClaim, n))"

text \<open>
  The Kubernetes API as a store that nobody else deletes from: \<open>stored w k n\<close> says that an object of
  kind \<open>k\<close> with key \<open>n\<close> is there. What was read, created or committed without an error is there; a
  call removes at most the object it is made on, and only an update or a deletion does.
\<close>

locale cluster_store = object_store E for E :: "'w env" +
  fixes P :: "'w pkiLib" and stored :: "'w \<Rightarrow> kind \<Rightarrow> nsName \<Rightarrow> bool"
  assumes get_stored: "e_get E k n w = (Inr ob, w') \<Longrightarrow> stored w' k n"
    and create_stored: "e_create E ob w = (Inr ob', w') \<Longrightarrow> stored w' (ob_kind ob) (objKey ob)"
    and fetch_key: "e_couFetch E obj w = (Inr ob, w') \<Longrightarrow> ob_kind ob = ob_kind obj \<and> objKey ob = objKey obj"
    and commit_stored: "e_couCommit E ob ob' w = (None, w') \<Longrightarrow> stored w' (ob_kind ob') (objKey ob')"
    and get_keeps: "stored w k n \<Longrightarrow> stored (snd (e_get E k' n' w)) k n"
    and create_keeps: "stored w k n \<Longrightarrow> stored (snd (e_create E ob w)) k n"
    and fetch_keeps: "stored w k n \<Longrightarrow> stored (snd (e_couFetch E ob w)) k n"
    and commit_keeps: "stored w k n \<Longrightarrow> stored (snd (e_couCommit E ob ob' w)) k n"
    and update_keeps: "stored w k n \<Longrightarrow> (k, n) \<noteq> (ob_kind ob, objKey ob) \<Longrightarrow> stored (snd (e_update E ob w)) k n"
    and delete_keeps: "stored w k n \<Longrightarrow> (k, n) \<noteq> (ob_kind ob, objKey ob) \<Longrightarrow> stored (snd (e_delete E ob w)) k n"
    and discover_keeps: "stored w k n \<Longrightarrow> stored (snd (e_discover E gv w)) k n"
    and now_keeps: "stored w k n \<Longrightarrow> stored (snd (e_now E w)) k n"
    and genEC_keeps: "stored w k n \<Longrightarrow> stored (snd (pk_genEC P w)) k n"
    and genRSA_keeps: "stored w k n \<Longrightarrow> stored (snd (pk_genRSA P b w)) k n"
    and genEd25519_keeps: "stored w k n \<Longrightarrow> stored (snd (pk_genEd25519 P w)) k n"
    and randInt_keeps: "stored w k n \<Longrightarrow> stored (snd (pk_randInt P m w)) k n"
    and createCert_keeps: "stored w k n \<Longrightarrow> stored (snd (pk_createCert P tpl parent pub key w)) k n"
begin

abbreviation holds :: "kind \<Rightarrow> nsName \<Rightarrow> 'w \<Rightarrow> bool" where
  "holds k n w \<equiv> stored w k n"

lemma retains_prims [retain_rules]:
  "retains (holds k n) (kGet E k' n')" "retains (holds k n) (kCreate E ob)"
  "retains (holds k n) (invoke (CFetch ob) (e_couFetch E ob))"
  "retains (holds k n) (invoke (CCommit ob ob') (e_couCommit E ob ob'))"
  "retains (holds k n) (kDiscover E gv)" "retains (holds k n) (timeNow E)"
  "retains (holds k n) (silent (pk_genEC P))" "retains (holds k n) (silent (pk_genRSA P b))"
  "retains (holds k n) (silent (pk_genEd25519 P))" "retains (holds k n) (silent (pk_randInt P m))"
  "retains (holds k n) (silent (pk_createCert P tpl parent pub key))"
  unfolding prim_defs timeNow_def
  by (intro retains_invoke retains_silent get_keeps create_keeps fetch_keeps commit_keeps discover_keeps now_keeps
      genEC_keeps genRSA_keeps genEd25519_keeps randInt_keeps createCert_keeps; assumption)+

lemma retains_kDelete: "(k, n) \<noteq> (ob_kind ob, objKey ob) \<Longrightarrow> retains (holds k n) (kDelete E ob)"
  unfolding prim_defs by (intro retains_invoke delete_keeps)

lemma retains_kUpdate: "(k, n) \<noteq> (ob_kind ob, objKey ob) \<Longrightarrow> retains (holds k n) (kUpdate E ob)"
  unfolding prim_defs by (intro retains_invoke update_keeps)

lemma retains_kGet_bind:
  "(\<And>r. mayGet E k' n' r \<Longrightarrow> retains (holds k n) (f r)) \<Longrightarrow> retains (holds k n) (State_Monad.bind (kGet E k' n') f)"
  by (rule retains_bind_via [OF retains_prims(1) results_kGet])

lemma retains_createOrUpdate [retain_rules]:
  "(\<And>ob. retains (holds k n) (mutate ob)) \<Longrightarrow> retains (holds k n) (createOrUpdate E obj mutate)"
  unfolding createOrUpdate_def by (intro retain_rules)

lemma retains_ensure [retain_rules]: "retains (holds k n) (ensure E obj mutate)"
  unfolding ensure_def by (intro retain_rules)

lemma retains_check [retain_rules]: "retains (holds k n) (check E gv c)"
  unfolding check_def by (intro retain_rules)

lemma retains_IsOpenShift [retain_rules]: "retains (holds k n) (IsOpenShift E)"
  unfolding IsOpenShift_def by (intro retain_rules) simp

lemma retains_keys [retain_rules]:
  "retains (holds k n) (GenerateJWTKeys E P)" "retains (holds k n) (GenerateRSAKeys E P)"
  unfolding GenerateJWTKeys_def GenerateRSAKeys_def by (intro retain_rules)+

lemma retains_issueCert [retain_rules]: "retains (holds k n) (issueCert E P caCert caKey cn sans usage)"
  unfolding issueCert_def newSerial_def by (intro retain_rules)

lemma retains_GeneratePKI [retain_rules]: "retains (holds k n) (GeneratePKI E P sans)"
  unfolding GeneratePKI_def newSerial_def by (intro retain_rules)

lemma secures_kGet: "secures (\<lambda>r. \<exists>ob. r = Inr ob) (holds k n) (kGet E k n)"
  unfolding prim_defs by (rule secures_invoke) (auto dest: get_stored)

lemma secures_kCreate: "secures (\<lambda>r. \<exists>ob. r = Inr ob) (holds (ob_kind ob) (objKey ob)) (kCreate E ob)"
  unfolding prim_defs by (rule secures_invoke) (auto dest: create_stored)

lemma secures_ensure:
  assumes "\<And>ob. ob_kind (mutate ob) = ob_kind ob" and "\<And>ob. objKey (mutate ob) = objKey ob"
  shows "secures (\<lambda>r. r = None) (holds (ob_kind obj) (objKey obj)) (ensure E obj mutate)"
proof -
  have "results (\<lambda>r. \<forall>ob. r = Inr ob \<longrightarrow> ob_kind ob = ob_kind obj \<and> objKey ob = objKey obj)
      (invoke (CFetch obj) (e_couFetch E obj))"
    unfolding results_def invoke_def using fetch_key by (auto split: prod.splits)
  moreover have "secures (\<lambda>r. r = None) (holds (ob_kind obj) (objKey obj))
      (invoke (CCommit ob (mutate ob)) (e_couCommit E ob (mutate ob)))"
    if "ob_kind ob = ob_kind obj" "objKey ob = objKey obj" for ob
    using commit_stored [of ob "mutate ob"] assms [of ob] that by (intro secures_invoke) simp
  ultimately show ?thesis
    unfolding ensure_eq by (auto simp: secures_def results_def split_beta split: sum.splits)
qed

text \<open>What the steps retain.\<close>

lemma retains_reconcileCAConfigMap:
  assumes "podKey gw k n" and "name \<noteq> gw_name gw @ ''-config''"
  shows "retains (holds k n) (reconcileCAConfigMap E gw name enabled)"
proof -
  have "retains (holds k n) (kDelete E ob)" if "mayGet E KConfigMap (nsn ns name) (Inr ob)" for ob ns
    using mayGet_key [OF that] assms by (intro retains_kDelete) (auto simp: podKey_def)
  then show ?thesis
    unfolding reconcileCAConfigMap_def serverTLSCA_def
    by (intro retain_rules retains_kGet_bind) (simp_all add: retain_rules)
qed

lemma retains_reconcileNetworkPolicy: "podKey gw k n \<Longrightarrow> retains (holds k n) (reconcileNetworkPolicy E gw)"
  unfolding reconcileNetworkPolicy_def
  by (intro retain_rules retains_kGet_bind retains_kDelete) (auto simp: podKey_def dest: mayGet_key)

lemma retains_reconcileGatewayTLSCert:
  assumes "podKey gw k n"
  shows "retains (holds k n) (reconcileGatewayTLSCert E gw secretName hostname)"
proof -
  have "retains (holds k n) (kUpdate E (withBody b ob))" if "mayGet E KCertificate key (Inr ob)" for ob b key
    using mayGet_key [OF that] assms by (intro retains_kUpdate) (auto simp: podKey_def)
  then show ?thesis
    unfolding reconcileGatewayTLSCert_def syncCertificate_def
    by (intro retains_kGet_bind retain_rules) auto
qed

lemma retains_reconcileTLS: "podKey gw k n \<Longrightarrow> retains (holds k n) (reconcileTLS E P gw)"
  unfolding reconcileTLS_def reconcileSelfSignedTLS_def by (intro retain_rules retains_reconcileGatewayTLSCert)

lemma retains_reconcileDeployment: "retains (holds k n) (reconcileDeployment E gw)"
  unfolding reconcileDeployment_def ensureGatewayStatePVC_def databaseSecretRevision_def by (intro retain_rules)

lemma retains_keySteps:
  "retains (holds k n) (reconcileJWTKeys E P gw)" "retains (holds k n) (reconcileAuthBridgeKeys E P gw)"
  unfolding reconcileJWTKeys_def ensureEd25519KeySecret_def reconcileAuthBridgeKeys_def
  by (intro retain_rules)+

lemma retains_plainStep: "retains R (f gw) \<Longrightarrow> retains R (plainStep f gw)"
  unfolding plainStep_def by (intro retain_rules)

lemma retains_step:
  assumes "podKey gw k n" and "st \<in> set (steps E P)"
  shows "retains (holds k n) (snd st gw)"
proof -
  have ca: "gw_name gw @ authCASuffix \<noteq> gw_name gw @ ''-config''" "gw_name gw @ gatewayCASuffix \<noteq> gw_name gw @ ''-config''"
    by simp_all
  have simple: "retains (holds k n) (reconcileNamespace E gw)" "retains (holds k n) (reconcileGatewayServiceAccount E gw)"
    "retains (holds k n) (reconcileSandboxServiceAccount E gw)" "retains (holds k n) (reconcileClusterRole E gw)"
    "retains (holds k n) (reconcileClusterRoleBinding E gw)" "retains (holds k n) (reconcileRole E gw)"
    "retains (holds k n) (reconcileRoleBinding E gw)" "retains (holds k n) (reconcileConfigMap E gw)"
    "retains (holds k n) (reconcileService E gw)"
    unfolding reconcileNamespace_def reconcileGatewayServiceAccount_def reconcileSandboxServiceAccount_def
      reconcileClusterRole_def reconcileClusterRoleBinding_def reconcileRole_def reconcileRoleBinding_def
      reconcileConfigMap_def reconcileService_def
    by (intro retain_rules)+
  have cas: "retains (holds k n) (reconcileAuthBridgeCA E gw)" "retains (holds k n) (reconcileGatewayCA E gw)"
    unfolding reconcileAuthBridgeCA_def reconcileGatewayCA_def
    by (intro retain_rules retains_reconcileCAConfigMap [OF assms(1) ca(1)] retains_reconcileCAConfigMap [OF assms(1) ca(2)])+
  show ?thesis
    using assms(2) simple cas retains_keySteps [of k n gw] retains_reconcileDeployment [of k n gw] retains_reconcileTLS [OF assms(1)]
      retains_reconcileNetworkPolicy [OF assms(1)]
    unfolding steps_def by (auto intro: retains_plainStep)
qed

lemma ranAll_retains:
  assumes "ranAll sts g s gw' t" and "podKey gw k n" and "sameGateway gw g"
    and "set sts \<subseteq> set (steps E P)" and "holds k n (world s)"
  shows "holds k n (world t)"
  using assms
proof (induction rule: ranAll.induct)
  case (ranAll_Cons st g s g' s' sts g'' s'')
  have "podKey g k n" using ranAll_Cons.prems(1,2) by (simp add: podKey_def sameGateway_def)
  then have "holds k n (world s')"
    using retains_step [of g k n st] ranAll_Cons.prems ranAll_Cons.hyps(1) by (simp add: retains_def) (metis snd_conv)
  moreover have "sameGateway gw g'"
    using same_steps [of st E P g] ranAll_Cons.prems ranAll_Cons.hyps(1) by (auto dest: resultsD sameGateway_trans)
  ultimately show ?case using ranAll_Cons.IH ranAll_Cons.prems by simp
qed simp

text \<open>What one step secures is there at the end.\<close>

lemma ranAll_secures:
  assumes "ranAll sts g s gw' t" and "podKey gw k n" and "sameGateway gw g"
    and "set sts \<subseteq> set (steps E P)" and "st \<in> set sts"
    and "\<And>g. sameGateway gw g \<Longrightarrow> secures (\<lambda>r. snd r = None) (holds k n) (snd st g)"
  shows "holds k n (world t)"
  using assms
proof (induction rule: ranAll.induct)
  case (ranAll_Cons st' g s g' s' sts g'' s'')
  have same: "sameGateway gw g'"
    using same_steps [of st' E P g] ranAll_Cons.prems ranAll_Cons.hyps(1) by (auto dest: resultsD sameGateway_trans)
  show ?case
  proof (cases "st = st'")
    case True
    have "holds k n (world s')"
      using ranAll_Cons.prems(5) [OF ranAll_Cons.prems(2)] ranAll_Cons.hyps(1) True
      by (simp add: secures_def) (metis fst_conv snd_conv)
    then show ?thesis using ranAll_retains [OF ranAll_Cons.hyps(2) ranAll_Cons.prems(1) same] ranAll_Cons.prems(3) by simp
  next
    case False
    then show ?thesis using ranAll_Cons.IH same ranAll_Cons.prems by simp
  qed
qed simp

text \<open>What each step secures.\<close>

lemma secures_plainStep: "secures (\<lambda>r. r = None) R (f gw) \<Longrightarrow> secures (\<lambda>r. snd r = None) R (plainStep f gw)"
  unfolding plainStep_def by (auto simp: secures_def split_beta)

lemma secures_reconcileConfigMap:
  "secures (\<lambda>r. r = None) (holds KConfigMap (nsn (gatewayNamespace gw) (gw_name gw @ ''-config''))) (reconcileConfigMap E gw)"
  unfolding reconcileConfigMap_def
  by (intro secures_later secures_Let secures_ensure [of _ "mkObj KConfigMap (metaFor (gw_name gw @ ''-config'') (gatewayNamespace gw))
      (BConfigMap \<lparr>cfg_data = [], cfg_binaryData = []\<rparr>)", simplified])
    (simp_all add: withLabels_def)

lemma secures_createKey:
  "secures (\<lambda>r. r = None) (holds KSecret (nsn (gatewayNamespace gw) name))
     (do { c \<leftarrow> kCreate E (keySecret gw name keys); ret (errOf c) })"
  using secures_kCreate [of "keySecret gw name keys"]
  by (auto simp: secures_def split_beta keySecret_def errOf_def split: sum.splits)

lemma secures_keySteps:
  "secures (\<lambda>r. r = None) (holds KSecret (nsn (gatewayNamespace gw) (gw_name gw @ ''-jwt-keys''))) (reconcileJWTKeys E P gw)"
  "secures (\<lambda>r. r = None) (holds KSecret (nsn (gatewayNamespace gw) (gw_name gw @ ''-auth-bridge-keys''))) (reconcileAuthBridgeKeys E P gw)"
  unfolding reconcileJWTKeys_def ensureEd25519KeySecret_def reconcileAuthBridgeKeys_def Let_def
  by (rule secures_now [OF secures_kGet], intro retain_rules,
      (intro secure_rules secures_later [where m = "GenerateJWTKeys E P"] secures_later [where m = "GenerateRSAKeys E P"]
        secures_createKey secures_ret; simp))+

lemma secures_clientSecret:
  "secures (\<lambda>r. r = None) (holds KSecret (nsn ns name)) (ensure E (emptySecret name ns) (clientTLSSecret gw bd))"
  by (rule secures_ensure [of _ "emptySecret name ns", simplified]; simp add: clientTLSSecret_def withLabels_def)

lemma secures_selfSigned:
  "secures (\<lambda>r. r = None) (holds KSecret (nsn (gatewayNamespace gw) (gw_name gw @ ''-client-tls''))) (reconcileSelfSignedTLS E P gw)"
  unfolding reconcileSelfSignedTLS_def Let_def
  apply (rule secures_later, rule secures_option)
   apply (rule secures_now [OF secures_kGet], intro retain_rules)
   apply (intro secure_rules secures_later [where m = "GeneratePKI E P (computeServerSANs gw)"]
      secures_later [where m = "ensure E (emptySecret (gw_name gw @ ''-server-tls'') (gatewayNamespace gw)) f" for f]
      secures_now [OF secures_clientSecret] retain_rules secures_ret)
  apply (auto split: sum.splits intro: retain_rules secures_ret)
  done

lemma secures_reconcileTLS:
  assumes "tlsEnabled gw" and "tls_serverCertSecretName (gs_tls (gw_spec gw)) = []"
  shows "secures (\<lambda>r. r = None) (holds KSecret (nsn (gatewayNamespace gw) (gw_name gw @ ''-client-tls''))) (reconcileTLS E P gw)"
proof -
  have cert: "retains (holds KSecret n) (reconcileGatewayTLSCert E gw secretName hostname)" for n secretName hostname
    by (rule retains_reconcileGatewayTLSCert) (simp add: podKey_def)
  show ?thesis
    unfolding reconcileTLS_def
    apply (simp only: assms simp_thms if_False)
    apply (rule secures_now [OF secures_selfSigned], intro retain_rules cert)
    apply (auto intro: secures_ret split: option.splits)
    done
qed

text \<open>The step that publishes the gateway's CA reads the server certificate the pod mounts.\<close>

lemma secures_reconcileGatewayCA:
  assumes "tlsEnabled gw" and "name = (let configured = tls_serverCertSecretName (gs_tls (gw_spec gw)) in
      if configured \<noteq> [] then configured else gw_name gw @ ''-server-tls'')"
  shows "secures (\<lambda>r. r = None) (holds KSecret (nsn (gatewayNamespace gw) name)) (reconcileGatewayCA E gw)"
proof -
  have "secures (\<lambda>r. \<exists>ca. r = Inr ca) (holds KSecret (nsn (gatewayNamespace gw) name)) (serverTLSCA E gw)"
    unfolding serverTLSCA_def Let_def assms(2) [unfolded Let_def, symmetric]
    by (rule secures_now [OF secures_kGet], intro retain_rules, intro secure_rules secures_ret) auto
  then show ?thesis
    unfolding reconcileGatewayCA_def reconcileCAConfigMap_def using assms(1)
    by (simp add: Let_def, intro secures_now retain_rules) (auto intro: retain_rules secures_ret split: sum.splits)
qed

lemma secures_reconcileDeployment:
  "secures (\<lambda>r. snd r = None) (holds KPersistentVolumeClaim (nsn (gatewayNamespace gw) (gw_name gw @ ''-state''))) (reconcileDeployment E gw)"
  "databaseSecretName gw \<noteq> [] \<Longrightarrow>
   secures (\<lambda>r. snd r = None) (holds KSecret (nsn (gatewayNamespace gw) (databaseSecretName gw))) (reconcileDeployment E gw)"
proof -
  have pvc: "secures (\<lambda>r. r = None) (holds KPersistentVolumeClaim (nsn (gatewayNamespace gw) (gw_name gw @ ''-state'')))
      (ensureGatewayStatePVC E gw (gatewayNamespace gw))"
    unfolding ensureGatewayStatePVC_def
    by (rule secures_ensure [of _ "mkObj KPersistentVolumeClaim (metaFor (gw_name gw @ ''-state'') (gatewayNamespace gw)) BNone", simplified])
      (simp_all add: withLabels_def)
  show "secures (\<lambda>r. snd r = None) (holds KPersistentVolumeClaim (nsn (gatewayNamespace gw) (gw_name gw @ ''-state'')))
      (reconcileDeployment E gw)"
    unfolding reconcileDeployment_def databaseSecretRevision_def Let_def
    apply (rule secures_later, rule secures_now [OF pvc], intro retain_rules)
    apply (auto intro: secures_ret split: option.splits)
    done
  assume db: "databaseSecretName gw \<noteq> []"
  have rev: "secures (\<lambda>r. \<exists>v. r = Inr v) (holds KSecret (nsn (gatewayNamespace gw) (databaseSecretName gw))) (databaseSecretRevision E gw)"
    unfolding databaseSecretRevision_def Let_def using db
    by (simp, intro secures_now [OF secures_kGet] retain_rules) (auto intro: secures_ret split: sum.splits)
  show "secures (\<lambda>r. snd r = None) (holds KSecret (nsn (gatewayNamespace gw) (databaseSecretName gw))) (reconcileDeployment E gw)"
    unfolding reconcileDeployment_def Let_def
    apply (rule secures_later, rule secures_later, rule secures_option, rule secures_later, rule secures_sum)
       apply (rule secures_ret, simp)
      apply (rule secures_now [OF rev], intro retain_rules)
     apply (auto intro: secures_ret split: sum.splits)
    done
qed

lemma step_provides:
  assumes "ranAll sts gw s g u" and "set sts \<subseteq> set (steps E P)" and "(name, plainStep f) \<in> set sts" and "podKey gw k n"
    and "\<And>g. sameGateway gw g \<Longrightarrow> secures (\<lambda>r. r = None) (holds k n) (f g)"
  shows "holds k n (world u)"
  by (rule ranAll_secures [OF assms(1,4) sameGateway_refl assms(2,3)]) (simp add: secures_plainStep assms(5))

lemma volumes_before_deployment:
  assumes "ranAll (take 13 (steps E P)) gw s g u" and "(name, v) \<in> set (gatewayVolumes gw)" and "\<nexists>n. v = VolPVC n"
    and "\<not> (name = ''tls-client-ca'' \<and> tls_serverCertSecretName (gs_tls (gw_spec gw)) \<noteq> [])"
  shows "holds (fst (sourceKey v)) (nsn (gatewayNamespace gw) (snd (sourceKey v))) (world u)"
proof -
  note provides = step_provides [OF assms(1) set_take_subset]
  have key: "podKey gw KSecret n" for n by (simp add: podKey_def)
  have same: "gw_name g = gw_name gw" "gatewayNamespace g = gatewayNamespace gw" "gw_spec g = gw_spec gw"
    "tlsEnabled g = tlsEnabled gw" if "sameGateway gw g" for g
    using that by (simp_all add: sameGateway_def gatewayNamespace_def tlsEnabled_def)
  have config: "holds KConfigMap (nsn (gatewayNamespace gw) (gw_name gw @ ''-config'')) (world u)"
    by (rule provides [of "''ConfigMap''" "reconcileConfigMap E"])
      (simp add: steps_def, simp add: podKey_def, metis secures_reconcileConfigMap same(1,2))
  have jwt: "holds KSecret (nsn (gatewayNamespace gw) (gw_name gw @ ''-jwt-keys'')) (world u)"
    by (rule provides [of "''JWTKeys''" "reconcileJWTKeys E P", OF _ key]) (simp add: steps_def, metis secures_keySteps(1) same(1,2))
  have bridge: "holds KSecret (nsn (gatewayNamespace gw) (gw_name gw @ ''-auth-bridge-keys'')) (world u)"
    by (rule provides [of "''AuthBridgeKeys''" "reconcileAuthBridgeKeys E P", OF _ key]) (simp add: steps_def, metis secures_keySteps(2) same(1,2))
  let ?server = "let configured = tls_serverCertSecretName (gs_tls (gw_spec gw)) in
      if configured \<noteq> [] then configured else gw_name gw @ ''-server-tls''"
  have server: "holds KSecret (nsn (gatewayNamespace gw) ?server) (world u)" if "tlsEnabled gw"
    by (rule provides [of "''GatewayCA''" "reconcileGatewayCA E", OF _ key])
      (simp add: steps_def, metis secures_reconcileGatewayCA same that)
  have client: "holds KSecret (nsn (gatewayNamespace gw) (gw_name gw @ ''-client-tls'')) (world u)"
    if "tlsEnabled gw" "tls_serverCertSecretName (gs_tls (gw_spec gw)) = []"
    by (rule provides [of "''TLS''" "reconcileTLS E P", OF _ key])
      (simp add: steps_def, metis secures_reconcileTLS same that)
  show ?thesis
    using assms(2-4) config jwt bridge server client
    by (auto simp: gatewayVolumes_def sourceKey_def Let_def split: if_splits)
qed

end

section \<open>The in-memory store\<close>

definition memStored :: "memWorld \<Rightarrow> kind \<Rightarrow> nsName \<Rightarrow> bool" where
  "memStored w k n = list_ex (sameKey k (nn_namespace n) (nn_name n)) (mw_objs w)"

lemma memStored_update: "memStored (w\<lparr>mw_objs := map (\<lambda>x. if sameObj ob x then ob else x) (mw_objs w)\<rparr>) k n = memStored w k n"
proof -
  have "sameKey k ns m (if sameObj ob x then ob else x) = sameKey k ns m x" for ns m x by (auto simp: sameKey_def)
  then have "list_ex (sameKey k ns m) (map (\<lambda>x. if sameObj ob x then ob else x) obs) = list_ex (sameKey k ns m) obs" for ns m obs
    by (induction obs) simp_all
  then show ?thesis by (simp add: memStored_def)
qed

lemma sameObj_refl [simp]: "sameObj ob ob"
  by (simp add: sameKey_def)

lemma memStored_delete:
  "memStored w k n \<Longrightarrow> (k, n) \<noteq> (ob_kind ob, objKey ob) \<Longrightarrow>
   memStored (w\<lparr>mw_objs := filter (\<lambda>x. \<not> sameObj ob x) (mw_objs w)\<rparr>) k n"
  by (auto simp: memStored_def list_ex_iff sameKey_def)

lemma memStored_append [simp]:
  "memStored (w\<lparr>mw_objs := mw_objs w @ [ob]\<rparr>) k n = (memStored w k n \<or> sameKey k (nn_namespace n) (nn_name n) ob)"
  by (auto simp: memStored_def)

lemma memCommit_stored: "memStored (snd (memCommit old new w)) (ob_kind new) (objKey new)"
proof (cases "list_ex (sameObj new) (mw_objs w)")
  case True
  then show ?thesis by (simp add: memCommit_def memUpdate_def memStored_update) (simp add: memStored_def)
next
  case False
  then show ?thesis by (simp add: memCommit_def)
qed

interpretation memCluster: cluster_store memEnv memPki memStored
proof (unfold_locales, goal_cases)
  case (1 k n w ob w')
  then show ?case
    by (auto simp: memEnv_def memGet_def memStored_def list_ex_iff find_Some_iff split: option.splits)
next
  case (4 ob ob' w w')
  then show ?case using memCommit_stored [of ob ob' w] by (simp add: memEnv_def)
next
  case (3 obj w ob w')
  then show ?case by (auto simp: memEnv_def memFetch_def find_Some_iff sameKey_def split: option.splits)
qed (auto simp: memEnv_def memPki_def memGet_def memCreate_def memFetch_def memCommit_def memUpdate_def memDelete_def
    memStored_update memStored_delete split: option.splits if_splits)

section \<open>Properties\<close>

lemma ranAll_append:
  "ranAll (xs @ ys) gw s g t \<longleftrightarrow> (\<exists>g' u. ranAll xs gw s g' u \<and> ranAll ys g' u g t)"
proof (induction xs arbitrary: gw s)
  case (Cons st xs)
  then show ?case by (auto elim!: ranAll_ConsE intro: ranAll_Cons) (meson ranAll_Cons)+
qed simp

lemma ranAll_same:
  assumes "ranAll sts g s g' t" and "set sts \<subseteq> set (steps E P)" and "sameGateway gw g"
  shows "sameGateway gw g'"
  using assms
proof (induction rule: ranAll.induct)
  case (ranAll_Cons st g s g' s' sts g'' s'')
  then show ?case using same_steps [of st E P g] by (auto dest: resultsD sameGateway_trans)
qed

lemma volume_podKey:
  "(name, v) \<in> set (gatewayVolumes gw) \<Longrightarrow> podKey gw (fst (sourceKey v)) (nsn ns (snd (sourceKey v)))"
  by (auto simp: gatewayVolumes_def sourceKey_def podKey_def Let_def split: if_splits)

text \<open>
  C11: the pod of a gateway finds everything it mounts. In a cluster where nobody else deletes objects,
  when the core steps succeed, then already before the step that writes the Deployment every Secret and
  ConfigMap that a volume of the pod names is there, and afterwards so are its volume claim and the
  Secret its database address comes from; the one exception is the client CA of a gateway with a server
  certificate of its own.
\<close>

theorem pod_sources_provided:
  assumes "cluster_store E P stored" and "run_state (runSteps (steps E P) gw) s = (Inr gw', t)"
    and "there = (\<lambda>w v. stored w (fst (sourceKey v)) (nsn (gatewayNamespace gw) (snd (sourceKey v))))"
    and "external = (tls_serverCertSecretName (gs_tls (gw_spec gw)) \<noteq> [])"
  shows "\<exists>pre post g u. steps E P = pre @ (''Deployment'', reconcileDeployment E) # post \<and> ranAll pre gw s g u \<and>
    (\<forall>(name, v) \<in> set (gatewayVolumes gw). name = ''tls-client-ca'' \<and> external \<or>
       there (world t) v \<and> ((\<exists>claim. v = VolPVC claim) \<or> there (world u) v)) \<and>
    (\<forall>n key. (''OPENSHELL_DB_URL'', EnvSecretKeyRef n key) \<in> set (ct_env (gatewayContainer gw isOCP)) \<longrightarrow> n \<noteq> [] \<longrightarrow>
       stored (world t) KSecret (nsn (gatewayNamespace gw) n))"
proof -
  have ran: "ranAll (steps E P) gw s gw' t" using assms(2) by (simp add: runSteps_refines)
  have "ranAll (take 13 (steps E P) @ drop 13 (steps E P)) gw s gw' t" using ran by simp
  then obtain g u where pre: "ranAll (take 13 (steps E P)) gw s g u" and post: "ranAll (drop 13 (steps E P)) g u gw' t"
    unfolding ranAll_append by blast
  have before: "there (world u) v" if "(name, v) \<in> set (gatewayVolumes gw)" "\<nexists>n. v = VolPVC n"
      "\<not> (name = ''tls-client-ca'' \<and> external)" for name v
    using cluster_store.volumes_before_deployment [OF assms(1) pre that(1,2)] that(3) unfolding assms(3,4) by blast
  have after: "there (world t) v" if "(name, v) \<in> set (gatewayVolumes gw)" "there (world u) v" for name v
    using cluster_store.ranAll_retains [OF assms(1) post volume_podKey [OF that(1)]
        ranAll_same [OF pre set_take_subset sameGateway_refl] set_drop_subset] that(2) unfolding assms(3) by blast
  note dep = cluster_store.ranAll_secures [OF assms(1) ran _ sameGateway_refl subset_refl, of _ _ "(''Deployment'', reconcileDeployment E)"]
  have same: "gw_name g = gw_name gw" "gatewayNamespace g = gatewayNamespace gw" "databaseSecretName g = databaseSecretName gw"
    if "sameGateway gw g" for g
    using that by (simp_all add: sameGateway_def gatewayNamespace_def databaseSecretName_def)
  have claim: "stored (world t) KPersistentVolumeClaim (nsn (gatewayNamespace gw) (gw_name gw @ ''-state''))"
    by (rule dep) (simp add: podKey_def, simp add: steps_def, metis cluster_store.secures_reconcileDeployment(1) [OF assms(1)] same snd_conv)
  then have pvc: "there (world t) v" if "(name, v) \<in> set (gatewayVolumes gw)" "v = VolPVC n" for name v n
    using that unfolding assms(3) by (auto simp: gatewayVolumes_def sourceKey_def Let_def split: if_splits)
  have db: "stored (world t) KSecret (nsn (gatewayNamespace gw) (databaseSecretName gw))" if "databaseSecretName gw \<noteq> []"
    by (rule dep) (simp add: podKey_def, simp add: steps_def,
      metis cluster_store.secures_reconcileDeployment(2) [OF assms(1)] same that snd_conv)
  have env: "n = databaseSecretName gw" if "(''OPENSHELL_DB_URL'', EnvSecretKeyRef n key) \<in> set (ct_env (gatewayContainer gw isOCP))" for n key
    using that by (simp add: gatewayContainer_def)
  have "name = ''tls-client-ca'' \<and> external \<or> there (world t) v \<and> ((\<exists>claim. v = VolPVC claim) \<or> there (world u) v)"
    if "(name, v) \<in> set (gatewayVolumes gw)" for name v
    using before [OF that] after [OF that] pvc [OF that] by blast
  moreover have "steps E P = take 13 (steps E P) @ (''Deployment'', reconcileDeployment E) # drop 14 (steps E P)"
    by (simp add: steps_def)
  ultimately show ?thesis using pre db env by blast
qed

text \<open>
  The in-memory store answers every call, so a gateway without TLS and without a database Secret gets
  through all sixteen steps.
\<close>

definition succeeds :: "('w sys, 'a \<times> goerr option) state \<Rightarrow> bool" where
  "succeeds m = (\<forall>s. snd (fst (run_state m s)) = None)"

lemma succeeds_plainStep: "results (\<lambda>r. r = None) (f gw) \<Longrightarrow> succeeds (plainStep f gw)"
  unfolding plainStep_def by (simp add: succeeds_def results_def split_beta)

lemma mem_createOrUpdate:
  assumes "\<And>ob. results (\<lambda>r. \<exists>x. r = Inr x) (mutate ob)"
  shows "results (\<lambda>r. r = None) (createOrUpdate memEnv obj mutate)"
proof -
  have fetch: "results (\<lambda>r. \<exists>x. r = Inr x) (invoke (CFetch obj) (e_couFetch memEnv obj))"
    and commit: "results (\<lambda>r. r = None) (invoke (CCommit ob ob') (e_couCommit memEnv ob ob'))" for ob ob'
    by (auto simp: results_def invoke_def memEnv_def memFetch_def memCommit_def memUpdate_def split: option.splits)
  show ?thesis
    unfolding createOrUpdate_def by (rule results_bind_via [OF fetch]) (auto intro!: results_bind_via [OF assms] commit)
qed

lemma mem_ensure: "results (\<lambda>r. r = None) (ensure memEnv obj mutate)"
  unfolding ensure_def by (rule mem_createOrUpdate) (simp add: results_def)

lemma mem_caOff: "results (\<lambda>r. r = None) (reconcileCAConfigMap memEnv gw name False)"
  unfolding reconcileCAConfigMap_def Let_def
  by (auto simp: results_def kGet_def kDelete_def invoke_def memEnv_def memGet_def memDelete_def find_Some_iff list_ex_iff
      sameKey_def split: option.splits)

lemma mem_keys:
  "results (\<lambda>r. r = None) (reconcileJWTKeys memEnv memPki gw)"
  "results (\<lambda>r. r = None) (reconcileAuthBridgeKeys memEnv memPki gw)"
  unfolding reconcileJWTKeys_def ensureEd25519KeySecret_def reconcileAuthBridgeKeys_def GenerateJWTKeys_def GenerateRSAKeys_def
  by (auto simp: results_def kGet_def kCreate_def invoke_def silent_def memEnv_def memPki_def memGet_def memCreate_def
      find_None_iff list_ex_iff sameKey_def keySecret_def errOf_def Let_def split: option.splits)

lemma mem_deployment: "databaseSecretName gw = [] \<Longrightarrow> succeeds (reconcileDeployment memEnv gw)"
  unfolding reconcileDeployment_def ensureGatewayStatePVC_def databaseSecretRevision_def
  using mem_ensure
  by (auto simp: succeeds_def results_def invoke_def memEnv_def memFetch_def memCommit_def memUpdate_def Let_def split_beta split: option.splits)

lemma foreach_succeeds:
  assumes "\<And>x. results (\<lambda>r. r = Inr ()) (body x ())"
  shows "results (\<lambda>r. r = Inr ()) (foreach body xs ())"
  using assms by (induction xs) (simp_all add: results_def split_beta)

lemma mem_namespace: "results (\<lambda>r. r = None) (reconcileNamespace memEnv gw)"
  unfolding reconcileNamespace_def
  by (rule results_bind_via [OF foreach_succeeds], rule results_bind_via [OF mem_ensure]) (simp_all add: results_def)

lemma mem_steps:
  assumes "\<not> tlsEnabled gw" and "databaseSecretName gw = []" and "np_enabled (gs_networkPolicy (gw_spec gw)) \<noteq> Some False"
    and "st \<in> set (steps memEnv memPki)"
  shows "succeeds (snd st gw)"
proof -
  have "results (\<lambda>r. r = None) (reconcileTLS memEnv memPki gw)" "results (\<lambda>r. r = None) (reconcileConfigMap memEnv gw)"
    "results (\<lambda>r. r = None) (reconcileService memEnv gw)"
    unfolding reconcileTLS_def reconcileConfigMap_def reconcileService_def
    using assms(1) by (auto intro: result_rules mem_ensure intro!: mem_createOrUpdate)
  then show ?thesis
    using assms mem_ensure mem_namespace mem_caOff mem_keys mem_deployment [OF assms(2)]
    unfolding steps_def
    by (auto intro!: succeeds_plainStep simp: reconcileGatewayServiceAccount_def reconcileSandboxServiceAccount_def
        reconcileClusterRole_def reconcileClusterRoleBinding_def reconcileRole_def reconcileRoleBinding_def
        reconcileAuthBridgeCA_def reconcileGatewayCA_def reconcileNetworkPolicy_def)
qed

lemma ranAll_succeeds:
  assumes "\<And>st g. st \<in> set sts \<Longrightarrow> sameGateway gw g \<Longrightarrow> succeeds (snd st g)" and "set sts \<subseteq> set (steps E P)" and "sameGateway gw g"
  shows "\<exists>g' t. run_state (runSteps sts g) s = (Inr g', t)"
  using assms
proof (induction sts arbitrary: g s)
  case (Cons st sts)
  obtain g' err s' where run: "run_state (snd st g) s = ((g', err), s')" by (metis prod.exhaust)
  moreover have "err = None" using Cons.prems(1) [of st g] Cons.prems(3) run by (simp add: succeeds_def) (metis fst_conv snd_conv)
  moreover have "sameGateway gw g'" using same_steps [of st E P g] Cons.prems(2,3) run by (auto dest: resultsD sameGateway_trans)
  ultimately show ?case using Cons by (simp add: runSteps_Cons)
qed simp

lemma mem_run: "\<exists>g t. run_state (runSteps (steps memEnv memPki) exampleGateway) s = (Inr g, t)"
proof (rule ranAll_succeeds [OF mem_steps subset_refl sameGateway_refl])
  fix g assume "sameGateway exampleGateway g"
  then have spec: "gw_spec g = gw_spec exampleGateway" by (simp add: sameGateway_def)
  show "\<not> tlsEnabled g" "databaseSecretName g = []" "np_enabled (gs_networkPolicy (gw_spec g)) \<noteq> Some False"
    using spec by (simp_all add: tlsEnabled_def databaseSecretName_def exampleGateway_def zeroGatewaySpec_def)
qed

theorem pod_sources_provided_witness:
  "\<exists>g t. run_state (runSteps (steps memEnv memPki) exampleGateway) (memSys emptyWorld) = (Inr g, t) \<and>
     memStored (world t) KPersistentVolumeClaim (nsn ''ogo'' ''gw-state'') \<and>
     memStored (world t) KSecret (nsn ''ogo'' ''gw-jwt-keys'') \<and>
     memStored (world t) KConfigMap (nsn ''ogo'' ''gw-config'')"
proof -
  obtain g t where run: "run_state (runSteps (steps memEnv memPki) exampleGateway) (memSys emptyWorld) = (Inr g, t)"
    using mem_run by blast
  have vols: "set (gatewayVolumes exampleGateway) = {(''gateway-config'', VolConfigMap ''gw-config''),
      (''sandbox-jwt'', VolSecret ''gw-jwt-keys'' (Some 256) []),
      (''auth-bridge-keys'', VolSecret ''gw-auth-bridge-keys'' (Some 256) []), (''gateway-state'', VolPVC ''gw-state'')}"
    and ns: "gatewayNamespace exampleGateway = ''ogo''"
    by (simp_all add: gatewayVolumes_def tlsEnabled_def gatewayNamespace_def exampleGateway_def zeroGatewaySpec_def)
  show ?thesis
    using pod_sources_provided [OF memCluster.cluster_store_axioms run refl refl] run
    unfolding vols ns by (auto simp: sourceKey_def)
qed

end
