(* ===== verification/SecretWrites.thy ===== *)
theory SecretWrites
  imports Provisioned
begin

text \<open>
  Which Secrets a reconcile of the gateway writes, by the calls of its core steps and of its routing: the
  ones it generates itself, under names made from the gateway's. Two consequences: a Secret that the user
  supplies is never written, and in two configurations the pod refers to a Secret that nobody writes.
\<close>

section \<open>Writes of Secrets\<close>

definition touchesSecret :: "call \<Rightarrow> nsName option" where
  "touchesSecret c = (case c of
     CCreate ob \<Rightarrow> if ob_kind ob = KSecret then Some (objKey ob) else None
   | CUpdate ob \<Rightarrow> if ob_kind ob = KSecret then Some (objKey ob) else None
   | CFetch ob \<Rightarrow> if ob_kind ob = KSecret then Some (objKey ob) else None
   | _ \<Rightarrow> None)"

text \<open>A commit of \<open>CreateOrUpdate\<close> writes the object that the fetch before it names.\<close>

definition secretIn :: "string \<Rightarrow> string set \<Rightarrow> call \<Rightarrow> bool" where
  "secretIn ns names c = (case touchesSecret c of None \<Rightarrow> True | Some n \<Rightarrow> nn_namespace n = ns \<and> nn_name n \<in> names)"

lemma secretIn_simps [simp]:
  "secretIn ns names (CGet k n)" "secretIn ns names (CList k l)" "secretIn ns names (CStatusUpdate ob)"
  "secretIn ns names (CDelete ob)" "secretIn ns names (CCommit ob ob')" "secretIn ns names (CDiscover gv)"
  "secretIn ns names (CCreate ob) = (ob_kind ob = KSecret \<longrightarrow> ob_namespace ob = ns \<and> ob_name ob \<in> names)"
  "secretIn ns names (CUpdate ob) = (ob_kind ob = KSecret \<longrightarrow> ob_namespace ob = ns \<and> ob_name ob \<in> names)"
  "secretIn ns names (CFetch ob) = (ob_kind ob = KSecret \<longrightarrow> ob_namespace ob = ns \<and> ob_name ob \<in> names)"
  by (simp_all add: secretIn_def touchesSecret_def)

definition coreSecrets :: "openShellGateway \<Rightarrow> string set" where
  "coreSecrets gw = {gw_name gw @ ''-jwt-keys'', gw_name gw @ ''-auth-bridge-keys''} \<union>
     (if tlsEnabled gw \<and> tls_serverCertSecretName (gs_tls (gw_spec gw)) = []
      then {gw_name gw @ ''-server-tls'', gw_name gw @ ''-client-tls''} else {})"

definition edgeSecrets :: "openShellGateway \<Rightarrow> bool \<Rightarrow> bool \<Rightarrow> string set" where
  "edgeSecrets gw isOCP authEnabled =
     (if isOCP \<and> authEnabled \<and> \<not> browserSSOMissingHostname gw authEnabled then {gw_name gw @ ''-oauth-client''} else {})"

lemma secrets_sameGateway:
  assumes "sameGateway gw gw'"
  shows "coreSecrets gw' = coreSecrets gw" and "edgeSecrets gw' isOCP auth = edgeSecrets gw isOCP auth"
    and "gatewayNamespace gw' = gatewayNamespace gw"
  using assms
  by (simp_all add: sameGateway_def coreSecrets_def edgeSecrets_def tlsEnabled_def browserSSOMissingHostname_def routeEnabled_def
      gatewayNamespace_def)

context object_store
begin

abbreviation coreWrite :: "openShellGateway \<Rightarrow> call \<Rightarrow> bool" where
  "coreWrite gw \<equiv> secretIn (gatewayNamespace gw) (coreSecrets gw)"

lemma secretIn_TLSCert: "onlyCalls (secretIn ns names) (reconcileGatewayTLSCert E gw secretName hostname)"
proof -
  have "onlyCalls (secretIn ns names) (kUpdate E (withBody b ob))" if "mayGet E KCertificate key (Inr ob)" for ob b key
    unfolding prim_defs using mayGet_key [OF that] by (intro call_rules) simp
  then show ?thesis
    unfolding reconcileGatewayTLSCert_def syncCertificate_def Let_def
    by (intro onlyCalls_kGet_bind call_rules; simp add: prim_defs certificateObj_def onlyCalls_invoke)
qed

lemma secretIn_TLS: "onlyCalls (coreWrite gw) (reconcileTLS E P gw)"
  unfolding reconcileTLS_def reconcileSelfSignedTLS_def Let_def kGet_def
  by (intro call_rules secretIn_TLSCert; simp add: coreSecrets_def)

lemma secretIn_CA:
  "onlyCalls (secretIn ns names) (reconcileAuthBridgeCA E gw)" "onlyCalls (secretIn ns names) (reconcileGatewayCA E gw)"
proof -
  have "onlyCalls (secretIn ns names) (reconcileCAConfigMap E gw name enabled)" for name enabled
    unfolding reconcileCAConfigMap_def serverTLSCA_def prim_defs by (intro call_rules) simp_all
  then show "onlyCalls (secretIn ns names) (reconcileAuthBridgeCA E gw)" "onlyCalls (secretIn ns names) (reconcileGatewayCA E gw)"
    unfolding reconcileAuthBridgeCA_def reconcileGatewayCA_def by (auto intro!: call_rules)
qed

lemma secretIn_steps:
  assumes "st \<in> set (steps E P)"
  shows "onlyCalls (coreWrite gw) (snd st gw)"
proof -
  have plain: "onlyCalls (coreWrite gw) (plainStep f gw)" if "onlyCalls (coreWrite gw) (f gw)" for f
    unfolding plainStep_def using that by (intro call_rules)
  have simple: "onlyCalls (coreWrite gw) (reconcileNamespace E gw)" "onlyCalls (coreWrite gw) (reconcileGatewayServiceAccount E gw)"
    "onlyCalls (coreWrite gw) (reconcileSandboxServiceAccount E gw)" "onlyCalls (coreWrite gw) (reconcileClusterRole E gw)"
    "onlyCalls (coreWrite gw) (reconcileClusterRoleBinding E gw)" "onlyCalls (coreWrite gw) (reconcileRole E gw)"
    "onlyCalls (coreWrite gw) (reconcileRoleBinding E gw)" "onlyCalls (coreWrite gw) (reconcileConfigMap E gw)"
    "onlyCalls (coreWrite gw) (reconcileService E gw)" "onlyCalls (coreWrite gw) (reconcileNetworkPolicy E gw)"
    unfolding reconcileNamespace_def reconcileGatewayServiceAccount_def reconcileSandboxServiceAccount_def
      reconcileClusterRole_def reconcileClusterRoleBinding_def reconcileRole_def reconcileRoleBinding_def reconcileConfigMap_def
      reconcileService_def reconcileNetworkPolicy_def prim_defs Let_def
    by ((intro call_rules; simp)+)
  have keys: "onlyCalls (coreWrite gw) (reconcileJWTKeys E P gw)" "onlyCalls (coreWrite gw) (reconcileAuthBridgeKeys E P gw)"
    unfolding reconcileJWTKeys_def reconcileAuthBridgeKeys_def ensureEd25519KeySecret_def prim_defs Let_def
    by (intro call_rules; simp add: keySecret_def coreSecrets_def)+
  have deployment: "onlyCalls (coreWrite gw) (reconcileDeployment E gw)"
    unfolding reconcileDeployment_def ensureGatewayStatePVC_def databaseSecretRevision_def Let_def prim_defs
    by (intro call_rules; simp)
  show ?thesis
    using assms unfolding steps_def by (auto intro!: plain simple secretIn_TLS secretIn_CA keys deployment)
qed

lemma secretIn_runSteps: "onlyCalls (coreWrite gw) (runSteps (steps E P) gw)"
  unfolding runSteps_def
proof (rule onlyCalls_foreach_inv [where I = "sameGateway gw" and J = "\<lambda>_. True"], goal_cases)
  case 1
  show ?case by (rule sameGateway_refl)
next
  case (2 st g)
  have "onlyCalls (coreWrite gw) (snd st g)" using secretIn_steps [OF 2(1), of g] secrets_sameGateway [OF 2(2)] by simp
  then show ?case by (intro call_rules)
next
  case (3 st g)
  show ?case
    by (rule results_bind_via [OF same_steps [OF 3(1), of g]], intro result_rules)
      (use 3(2) in \<open>auto intro: sameGateway_trans\<close>)
qed

lemma secretIn_GatewayAPI: "onlyCalls (secretIn ns names) (reconcileGatewayAPI E gw)"
  unfolding reconcileGatewayAPI_def reconcileGatewayCR_def reconcileGRPCRoute_def reconcileTrafficPolicy_def Let_def prim_defs
  by (intro call_rules secretIn_TLSCert; simp add: gatewayObjFor_def grpcRouteObj_def trafficPolicyObj_def)

lemma secretIn_MainRoute: "onlyCalls (secretIn ns names) (reconcileMainRoute E gw useGWAPI)"
  unfolding reconcileMainRoute_def reconcileEnvoyRoute_def createEnvoyRoute_def syncEnvoyRoute_def reconcileRoute_def Let_def prim_defs
  by (intro call_rules; simp add: envoyRouteObj_def routeObj_def)

lemma secretIn_BrowserSSO:
  "onlyCalls (secretIn (gatewayNamespace gw) (edgeSecrets gw True auth)) (reconcileBrowserSSO E gw auth)"
proof -
  let ?P = "secretIn (gatewayNamespace gw) (edgeSecrets gw True auth)"
  have upd: "onlyCalls ?P (kUpdate E (withBody b ob))" if "ob_kind ob \<noteq> KSecret" for ob b
    unfolding prim_defs using that by (intro call_rules) simp
  have route: "onlyCalls ?P (reconcileAuthBridgeRoute E g)" for g
    unfolding reconcileAuthBridgeRoute_def authBridgeRouteTLS_def syncAuthRoute_def Let_def
    by (intro onlyCalls_kGet_bind call_rules upd; simp add: mayGet_key prim_defs routeObj_def onlyCalls_invoke)
  have oauth: "onlyCalls ?P (reconcileOAuthClient E g)"
    if "sameGateway gw g" "auth" "\<not> browserSSOMissingHostname gw auth" for g
    using that unfolding reconcileOAuthClient_def ensureOAuthSecret_def generateOAuthSecret_def randBytes_def syncOAuthClient_def Let_def
    by (intro onlyCalls_kGet_bind call_rules upd;
        simp add: mayGet_key prim_defs oauthSecretObj_def oauthClientObj_def onlyCalls_invoke edgeSecrets_def
          names_sameGateway)
  show ?thesis
    unfolding reconcileBrowserSSO_def Let_def by (intro call_rules route oauth; simp)
qed

lemma secretIn_OpenShiftRouting:
  "onlyCalls (secretIn (gatewayNamespace gw) (edgeSecrets gw True auth)) (reconcileOpenShiftRouting E gw useGWAPI auth)"
proof -
  let ?P = "secretIn (gatewayNamespace gw) (edgeSecrets gw True auth)"
  have clean: "onlyCalls ?P (reconcileObsoleteRoutes E gw useGWAPI auth)"
    unfolding reconcileObsoleteRoutes_def deleteEach_def prim_defs by (intro call_rules) simp_all
  have scc: "onlyCalls ?P (reconcileSCCBinding E g)" for g
    unfolding reconcileSCCBinding_def by (intro call_rules) simp_all
  have sso: "onlyCalls ?P (reconcileBrowserSSO E g auth)" if "sameGateway gw g" for g
    using secretIn_BrowserSSO [of g auth] secrets_sameGateway [OF that] by simp
  show ?thesis
    unfolding reconcileOpenShiftRouting_def
    apply (rule onlyCalls_bind [OF clean], rule onlyCalls_option)
     apply (rule onlyCalls_bind_via [OF secretIn_MainRoute same_reconcileMainRoute])
     apply (intro call_rules scc sso; simp)
    apply simp
    done
qed

lemma secretIn_Edge:
  "onlyCalls (secretIn (gatewayNamespace gw) (edgeSecrets gw isOCP auth)) (reconcileEdge E gw isOCP useGWAPI auth)"
proof -
  let ?P = "secretIn (gatewayNamespace gw) (edgeSecrets gw isOCP auth)"
  have api: "onlyCalls ?P (if useGWAPI then reconcileGatewayAPI E gw else ret (gw, None))"
    using secretIn_GatewayAPI by simp
  have same: "results (\<lambda>r. sameGateway gw (fst r)) (if useGWAPI then reconcileGatewayAPI E gw else ret (gw, None))"
    using same_reconcileGatewayAPI [of gw] by (auto simp: results_def sameGateway_def)
  show ?thesis unfolding reconcileEdge_def
  proof (rule onlyCalls_bind_via [OF api same], goal_cases)
    case (1 g)
    have "onlyCalls ?P (reconcileOpenShiftRouting E (fst g) useGWAPI auth)" if isOCP
      using secretIn_OpenShiftRouting [of "fst g" auth useGWAPI] secrets_sameGateway [OF 1] that by simp
    then show ?case by (intro call_rules)
  qed
qed

end

section \<open>Properties\<close>

lemma onlyCalls_new: "onlyCalls Q m \<Longrightarrow> c \<in> set (newCalls s (snd (run_state m s))) \<Longrightarrow> Q c"
  by (metis onlyCalls_newCalls prod.collapse)

text \<open>
  C5: the gateway controller writes no Secret but its own. Every Secret that a core step or the routing
  creates or updates lies in the gateway's namespace and is one of those the controller generates itself:
  the two key Secrets, the two TLS Secrets if it issues the certificates, and the OAuth client's Secret if
  browser login is set up. So a server certificate or a database Secret that the user supplies under
  a name of their own is only ever read.
\<close>

theorem own_secrets_only:
  assumes "object_store E" and "touchesSecret c = Some n"
    and "c \<in> set (newCalls s (snd (run_state (runSteps (steps E P) gw) s))) \<and> names = coreSecrets gw \<or>
      c \<in> set (newCalls s (snd (run_state (reconcileEdge E gw isOCP useGWAPI auth) s))) \<and> names = edgeSecrets gw isOCP auth"
  shows "nn_namespace n = gatewayNamespace gw \<and> nn_name n \<in> names"
proof -
  have "secretIn (gatewayNamespace gw) names c"
    using assms(3) onlyCalls_new [OF object_store.secretIn_runSteps [OF assms(1)]]
      onlyCalls_new [OF object_store.secretIn_Edge [OF assms(1)]] by blast
  then show ?thesis using assms(2) by (simp add: secretIn_def)
qed

text \<open>A gateway that is not exposed but has browser login, on OpenShift.\<close>

definition inwardGateway :: openShellGateway where
  "inwardGateway = exampleGateway\<lparr>gw_spec := (gw_spec exampleGateway)\<lparr>gs_route := (gs_route zeroGatewaySpec)\<lparr>rt_enabled := Some False\<rparr>\<rparr>\<rparr>"

theorem own_secrets_only_witness:
  "\<exists>c n. c \<in> set (newCalls (memSys emptyWorld) (snd (run_state (reconcileEdge memEnv inwardGateway True False True) (memSys emptyWorld)))) \<and>
     touchesSecret c = Some n \<and> nn_namespace n = gatewayNamespace inwardGateway \<and>
     nn_name n \<in> edgeSecrets inwardGateway True True"
proof -
  let ?cs = "newCalls (memSys emptyWorld) (snd (run_state (reconcileEdge memEnv inwardGateway True False True) (memSys emptyWorld)))"
  have "list_ex (\<lambda>c. touchesSecret c \<noteq> None) ?cs" by code_simp
  then obtain c n where c: "c \<in> set ?cs" "touchesSecret c = Some n" by (auto simp: list_ex_iff)
  then show ?thesis using own_secrets_only [OF memStore.object_store_axioms c(2)] by blast
qed

text \<open>
  Two Secrets that the pod refers to and that nobody writes: with a server certificate of the user's the
  pod still mounts the client CA from the Secret that only the self-signed branch writes, and without a
  host name the container of the auth bridge still takes its client secret from the Secret that only the
  skipped branch writes. A pod that refers to a missing Secret does not start.
\<close>

theorem pod_secret_never_written:
  assumes "object_store E"
    and "c \<in> set (newCalls s (snd (run_state (runSteps (steps E P) gw) s))) \<or>
      c \<in> set (newCalls s (snd (run_state (reconcileEdge E gw isOCP useGWAPI (authBridgeEnabled gw isOCP)) s)))"
  shows "tlsEnabled gw \<Longrightarrow> tls_serverCertSecretName (gs_tls (gw_spec gw)) \<noteq> [] \<Longrightarrow>
      (''tls-client-ca'', VolSecret (gw_name gw @ ''-client-tls'') None [(''ca.crt'', ''ca.crt'')]) \<in> set (pd_volumes (gatewayPodSpec gw isOCP)) \<and>
      touchesSecret c \<noteq> Some (nsn (gatewayNamespace gw) (gw_name gw @ ''-client-tls''))"
    and "browserSSOMissingHostname gw (authBridgeEnabled gw isOCP) \<Longrightarrow>
      authBridgeContainer gw \<in> set (pd_containers (gatewayPodSpec gw isOCP)) \<and>
      (''AUTH_BRIDGE_CLIENT_SECRET'', EnvSecretKeyRef (gw_name gw @ ''-oauth-client'') ''secret'') \<in> set (ct_env (authBridgeContainer gw)) \<and>
      touchesSecret c \<noteq> Some (nsn (gatewayNamespace gw) (gw_name gw @ ''-oauth-client''))"
proof -
  let ?auth = "authBridgeEnabled gw isOCP"
  have "secretIn (gatewayNamespace gw) (coreSecrets gw) c \<or> secretIn (gatewayNamespace gw) (edgeSecrets gw isOCP ?auth) c"
    using assms(2) onlyCalls_new [OF object_store.secretIn_runSteps [OF assms(1)]]
      onlyCalls_new [OF object_store.secretIn_Edge [OF assms(1)]] by blast
  then have written: "n \<in> coreSecrets gw \<or> n \<in> edgeSecrets gw isOCP ?auth"
    if "touchesSecret c = Some (nsn (gatewayNamespace gw) n)" for n
    using that by (auto simp: secretIn_def)
  show "(''tls-client-ca'', VolSecret (gw_name gw @ ''-client-tls'') None [(''ca.crt'', ''ca.crt'')]) \<in> set (pd_volumes (gatewayPodSpec gw isOCP)) \<and>
      touchesSecret c \<noteq> Some (nsn (gatewayNamespace gw) (gw_name gw @ ''-client-tls''))"
    if "tlsEnabled gw" "tls_serverCertSecretName (gs_tls (gw_spec gw)) \<noteq> []"
    using that written [of "gw_name gw @ ''-client-tls''"]
    by (auto simp: coreSecrets_def edgeSecrets_def gatewayPodSpec_def gatewayVolumes_def Let_def split: if_splits)
  show "authBridgeContainer gw \<in> set (pd_containers (gatewayPodSpec gw isOCP)) \<and>
      (''AUTH_BRIDGE_CLIENT_SECRET'', EnvSecretKeyRef (gw_name gw @ ''-oauth-client'') ''secret'') \<in> set (ct_env (authBridgeContainer gw)) \<and>
      touchesSecret c \<noteq> Some (nsn (gatewayNamespace gw) (gw_name gw @ ''-oauth-client''))"
    if "browserSSOMissingHostname gw ?auth"
    using that written [of "gw_name gw @ ''-oauth-client''"]
    by (auto simp: coreSecrets_def edgeSecrets_def gatewayPodSpec_def browserSSOMissingHostname_def authBridgeContainer_def authBridgeEnv_def
        Let_def split: if_splits)
qed

end
