(* ===== verification/Settles.thy ===== *)
theory Settles
  imports Provisioned
begin

text \<open>
  What the core steps of a gateway reconcile ask for, as one function from the object found to the object
  wanted, and that asking again changes nothing. Secrets are left out: their content is generated, and the
  steps that write them look first (\<open>tls_pair_consistent\<close>, \<open>ensureEd25519KeySecret\<close>).
\<close>

section \<open>The desired state\<close>

text \<open>
  The outside world enters through three values: whether the cluster is OpenShift, the revision of the database
  Secret and the CA of the server certificate.
\<close>

definition desired :: "'w env \<Rightarrow> openShellGateway \<Rightarrow> bool \<Rightarrow> string \<Rightarrow> string \<Rightarrow> kobj \<Rightarrow> kobj" where
  "desired E gw isOCP revision ca ob =
     (let labelled = withLabels (gatewayLabels gw) ob;
          binding = (\<lambda>kind name account ns. BBinding
            \<lparr>rf_apiGroup = ''rbac.authorization.k8s.io'', rf_kind = kind, rf_name = name\<rparr>
            [\<lparr>su_kind = ''ServiceAccount'', su_name = account, su_namespace = ns\<rparr>]) in
      case ob_kind ob of
        KNamespace \<Rightarrow> withLabels (AList.update labelManagedBy managedByValue (ob_labels ob)) ob
      | KServiceAccount \<Rightarrow> labelled
      | KClusterRole \<Rightarrow> withBody (BRules nodeReaderRules) labelled
      | KClusterRoleBinding \<Rightarrow> withBody (binding ''ClusterRole'' (gw_name gw @ ''-node-reader'') (gw_name gw) (gatewayNamespace gw)) labelled
      | KRole \<Rightarrow> withBody (BRules sandboxRules) labelled
      | KRoleBinding \<Rightarrow> withBody (binding ''Role'' (gw_name gw @ ''-sandbox'') (gw_name gw) (gatewayNamespace gw)) labelled
      | KConfigMap \<Rightarrow>
          if ob_name ob = gw_name gw @ ''-config''
          then withBody (BConfigMap ((configMapOf ob)
            \<lparr>cfg_data := [(''gateway.toml'', RenderGatewayTOML gw (sandboxNamespace gw) [oidcIssuerFor gw isOCP])]\<rparr>)) labelled
          else withBody (BConfigMap \<lparr>cfg_data = [(''ca.crt'', ca)], cfg_binaryData = []\<rparr>) labelled
      | KPersistentVolumeClaim \<Rightarrow> if isNew ob then withBody (BPVC gatewayStateClaim) labelled else ob
      | KDeployment \<Rightarrow> gatewayDeployment E gw isOCP revision ob
      | KService \<Rightarrow> withBody (BService \<lparr>sv_type = ''ClusterIP'', sv_selector = selectorLabels gw, sv_ports = servicePorts gw isOCP\<rparr>) labelled
      | KNetworkPolicy \<Rightarrow> withBody (BNetworkPolicy (sandboxNetworkPolicy gw)) labelled
      | _ \<Rightarrow> ob)"

text \<open>An object of the cluster with the content of another; identifiers, versions and times are the cluster's.\<close>

definition storedAs :: "kobj \<Rightarrow> kobj \<Rightarrow> bool" where
  "storedAs ob st = (ob_kind st = ob_kind ob \<and> objKey st = objKey ob \<and> ob_labels st = ob_labels ob \<and>
     om_annotations (ob_meta st) = om_annotations (ob_meta ob) \<and> ob_body st = ob_body ob \<and> \<not> isNew st)"

lemma withLabels_same: "ob_labels st = ls \<Longrightarrow> withLabels ls st = st"
  by (auto simp: withLabels_def)

lemma withLabels_sel [simp]:
  "ob_kind (withLabels ls ob) = ob_kind ob" "objKey (withLabels ls ob) = objKey ob" "ob_labels (withLabels ls ob) = ls"
  "ob_body (withLabels ls ob) = ob_body ob"
  by (simp_all add: withLabels_def)

lemma desired_key: "ob_kind (desired E gw isOCP revision ca ob) = ob_kind ob \<and> objKey (desired E gw isOCP revision ca ob) = objKey ob"
  by (simp add: desired_def gatewayDeployment_def Let_def withLabels_def split: kind.split)

lemma desired_stable:
  assumes "storedAs (desired E gw isOCP revision ca ob) st"
  shows "desired E gw isOCP revision ca st = st"
proof -
  have kind: "ob_kind st = ob_kind ob" and name: "ob_name st = ob_name ob" and old: "\<not> isNew st"
    using assms desired_key [of E gw isOCP revision ca ob] by (simp_all add: storedAs_def)
  have labels: "ob_labels st = ob_labels (desired E gw isOCP revision ca ob)"
    and body: "ob_body st = ob_body (desired E gw isOCP revision ca ob)"
    using assms by (simp_all add: storedAs_def)
  show ?thesis
    using labels body old
    by (cases "ob_kind ob") (simp_all add: desired_def kind name Let_def gatewayDeployment_def deploymentOf_def configMapOf_def
        withLabels_same update_conv' split: if_splits)
qed

section \<open>What the steps commit\<close>

text \<open>
  Where the three values come from: each is what the function that looks it up returned, if the object depends
  on it.
\<close>

definition mayReturn :: "('s, 'a) state \<Rightarrow> 'a \<Rightarrow> bool" where
  "mayReturn m x = (\<exists>s. fst (run_state m s) = x)"

definition lookedUp :: "'w env \<Rightarrow> openShellGateway \<Rightarrow> kobj \<Rightarrow> bool \<Rightarrow> string \<Rightarrow> string \<Rightarrow> bool" where
  "lookedUp E gw ob isOCP revision ca =
     (let config = (ob_kind ob = KConfigMap \<and> ob_name ob = gw_name gw @ ''-config'') in
      (config \<or> ob_kind ob = KDeployment \<or> ob_kind ob = KService \<longrightarrow> mayReturn (IsOpenShift E) isOCP) \<and>
      (ob_kind ob = KDeployment \<longrightarrow> mayReturn (databaseSecretRevision E gw) (Inr revision)) \<and>
      (ob_kind ob = KConfigMap \<and> \<not> config \<longrightarrow> mayReturn (serverTLSCA E gw) (Inr ca)))"

lemma results_mayReturn: "results (mayReturn m) m"
  by (auto simp: results_def mayReturn_def)

lemma onlyCalls_returned:
  "onlyCalls Q m \<Longrightarrow> (\<And>x. mayReturn m x \<Longrightarrow> onlyCalls Q (f x)) \<Longrightarrow> onlyCalls Q (State_Monad.bind m f)"
  by (rule onlyCalls_bind_via [OF _ results_mayReturn])

lemma results_returned: "(\<And>x. mayReturn m x \<Longrightarrow> results R (f x)) \<Longrightarrow> results R (State_Monad.bind m f)"
  by (rule results_bind_via [OF results_mayReturn])

text \<open>A commit of anything but a Secret is to the desired state.\<close>

definition commitsDesired :: "'w env \<Rightarrow> openShellGateway \<Rightarrow> call \<Rightarrow> bool" where
  "commitsDesired E gw c = (case c of
     CCommit ob ob' \<Rightarrow> ob_kind ob = KSecret \<or> (\<exists>isOCP revision ca. lookedUp E gw ob isOCP revision ca \<and> ob' = desired E gw isOCP revision ca ob)
   | _ \<Rightarrow> True)"

lemma commitsDesired_simps [simp]:
  "commitsDesired E gw (CGet k n)" "commitsDesired E gw (CCreate ob)" "commitsDesired E gw (CUpdate ob)"
  "commitsDesired E gw (CDelete ob)" "commitsDesired E gw (CFetch ob)" "commitsDesired E gw (CDiscover gv)"
  "ob_kind ob = KSecret \<Longrightarrow> commitsDesired E gw (CCommit ob ob')"
  "lookedUp E gw ob isOCP revision ca \<Longrightarrow> commitsDesired E gw (CCommit ob (desired E gw isOCP revision ca ob))"
  by (auto simp: commitsDesired_def)

text \<open>None of this depends on the status of the resource.\<close>

lemma settings_sameGateway:
  assumes "sameGateway gw g"
  shows "gatewayLabels g = gatewayLabels gw" and "selectorLabels g = selectorLabels gw" and "tlsEnabled g = tlsEnabled gw"
    and "authBridgeEnabled g = authBridgeEnabled gw" and "databaseSecretName g = databaseSecretName gw"
    and "logLevel g = logLevel gw" and "defaultImage g = defaultImage gw" and "supervisorImage g = supervisorImage gw"
    and "grpcEndpoint g = grpcEndpoint gw" and "authBridgeInternalURL g = authBridgeInternalURL gw"
    and "authBridgeExternalURL g = authBridgeExternalURL gw" and "authBridgeImage g = authBridgeImage gw"
    and "tokenTTL g = tokenTTL gw" and "imageConfig g = imageConfig gw" and "gw_spec g = gw_spec gw" and "gw_meta g = gw_meta gw"
  using assms
  by (simp_all add: sameGateway_def fun_eq_iff gatewayLabels_def selectorLabels_def tlsEnabled_def authBridgeEnabled_def
      databaseSecretName_def logLevel_def defaultImage_def supervisorImage_def grpcEndpoint_def authBridgeInternalURL_def
      authBridgeExternalURL_def authBridgeImage_def tokenTTL_def imageConfig_def gatewayNamespace_def clusterDomain_def routeEnabled_def Let_def)

lemma objects_sameGateway:
  assumes "sameGateway gw g"
  shows "RenderGatewayTOML g = RenderGatewayTOML gw" and "oidcIssuerFor g = oidcIssuerFor gw" and "servicePorts g = servicePorts gw"
    and "sandboxNetworkPolicy g = sandboxNetworkPolicy gw" and "gatewayPodSpec g = gatewayPodSpec gw"
  using settings_sameGateway [OF assms] names_sameGateway [OF assms]
  by (simp_all add: fun_eq_iff RenderGatewayTOML_def oidcIssuerFor_def servicePorts_def sandboxNetworkPolicy_def
      gatewayPodSpec_def gatewayContainer_def gatewayVolumes_def authBridgeContainer_def authBridgeEnv_def clusterDomain_def Let_def)

lemma desired_sameGateway:
  assumes "sameGateway gw g"
  shows "desired E g = desired E gw"
  using settings_sameGateway [OF assms] names_sameGateway [OF assms] objects_sameGateway [OF assms]
  by (simp add: fun_eq_iff desired_def gatewayDeployment_def gatewayTemplate_def configHashInput_def Let_def split: kind.split)

lemma lookedUp_sameGateway:
  assumes "sameGateway gw g"
  shows "lookedUp E g = lookedUp E gw"
proof -
  have "databaseSecretRevision E g = databaseSecretRevision E gw" "serverTLSCA E g = serverTLSCA E gw"
    unfolding databaseSecretRevision_def serverTLSCA_def settings_sameGateway [OF assms] names_sameGateway(2) [OF assms] by (rule refl)+
  then show ?thesis using settings_sameGateway(16) [OF assms] by (simp add: fun_eq_iff lookedUp_def)
qed

lemma commitsDesired_sameGateway: "sameGateway gw g \<Longrightarrow> commitsDesired E g = commitsDesired E gw"
  by (simp add: fun_eq_iff commitsDesired_def desired_sameGateway lookedUp_sameGateway split: call.split)

context cluster_store
begin

lemma results_fetch:
  "results (\<lambda>r. \<forall>ob. r = Inr ob \<longrightarrow> ob_kind ob = ob_kind obj \<and> objKey ob = objKey obj) (invoke (CFetch obj) (e_couFetch E obj))"
  unfolding results_def invoke_def using fetch_key by (auto split: prod.splits)

lemma onlyCalls_fetched:
  assumes "Q (CFetch obj)" and "\<And>ob. ob_kind ob = ob_kind obj \<Longrightarrow> objKey ob = objKey obj \<Longrightarrow> onlyCalls Q (f (Inr ob))"
    and "\<And>e. onlyCalls Q (f (Inl e))"
  shows "onlyCalls Q (State_Monad.bind (invoke (CFetch obj) (e_couFetch E obj)) f)"
proof (rule onlyCalls_bind_via [OF _ results_fetch])
  show "onlyCalls Q (invoke (CFetch obj) (e_couFetch E obj))" by (intro call_rules assms(1))
  show "onlyCalls Q (f r)" if "\<forall>ob. r = Inr ob \<longrightarrow> ob_kind ob = ob_kind obj \<and> objKey ob = objKey obj" for r
    using that assms(2,3) by (cases r) auto
qed

lemma commits_ensure:
  assumes "\<And>ob. ob_kind ob = ob_kind obj \<Longrightarrow> objKey ob = objKey obj \<Longrightarrow> commitsDesired E gw (CCommit ob (mutate ob))"
  shows "onlyCalls (commitsDesired E gw) (ensure E obj mutate)"
  unfolding ensure_eq by (rule onlyCalls_fetched) (auto intro!: call_rules assms)

lemma commits_ensure_desired:
  assumes "\<And>ob. ob_kind ob = ob_kind obj \<Longrightarrow> objKey ob = objKey obj \<Longrightarrow> \<exists>isOCP revision ca. lookedUp E gw ob isOCP revision ca \<and> mutate ob = desired E gw isOCP revision ca ob"
  shows "onlyCalls (commitsDesired E gw) (ensure E obj mutate)"
  using assms by (intro commits_ensure) (auto simp: commitsDesired_def)

lemma commits_simple:
  "onlyCalls (commitsDesired E gw) (reconcileGatewayServiceAccount E gw)" "onlyCalls (commitsDesired E gw) (reconcileSandboxServiceAccount E gw)"
  "onlyCalls (commitsDesired E gw) (reconcileClusterRole E gw)" "onlyCalls (commitsDesired E gw) (reconcileClusterRoleBinding E gw)"
  "onlyCalls (commitsDesired E gw) (reconcileRole E gw)" "onlyCalls (commitsDesired E gw) (reconcileRoleBinding E gw)"
  "onlyCalls (commitsDesired E gw) (ensureGatewayStatePVC E gw ns)"
  unfolding reconcileGatewayServiceAccount_def reconcileSandboxServiceAccount_def reconcileClusterRole_def
    reconcileClusterRoleBinding_def reconcileRole_def reconcileRoleBinding_def ensureGatewayStatePVC_def
  by (rule commits_ensure_desired, simp add: desired_def lookedUp_def)+

lemma commits_namespace: "onlyCalls (commitsDesired E gw) (reconcileNamespace E gw)"
  unfolding reconcileNamespace_def
  by (intro call_rules commits_ensure_desired) (simp_all add: desired_def lookedUp_def)

lemma commits_configMap: "onlyCalls (commitsDesired E gw) (reconcileConfigMap E gw)"
  unfolding reconcileConfigMap_def Let_def
  by (intro onlyCalls_returned commits_ensure_desired call_rules) (auto simp: desired_def lookedUp_def)

lemma commits_createOrUpdate:
  assumes "\<And>ob. onlyCalls (commitsDesired E gw) (mutate ob)"
    and "\<And>ob. ob_kind ob = ob_kind obj \<Longrightarrow> objKey ob = objKey obj \<Longrightarrow>
      results (\<lambda>r. \<forall>ob'. r = Inr ob' \<longrightarrow> (\<exists>isOCP revision ca. lookedUp E gw ob isOCP revision ca \<and> ob' = desired E gw isOCP revision ca ob)) (mutate ob)"
  shows "onlyCalls (commitsDesired E gw) (createOrUpdate E obj mutate)"
  unfolding createOrUpdate_def
proof (rule onlyCalls_fetched)
  fix ob assume ob: "ob_kind ob = ob_kind obj" "objKey ob = objKey obj"
  show "onlyCalls (commitsDesired E gw) (case Inr ob of Inl e \<Rightarrow> ret (Some e)
      | Inr ob \<Rightarrow> do { m \<leftarrow> mutate ob; (case m of Inl e \<Rightarrow> ret (Some e) | Inr ob' \<Rightarrow> invoke (CCommit ob ob') (e_couCommit E ob ob')) })"
    unfolding sum.case
    by (rule onlyCalls_bind_via [OF assms(1) assms(2) [OF ob]]) (auto intro!: call_rules simp: commitsDesired_def)
qed simp_all

lemma commits_service: "onlyCalls (commitsDesired E gw) (reconcileService E gw)"
  unfolding reconcileService_def
  by (intro commits_createOrUpdate call_rules results_returned results_return) (auto simp: desired_def lookedUp_def)

lemma commits_CA:
  assumes "name \<noteq> gw_name gw @ ''-config''"
  shows "onlyCalls (commitsDesired E gw) (reconcileCAConfigMap E gw name enabled)"
proof -
  have ca: "onlyCalls (commitsDesired E gw) (createOrUpdate E (mkObj KConfigMap (metaFor name ns) (BConfigMap \<lparr>cfg_data = [], cfg_binaryData = []\<rparr>))
      (\<lambda>ob. ret (caMutate gw name ca ob)))" if "mayReturn (serverTLSCA E gw) (Inr ca)" for ca ns
    by (intro commits_createOrUpdate call_rules result_rules) (use assms that in \<open>auto simp: desired_def caMutate_def lookedUp_def\<close>)
  have read: "onlyCalls (commitsDesired E gw) (serverTLSCA E gw)"
    unfolding serverTLSCA_def Let_def prim_defs by (intro call_rules) simp_all
  show ?thesis
    unfolding reconcileCAConfigMap_def Let_def prim_defs
    by (intro onlyCalls_if onlyCalls_returned [OF read] onlyCalls_sum ca) (auto intro!: call_rules split: sum.splits)
qed

lemma commits_TLS: "onlyCalls (commitsDesired E gw) (reconcileTLS E P gw)"
proof -
  have secret: "onlyCalls (commitsDesired E gw) (ensure E (emptySecret name ns) mutate)" for name ns mutate
    by (rule commits_ensure) simp
  show ?thesis
    unfolding reconcileTLS_def reconcileSelfSignedTLS_def reconcileGatewayTLSCert_def syncCertificate_def Let_def prim_defs
    by (intro call_rules secret) simp_all
qed

lemma commits_keys:
  "onlyCalls (commitsDesired E gw) (reconcileJWTKeys E P gw)" "onlyCalls (commitsDesired E gw) (reconcileAuthBridgeKeys E P gw)"
  unfolding reconcileJWTKeys_def ensureEd25519KeySecret_def reconcileAuthBridgeKeys_def Let_def prim_defs
  by ((intro call_rules; simp)+)

lemma commits_networkPolicy: "onlyCalls (commitsDesired E gw) (reconcileNetworkPolicy E gw)"
  unfolding reconcileNetworkPolicy_def Let_def prim_defs
  by (intro call_rules commits_ensure_desired) (simp_all add: desired_def lookedUp_def)

lemma commits_deployment: "onlyCalls (commitsDesired E gw) (reconcileDeployment E gw)"
proof -
  have commit: "commitsDesired E gw (CCommit ob (gatewayDeployment E gw isOCP revision ob))"
    if "ob_kind ob = KDeployment" "mayReturn (IsOpenShift E) isOCP" "mayReturn (databaseSecretRevision E gw) (Inr revision)" for isOCP revision ob
    using that commitsDesired_simps(8) [of E gw ob isOCP revision] by (simp add: desired_def lookedUp_def)
  have rev: "onlyCalls (commitsDesired E gw) (databaseSecretRevision E gw)"
    unfolding databaseSecretRevision_def Let_def prim_defs by (intro call_rules) simp_all
  have detect: "onlyCalls (commitsDesired E gw) (IsOpenShift E)" by (intro call_rules) simp
  show ?thesis
    unfolding reconcileDeployment_def Let_def
    by (intro onlyCalls_returned [OF detect] onlyCalls_bind [OF commits_simple(7)] onlyCalls_option onlyCalls_return
        onlyCalls_fetched) (auto intro!: call_rules onlyCalls_returned [OF rev] commit split: sum.splits)
qed

lemma commits_steps:
  assumes "st \<in> set (steps E P)"
  shows "onlyCalls (commitsDesired E gw) (snd st gw)"
proof -
  have plain: "onlyCalls (commitsDesired E gw) (plainStep f gw)" if "onlyCalls (commitsDesired E gw) (f gw)" for f
    unfolding plainStep_def using that by (intro call_rules)
  have cas: "onlyCalls (commitsDesired E gw) (reconcileAuthBridgeCA E gw)" "onlyCalls (commitsDesired E gw) (reconcileGatewayCA E gw)"
    unfolding reconcileAuthBridgeCA_def reconcileGatewayCA_def by (intro call_rules commits_CA; simp)+
  show ?thesis
    using assms unfolding steps_def
    by (auto intro!: plain commits_simple commits_namespace commits_TLS cas commits_keys commits_configMap commits_deployment
        commits_service commits_networkPolicy)
qed

lemma commits_runSteps: "onlyCalls (commitsDesired E gw) (runSteps (steps E P) gw)"
  unfolding runSteps_def
proof (rule onlyCalls_foreach_inv [where I = "sameGateway gw" and J = "\<lambda>_. True"], goal_cases)
  case (2 st g)
  have "onlyCalls (commitsDesired E gw) (snd st g)" using commits_steps [OF 2(1), of g] commitsDesired_sameGateway [OF 2(2), of E] by simp
  then show ?case by (intro call_rules)
next
  case (3 st g)
  show ?case
    by (rule results_bind_via [OF same_steps [OF 3(1), of g]], intro result_rules)
      (use 3(2) in \<open>auto intro: sameGateway_trans\<close>)
qed simp

end

section \<open>Properties\<close>

text \<open>
  C10: asking again changes nothing. Every object but the Secrets that the core steps of a gateway reconcile hand
  to the cluster through \<open>CreateOrUpdate\<close>, whether the run succeeds or not, is the object found there turned into
  the desired one, a function of the resource, of whether the cluster is OpenShift, of the revision of the
  database Secret and of the server's CA; and once the cluster stores it with that content, under
  whatever identifiers, versions and times it assigns, a later run with the same four inputs commits it exactly as
  found, so \<open>CreateOrUpdate\<close> writes nothing and the watches are not triggered by the controller's own work.
\<close>

theorem core_commits_stable:
  assumes "cluster_store E P stored" and "run_state (runSteps (steps E P) gw) s = (r, t)"
    and "CCommit ob ob' \<in> set (newCalls s t)" and "ob_kind ob \<noteq> KSecret"
  shows "\<exists>isOCP revision ca. lookedUp E gw ob isOCP revision ca \<and> ob' = desired E gw isOCP revision ca ob \<and> ob_kind ob' = ob_kind ob \<and> objKey ob' = objKey ob \<and>
    (\<forall>st. storedAs ob' st \<longrightarrow> desired E gw isOCP revision ca st = st)"
proof -
  have "commitsDesired E gw (CCommit ob ob')"
    by (rule onlyCalls_newCalls [OF cluster_store.commits_runSteps [OF assms(1)] assms(2,3)])
  then obtain isOCP revision ca where ob': "lookedUp E gw ob isOCP revision ca" "ob' = desired E gw isOCP revision ca ob"
    using assms(4) by (auto simp: commitsDesired_def)
  then show ?thesis using desired_key [of E gw isOCP revision ca ob] desired_stable [of E gw isOCP revision ca ob] by blast
qed

theorem core_commits_stable_witness:
  "\<exists>ob isOCP revision ca. ob_kind ob = KDeployment \<and>
     CCommit ob (desired memEnv exampleGateway isOCP revision ca ob) \<in> set (newCalls (memSys emptyWorld)
       (snd (run_state (runSteps (steps memEnv memPki) exampleGateway) (memSys emptyWorld)))) \<and>
     (\<forall>st. storedAs (desired memEnv exampleGateway isOCP revision ca ob) st \<longrightarrow> desired memEnv exampleGateway isOCP revision ca st = st)"
proof -
  let ?run = "run_state (runSteps (steps memEnv memPki) exampleGateway) (memSys emptyWorld)"
  have "list_ex (\<lambda>c. case c of CCommit ob ob' \<Rightarrow> ob_kind ob = KDeployment | _ \<Rightarrow> False) (newCalls (memSys emptyWorld) (snd ?run))"
    by code_simp
  then obtain c where c: "c \<in> set (newCalls (memSys emptyWorld) (snd ?run))"
    "case c of CCommit ob ob' \<Rightarrow> ob_kind ob = KDeployment | _ \<Rightarrow> False" by (auto simp: list_ex_iff)
  from c(2) obtain ob ob' where "c = CCommit ob ob'" and kind: "ob_kind ob = KDeployment" by (cases c rule: call.exhaust) simp_all
  then have commit: "CCommit ob ob' \<in> set (newCalls (memSys emptyWorld) (snd ?run))" using c(1) by simp
  from core_commits_stable [OF memCluster.cluster_store_axioms prod.collapse [symmetric] commit] kind commit
  show ?thesis by auto
qed

end
