(* ===== verification/OpenShiftClient.thy ===== *)
theory OpenShiftClient
  imports Jwt FakeGateway
begin

text \<open>
  \<^verbatim>\<open>src/internal/authbridge/openshift.go\<close>: the auth-bridge's client of the OpenShift OAuth server, the
  users API, the Group resources and the TokenReview API.

  \<open>benv\<close> is the environment of the auth-bridge: the HTTP client, the file system, the process
  environment, and the pure functions of the URL, JSON and base64 packages are parameters. \<open>b_env\<close> is
  the part it shares with the controllers (clock, random source, RSA, JSON encoder). A decoded JSON
  body is what \<^verbatim>\<open>encoding/json\<close> returns for the struct the code declares.
\<close>

section \<open>Environment\<close>

record httpRequest =
  ho_method :: string
  ho_url :: string
  ho_headers :: smap
  ho_body :: string
  ho_followRedirects :: bool

record httpResponse =
  hr_status :: nat
  hr_body :: string

record urlParts =
  u_scheme :: string
  u_host :: string
  u_path :: string
  u_query :: smap
  u_rest :: string

record rawUser =
  ru_name :: string
  ru_uid :: string
  ru_groups :: "string list"

record rawReview =
  rv_authenticated :: bool
  rv_uid :: string

record tokenResponse =
  tr_accessToken :: string
  tr_tokenType :: string
  tr_expiresIn :: int
  tr_refreshToken :: string

record 'w benv =
  b_env :: "'w env"
  b_do :: "httpRequest \<Rightarrow> 'w \<Rightarrow> (goerr + httpResponse) \<times> 'w"
  b_requestErr :: "string \<Rightarrow> string \<Rightarrow> goerr option"
  b_readFile :: "string \<Rightarrow> 'w \<Rightarrow> (goerr + string) \<times> 'w"
  b_getenv :: "string \<Rightarrow> string"
  b_parseURL :: "string \<Rightarrow> goerr + urlParts"
  b_urlString :: "urlParts \<Rightarrow> string"
  b_pathEscape :: "string \<Rightarrow> string"
  b_encodeValues :: "smap \<Rightarrow> string"
  b_basicAuth :: "string \<Rightarrow> string \<Rightarrow> string"
  b_decodeToken :: "string \<Rightarrow> goerr + tokenResponse"
  b_decodeUser :: "string \<Rightarrow> goerr + rawUser"
  b_decodeReview :: "string \<Rightarrow> goerr + rawReview"
  b_decodeGroup :: "string \<Rightarrow> goerr + string list"
  b_b64Std :: "string \<Rightarrow> goerr + string"
  b_b64RawStd :: "string \<Rightarrow> goerr + string"

abbreviation httpDo :: "'w benv \<Rightarrow> httpRequest \<Rightarrow> ('w sys, goerr + httpResponse) state" where
  "httpDo B q \<equiv> silent (b_do B q)"

abbreviation readFile :: "'w benv \<Rightarrow> string \<Rightarrow> ('w sys, goerr + string) state" where
  "readFile B path \<equiv> silent (b_readFile B path)"

section \<open>Definitions\<close>

abbreviation "grantAuthorizationCode \<equiv> ''authorization_code''"
abbreviation "defaultSATokenPath \<equiv> ''/var/run/secrets/kubernetes.io/serviceaccount/token''"

record openShiftClient =
  oc_oauthServerURL :: string
  oc_clientID :: string
  oc_clientSecret :: string
  oc_SATokenPath :: string

definition NewOpenShiftClient :: "string \<Rightarrow> string \<Rightarrow> string \<Rightarrow> openShiftClient" where
  "NewOpenShiftClient oauthServerURL clientID clientSecret =
     \<lparr>oc_oauthServerURL = trimRightByte oauthServerURL (CHR ''/''), oc_clientID = clientID,
      oc_clientSecret = clientSecret, oc_SATokenPath = defaultSATokenPath\<rparr>"

definition AuthorizationURL :: "openShiftClient \<Rightarrow> string" where
  "AuthorizationURL c = oc_oauthServerURL c @ ''/oauth/authorize''"

definition TokenURL :: "openShiftClient \<Rightarrow> string" where
  "TokenURL c = oc_oauthServerURL c @ ''/oauth/token''"

definition kubeAPIURL :: "'w benv \<Rightarrow> string" where
  "kubeAPIURL B =
     (let u = b_getenv B ''KUBERNETES_API_URL'' in
      trimRightByte (if u = [] then ''https://kubernetes.default.svc:443'' else u) (CHR ''/''))"

definition ExchangeCode :: "'w benv \<Rightarrow> openShiftClient \<Rightarrow> string \<Rightarrow> string \<Rightarrow>
    ('w sys, goerr + tokenResponse) state" where
  "ExchangeCode B c code redirectURI =
     (let data = [(''grant_type'', grantAuthorizationCode), (''code'', code), (''redirect_uri'', redirectURI)] in
      case b_requestErr B ''POST'' (TokenURL c) of
        Some e \<Rightarrow> ret (Inl (Wrapf ''creating token request: '' e []))
      | None \<Rightarrow> do {
          r \<leftarrow> httpDo B \<lparr>ho_method = ''POST'', ho_url = TokenURL c,
                 ho_headers = [(''Content-Type'', ''application/x-www-form-urlencoded''),
                               (''Authorization'', b_basicAuth B (oc_clientID c) (oc_clientSecret c))],
                 ho_body = b_encodeValues B data, ho_followRedirects = True\<rparr>;
          (case r of
            Inl e \<Rightarrow> ret (Inl (Wrapf ''token exchange: '' e []))
          | Inr resp \<Rightarrow>
              if hr_status resp \<noteq> 200
              then ret (Inl (Errorf (''token exchange failed ('' @ natDec (hr_status resp) @ ''): '' @
                     take 65536 (hr_body resp))))
              else (case b_decodeToken B (hr_body resp) of
                      Inl e \<Rightarrow> ret (Inl (Wrapf ''decoding token response: '' e []))
                    | Inr t \<Rightarrow> ret (Inr t)))
        })"

text \<open>The entry of a Group's user list: plain, or base64 after the prefix \<open>b64:\<close>.\<close>

definition groupCandidate :: "'w benv \<Rightarrow> string \<Rightarrow> string option" where
  "groupCandidate B u =
     (if hasPrefix u ''b64:''
      then (case b_b64Std B (trimPrefix u ''b64:'') of
              Inr d \<Rightarrow> Some d
            | Inl _ \<Rightarrow> (case b_b64RawStd B (trimPrefix u ''b64:'') of Inr d \<Rightarrow> Some d | Inl _ \<Rightarrow> None))
      else Some u)"

definition readSAToken :: "'w benv \<Rightarrow> openShiftClient \<Rightarrow> ('w sys, goerr + string) state" where
  "readSAToken B c = do {
     r \<leftarrow> readFile B (oc_SATokenPath c);
     (case r of
       Inl e \<Rightarrow> ret (Inl (Errorf ''reading service account token failed''))
     | Inr raw \<Rightarrow>
        (let saToken = trimSpace raw in
         if saToken = [] then ret (Inl (Errorf ''service account token file is empty''))
         else ret (Inr saToken)))
   }"

definition groupURL :: "'w benv \<Rightarrow> string \<Rightarrow> string" where
  "groupURL B g = kubeAPIURL B @ ''/apis/user.openshift.io/v1/groups/'' @ b_pathEscape B g"

definition groupRequest :: "'w benv \<Rightarrow> string \<Rightarrow> string \<Rightarrow> httpRequest" where
  "groupRequest B saToken g = \<lparr>ho_method = ''GET'', ho_url = groupURL B g,
     ho_headers = [(''Authorization'', ''Bearer '' @ saToken)], ho_body = [], ho_followRedirects = False\<rparr>"

definition usersURL :: "'w benv \<Rightarrow> string" where
  "usersURL B = kubeAPIURL B @ ''/apis/user.openshift.io/v1/users/~''"

definition usersRequest :: "'w benv \<Rightarrow> string \<Rightarrow> httpRequest" where
  "usersRequest B token = \<lparr>ho_method = ''GET'', ho_url = usersURL B,
     ho_headers = [(''Authorization'', ''Bearer '' @ token)], ho_body = [], ho_followRedirects = True\<rparr>"

definition groupLookup :: "'w benv \<Rightarrow> string \<Rightarrow> string \<Rightarrow> string \<Rightarrow> string list \<Rightarrow>
    ('w sys, goerr + string list) state" where
  "groupLookup B username saToken groupName matched =
     (if groupName = [] then ret (Inr matched)
      else (case b_requestErr B ''GET'' (groupURL B groupName) of
          Some e \<Rightarrow> ret (Inl e)
        | None \<Rightarrow> do {
            r \<leftarrow> httpDo B (groupRequest B saToken groupName);
            (case r of
              Inl e \<Rightarrow> ret (Inl (Wrapf (''group lookup for '' @ quote groupName @ '': '') e []))
            | Inr resp \<Rightarrow>
                if hr_status resp = 404 then ret (Inr matched)
                else if hr_status resp \<noteq> 200
                then ret (Inl (Errorf (''group lookup for '' @ quote groupName @ '' failed with status '' @
                       natDec (hr_status resp))))
                else (case b_decodeGroup B (take 1048576 (hr_body resp)) of
                        Inl e \<Rightarrow> ret (Inl (Wrapf (''decoding group '' @ groupName @ '': '') e []))
                      | Inr users \<Rightarrow>
                          ret (Inr (if list_ex (\<lambda>u. groupCandidate B u = Some username) users
                                    then matched @ [groupName] else matched))))
          }))"

definition checkGroupMemberships :: "'w benv \<Rightarrow> openShiftClient \<Rightarrow> string \<Rightarrow> string list \<Rightarrow>
    ('w sys, goerr + string list) state" where
  "checkGroupMemberships B c username groupNames = do {
     t \<leftarrow> readSAToken B c;
     (case t of
       Inl e \<Rightarrow> ret (Inl e)
     | Inr saToken \<Rightarrow> foreach (groupLookup B username saToken) groupNames [])
   }"

definition tokenReviewUID :: "'w benv \<Rightarrow> openShiftClient \<Rightarrow> string \<Rightarrow> ('w sys, goerr + string) state" where
  "tokenReviewUID B c token = do {
     t \<leftarrow> readSAToken B c;
     (case t of
       Inl e \<Rightarrow> ret (Inl e)
     | Inr saToken \<Rightarrow>
        (case e_jsonMarshal (b_env B) (JMap [(''apiVersion'', JStr ''authentication.k8s.io/v1''),
                (''kind'', JStr ''TokenReview''), (''spec'', JMap [(''token'', JStr token)])]) of
           Inl e \<Rightarrow> ret (Inl e)
         | Inr reqBody \<Rightarrow>
            (let target = kubeAPIURL B @ ''/apis/authentication.k8s.io/v1/tokenreviews'' in
             case b_requestErr B ''POST'' target of
               Some e \<Rightarrow> ret (Inl e)
             | None \<Rightarrow> do {
                 r \<leftarrow> httpDo B \<lparr>ho_method = ''POST'', ho_url = target,
                        ho_headers = [(''Authorization'', ''Bearer '' @ saToken), (''Content-Type'', ''application/json'')],
                        ho_body = reqBody, ho_followRedirects = False\<rparr>;
                 (case r of
                   Inl e \<Rightarrow> ret (Inl (Wrapf ''TokenReview request: '' e []))
                 | Inr resp \<Rightarrow>
                     if hr_status resp \<noteq> 201 \<and> hr_status resp \<noteq> 200
                     then ret (Inl (Errorf (''TokenReview failed with status '' @ natDec (hr_status resp))))
                     else (case b_decodeReview B (take 65536 (hr_body resp)) of
                             Inl e \<Rightarrow> ret (Inl (Wrapf ''decoding TokenReview response: '' e []))
                           | Inr raw \<Rightarrow>
                               if \<not> rv_authenticated raw
                               then ret (Inl (Errorf ''TokenReview: token did not authenticate''))
                               else if rv_uid raw = []
                               then ret (Inl (Errorf ''TokenReview: response has no user uid''))
                               else ret (Inr (rv_uid raw))))
               })))
   }"

record userInfo =
  ui_name :: string
  ui_uid :: string
  ui_groups :: "string list"

abbreviation isServiceAccount :: "string \<Rightarrow> bool" where
  "isServiceAccount n \<equiv> hasPrefix n ''system:serviceaccount:''"

text \<open>The ServiceAccount part of \<open>GetUserInfo\<close>: extra groups from the Group resources, and the UID.\<close>

definition resolveServiceAccount :: "'w benv \<Rightarrow> openShiftClient \<Rightarrow> string \<Rightarrow> string list \<Rightarrow> userInfo \<Rightarrow>
    ('w sys, goerr + userInfo) state" where
  "resolveServiceAccount B c accessToken groupNames info0 = do {
     g \<leftarrow> (if groupNames \<noteq> [] then do {
         eg \<leftarrow> checkGroupMemberships B c (ui_name info0) groupNames;
         (case eg of
           Inl e \<Rightarrow> ret (Inl (Wrapf (''group CR lookup for '' @ quote (ui_name info0) @ '': '') e []))
         | Inr extraGroups \<Rightarrow>
             ret (Inr (info0\<lparr>ui_groups := ui_groups info0 @
               filter (\<lambda>x. x \<notin> set (ui_groups info0)) extraGroups\<rparr>)))
       }
       else ret (Inr info0));
     (case g of
       Inl e \<Rightarrow> ret (Inl e)
     | Inr info \<Rightarrow>
        if ui_uid info = [] then do {
          u \<leftarrow> tokenReviewUID B c accessToken;
          (case u of
            Inl e \<Rightarrow> ret (Inl (Wrapf (''resolving ServiceAccount UID for '' @ quote (ui_name info) @ '': '') e []))
          | Inr uid \<Rightarrow> ret (Inr (info\<lparr>ui_uid := uid\<rparr>)))
        }
        else ret (Inr info))
   }"

definition GetUserInfo :: "'w benv \<Rightarrow> openShiftClient \<Rightarrow> string \<Rightarrow> string list \<Rightarrow>
    ('w sys, goerr + userInfo) state" where
  "GetUserInfo B c accessToken groupNames =
     (case b_requestErr B ''GET'' (usersURL B) of
        Some e \<Rightarrow> ret (Inl e)
      | None \<Rightarrow> do {
          r \<leftarrow> httpDo B (usersRequest B accessToken);
          (case r of
            Inl e \<Rightarrow> ret (Inl (Wrapf ''user info request: '' e []))
          | Inr resp \<Rightarrow>
              if hr_status resp \<noteq> 200
              then ret (Inl (Errorf (''user info failed ('' @ natDec (hr_status resp) @ ''): '' @
                     take 512 (hr_body resp))))
              else (case b_decodeUser B (hr_body resp) of
                      Inl e \<Rightarrow> ret (Inl (Wrapf ''decoding user info: '' e []))
                    | Inr raw \<Rightarrow>
                       (let info = \<lparr>ui_name = ru_name raw, ui_uid = ru_uid raw, ui_groups = ru_groups raw\<rparr> in
                        if isServiceAccount (ui_name info)
                        then resolveServiceAccount B c accessToken groupNames info
                        else ret (Inr info))))
        })"

section \<open>Lemmas\<close>

text \<open>What the answers of the API server establish.\<close>

definition reportedUser :: "'w benv \<Rightarrow> string \<Rightarrow> rawUser \<Rightarrow> bool" where
  "reportedUser B token raw = (\<exists>w resp w'. b_do B (usersRequest B token) w = (Inr resp, w') \<and> hr_status resp = 200 \<and> b_decodeUser B (hr_body resp) = Inr raw)"

definition groupListed :: "'w benv \<Rightarrow> string \<Rightarrow> string \<Rightarrow> bool" where
  "groupListed B g username = (\<exists>w resp w' saToken users. b_do B (groupRequest B saToken g) w = (Inr resp, w') \<and> hr_status resp = 200 \<and> b_decodeGroup B (take 1048576 (hr_body resp)) = Inr users \<and>
     (\<exists>u \<in> set users. groupCandidate B u = Some username))"

definition vouchedGroup :: "'w benv \<Rightarrow> string list \<Rightarrow> rawUser \<Rightarrow> string \<Rightarrow> bool" where
  "vouchedGroup B groupNames raw g = (g \<in> set (ru_groups raw) \<or>
     isServiceAccount (ru_name raw) \<and> g \<noteq> [] \<and> g \<in> set groupNames \<and> groupListed B g (ru_name raw))"

lemma readSAToken_wp: "(\<And>r t. Q r t) \<Longrightarrow> wp (readSAToken B c) Q s"
  unfolding readSAToken_def by (intro wp_rules)

lemma groupLookup_wp:
  assumes "\<And>e t. Q (Inl e) t"
    and "\<And>t. Q (Inr matched) t"
    and "\<And>t. g \<noteq> [] \<Longrightarrow> groupListed B g username \<Longrightarrow> Q (Inr (matched @ [g])) t"
  shows "wp (groupLookup B username saToken g matched) Q s"
proof -
  have listed: "groupListed B g username"
    if "b_do B (groupRequest B saToken g) w = (Inr resp, w')"
      "hr_status resp = 200" "b_decodeGroup B (take 1048576 (hr_body resp)) = Inr users"
      "list_ex (\<lambda>u. groupCandidate B u = Some username) users" for w w' resp users
    using that unfolding groupListed_def list_ex_iff by blast
  show ?thesis unfolding groupLookup_def
    apply (intro wp_rules assms(1,2))
    apply (auto intro!: assms(2,3) intro: listed)
    done
qed

lemma checkGroupMemberships_wp:
  assumes "\<And>e t. Q (Inl e) t"
    and "\<And>gs t. (\<forall>g \<in> set gs. g \<noteq> [] \<and> g \<in> set groupNames \<and> groupListed B g username) \<Longrightarrow> Q (Inr gs) t"
  shows "wp (checkGroupMemberships B c username groupNames) Q s"
proof -
  have loop: "wp (foreach (groupLookup B username saToken) groupNames []) Q t" for saToken t
  proof (rule foreach_wp [where I = "\<lambda>gs _. \<forall>g \<in> set gs. g \<noteq> [] \<and> g \<in> set groupNames \<and> groupListed B g username"],
      goal_cases)
    case (2 x a s)
    show ?case by (rule groupLookup_wp) (use 2 in \<open>simp_all add: assms(1)\<close>)
  next
    case (3 a s)
    then show ?case by (rule assms(2))
  qed simp
  show ?thesis unfolding checkGroupMemberships_def
    by (intro wp_rules readSAToken_wp assms(1) loop)
qed

lemma tokenReviewUID_wp:
  assumes "\<And>e t. Q (Inl e) t" and "\<And>uid t. uid \<noteq> [] \<Longrightarrow> Q (Inr uid) t"
  shows "wp (tokenReviewUID B c token) Q s"
  unfolding tokenReviewUID_def by (intro wp_rules readSAToken_wp assms)

lemma resolveServiceAccount_wp:
  assumes "\<And>e t. Q (Inl e) t"
    and "\<And>info t. ui_name info = ui_name info0 \<Longrightarrow> ui_uid info \<noteq> [] \<Longrightarrow>
      (\<forall>g \<in> set (ui_groups info). g \<in> set (ui_groups info0) \<or>
        g \<noteq> [] \<and> g \<in> set groupNames \<and> groupListed B g (ui_name info0)) \<Longrightarrow> Q (Inr info) t"
  shows "wp (resolveServiceAccount B c token groupNames info0) Q s"
  unfolding resolveServiceAccount_def
  apply (intro wp_rules checkGroupMemberships_wp tokenReviewUID_wp assms(1))
  apply (erule sum.distinct(1) [THEN notE] sum.distinct(2) [THEN notE]
      | rule assms(2); force)+
  done

lemma GetUserInfo_wp:
  assumes "\<And>e t. Q (Inl e) t"
    and "\<And>info raw t. reportedUser B token raw \<Longrightarrow> ui_name info = ru_name raw \<Longrightarrow>
      (\<forall>g \<in> set (ui_groups info). vouchedGroup B groupNames raw g) \<Longrightarrow>
      (isServiceAccount (ru_name raw) \<longrightarrow> ui_uid info \<noteq> []) \<Longrightarrow> Q (Inr info) t"
  shows "wp (GetUserInfo B c token groupNames) Q s"
proof -
  have reported: "reportedUser B token raw"
    if "b_do B (usersRequest B token) w = (Inr resp, w')"
      "hr_status resp = 200" "b_decodeUser B (hr_body resp) = Inr raw" for w w' resp raw
    using that unfolding reportedUser_def by blast
  show ?thesis unfolding GetUserInfo_def
    apply (intro wp_rules resolveServiceAccount_wp assms(1))
    subgoal by (rule assms(2)) (auto simp: vouchedGroup_def intro: reported)
    subgoal by (rule assms(2)) (auto simp: vouchedGroup_def intro: reported)
    done
qed

section \<open>A concrete environment\<close>

text \<open>An API server that takes a bearer token for the name of a user in the group \<open>devs\<close>.\<close>

definition splitURL :: "string \<Rightarrow> goerr + urlParts" where
  "splitURL uri = (if hasPrefix uri ''http://'' then
     (case cutAt (trimPrefix uri ''http://'') (CHR ''/'') of (h, p, ok) \<Rightarrow>
        Inr \<lparr>u_scheme = ''http'', u_host = h, u_path = (if ok then CHR ''/'' # p else []), u_query = [], u_rest = []\<rparr>)
     else Inl (Errorf ''unsupported''))"

definition joinURL :: "urlParts \<Rightarrow> string" where
  "joinURL u = u_scheme u @ ''://'' @ u_host u @ u_path u @ ''?'' @
     concat (map (\<lambda>(k, v). k @ ''='' @ v @ ''&'') (u_query u))"

definition memBenv :: "memWorld benv" where
  "memBenv = \<lparr>b_env = memEnv,
     b_do = (\<lambda>q w. (Inr \<lparr>hr_status = 200,
        hr_body = trimPrefix (mget (ho_headers q) ''Authorization'') ''Bearer ''\<rparr>, w)),
     b_requestErr = (\<lambda>m u. None),
     b_readFile = (\<lambda>p w. (Inr ''sa-token'', w)), b_getenv = (\<lambda>k. []),
     b_parseURL = splitURL, b_urlString = joinURL, b_pathEscape = id,
     b_encodeValues = (\<lambda>m. concat (map (\<lambda>(k, v). k @ ''='' @ v @ ''&'') m)),
     b_basicAuth = (\<lambda>u p. ''Basic '' @ u @ '':'' @ p),
     b_decodeToken = (\<lambda>t. Inr \<lparr>tr_accessToken = ''alice'', tr_tokenType = ''Bearer'', tr_expiresIn = 60, tr_refreshToken = []\<rparr>),
     b_decodeUser = (\<lambda>t. Inr \<lparr>ru_name = t, ru_uid = ''uid-'' @ t, ru_groups = [''devs'']\<rparr>),
     b_decodeReview = (\<lambda>t. Inr \<lparr>rv_authenticated = True, rv_uid = ''u''\<rparr>),
     b_decodeGroup = (\<lambda>t. Inr []),
     b_b64Std = Inr, b_b64RawStd = Inr\<rparr>"

section \<open>Properties\<close>

text \<open>
  User information is backed by the API server. If \<open>GetUserInfo\<close> returns a user, then the users
  API answered the access token with that name; every group is one the users API reported or, for a
  ServiceAccount only, one of the group names asked for whose Group resource lists that very name
  (plain or base64); and a ServiceAccount always gets a non-empty UID.
\<close>

theorem user_info_sound:
  assumes "run_state (GetUserInfo B c token groupNames) s = (Inr info, t)"
  shows "\<exists>raw. reportedUser B token raw \<and> ui_name info = ru_name raw \<and>
    (\<forall>g \<in> set (ui_groups info). g \<in> set (ru_groups raw) \<or>
      isServiceAccount (ui_name info) \<and> g \<noteq> [] \<and> g \<in> set groupNames \<and> groupListed B g (ui_name info)) \<and>
    (isServiceAccount (ui_name info) \<longrightarrow> ui_uid info \<noteq> [])"
proof -
  have "wp (GetUserInfo B c token groupNames) (\<lambda>r t. \<forall>info. r = Inr info \<longrightarrow> (\<exists>raw. reportedUser B token raw \<and>
      ui_name info = ru_name raw \<and> (\<forall>g \<in> set (ui_groups info). vouchedGroup B groupNames raw g) \<and>
      (isServiceAccount (ru_name raw) \<longrightarrow> ui_uid info \<noteq> []))) s"
    by (rule GetUserInfo_wp) auto
  from wpD [OF this assms] show ?thesis unfolding vouchedGroup_def by fastforce
qed

theorem user_info_sound_witness:
  "\<exists>info raw. run_state (GetUserInfo memBenv (NewOpenShiftClient [] [] []) ''alice'' [''devs''])
       (memSys \<lparr>mw_objs = [], mw_fake = newFakeOpenShellServer, mw_clock = 0\<rparr>) =
       (Inr info, memSys \<lparr>mw_objs = [], mw_fake = newFakeOpenShellServer, mw_clock = 0\<rparr>) \<and>
     reportedUser memBenv ''alice'' raw \<and> ui_name info = ru_name raw"
proof -
  let ?s = "memSys \<lparr>mw_objs = [], mw_fake = newFakeOpenShellServer, mw_clock = 0\<rparr>"
  have "run_state (GetUserInfo memBenv (NewOpenShiftClient [] [] []) ''alice'' [''devs'']) ?s =
      (Inr \<lparr>ui_name = ''alice'', ui_uid = ''uid-alice'', ui_groups = [''devs'']\<rparr>, ?s)"
    by code_simp
  then show ?thesis using user_info_sound by metis
qed

end
