(* ===== verification/BridgeServer.thy ===== *)
theory BridgeServer
  imports OpenShiftClient
begin

text \<open>
  \<^verbatim>\<open>src/internal/authbridge/server.go\<close>: the auth-bridge's HTTP handlers and its store of pending
  codes. One map holds two kinds of entries: a state entry, made by \<open>/authorize\<close>, remembers the
  client's redirect URI; a code entry, made by \<open>/callback\<close>, holds a minted token for \<open>/token\<close>.

  The state of the server is the map and the world it runs in. A handler runs without interference
  except between the two critical sections of \<open>/callback\<close>, which calls the OpenShift servers in
  between: the handler is therefore written as the composition of \<open>callbackBegin\<close>,
  \<open>callbackAuthenticate\<close> and \<open>callbackFinish\<close>, and the step relation at the end interleaves them with
  every other handler and with the sweeper.
\<close>

section \<open>State\<close>

abbreviation "roleUser \<equiv> ''openshell-user''"
abbreviation "roleAdmin \<equiv> ''openshell-admin''"
abbreviation "tokenTypeBearer \<equiv> ''Bearer''"

record bridgeConfig =
  bc_Issuer :: string
  bc_ExternalIssuer :: string
  bc_Audience :: string
  bc_ListenAddr :: string
  bc_OpenShiftOAuth :: string
  bc_ClientID :: string
  bc_ClientSecret :: string
  bc_UserGroup :: string
  bc_AdminGroup :: string
  bc_TokenTTL :: int

record pendingCode =
  pc_jwt :: string
  pc_expiresAt :: int
  pc_redirectURI :: string

record bridgeServer =
  bs_config :: bridgeConfig
  bs_signer :: jwtSigner
  bs_osc :: openShiftClient

record 'w bridge =
  br_sys :: "'w sys"
  br_codes :: "(string \<times> pendingCode) list"

definition lift :: "('w sys, 'a) state \<Rightarrow> ('w bridge, 'a) state" where
  "lift m = State (\<lambda>b. case run_state m (br_sys b) of (x, s) \<Rightarrow> (x, b\<lparr>br_sys := s\<rparr>))"

definition NewServer :: "jwtSigner \<Rightarrow> bridgeConfig \<Rightarrow> bridgeServer" where
  "NewServer signer config = \<lparr>bs_config = config, bs_signer = signer,
     bs_osc = NewOpenShiftClient (bc_OpenShiftOAuth config) (bc_ClientID config) (bc_ClientSecret config)\<rparr>"

definition newBridge :: "'w sys \<Rightarrow> 'w bridge" where
  "newBridge s = \<lparr>br_sys = s, br_codes = []\<rparr>"

text \<open>A request, with what \<^verbatim>\<open>net/http\<close> parsed of it, and a response.\<close>

record inRequest =
  iq_method :: string
  iq_path :: string
  iq_host :: string
  iq_query :: smap
  iq_form :: "goerr + smap"
  iq_authorization :: string

datatype outResponse =
    HttpError nat string
  | RedirectTo string
  | JsonBody jval
  | TextBody string

section \<open>Pure parts\<close>

definition isAuthorized :: "bridgeConfig \<Rightarrow> string \<Rightarrow> string list \<Rightarrow> bool" where
  "isAuthorized cfg username groups =
     (if username = ''kube:admin'' then True
      else if bc_UserGroup cfg = [] then False
      else list_ex (\<lambda>g. g = bc_UserGroup cfg) groups)"

definition mapRoles :: "bridgeConfig \<Rightarrow> string list \<Rightarrow> string list" where
  "mapRoles cfg groups =
     [roleUser] @ (if bc_AdminGroup cfg \<noteq> [] \<and> list_ex (\<lambda>g. g = bc_AdminGroup cfg) groups
                   then [roleAdmin] else [])"

definition splitState :: "string \<Rightarrow> string \<times> string" where
  "splitState combined = (case cutAt combined (CHR '':'') of (b, a, ok) \<Rightarrow> (b, a))"

definition isLoopbackHost :: "string \<Rightarrow> bool" where
  "isLoopbackHost host = (host = ''localhost'' \<or> host = ''127.0.0.1'' \<or>
     hasPrefix host ''localhost:'' \<or> hasPrefix host ''127.0.0.1:'')"

definition isAllowedRedirectURI :: "'w benv \<Rightarrow> bridgeConfig \<Rightarrow> string \<Rightarrow> bool" where
  "isAllowedRedirectURI B cfg uri =
     (if uri = [] then False
      else case b_parseURL B uri of
        Inl _ \<Rightarrow> False
      | Inr u \<Rightarrow>
          if u_host u = [] then False
          else if u_scheme u \<noteq> ''http'' \<and> u_scheme u \<noteq> ''https'' then False
          else if isLoopbackHost (u_host u) then True
          else if bc_ExternalIssuer cfg \<noteq> []
          then (case b_parseURL B (bc_ExternalIssuer cfg) of
                  Inl _ \<Rightarrow> False
                | Inr allowed \<Rightarrow> u_host u = u_host allowed \<and> hasPrefix (u_path u) ''/callback'')
          else False)"

definition maxPendingCodes :: nat where
  "maxPendingCodes = 10000"

definition ttlSeconds :: "int \<Rightarrow> int" where
  "ttlSeconds ttl = (if ttl < 0 then - ((- ttl) div 10 ^ 9) else ttl div 10 ^ 9)"

definition callbackURL :: "bridgeConfig \<Rightarrow> string" where
  "callbackURL cfg = bc_ExternalIssuer cfg @ ''/callback''"

definition isLocalHost :: "string \<Rightarrow> bool" where
  "isLocalHost host = (hasPrefix host ''localhost'' \<or> hasPrefix host ''127.0.0.1'')"

definition handleDiscovery :: "bridgeConfig \<Rightarrow> inRequest \<Rightarrow> outResponse" where
  "handleDiscovery cfg r =
     (let base = (if isLocalHost (iq_host r) then bc_Issuer cfg else bc_ExternalIssuer cfg) in
      JsonBody (JMap
        [(''issuer'', JStr base),
         (''authorization_endpoint'', JStr (bc_ExternalIssuer cfg @ ''/authorize'')),
         (''token_endpoint'', JStr (bc_ExternalIssuer cfg @ ''/token'')),
         (''jwks_uri'', JStr (base @ ''/jwks'')),
         (''response_types_supported'', JList [JStr ''code'']),
         (''grant_types_supported'', JList [JStr grantAuthorizationCode]),
         (''subject_types_supported'', JList [JStr ''public'']),
         (''token_endpoint_auth_methods_supported'', JList [JStr ''client_secret_basic'']),
         (''scopes_supported'', JList [JStr ''openid'', JStr ''profile'', JStr ''email''])]))"

definition jwkJSON :: "jwk \<Rightarrow> jval" where
  "jwkJSON k = JMap [(''kty'', JStr (jk_kty k)), (''n'', JStr (jk_n k)), (''e'', JStr (jk_e k)),
     (''kid'', JStr (jk_kid k)), (''use'', JStr (jk_use k)), (''alg'', JStr (jk_alg k))]"

definition handleJWKS :: "'w benv \<Rightarrow> bridgeServer \<Rightarrow> outResponse" where
  "handleJWKS B srv = JsonBody (JMap [(''keys'', JList (map jwkJSON (JWKS (b_env B) (bs_signer srv))))])"

section \<open>Handlers\<close>

abbreviation bridgeNow :: "'w benv \<Rightarrow> ('w bridge, int) state" where
  "bridgeNow B \<equiv> lift (timeNow (b_env B))"

definition generateCode :: "'w benv \<Rightarrow> ('w bridge, string) state" where
  "generateCode B = do {
     b \<leftarrow> lift (randBytes (b_env B) 16);
     ret (hexEncode b)
   }"

text \<open>The critical sections: insert unless the map is full, and look up and delete. The clock is read
  while the new entry is built.\<close>

definition insertCode :: "'w benv \<Rightarrow> string \<Rightarrow> string \<Rightarrow> string \<Rightarrow> int \<Rightarrow> ('w bridge, bool) state" where
  "insertCode B key jwt redirectURI lifetime = do {
     n \<leftarrow> gets (\<lambda>b. length (br_codes b));
     if n \<ge> maxPendingCodes then ret False
     else do {
       now \<leftarrow> bridgeNow B;
       _ \<leftarrow> modify (\<lambda>b. b\<lparr>br_codes := AList.update key
              \<lparr>pc_jwt = jwt, pc_expiresAt = now + lifetime, pc_redirectURI = redirectURI\<rparr> (br_codes b)\<rparr>);
       ret True
     }
   }"

definition takeCode :: "string \<Rightarrow> ('w bridge, pendingCode option) state" where
  "takeCode key = do {
     p \<leftarrow> gets (\<lambda>b. map_of (br_codes b) key);
     (case p of
       None \<Rightarrow> ret None
     | Some pending \<Rightarrow> do {
         _ \<leftarrow> modify (\<lambda>b. b\<lparr>br_codes := AList.delete key (br_codes b)\<rparr>);
         ret (Some pending)
       })
   }"

definition minutes :: "int \<Rightarrow> int" where
  "minutes n = n * 60 * 10 ^ 9"

definition handleAuthorize :: "'w benv \<Rightarrow> bridgeServer \<Rightarrow> inRequest \<Rightarrow> ('w bridge, outResponse) state" where
  "handleAuthorize B srv r =
     (let cfg = bs_config srv; clientRedirectURI = mget (iq_query r) ''redirect_uri'';
          st = mget (iq_query r) ''state'' in
      if \<not> isAllowedRedirectURI B cfg clientRedirectURI then ret (HttpError 400 ''invalid redirect_uri'')
      else do {
        bridgeState \<leftarrow> generateCode B;
        ok \<leftarrow> insertCode B bridgeState [] clientRedirectURI (minutes 5);
        if \<not> ok then ret (HttpError 503 ''too many pending requests'')
        else ret (RedirectTo (AuthorizationURL (bs_osc srv) @ ''?'' @ b_encodeValues B
          [(''response_type'', ''code''), (''client_id'', bc_ClientID cfg), (''redirect_uri'', callbackURL cfg),
           (''state'', bridgeState @ '':'' @ st), (''scope'', ''user:info'')]))
      })"

text \<open>\<open>callbackBegin\<close>: the state entry is consumed; \<open>Inr\<close> carries it and the client's own state.\<close>

definition callbackBegin :: "'w benv \<Rightarrow> inRequest \<Rightarrow> ('w bridge, outResponse + pendingCode \<times> string) state" where
  "callbackBegin B r =
     (case splitState (mget (iq_query r) ''state'') of (bridgeState, clientState) \<Rightarrow> do {
        p \<leftarrow> takeCode bridgeState;
        (case p of
          None \<Rightarrow> ret (Inl (HttpError 400 ''invalid or expired state''))
        | Some pending \<Rightarrow> do {
            now \<leftarrow> bridgeNow B;
            if now > pc_expiresAt pending then ret (Inl (HttpError 400 ''invalid or expired state''))
            else ret (Inr (pending, clientState))
          })
      })"

text \<open>\<open>mintFor\<close>: from an OpenShift access token to a gateway token, shared by \<open>/callback\<close> and
  \<open>/token/exchange\<close>. The three error responses are those of the calling handler.\<close>

definition mintFor :: "'w benv \<Rightarrow> bridgeServer \<Rightarrow> string \<Rightarrow> outResponse \<Rightarrow> (string \<Rightarrow> outResponse) \<Rightarrow>
    outResponse \<Rightarrow> ('w sys, outResponse + string) state" where
  "mintFor B srv accessToken infoFailed denied mintFailed =
     (let cfg = bs_config srv in do {
        ui \<leftarrow> GetUserInfo B (bs_osc srv) accessToken [bc_UserGroup cfg, bc_AdminGroup cfg];
        (case ui of
          Inl e \<Rightarrow> ret (Inl infoFailed)
        | Inr info \<Rightarrow>
            if \<not> isAuthorized cfg (ui_name info) (ui_groups info) then ret (Inl (denied (ui_name info)))
            else do {
              j \<leftarrow> MintToken (b_env B) (bs_signer srv) (bc_Issuer cfg) (bc_Audience cfg) (ui_uid info)
                     (ui_name info) [] (mapRoles cfg (ui_groups info)) (bc_TokenTTL cfg);
              (case j of
                Inl e \<Rightarrow> ret (Inl mintFailed)
              | Inr jwt \<Rightarrow> ret (Inr jwt))
            })
      })"

definition callbackAuthenticate :: "'w benv \<Rightarrow> bridgeServer \<Rightarrow> inRequest \<Rightarrow> ('w sys, outResponse + string) state" where
  "callbackAuthenticate B srv r = do {
     t \<leftarrow> ExchangeCode B (bs_osc srv) (mget (iq_query r) ''code'') (callbackURL (bs_config srv));
     (case t of
       Inl e \<Rightarrow> ret (Inl (HttpError 500 ''authentication failed''))
     | Inr tok \<Rightarrow> mintFor B srv (tr_accessToken tok)
         (HttpError 500 ''failed to get user info'')
         (\<lambda>name. HttpError 403 (''access denied: user '' @ quote name @
            '' is not a member of the required OpenShift group '' @ quote (bc_UserGroup (bs_config srv))))
         (HttpError 500 ''token generation failed''))
   }"

definition callbackFinish :: "'w benv \<Rightarrow> pendingCode \<Rightarrow> string \<Rightarrow> string \<Rightarrow> ('w bridge, outResponse) state" where
  "callbackFinish B pending clientState jwt = do {
     bridgeCode \<leftarrow> generateCode B;
     ok \<leftarrow> insertCode B bridgeCode jwt [] (minutes 1);
     if \<not> ok then ret (HttpError 503 ''too many pending requests'')
     else if pc_redirectURI pending = [] then ret (HttpError 400 ''missing redirect_uri'')
     else (case b_parseURL B (pc_redirectURI pending) of
             Inl e \<Rightarrow> ret (HttpError 400 ''invalid redirect URI'')
           | Inr u \<Rightarrow> ret (RedirectTo (b_urlString B (u\<lparr>u_query :=
               AList.update ''state'' clientState (AList.update ''code'' bridgeCode (u_query u))\<rparr>))))
   }"

definition handleCallback :: "'w benv \<Rightarrow> bridgeServer \<Rightarrow> inRequest \<Rightarrow> ('w bridge, outResponse) state" where
  "handleCallback B srv r = do {
     b \<leftarrow> callbackBegin B r;
     (case b of
       Inl resp \<Rightarrow> ret resp
     | Inr (pending, clientState) \<Rightarrow> do {
         a \<leftarrow> lift (callbackAuthenticate B srv r);
         (case a of
           Inl resp \<Rightarrow> ret resp
         | Inr jwt \<Rightarrow> callbackFinish B pending clientState jwt)
       })
   }"

definition handleToken :: "'w benv \<Rightarrow> bridgeServer \<Rightarrow> inRequest \<Rightarrow> ('w bridge, outResponse) state" where
  "handleToken B srv r =
     (if iq_method r \<noteq> ''POST'' then ret (HttpError 405 ''method not allowed'')
      else case iq_form r of
        Inl e \<Rightarrow> ret (HttpError 400 ''bad request'')
      | Inr form \<Rightarrow>
          if mget form ''grant_type'' \<noteq> grantAuthorizationCode
          then ret (HttpError 400 ''{\"error\":\"unsupported_grant_type\"}'')
          else do {
            p \<leftarrow> takeCode (mget form ''code'');
            (case p of
              None \<Rightarrow> ret (HttpError 400 ''{\"error\":\"invalid_grant\"}'')
            | Some pending \<Rightarrow> do {
                now \<leftarrow> bridgeNow B;
                if now > pc_expiresAt pending \<or> pc_jwt pending = []
                then ret (HttpError 400 ''{\"error\":\"invalid_grant\"}'')
                else ret (JsonBody (JMap
                  [(''access_token'', JStr (pc_jwt pending)), (''token_type'', JStr tokenTypeBearer),
                   (''expires_in'', JInt (ttlSeconds (bc_TokenTTL (bs_config srv))))]))
              })
          })"

definition handleTokenExchange :: "'w benv \<Rightarrow> bridgeServer \<Rightarrow> inRequest \<Rightarrow> ('w sys, outResponse) state" where
  "handleTokenExchange B srv r =
     (if iq_method r \<noteq> ''POST'' then ret (HttpError 405 ''method not allowed'')
      else if \<not> hasPrefix (iq_authorization r) ''Bearer ''
      then ret (HttpError 401 ''{\"error\":\"missing Bearer token\"}'')
      else do {
        m \<leftarrow> mintFor B srv (trimPrefix (iq_authorization r) ''Bearer '')
               (HttpError 401 ''{\"error\":\"invalid OpenShift token\"}'')
               (\<lambda>_. HttpError 403 ''{\"error\":\"user is not a member of the required group\"}'')
               (HttpError 500 ''{\"error\":\"token generation failed\"}'');
        (case m of
          Inl resp \<Rightarrow> ret resp
        | Inr jwt \<Rightarrow> do {
            now \<leftarrow> timeNow (b_env B);
            (let cfg = bs_config srv in
             ret (JsonBody (JMap
               [(''access_token'', JStr jwt), (''token_type'', JStr tokenTypeBearer),
                (''expires_in'', JInt (ttlSeconds (bc_TokenTTL cfg))),
                (''expires_at'', JInt ((now + bc_TokenTTL cfg) div 10 ^ 9)),
                (''issuer'', JStr (bc_ExternalIssuer cfg)), (''client_id'', JStr (bc_Audience cfg))])))
          })
      })"

text \<open>One tick of the sweeper.\<close>

definition sweepExpiredCodes :: "'w benv \<Rightarrow> ('w bridge, unit) state" where
  "sweepExpiredCodes B = do {
     now \<leftarrow> bridgeNow B;
     modify (\<lambda>b. b\<lparr>br_codes := filter (\<lambda>(_, v). \<not> now > pc_expiresAt v) (br_codes b)\<rparr>)
   }"

text \<open>The router, with the headers that every response gets.\<close>

definition securityHeaders :: "smap" where
  "securityHeaders = [(''X-Content-Type-Options'', ''nosniff''), (''X-Frame-Options'', ''DENY''),
     (''Cache-Control'', ''no-store'')]"

definition Handler :: "'w benv \<Rightarrow> bridgeServer \<Rightarrow> inRequest \<Rightarrow> ('w bridge, smap \<times> outResponse) state" where
  "Handler B srv r = do {
     resp \<leftarrow> (if iq_path r = ''/.well-known/openid-configuration'' then ret (handleDiscovery (bs_config srv) r)
       else if iq_path r = ''/jwks'' then ret (handleJWKS B srv)
       else if iq_path r = ''/authorize'' then handleAuthorize B srv r
       else if iq_path r = ''/callback'' then handleCallback B srv r
       else if iq_path r = ''/token'' then handleToken B srv r
       else if iq_path r = ''/token/exchange'' then lift (handleTokenExchange B srv r)
       else if iq_path r = ''/healthz'' then ret (TextBody ''ok'')
       else ret (HttpError 404 ''404 page not found''));
     ret (securityHeaders, resp)
   }"

section \<open>Interleaved execution\<close>

text \<open>
  A run of the server: its state, the callbacks that have consumed a state entry and still have to
  authenticate, those that hold a minted token and still have to store it, and the responses sent.
\<close>

record 'w bridgeRun =
  rn_bridge :: "'w bridge"
  rn_flight :: "(inRequest \<times> pendingCode \<times> string) list"
  rn_minted :: "(pendingCode \<times> string \<times> string) list"
  rn_sent :: "outResponse list"

definition initRun :: "'w sys \<Rightarrow> 'w bridgeRun" where
  "initRun s = \<lparr>rn_bridge = newBridge s, rn_flight = [], rn_minted = [], rn_sent = []\<rparr>"

abbreviation reply :: "'w bridgeRun \<Rightarrow> 'w bridge \<Rightarrow> outResponse \<Rightarrow> 'w bridgeRun" where
  "reply n b resp \<equiv> n\<lparr>rn_bridge := b, rn_sent := resp # rn_sent n\<rparr>"

inductive bridgeStep :: "'w benv \<Rightarrow> bridgeServer \<Rightarrow> 'w bridgeRun \<Rightarrow> 'w bridgeRun \<Rightarrow> bool" for B srv where
  environment: "bridgeStep B srv n (n\<lparr>rn_bridge := (rn_bridge n)\<lparr>br_sys := s\<rparr>\<rparr>)"
| authorize: "run_state (handleAuthorize B srv r) (rn_bridge n) = (resp, b) \<Longrightarrow>
    bridgeStep B srv n (reply n b resp)"
| callback_refused: "run_state (callbackBegin B r) (rn_bridge n) = (Inl resp, b) \<Longrightarrow>
    bridgeStep B srv n (reply n b resp)"
| callback_begun: "run_state (callbackBegin B r) (rn_bridge n) = (Inr (p, cs), b) \<Longrightarrow>
    bridgeStep B srv n (n\<lparr>rn_bridge := b, rn_flight := (r, p, cs) # rn_flight n\<rparr>)"
| callback_failed: "(r, p, cs) \<in> set (rn_flight n) \<Longrightarrow>
    run_state (lift (callbackAuthenticate B srv r)) (rn_bridge n) = (Inl resp, b) \<Longrightarrow>
    bridgeStep B srv n (reply (n\<lparr>rn_flight := remove1 (r, p, cs) (rn_flight n)\<rparr>) b resp)"
| callback_minted: "(r, p, cs) \<in> set (rn_flight n) \<Longrightarrow>
    run_state (lift (callbackAuthenticate B srv r)) (rn_bridge n) = (Inr jwt, b) \<Longrightarrow>
    bridgeStep B srv n (n\<lparr>rn_bridge := b, rn_flight := remove1 (r, p, cs) (rn_flight n),
      rn_minted := (p, cs, jwt) # rn_minted n\<rparr>)"
| callback_done: "(p, cs, jwt) \<in> set (rn_minted n) \<Longrightarrow>
    run_state (callbackFinish B p cs jwt) (rn_bridge n) = (resp, b) \<Longrightarrow>
    bridgeStep B srv n (reply (n\<lparr>rn_minted := remove1 (p, cs, jwt) (rn_minted n)\<rparr>) b resp)"
| token: "run_state (handleToken B srv r) (rn_bridge n) = (resp, b) \<Longrightarrow>
    bridgeStep B srv n (reply n b resp)"
| token_exchange: "run_state (lift (handleTokenExchange B srv r)) (rn_bridge n) = (resp, b) \<Longrightarrow>
    bridgeStep B srv n (reply n b resp)"
| sweep: "run_state (sweepExpiredCodes B) (rn_bridge n) = (u, b) \<Longrightarrow>
    bridgeStep B srv n (n\<lparr>rn_bridge := b\<rparr>)"

definition reachable :: "'w benv \<Rightarrow> bridgeServer \<Rightarrow> 'w bridgeRun \<Rightarrow> bool" where
  "reachable B srv n = (\<exists>s. (bridgeStep B srv)\<^sup>*\<^sup>* (initRun s) n)"

section \<open>Lemmas\<close>

lemma wp_lift [wp_rules]: "wp m (\<lambda>x s. Q x (b\<lparr>br_sys := s\<rparr>)) (br_sys b) \<Longrightarrow> wp (lift m) Q b"
  by (simp add: wp_def lift_def split: prod.splits)

text \<open>A token is legitimate if it was minted for an authorized user that the API server reported.\<close>

definition legitToken :: "'w benv \<Rightarrow> bridgeServer \<Rightarrow> string \<Rightarrow> bool" where
  "legitToken B srv jwt = (\<exists>accessToken raw groups uid now h p sg.
     reportedUser B accessToken raw \<and>
     (\<forall>g \<in> set groups. vouchedGroup B [bc_UserGroup (bs_config srv), bc_AdminGroup (bs_config srv)] raw g) \<and>
     isAuthorized (bs_config srv) (ru_name raw) groups \<and>
     e_jsonMarshal (b_env B) (claimsJSON (mkClaims now (bc_Issuer (bs_config srv)) (bc_Audience (bs_config srv))
       uid (ru_name raw) [] (mapRoles (bs_config srv) groups) (bc_TokenTTL (bs_config srv)))) = Inr p \<and>
     jwt = signingInput h p @ ''.'' @ b64url sg)"

lemma legitTokenI:
  assumes "reportedUser B accessToken raw"
    and "\<forall>g \<in> set groups. vouchedGroup B [bc_UserGroup (bs_config srv), bc_AdminGroup (bs_config srv)] raw g"
    and "isAuthorized (bs_config srv) (ru_name raw) groups"
    and "e_jsonMarshal (b_env B) (claimsJSON (mkClaims now (bc_Issuer (bs_config srv)) (bc_Audience (bs_config srv))
       uid (ru_name raw) [] (mapRoles (bs_config srv) groups) (bc_TokenTTL (bs_config srv)))) = Inr p"
    and "signingInput h p @ CHR ''.'' # b64url sg = jwt"
  shows "legitToken B srv jwt"
  unfolding legitToken_def
  by (rule exI [of _ accessToken], rule exI [of _ raw], rule exI [of _ groups], rule exI [of _ uid],
      rule exI [of _ now], rule exI [of _ h], rule exI [of _ p], rule exI [of _ sg]) (use assms in auto)

lemma legitToken_nonempty: "legitToken B srv jwt \<Longrightarrow> jwt \<noteq> []"
  by (auto simp: legitToken_def)

text \<open>A pending entry is either a state entry with an allowed redirect or a code entry with a
  legitimate token.\<close>

definition goodPending :: "'w benv \<Rightarrow> bridgeServer \<Rightarrow> pendingCode \<Rightarrow> bool" where
  "goodPending B srv p = (
     pc_jwt p = [] \<and> isAllowedRedirectURI B (bs_config srv) (pc_redirectURI p) \<or>
     pc_redirectURI p = [] \<and> legitToken B srv (pc_jwt p))"

definition goodReply :: "'w benv \<Rightarrow> bridgeServer \<Rightarrow> outResponse \<Rightarrow> bool" where
  "goodReply B srv resp = (case resp of
     HttpError c m \<Rightarrow> True
   | TextBody m \<Rightarrow> True
   | RedirectTo url \<Rightarrow>
       (\<exists>q. url = AuthorizationURL (bs_osc srv) @ ''?'' @ q) \<or>
       (\<exists>uri u code st. isAllowedRedirectURI B (bs_config srv) uri \<and> b_parseURL B uri = Inr u \<and>
          url = b_urlString B (u\<lparr>u_query := AList.update ''state'' st (AList.update ''code'' code (u_query u))\<rparr>))
   | JsonBody j \<Rightarrow> (\<exists>kvs tok. j = JMap ((''access_token'', JStr tok) # kvs) \<and> legitToken B srv tok))"

definition goodRun :: "'w benv \<Rightarrow> bridgeServer \<Rightarrow> 'w bridgeRun \<Rightarrow> bool" where
  "goodRun B srv n = (
     (\<forall>(k, p) \<in> set (br_codes (rn_bridge n)). goodPending B srv p) \<and>
     (\<forall>(r, p, cs) \<in> set (rn_flight n). goodPending B srv p) \<and>
     (\<forall>(p, cs, jwt) \<in> set (rn_minted n). goodPending B srv p \<and> legitToken B srv jwt) \<and>
     (\<forall>resp \<in> set (rn_sent n). goodReply B srv resp) \<and>
     length (br_codes (rn_bridge n)) \<le> maxPendingCodes \<and> distinct (map fst (br_codes (rn_bridge n))))"

definition goodCodes :: "'w benv \<Rightarrow> bridgeServer \<Rightarrow> 'w bridge \<Rightarrow> bool" where
  "goodCodes B srv b = ((\<forall>(k, p) \<in> set (br_codes b). goodPending B srv p) \<and>
     length (br_codes b) \<le> maxPendingCodes \<and> distinct (map fst (br_codes b)))"

lemma goodCodes_sys [simp]: "goodCodes B srv (b\<lparr>br_sys := s\<rparr>) = goodCodes B srv b"
  by (simp add: goodCodes_def)

lemma length_update_le: "length (AList.update k v xs) \<le> Suc (length xs)"
  by (induction xs) auto

lemma set_update_sub: "set (AList.update k v xs) \<subseteq> insert (k, v) (set xs)"
  by (induction xs) auto

lemma insertCode_wp:
  assumes "goodCodes B srv b"
    and "\<And>e. goodPending B srv \<lparr>pc_jwt = jwt, pc_expiresAt = e, pc_redirectURI = uri\<rparr>"
    and "\<And>r b'. goodCodes B srv b' \<Longrightarrow> Q r b'"
  shows "wp (insertCode B key jwt uri lifetime) Q b"
proof -
  have "goodCodes B srv (b'\<lparr>br_codes := AList.update key \<lparr>pc_jwt = jwt, pc_expiresAt = e, pc_redirectURI = uri\<rparr> (br_codes b)\<rparr>)"
    if "length (br_codes b) < maxPendingCodes" for b' e
    using that assms(1,2) set_update_sub [of key _ "br_codes b"] length_update_le [of key _ "br_codes b"]
    by (fastforce simp: goodCodes_def distinct_update intro: order.trans)
  then show ?thesis
    unfolding insertCode_def timeNow_def
    by (intro wp_rules) (auto intro!: assms(3) simp: assms(1))
qed

lemma takeCode_wp:
  assumes "goodCodes B srv b"
    and "\<And>p b'. goodCodes B srv b' \<Longrightarrow> (\<forall>q. p = Some q \<longrightarrow> goodPending B srv q) \<Longrightarrow> Q p b'"
  shows "wp (takeCode key) Q b"
proof -
  have "goodCodes B srv (b\<lparr>br_codes := AList.delete key (br_codes b)\<rparr>)"
    using assms(1) by (auto simp: goodCodes_def AList.delete_eq distinct_map_filter intro: order.trans [OF length_filter_le])
  then show ?thesis unfolding takeCode_def
    using assms(1) by (intro wp_rules) (auto intro!: assms(2) simp: goodCodes_def dest: map_of_SomeD)
qed

lemma generateCode_wp: "(\<And>code b'. br_codes b' = br_codes b \<Longrightarrow> Q code b') \<Longrightarrow> wp (generateCode B) Q b"
  unfolding generateCode_def randBytes_def by (intro wp_rules) simp

lemma goodCodes_same: "goodCodes B srv b \<Longrightarrow> br_codes b' = br_codes b \<Longrightarrow> goodCodes B srv b'"
  by (simp add: goodCodes_def)

lemma mintFor_wp:
  assumes "\<And>t. Q (Inl infoFailed) t" and "\<And>name t. Q (Inl (denied name)) t" and "\<And>t. Q (Inl mintFailed) t"
    and "\<And>jwt t. legitToken B srv jwt \<Longrightarrow> Q (Inr jwt) t"
  shows "wp (mintFor B srv accessToken infoFailed denied mintFailed) Q s"
  unfolding mintFor_def
  apply (intro wp_rules GetUserInfo_wp MintToken_wp)
  apply (simp_all add: assms(1-3))
  apply (rule assms(4), rule legitTokenI, assumption+)
  done

lemma callbackAuthenticate_wp:
  assumes "\<And>c m t. Q (Inl (HttpError c m)) t" and "\<And>jwt t. legitToken B srv jwt \<Longrightarrow> Q (Inr jwt) t"
  shows "wp (callbackAuthenticate B srv r) Q s"
  unfolding callbackAuthenticate_def
  by (rule wp_bindI, rule wp_any, intro wp_rules mintFor_wp assms(1)) (auto intro: assms)

lemma handleTokenExchange_wp:
  assumes "\<And>resp t. goodReply B srv resp \<Longrightarrow> Q resp t"
  shows "wp (handleTokenExchange B srv r) Q s"
  unfolding handleTokenExchange_def timeNow_def
  by (intro wp_rules mintFor_wp assms) (auto simp: goodReply_def)

lemma handleAuthorize_wp:
  assumes "goodCodes B srv b" and "\<And>resp b'. goodCodes B srv b' \<Longrightarrow> goodReply B srv resp \<Longrightarrow> Q resp b'"
  shows "wp (handleAuthorize B srv r) Q b"
  unfolding handleAuthorize_def
  apply (intro wp_rules generateCode_wp insertCode_wp [of B srv])
  apply (auto intro!: assms(2) simp: goodReply_def goodPending_def assms(1) intro: goodCodes_same [OF assms(1)])
  done

lemma callbackBegin_wp:
  assumes "goodCodes B srv b"
    and "\<And>c m b'. goodCodes B srv b' \<Longrightarrow> Q (Inl (HttpError c m)) b'"
    and "\<And>p cs b'. goodCodes B srv b' \<Longrightarrow> goodPending B srv p \<Longrightarrow> Q (Inr (p, cs)) b'"
  shows "wp (callbackBegin B r) Q b"
  unfolding callbackBegin_def timeNow_def
  apply (intro wp_rules takeCode_wp [OF assms(1)])
  apply (auto intro!: assms(2,3))
  done

lemma callbackFinish_wp:
  assumes "goodCodes B srv b" and "goodPending B srv p" and "legitToken B srv jwt"
    and "\<And>resp b'. goodCodes B srv b' \<Longrightarrow> goodReply B srv resp \<Longrightarrow> Q resp b'"
  shows "wp (callbackFinish B p cs jwt) Q b"
proof -
  have allowed: "isAllowedRedirectURI B (bs_config srv) (pc_redirectURI p)" if "pc_redirectURI p \<noteq> []"
    using assms(2) that by (simp add: goodPending_def)
  have redirect: "goodReply B srv (RedirectTo (b_urlString B (u\<lparr>u_query :=
      AList.update ''state'' cs (AList.update ''code'' code (u_query u))\<rparr>)))"
    if "pc_redirectURI p \<noteq> []" "b_parseURL B (pc_redirectURI p) = Inr u" for u code
    unfolding goodReply_def outResponse.case using allowed [OF that(1)] that(2) by blast
  show ?thesis unfolding callbackFinish_def
    apply (intro wp_rules generateCode_wp insertCode_wp [of B srv])
    apply (auto intro!: assms(4) redirect intro: goodCodes_same [OF assms(1)] simp: goodPending_def assms(3))
    apply (auto simp: goodReply_def)
    done
qed

lemma handleToken_wp:
  assumes "goodCodes B srv b" and "\<And>resp b'. goodCodes B srv b' \<Longrightarrow> goodReply B srv resp \<Longrightarrow> Q resp b'"
  shows "wp (handleToken B srv r) Q b"
  unfolding handleToken_def timeNow_def
  apply (intro wp_rules takeCode_wp [OF assms(1)])
  apply (auto intro!: assms simp: goodReply_def goodPending_def)
  done

lemma sweep_wp:
  assumes "goodCodes B srv b" and "\<And>u b'. goodCodes B srv b' \<Longrightarrow> Q u b'"
  shows "wp (sweepExpiredCodes B) Q b"
proof -
  have "goodCodes B srv (b'\<lparr>br_codes := filter P (br_codes b)\<rparr>)" for P b'
    using assms(1) by (auto simp: goodCodes_def distinct_map_filter intro: order.trans [OF length_filter_le])
  then show ?thesis unfolding sweepExpiredCodes_def timeNow_def
    by (intro wp_rules) (auto intro!: assms(2))
qed

text \<open>The invariant holds initially and is kept by every step.\<close>

lemma goodRun_iff:
  "goodRun B srv n \<longleftrightarrow> goodCodes B srv (rn_bridge n) \<and>
     (\<forall>(r, p, cs) \<in> set (rn_flight n). goodPending B srv p) \<and>
     (\<forall>(p, cs, jwt) \<in> set (rn_minted n). goodPending B srv p \<and> legitToken B srv jwt) \<and>
     (\<forall>resp \<in> set (rn_sent n). goodReply B srv resp)"
  by (auto simp: goodRun_def goodCodes_def)

lemma goodRun_init: "goodRun B srv (initRun s)"
  by (simp add: goodRun_def initRun_def newBridge_def)

text \<open>What each handler's run establishes.\<close>

lemma run_good:
  assumes "goodCodes B srv b"
  shows "run_state (handleAuthorize B srv r) b = (resp, b') \<Longrightarrow> goodCodes B srv b' \<and> goodReply B srv resp"
    and "run_state (handleToken B srv r) b = (resp, b') \<Longrightarrow> goodCodes B srv b' \<and> goodReply B srv resp"
    and "run_state (callbackBegin B r) b = (Inl resp, b') \<Longrightarrow> goodCodes B srv b' \<and> goodReply B srv resp"
    and "run_state (callbackBegin B r) b = (Inr (p, cs), b') \<Longrightarrow> goodCodes B srv b' \<and> goodPending B srv p"
    and "run_state (lift (callbackAuthenticate B srv r)) b = (Inl resp, b') \<Longrightarrow> goodCodes B srv b' \<and> goodReply B srv resp"
    and "run_state (lift (callbackAuthenticate B srv r)) b = (Inr jwt, b') \<Longrightarrow> goodCodes B srv b' \<and> legitToken B srv jwt"
    and "run_state (lift (handleTokenExchange B srv r)) b = (resp, b') \<Longrightarrow> goodCodes B srv b' \<and> goodReply B srv resp"
    and "run_state (sweepExpiredCodes B) b = (u, b') \<Longrightarrow> goodCodes B srv b'"
    and "goodPending B srv p \<Longrightarrow> legitToken B srv jwt \<Longrightarrow> run_state (callbackFinish B p cs jwt) b = (resp, b') \<Longrightarrow>
      goodCodes B srv b' \<and> goodReply B srv resp"
proof -
  have err: "goodReply B srv (HttpError c m)" for c m by (simp add: goodReply_def)
  have begin_: "wp (callbackBegin B r) (\<lambda>x b'. goodCodes B srv b' \<and>
      (case x of Inl resp \<Rightarrow> goodReply B srv resp | Inr (p, cs) \<Rightarrow> goodPending B srv p)) b"
    by (rule callbackBegin_wp [OF assms]) (simp_all add: err)
  have auth: "wp (lift (callbackAuthenticate B srv r)) (\<lambda>x b'. goodCodes B srv b' \<and>
      (case x of Inl resp \<Rightarrow> goodReply B srv resp | Inr jwt \<Rightarrow> legitToken B srv jwt)) b"
    by (rule wp_lift, rule callbackAuthenticate_wp) (simp_all add: err assms)
  show "run_state (handleAuthorize B srv r) b = (resp, b') \<Longrightarrow> goodCodes B srv b' \<and> goodReply B srv resp"
    by (rule wpD [rotated], assumption, rule handleAuthorize_wp [OF assms]) simp
  show "run_state (handleToken B srv r) b = (resp, b') \<Longrightarrow> goodCodes B srv b' \<and> goodReply B srv resp"
    by (rule wpD [rotated], assumption, rule handleToken_wp [OF assms]) simp
  show "run_state (callbackBegin B r) b = (Inl resp, b') \<Longrightarrow> goodCodes B srv b' \<and> goodReply B srv resp"
    "run_state (callbackBegin B r) b = (Inr (p, cs), b') \<Longrightarrow> goodCodes B srv b' \<and> goodPending B srv p"
    by (drule wpD [OF begin_], simp)+
  show "run_state (lift (callbackAuthenticate B srv r)) b = (Inl resp, b') \<Longrightarrow> goodCodes B srv b' \<and> goodReply B srv resp"
    "run_state (lift (callbackAuthenticate B srv r)) b = (Inr jwt, b') \<Longrightarrow> goodCodes B srv b' \<and> legitToken B srv jwt"
    by (drule wpD [OF auth], simp)+
  show "run_state (lift (handleTokenExchange B srv r)) b = (resp, b') \<Longrightarrow> goodCodes B srv b' \<and> goodReply B srv resp"
    by (rule wpD [rotated], assumption, rule wp_lift, rule handleTokenExchange_wp [of B srv]) (simp add: assms)
  show "run_state (sweepExpiredCodes B) b = (u, b') \<Longrightarrow> goodCodes B srv b'"
    by (rule wpD [rotated], assumption, rule sweep_wp [OF assms]) simp
  show "goodPending B srv p \<Longrightarrow> legitToken B srv jwt \<Longrightarrow> run_state (callbackFinish B p cs jwt) b = (resp, b') \<Longrightarrow>
      goodCodes B srv b' \<and> goodReply B srv resp"
    by (rule wpD [rotated], assumption, rule callbackFinish_wp [OF assms]) simp_all
qed

lemma remove1_all: "\<forall>x \<in> set xs. P x \<Longrightarrow> (\<forall>x \<in> set (remove1 y xs). P x) = True"
  by (meson notin_set_remove1)

lemma goodRun_step:
  assumes "bridgeStep B srv n n'" and "goodRun B srv n"
  shows "goodRun B srv n'"
  using assms
proof (induction rule: bridgeStep.induct)
  case (environment n s)
  then show ?case by (simp add: goodRun_iff)
next
  case (authorize r n resp b)
  then show ?case using run_good(1) by (fastforce simp: goodRun_iff)
next
  case (callback_refused r n resp b)
  then show ?case using run_good(3) by (fastforce simp: goodRun_iff)
next
  case (callback_begun r n p cs b)
  then show ?case using run_good(4) by (fastforce simp: goodRun_iff)
next
  case (callback_failed r p cs n resp b)
  then show ?case using run_good(5) [of B srv "rn_bridge n"] by (simp add: goodRun_iff remove1_all)
next
  case (callback_minted r p cs n jwt b)
  then have "goodPending B srv p" by (auto simp: goodRun_iff)
  then show ?case using callback_minted run_good(6) [of B srv "rn_bridge n"] by (simp add: goodRun_iff remove1_all)
next
  case (callback_done p cs jwt n resp b)
  then have "goodPending B srv p \<and> legitToken B srv jwt" by (auto simp: goodRun_iff)
  then show ?case using callback_done run_good(9) [of B srv "rn_bridge n" p jwt]
    by (simp add: goodRun_iff remove1_all)
next
  case (token r n resp b)
  then show ?case using run_good(2) by (fastforce simp: goodRun_iff)
next
  case (token_exchange r n resp b)
  then show ?case using run_good(7) by (fastforce simp: goodRun_iff)
next
  case (sweep n u b)
  then show ?case using run_good(8) by (fastforce simp: goodRun_iff)
qed

lemma reachable_good: "reachable B srv n \<Longrightarrow> goodRun B srv n"
proof -
  assume "reachable B srv n"
  then obtain s where "(bridgeStep B srv)\<^sup>*\<^sup>* (initRun s) n" by (auto simp: reachable_def)
  then show ?thesis by (induction rule: rtranclp_induct) (auto simp: goodRun_init intro: goodRun_step)
qed

lemma isAuthorized_iff:
  "isAuthorized cfg name groups \<longleftrightarrow> name = ''kube:admin'' \<or> bc_UserGroup cfg \<noteq> [] \<and> bc_UserGroup cfg \<in> set groups"
  by (auto simp: isAuthorized_def list_ex_iff)

lemma roleAdmin_iff:
  "roleAdmin \<in> set (mapRoles cfg groups) \<longleftrightarrow> bc_AdminGroup cfg \<noteq> [] \<and> bc_AdminGroup cfg \<in> set groups"
  by (auto simp: mapRoles_def list_ex_iff)

lemma hexDigit_not_colon: "n < 16 \<Longrightarrow> hexDigits ! n \<noteq> CHR '':''"
proof -
  assume "n < 16"
  then have "hexDigits ! n \<in> set hexDigits" by (intro nth_mem) (simp add: hexDigits_def)
  moreover have "CHR '':'' \<notin> set hexDigits" by (simp add: hexDigits_def)
  ultimately show ?thesis by metis
qed

lemma hexEncode_no_colon: "CHR '':'' \<notin> set (hexEncode bs)"
proof -
  have "hexDigits ! (byteVal b div 16) \<noteq> CHR '':''" "hexDigits ! (byteVal b mod 16) \<noteq> CHR '':''" for b
    by (rule hexDigit_not_colon, simp add: less_mult_imp_div_less)+
  then show ?thesis by (fastforce simp: hexEncode_def)
qed

section \<open>Example\<close>

definition exampleServer :: bridgeServer where
  "exampleServer = NewServer \<lparr>js_privateKey = ''k'', js_kid = ''1''\<rparr>
     \<lparr>bc_Issuer = ''http://localhost:8085'', bc_ExternalIssuer = ''http://auth.x'', bc_Audience = ''cli'',
      bc_ListenAddr = [], bc_OpenShiftOAuth = ''http://oauth/'', bc_ClientID = ''id'', bc_ClientSecret = ''s'',
      bc_UserGroup = ''devs'', bc_AdminGroup = ''ops'', bc_TokenTTL = 0\<rparr>"

definition exampleRequest :: inRequest where
  "exampleRequest = \<lparr>iq_method = ''POST'', iq_path = ''/token/exchange'', iq_host = [],
     iq_query = [(''redirect_uri'', ''http://localhost:1/cb'')],
     iq_form = Inr [(''grant_type'', ''authorization_code''), (''code'', ''c'')],
     iq_authorization = ''Bearer alice''\<rparr>"

definition exampleSys :: "memWorld sys" where
  "exampleSys = memSys \<lparr>mw_objs = [], mw_fake = newFakeOpenShellServer, mw_clock = 0\<rparr>"

definition exampleExchange :: "memWorld bridgeRun" where
  "exampleExchange = (case run_state (lift (handleTokenExchange memBenv exampleServer exampleRequest))
     (rn_bridge (initRun exampleSys)) of (resp, b) \<Rightarrow> reply (initRun exampleSys) b resp)"

definition exampleAuthorize :: "memWorld bridgeRun" where
  "exampleAuthorize = (case run_state (handleAuthorize memBenv exampleServer exampleRequest)
     (rn_bridge (initRun exampleSys)) of (resp, b) \<Rightarrow> reply (initRun exampleSys) b resp)"

lemma reachable_exchange: "reachable memBenv exampleServer exampleExchange"
  unfolding reachable_def exampleExchange_def
  by (rule exI [of _ exampleSys]) (auto intro!: r_into_rtranclp token_exchange split: prod.splits)

lemma reachable_authorize: "reachable memBenv exampleServer exampleAuthorize"
  unfolding reachable_def exampleAuthorize_def
  by (rule exI [of _ exampleSys]) (auto intro!: r_into_rtranclp authorize split: prod.splits)

text \<open>The access token of a response, if it has one.\<close>

definition accessTokenOf :: "outResponse \<Rightarrow> string option" where
  "accessTokenOf resp = (case resp of JsonBody (JMap kvs) \<Rightarrow>
     (case map_of kvs ''access_token'' of Some (JStr t) \<Rightarrow> Some t | _ \<Rightarrow> None) | _ \<Rightarrow> None)"

lemma accessTokenOf_legit: "goodReply B srv resp \<Longrightarrow> accessTokenOf resp = Some jwt \<Longrightarrow> legitToken B srv jwt"
  by (auto simp: goodReply_def accessTokenOf_def split: outResponse.splits)

section \<open>Properties\<close>



text \<open>
  C36: the store of pending codes is bounded. In every reachable state, under any interleaving, it
  holds at most ten thousand entries, under distinct keys.
\<close>

theorem bridge_pending_bounded:
  assumes "reachable B srv n"
  shows "length (br_codes (rn_bridge n)) \<le> 10000 \<and> distinct (map fst (br_codes (rn_bridge n)))"
  using reachable_good [OF assms] by (simp add: goodRun_def maxPendingCodes_def)

theorem bridge_pending_bounded_witness:
  "length (br_codes (rn_bridge exampleAuthorize)) \<le> 10000 \<and>
   distinct (map fst (br_codes (rn_bridge exampleAuthorize)))"
  by (rule bridge_pending_bounded [OF reachable_authorize])

text \<open>
  C35: the auth-bridge redirects only to the OpenShift login page or to an allowed client URI. In every
  reachable state, a redirect that was sent goes to the authorization endpoint of the configured
  OAuth server, or to a URI that passed the redirect check, with only the query parameters \<open>code\<close>
  and \<open>state\<close> set.
\<close>

theorem bridge_redirects_allowed:
  assumes "reachable B srv n" and "RedirectTo url \<in> set (rn_sent n)"
  shows "(\<exists>q. url = AuthorizationURL (bs_osc srv) @ ''?'' @ q) \<or>
    (\<exists>uri u code st. isAllowedRedirectURI B (bs_config srv) uri \<and> b_parseURL B uri = Inr u \<and>
       url = b_urlString B (u\<lparr>u_query := AList.update ''state'' st (AList.update ''code'' code (u_query u))\<rparr>))"
proof -
  have "goodReply B srv (RedirectTo url)"
    using reachable_good [OF assms(1)] assms(2) by (simp add: goodRun_iff)
  then show ?thesis by (simp add: goodReply_def)
qed

theorem bridge_redirects_allowed_witness:
  "\<exists>url. RedirectTo url \<in> set (rn_sent exampleAuthorize) \<and>
     ((\<exists>q. url = AuthorizationURL (bs_osc exampleServer) @ ''?'' @ q) \<or>
      (\<exists>uri u. isAllowedRedirectURI memBenv (bs_config exampleServer) uri \<and> b_parseURL memBenv uri = Inr u))"
proof -
  have "case rn_sent exampleAuthorize of [RedirectTo url] \<Rightarrow> True | _ \<Rightarrow> False" by code_simp
  then obtain url where "RedirectTo url \<in> set (rn_sent exampleAuthorize)"
    by (auto split: list.splits outResponse.splits)
  then show ?thesis using bridge_redirects_allowed [OF reachable_authorize] by blast
qed

text \<open>
  C37: an authorization code can be redeemed once, before it expires, and only if it is a code. If
  \<open>/token\<close> answers with a token, the code was pending with exactly that non-empty token and the clock
  had not passed its expiry; afterwards the code is gone, and replaying the request on the new
  store is refused.
\<close>

theorem token_single_use:
  assumes "run_state (handleToken B srv r) b = (JsonBody j, b')"
  shows "\<exists>form p now w. iq_form r = Inr form \<and> map_of (br_codes b) (mget form ''code'') = Some p \<and>
    pc_jwt p \<noteq> [] \<and> e_now (b_env B) (world (br_sys b)) = (now, w) \<and> now \<le> pc_expiresAt p \<and>
    (\<exists>rest. j = JMap ((''access_token'', JStr (pc_jwt p)) # rest)) \<and>
    br_codes b' = AList.delete (mget form ''code'') (br_codes b) \<and>
    (\<forall>s. fst (run_state (handleToken B srv r) (b'\<lparr>br_sys := s\<rparr>)) = HttpError 400 ''{\"error\":\"invalid_grant\"}'')"
  using assms
  by (auto simp: handleToken_def takeCode_def lift_def timeNow_def silent_def delete_conv'
      split: if_splits sum.splits option.splits prod.splits)

theorem token_single_use_witness:
  "let b = \<lparr>br_sys = exampleSys, br_codes = [(''c'', \<lparr>pc_jwt = ''t'', pc_expiresAt = 5, pc_redirectURI = []\<rparr>)]\<rparr>;
       b' = snd (run_state (handleToken memBenv exampleServer exampleRequest) b)
   in fst (run_state (handleToken memBenv exampleServer exampleRequest) (b'\<lparr>br_sys := exampleSys\<rparr>)) =
      HttpError 400 ''{\"error\":\"invalid_grant\"}''"
proof -
  let ?b = "\<lparr>br_sys = exampleSys, br_codes = [(''c'', \<lparr>pc_jwt = ''t'', pc_expiresAt = 5, pc_redirectURI = []\<rparr>)]\<rparr>"
  have "case fst (run_state (handleToken memBenv exampleServer exampleRequest) ?b) of JsonBody j \<Rightarrow> True | _ \<Rightarrow> False"
    by code_simp
  then obtain j where "fst (run_state (handleToken memBenv exampleServer exampleRequest) ?b) = JsonBody j"
    by (auto split: outResponse.splits)
  then have "run_state (handleToken memBenv exampleServer exampleRequest) ?b =
      (JsonBody j, snd (run_state (handleToken memBenv exampleServer exampleRequest) ?b))"
    by (metis prod.collapse)
  from token_single_use [OF this] show ?thesis unfolding Let_def by blast
qed

text \<open>
  The state parameter survives the round trip through the OAuth server: splitting the combined
  state that \<open>/authorize\<close> sent gives back the generated bridge state and the client's own state,
  whatever bytes the client chose.
\<close>

theorem state_roundtrip:
  "splitState (hexEncode randomBytes @ '':'' @ clientState) = (hexEncode randomBytes, clientState)"
  using cutAt_append [OF hexEncode_no_colon] by (simp add: splitState_def)

text \<open>
  The sweeper removes exactly the expired entries: at its clock reading, an entry survives if and
  only if it has not expired, and no entry is changed.
\<close>

theorem sweep_exact:
  assumes "e_now (b_env B) (world (br_sys b)) = (now, w)"
  shows "set (br_codes (snd (run_state (sweepExpiredCodes B) b))) =
    {(k, v) \<in> set (br_codes b). now \<le> pc_expiresAt v}"
  using assms by (auto simp: sweepExpiredCodes_def lift_def timeNow_def silent_def)

theorem sweep_exact_witness:
  "set (br_codes (snd (run_state (sweepExpiredCodes memBenv)
     \<lparr>br_sys = exampleSys, br_codes = [(''c'', \<lparr>pc_jwt = ''t'', pc_expiresAt = - 1, pc_redirectURI = []\<rparr>)]\<rparr>))) = {}"
proof -
  have "e_now (b_env memBenv) (world (br_sys \<lparr>br_sys = exampleSys,
      br_codes = [(''c'', \<lparr>pc_jwt = ''t'', pc_expiresAt = - 1, pc_redirectURI = []\<rparr>)]\<rparr>)) = (0, world exampleSys)"
    by (simp add: memBenv_def memEnv_def exampleSys_def memSys_def)
  from sweep_exact [OF this] show ?thesis by simp
qed

text \<open>
  A pending code is accepted where a state is expected. If a callback names an unexpired code
  entry as its state, the handler consumes that code, authenticates the user, stores a second code
  for a new token and then answers with an error, because a code entry has no redirect URI: the
  first code is lost and nobody can redeem the second.
\<close>

theorem callback_accepts_code_as_state:
  "let b = \<lparr>br_sys = exampleSys, br_codes = [(''c'', \<lparr>pc_jwt = ''t'', pc_expiresAt = 5, pc_redirectURI = []\<rparr>)]\<rparr>;
       r = run_state (handleCallback memBenv exampleServer (exampleRequest\<lparr>iq_query := [(''state'', ''c'')]\<rparr>)) b
   in fst r = HttpError 400 ''missing redirect_uri'' \<and> map_of (br_codes (snd r)) ''c'' = None \<and>
      length (br_codes (snd r)) = 1"
  by code_simp

end
