(* ===== verification/BridgeMain.thy ===== *)
theory BridgeMain
  imports BridgeServer Detect
begin

text \<open>
  \<^verbatim>\<open>src/cmd/auth-bridge/main.go\<close> and the key loading of \<^verbatim>\<open>src/internal/authbridge/jwt.go\<close>: the
  configuration of the auth-bridge from its process environment, the listen addresses, and the
  reloading TLS certificate, and the life of the process: its listeners run in goroutines beside
  \<open>main\<close>, which waits for a signal and then shuts them down, so the process is a step relation.
  Parsing a duration, generating a key and loading a key pair from files are parameters.
\<close>

section \<open>Definitions\<close>

definition resolveListenAddr :: "string \<Rightarrow> bool \<Rightarrow> bool \<Rightarrow> string" where
  "resolveListenAddr explicit explicitlySet tlsConfigured =
     (if explicitlySet \<and> explicit \<noteq> [] then explicit
      else if tlsConfigured then ''127.0.0.1:8085''
      else '':8085'')"

definition envOrDefault :: "'w benv \<Rightarrow> string \<Rightarrow> string \<Rightarrow> string" where
  "envOrDefault B key fallback = (if b_getenv B key \<noteq> [] then b_getenv B key else fallback)"

text \<open>\<open>parse\<close> is \<^verbatim>\<open>time.ParseDuration\<close>.\<close>

definition parseDuration :: "(string \<Rightarrow> goerr + int) \<Rightarrow> string \<Rightarrow> int \<Rightarrow> int" where
  "parseDuration parse s fallback =
     (if s = [] then fallback else case parse s of Inl _ \<Rightarrow> fallback | Inr d \<Rightarrow> d)"

text \<open>\<open>loadPair\<close> is \<^verbatim>\<open>tls.LoadX509KeyPair\<close>.\<close>

type_synonym 'w loadPair = "string \<Rightarrow> string \<Rightarrow> 'w \<Rightarrow> (goerr + string) \<times> 'w"

definition validateTLSFiles :: "'w loadPair \<Rightarrow> string \<Rightarrow> string \<Rightarrow> ('w sys, goerr option) state" where
  "validateTLSFiles loadPair cert key =
     (if (cert = []) \<noteq> (key = [])
      then ret (Some (Errorf ''AUTH_BRIDGE_TLS_CERT and AUTH_BRIDGE_TLS_KEY must be configured together''))
      else if cert \<noteq> [] then do {
        r \<leftarrow> silent (loadPair cert key);
        (case r of
          Inl e \<Rightarrow> ret (Some (Wrapf ''loading TLS cert/key: '' e []))
        | Inr _ \<Rightarrow> ret None)
      }
      else ret None)"

definition readConfig :: "'w benv \<Rightarrow> (string \<Rightarrow> goerr + int) \<Rightarrow> string option \<Rightarrow> bridgeConfig" where
  "readConfig B parse listenEnv =
     (let internalIssuer = envOrDefault B ''AUTH_BRIDGE_ISSUER'' ''http://localhost:8085'';
          tlsCert = b_getenv B ''AUTH_BRIDGE_TLS_CERT'' in
      \<lparr>bc_Issuer = internalIssuer,
       bc_ExternalIssuer = envOrDefault B ''AUTH_BRIDGE_EXTERNAL_ISSUER'' internalIssuer,
       bc_Audience = envOrDefault B ''AUTH_BRIDGE_AUDIENCE'' ''openshell-cli'',
       bc_ListenAddr = resolveListenAddr (case listenEnv of None \<Rightarrow> [] | Some v \<Rightarrow> v) (listenEnv \<noteq> None) (tlsCert \<noteq> []),
       bc_OpenShiftOAuth = envOrDefault B ''AUTH_BRIDGE_OPENSHIFT_ISSUER'' ''https://oauth-openshift.apps.example.com'',
       bc_ClientID = envOrDefault B ''AUTH_BRIDGE_CLIENT_ID'' ''openshell'',
       bc_ClientSecret = b_getenv B ''AUTH_BRIDGE_CLIENT_SECRET'',
       bc_UserGroup = b_getenv B ''AUTH_BRIDGE_USER_GROUP'',
       bc_AdminGroup = b_getenv B ''AUTH_BRIDGE_ADMIN_GROUP'',
       bc_TokenTTL = parseDuration parse (b_getenv B ''AUTH_BRIDGE_TOKEN_TTL'') (8 * 60 * 60 * 10 ^ 9)\<rparr>)"

text \<open>The listeners: address, and whether it serves TLS. \<open>listenEnv\<close> is \<^verbatim>\<open>os.LookupEnv\<close>'s answer.\<close>

definition listeners :: "'w benv \<Rightarrow> bridgeConfig \<Rightarrow> (string \<times> bool) list" where
  "listeners B cfg = (bc_ListenAddr cfg, False) #
     (if b_getenv B ''AUTH_BRIDGE_TLS_CERT'' \<noteq> []
      then [(envOrDefault B ''AUTH_BRIDGE_TLS_LISTEN'' '':8443'', True)] else [])"

definition loadJWTSigner :: "'w benv \<Rightarrow> string \<Rightarrow> string \<Rightarrow> ('w sys, goerr + jwtSigner) state" where
  "loadJWTSigner B signingKeyPath kidPath = do {
     r \<leftarrow> readFile B signingKeyPath;
     (case r of
       Inl e \<Rightarrow> ret (Inl (Wrapf (''reading signing key from '' @ signingKeyPath @ '': '') e []))
     | Inr signingPEM \<Rightarrow> do {
         kid \<leftarrow> (if kidPath \<noteq> [] then do {
             k \<leftarrow> readFile B kidPath;
             (case k of Inl e \<Rightarrow> ret [] | Inr kidBytes \<Rightarrow> ret (trimSpace kidBytes))
           }
           else ret []);
         ret (NewJWTSignerFromPEM (b_env B) signingPEM kid)
       })
   }"

text \<open>\<open>genKey\<close> is \<^verbatim>\<open>rsa.GenerateKey\<close>.\<close>

definition generateJWTSigner :: "'w benv \<Rightarrow> ('w \<Rightarrow> (goerr + string) \<times> 'w) \<Rightarrow> ('w sys, goerr + jwtSigner) state" where
  "generateJWTSigner B genKey = do {
     r \<leftarrow> silent genKey;
     (case r of
       Inl e \<Rightarrow> ret (Inl (Wrapf ''generating RSA key: '' e []))
     | Inr k \<Rightarrow> ret (Inr \<lparr>js_privateKey = k,
         js_kid = hexEncode (take 16 (e_sha256 (b_env B) (e_marshalPKCS1Public (b_env B) k)))\<rparr>))
   }"

definition NewJWTSigner :: "'w benv \<Rightarrow> ('w \<Rightarrow> (goerr + string) \<times> 'w) \<Rightarrow> ('w sys, goerr + jwtSigner) state" where
  "NewJWTSigner B genKey =
     (let signingKeyPath = b_getenv B ''AUTH_BRIDGE_SIGNING_KEY''; publicKeyPath = b_getenv B ''AUTH_BRIDGE_PUBLIC_KEY'' in
      if signingKeyPath \<noteq> [] \<and> publicKeyPath \<noteq> []
      then loadJWTSigner B signingKeyPath (b_getenv B ''AUTH_BRIDGE_KID'')
      else generateJWTSigner B genKey)"

text \<open>The start of \<open>main\<close> up to the listeners: \<open>Inl\<close> is \<^verbatim>\<open>log.Fatal\<close>.\<close>

definition startBridge :: "'w benv \<Rightarrow> 'w loadPair \<Rightarrow> (string \<Rightarrow> goerr + int) \<Rightarrow> ('w \<Rightarrow> (goerr + string) \<times> 'w) \<Rightarrow>
    string option \<Rightarrow> ('w sys, string + bridgeServer \<times> (string \<times> bool) list) state" where
  "startBridge B loadPair parse genKey listenEnv = do {
     v \<leftarrow> validateTLSFiles loadPair (b_getenv B ''AUTH_BRIDGE_TLS_CERT'') (b_getenv B ''AUTH_BRIDGE_TLS_KEY'');
     (case v of
       Some e \<Rightarrow> ret (Inl (errText e))
     | None \<Rightarrow>
        (let cfg = readConfig B parse listenEnv in
         if bc_ClientSecret cfg = [] then ret (Inl ''AUTH_BRIDGE_CLIENT_SECRET is required'')
         else do {
           sg \<leftarrow> NewJWTSigner B genKey;
           (case sg of
             Inl e \<Rightarrow> ret (Inl (''Failed to create auth-bridge server: '' @ errText e))
           | Inr signer \<Rightarrow> ret (Inr (NewServer signer cfg, listeners B cfg)))
         }))
   }"

text \<open>\<open>loadCertificate\<close> runs under a mutex: the cached pair and the time it was loaded are its state.\<close>

record certCache =
  ce_cached :: "string option"
  ce_cachedAt :: int

definition certTTL :: int where
  "certTTL = 5 * 60 * 10 ^ 9"

definition loadCertificate :: "'w benv \<Rightarrow> 'w loadPair \<Rightarrow> string \<Rightarrow> string \<Rightarrow> certCache \<Rightarrow>
    ('w sys, (goerr + string) \<times> certCache) state" where
  "loadCertificate B loadPair cert key c = do {
     now \<leftarrow> timeNow (b_env B);
     (case ce_cached c of
       Some pair \<Rightarrow>
         if now - ce_cachedAt c < certTTL then ret (Inr pair, c)
         else do {
           r \<leftarrow> silent (loadPair cert key);
           (case r of
             Inl e \<Rightarrow> ret (Inr pair, c)
           | Inr pair' \<Rightarrow> do {
               now' \<leftarrow> timeNow (b_env B);
               ret (Inr pair', \<lparr>ce_cached = Some pair', ce_cachedAt = now'\<rparr>)
             })
         }
     | None \<Rightarrow> do {
         r \<leftarrow> silent (loadPair cert key);
         (case r of
           Inl e \<Rightarrow> ret (Inl e, c)
         | Inr pair' \<Rightarrow> do {
             now' \<leftarrow> timeNow (b_env B);
             ret (Inr pair', \<lparr>ce_cached = Some pair', ce_cachedAt = now'\<rparr>)
           })
       })
   }"

section \<open>Serving and shutting down\<close>

text \<open>The fields of \<^verbatim>\<open>http.Server\<close> that \<open>main\<close> sets; durations are nanoseconds. The callback of the TLS
  configuration is \<^const>\<open>loadCertificate\<close> for its two files.\<close>

datatype tlsVersion = VersionTLS12

record tlsConfig =
  tc_MinVersion :: tlsVersion
  tc_certFile :: string
  tc_keyFile :: string
  tc_cacheTTL :: int

record httpServer =
  hs_Addr :: string
  hs_Handler :: bridgeServer
  hs_ReadTimeout :: int
  hs_WriteTimeout :: int
  hs_IdleTimeout :: int
  hs_TLSConfig :: "tlsConfig option"

definition newHTTPServer :: "string \<Rightarrow> bridgeServer \<Rightarrow> httpServer" where
  "newHTTPServer addr handler =
     \<lparr>hs_Addr = addr, hs_Handler = handler, hs_ReadTimeout = 30 * 10 ^ 9, hs_WriteTimeout = 30 * 10 ^ 9,
      hs_IdleTimeout = 120 * 10 ^ 9, hs_TLSConfig = None\<rparr>"

definition dynamicTLSConfig :: "string \<Rightarrow> string \<Rightarrow> tlsConfig" where
  "dynamicTLSConfig cert key =
     \<lparr>tc_MinVersion = VersionTLS12, tc_certFile = cert, tc_keyFile = key, tc_cacheTTL = certTTL\<rparr>"

text \<open>The blocking call of \<^verbatim>\<open>net/http\<close> a goroutine ends up in, and the server it is made on.\<close>

datatype serveCall = ListenAndServe httpServer | ListenAndServeTLS httpServer

definition listenAndServe :: "httpServer \<Rightarrow> string \<Rightarrow> string \<Rightarrow> serveCall" where
  "listenAndServe server cert key =
     (if cert = [] then ListenAndServe server
      else ListenAndServeTLS (server\<lparr>hs_TLSConfig := Some (dynamicTLSConfig cert key)\<rparr>))"

definition bridgeServers :: "'w benv \<Rightarrow> bridgeServer \<Rightarrow> httpServer list" where
  "bridgeServers B srv = newHTTPServer (bc_ListenAddr (bs_config srv)) srv #
     (if b_getenv B ''AUTH_BRIDGE_TLS_CERT'' \<noteq> []
      then [newHTTPServer (envOrDefault B ''AUTH_BRIDGE_TLS_LISTEN'' '':8443'') srv] else [])"

definition serveAll :: "'w benv \<Rightarrow> bridgeServer \<Rightarrow> serveCall list" where
  "serveAll B srv = map (\<lambda>(i, server).
     if i > 0 then listenAndServe server (b_getenv B ''AUTH_BRIDGE_TLS_CERT'') (b_getenv B ''AUTH_BRIDGE_TLS_KEY'')
     else listenAndServe server [] []) (List.enumerate 0 (bridgeServers B srv))"

text \<open>
  The process: where \<open>main\<close> is, which goroutines are still in their blocking call, for which servers
  \<^verbatim>\<open>Shutdown\<close> has returned, whether the sweeper of the code table still runs, and what was logged.
\<close>

datatype mainPhase = WaitingForSignal | ShuttingDown | Returned | Fatal

record bridgeProcess =
  bp_phase :: mainPhase
  bp_serving :: "bool list"
  bp_shutdown :: "bool list"
  bp_sweeper :: bool
  bp_log :: "string list"

definition startProcess :: "serveCall list \<Rightarrow> bridgeProcess" where
  "startProcess srvs = \<lparr>bp_phase = WaitingForSignal, bp_serving = map (\<lambda>_. True) srvs,
     bp_shutdown = map (\<lambda>_. False) srvs, bp_sweeper = True, bp_log = []\<rparr>"

abbreviation ErrServerClosed :: goerr where
  "ErrServerClosed \<equiv> Errorf ''http: Server closed''"

text \<open>
  A blocking call returns \<^verbatim>\<open>ErrServerClosed\<close> only once \<^verbatim>\<open>Shutdown\<close> was called on its server, and any other
  error at any time. \<^verbatim>\<open>Shutdown\<close> returns when the connections are idle or, with an error, when its five
  seconds are over: either way it returns.
\<close>

inductive mainStep :: "bridgeProcess \<Rightarrow> bridgeProcess \<Rightarrow> bool" where
  serve_failed: "\<lbrakk>bp_phase p = WaitingForSignal \<or> bp_phase p = ShuttingDown;
      i < length (bp_serving p); bp_serving p ! i; e \<noteq> ErrServerClosed\<rbrakk> \<Longrightarrow>
    mainStep p (p\<lparr>bp_phase := Fatal, bp_log := bp_log p @ [''Server failed: '' @ errText e]\<rparr>)"
| serve_closed: "\<lbrakk>bp_phase p = ShuttingDown; i < length (bp_serving p); bp_serving p ! i\<rbrakk> \<Longrightarrow>
    mainStep p (p\<lparr>bp_serving := (bp_serving p)[i := False]\<rparr>)"
| signalled: "bp_phase p = WaitingForSignal \<Longrightarrow>
    mainStep p (p\<lparr>bp_phase := ShuttingDown, bp_log := bp_log p @ [''Shutting down...'']\<rparr>)"
| shutdown_returned: "\<lbrakk>bp_phase p = ShuttingDown; i < length (bp_shutdown p); \<not> bp_shutdown p ! i\<rbrakk> \<Longrightarrow>
    mainStep p (p\<lparr>bp_shutdown := (bp_shutdown p)[i := True],
      bp_log := bp_log p @ (case r of None \<Rightarrow> [] | Some e \<Rightarrow> [''Shutdown error: '' @ errText e])\<rparr>)"
| main_returned: "\<lbrakk>bp_phase p = ShuttingDown; list_all id (bp_shutdown p)\<rbrakk> \<Longrightarrow>
    mainStep p (p\<lparr>bp_phase := Returned, bp_sweeper := False\<rparr>)"

inductive_cases mainStepE: "mainStep p q"

section \<open>The certificate cache as a cache with a time to live\<close>

definition certFill :: "int \<Rightarrow> string \<Rightarrow> certCache" where
  "certFill t pair = \<lparr>ce_cached = Some pair, ce_cachedAt = t\<rparr>"

interpretation certs: ttl_cache certFill
  "\<lambda>c t. ce_cached c \<noteq> None \<and> t - ce_cachedAt c < certTTL" "\<lambda>c. the (ce_cached c)" "\<lambda>_. certTTL"
  by unfold_locales (auto simp: certFill_def)

section \<open>The life of the process\<close>

lemma serveAll_listeners:
  "map (\<lambda>c. case c of ListenAndServe h \<Rightarrow> (hs_Addr h, False) | ListenAndServeTLS h \<Rightarrow> (hs_Addr h, True))
     (serveAll B srv) = listeners B (bs_config srv)"
  by (simp add: serveAll_def bridgeServers_def listenAndServe_def listeners_def newHTTPServer_def)

text \<open>Every step brings the process closer to its end: the phase, then the goroutines left.\<close>

primrec phaseRank :: "mainPhase \<Rightarrow> nat" where
  "phaseRank WaitingForSignal = 2"
| "phaseRank ShuttingDown = 1"
| "phaseRank Returned = 0"
| "phaseRank Fatal = 0"

definition leftToDo :: "bridgeProcess \<Rightarrow> nat" where
  "leftToDo p = length (filter id (bp_serving p)) + length (filter Not (bp_shutdown p))"

lemma length_filter_update:
  assumes "i < length xs" and "P (xs ! i)" and "\<not> P v"
  shows "length (filter P (xs[i := v])) < length (filter P xs)"
  using assms
proof (induction xs arbitrary: i)
  case (Cons x xs)
  then show ?case by (cases i) auto
qed simp

lemma mainStep_decreases:
  assumes "mainStep p q"
  shows "(q, p) \<in> measures [\<lambda>p. phaseRank (bp_phase p), leftToDo]"
  using assms
proof cases
  case (serve_closed i)
  then show ?thesis using length_filter_update [of i "bp_serving p" id False] by (simp add: leftToDo_def)
next
  case (shutdown_returned i r)
  then show ?thesis using length_filter_update [of i "bp_shutdown p" Not True] by (simp add: leftToDo_def)
qed auto

lemma mainStep_wf: "wf {(q, p). mainStep p q}"
  by (rule wf_subset [OF wf_measures]) (use mainStep_decreases in blast)

lemma mainStep_progress: "(\<exists>q. mainStep p q) \<longleftrightarrow> bp_phase p \<noteq> Returned \<and> bp_phase p \<noteq> Fatal"
proof
  assume "bp_phase p \<noteq> Returned \<and> bp_phase p \<noteq> Fatal"
  then consider "bp_phase p = WaitingForSignal" | "bp_phase p = ShuttingDown" "list_all id (bp_shutdown p)"
    | i where "bp_phase p = ShuttingDown" "i < length (bp_shutdown p)" "\<not> bp_shutdown p ! i"
    by (cases "bp_phase p") (auto simp: list_all_length)
  then show "\<exists>q. mainStep p q" by cases (blast intro: mainStep.intros)+
qed (auto elim: mainStepE)

text \<open>The invariant: what is known about the process in each phase.\<close>

definition goodProcess :: "nat \<Rightarrow> bridgeProcess \<Rightarrow> bool" where
  "goodProcess n p = (length (bp_shutdown p) = n \<and>
     (case bp_phase p of
        WaitingForSignal \<Rightarrow> bp_sweeper p
      | ShuttingDown \<Rightarrow> bp_sweeper p \<and> ''Shutting down...'' \<in> set (bp_log p)
      | Returned \<Rightarrow> \<not> bp_sweeper p \<and> ''Shutting down...'' \<in> set (bp_log p) \<and> list_all id (bp_shutdown p)
      | Fatal \<Rightarrow> bp_sweeper p \<and> bp_log p \<noteq> [] \<and>
          (\<exists>e. e \<noteq> ErrServerClosed \<and> last (bp_log p) = ''Server failed: '' @ errText e)))"

lemma goodProcess_start: "goodProcess (length srvs) (startProcess srvs)"
  by (simp add: goodProcess_def startProcess_def)

lemma goodProcess_step: "mainStep p q \<Longrightarrow> goodProcess n p \<Longrightarrow> goodProcess n q"
  by (erule mainStep.cases) (auto simp: goodProcess_def)

lemma goodProcess_reachable:
  "mainStep\<^sup>*\<^sup>* (startProcess srvs) p \<Longrightarrow> goodProcess (length srvs) p"
  by (induction rule: rtranclp_induct) (auto intro: goodProcess_start goodProcess_step)

lemma startBridge_result:
  assumes "run_state (startBridge B loadPair parse genKey listenEnv) s = (Inr (srv, ls), t)"
  shows "bs_config srv = readConfig B parse listenEnv" and "ls = listeners B (readConfig B parse listenEnv)"
    and "bc_ClientSecret (bs_config srv) \<noteq> []"
proof -
  have "wp (startBridge B loadPair parse genKey listenEnv) (\<lambda>r t. \<forall>srv ls. r = Inr (srv, ls) \<longrightarrow>
      bs_config srv = readConfig B parse listenEnv \<and> bc_ClientSecret (bs_config srv) \<noteq> [] \<and>
      ls = listeners B (readConfig B parse listenEnv)) s"
    unfolding startBridge_def
    by (rule wp_bindI, rule wp_any, intro wp_rules wp_any) (auto simp: NewServer_def)
  from wpD [OF this assms] show "bs_config srv = readConfig B parse listenEnv"
    and "ls = listeners B (readConfig B parse listenEnv)" and "bc_ClientSecret (bs_config srv) \<noteq> []" by auto
qed

section \<open>Properties\<close>

text \<open>
  C39: a certificate that was loaded once is never lost. Whatever the files contain later, a lookup
  with a filled cache returns a certificate: the cached one without touching the files while it is
  younger than five minutes, else a newly loaded one, else the stale one; and the cache stays
  filled.
\<close>

theorem certificate_never_lost:
  assumes "run_state (loadCertificate B loadPair cert key c) s = ((r, c'), t)"
    and "ce_cached c = Some old"
  shows "\<exists>pair. r = Inr pair \<and> ce_cached c' = Some pair \<and>
    (\<forall>now w. e_now (b_env B) (world s) = (now, w) \<longrightarrow> now - ce_cachedAt c < 5 * 60 * 10 ^ 9 \<longrightarrow>
       pair = old \<and> c' = c \<and> t = s\<lparr>world := w\<rparr>)"
  using assms
  by (auto simp: loadCertificate_def timeNow_def silent_def certTTL_def split: prod.splits if_splits sum.splits)

theorem certificate_never_lost_witness:
  "\<exists>pair. fst (fst (run_state (loadCertificate memBenv (\<lambda>c k w. (Inl (Errorf ''gone''), w)) [] [] (certFill 0 ''old''))
     exampleSys)) = Inr pair"
proof -
  let ?r = "run_state (loadCertificate memBenv (\<lambda>c k w. (Inl (Errorf ''gone''), w)) [] [] (certFill 0 ''old'')) exampleSys"
  have "?r = ((fst (fst ?r), snd (fst ?r)), snd ?r)" by simp
  from certificate_never_lost [OF this, of "''old''"] show ?thesis by (auto simp: certFill_def)
qed

text \<open>
  Configuring TLS closes the plaintext listener to the outside unless the administrator opens it.
  The server starts only with a client secret; its first listener is the plaintext one, its address
  is never empty, and with a TLS certificate configured it is the loopback address unless a
  non-empty listen address was set explicitly.
\<close>

theorem bridge_listeners_safe:
  assumes "run_state (startBridge B loadPair parse genKey listenEnv) s = (Inr (srv, ls), t)"
  shows "bc_ClientSecret (bs_config srv) \<noteq> [] \<and>
    (\<exists>addr rest. ls = (addr, False) # rest \<and> addr \<noteq> [] \<and>
      (b_getenv B ''AUTH_BRIDGE_TLS_CERT'' \<noteq> [] \<longrightarrow>
        addr = ''127.0.0.1:8085'' \<or> listenEnv = Some addr) \<and>
      (\<forall>(a, tls) \<in> set rest. tls \<and> b_getenv B ''AUTH_BRIDGE_TLS_CERT'' \<noteq> []))"
  using startBridge_result [OF assms]
  by (auto simp: listeners_def readConfig_def Let_def resolveListenAddr_def split: option.splits)

theorem bridge_listeners_safe_witness:
  "\<exists>srv ls. fst (run_state (startBridge (memBenv\<lparr>b_getenv := (\<lambda>k. ''x'')\<rparr>) (\<lambda>c k w. (Inr ''pair'', w))
       (\<lambda>t. Inr 0) (\<lambda>w. (Inr ''key'', w)) None) exampleSys) = Inr (srv, ls) \<and>
     (\<exists>rest. ls = (''127.0.0.1:8085'', False) # rest)"
proof -
  let ?B = "memBenv\<lparr>b_getenv := (\<lambda>k. ''x'')\<rparr>"
  let ?r = "run_state (startBridge ?B (\<lambda>c k w. (Inr ''pair'', w)) (\<lambda>t. Inr 0) (\<lambda>w. (Inr ''key'', w)) None) exampleSys"
  have "case fst ?r of Inl e \<Rightarrow> False | Inr x \<Rightarrow> True" by code_simp
  then obtain srv ls where r: "fst ?r = Inr (srv, ls)" by (auto split: sum.splits)
  then have "?r = (Inr (srv, ls), snd ?r)" by (metis prod.collapse)
  from bridge_listeners_safe [OF this] r show ?thesis by auto
qed



end
