(* ===== verification/OperatorMain.thy ===== *)
theory OperatorMain
  imports Kube
begin

text \<open>
  \<^verbatim>\<open>src/cmd/main.go\<close>: from the parsed flags to the running manager. The calls of controller-runtime that
  can fail are the parameter \<open>managerLib\<close>; each failure ends the process with status one, here \<open>Inl\<close>
  with the logged message. The result also carries the trace of what was done before. An option of a
  TLS server is a value of \<open>tlsOpt\<close>: the function that switches HTTP/2 off, or the one that takes the
  certificate from a watcher on two files. Parsing the command line itself is left to \<^verbatim>\<open>flag\<close>; the
  record holds its outcome, and \<open>defaultFlags\<close> the defaults.
\<close>

section \<open>Flags and options\<close>

record operatorFlags =
  of_metricsAddr :: string
  of_probeAddr :: string
  of_enableLeaderElection :: bool
  of_secureMetrics :: bool
  of_webhookCertPath :: string
  of_webhookCertName :: string
  of_webhookCertKey :: string
  of_metricsCertPath :: string
  of_metricsCertName :: string
  of_metricsCertKey :: string
  of_enableHTTP2 :: bool

definition defaultFlags :: operatorFlags where
  "defaultFlags = \<lparr>of_metricsAddr = ''0'', of_probeAddr = '':8081'', of_enableLeaderElection = False,
     of_secureMetrics = True, of_webhookCertPath = [], of_webhookCertName = ''tls.crt'', of_webhookCertKey = ''tls.key'',
     of_metricsCertPath = [], of_metricsCertName = ''tls.crt'', of_metricsCertKey = ''tls.key'', of_enableHTTP2 = False\<rparr>"

datatype tlsOpt = DisableHTTP2 | GetCertificateFrom string string

record managerOptions =
  mo_metricsBindAddress :: string
  mo_metricsSecureServing :: bool
  mo_metricsTLSOpts :: "tlsOpt list"
  mo_metricsAuthFilter :: bool
  mo_webhookTLSOpts :: "tlsOpt list"
  mo_healthProbeBindAddress :: string
  mo_leaderElection :: bool
  mo_leaderElectionID :: string

text \<open>\<^verbatim>\<open>filepath.Clean\<close> and \<^verbatim>\<open>filepath.Join\<close> on a Unix system.\<close>

fun splitSlash :: "string \<Rightarrow> string list" where
  "splitSlash [] = [[]]"
| "splitSlash (c # s) = (if c = CHR ''/'' then [] # splitSlash s
     else (case splitSlash s of [] \<Rightarrow> [[c]] | x # xs \<Rightarrow> (c # x) # xs))"

fun cleanElems :: "bool \<Rightarrow> string list \<Rightarrow> string list \<Rightarrow> string list" where
  "cleanElems rooted out [] = rev out"
| "cleanElems rooted out (x # xs) =
     (if x = [] \<or> x = ''.'' then cleanElems rooted out xs
      else if x = ''..'' then
        (if out \<noteq> [] \<and> hd out \<noteq> ''..'' then cleanElems rooted (tl out) xs
         else if rooted then cleanElems rooted out xs
         else cleanElems rooted (x # out) xs)
      else cleanElems rooted (x # out) xs)"

definition pathClean :: "string \<Rightarrow> string" where
  "pathClean p =
     (let rooted = hasPrefix p ''/'';
          q = (if rooted then ''/'' else []) @ joinWith ''/'' (cleanElems rooted [] (splitSlash p))
      in if q = [] then ''.'' else q)"

definition pathJoin :: "string list \<Rightarrow> string" where
  "pathJoin elems = (let es = filter (\<lambda>e. e \<noteq> []) elems in
     if es = [] then [] else pathClean (joinWith ''/'' es))"

section \<open>Set-up\<close>

record managerLib =
  ml_certWatcher :: "string \<Rightarrow> string \<Rightarrow> goerr option"
  ml_newManager :: "managerOptions \<Rightarrow> goerr option"
  ml_newForConfig :: "goerr option"
  ml_setup :: "string \<Rightarrow> goerr option"
  ml_add :: "string \<Rightarrow> goerr option"
  ml_check :: "string \<Rightarrow> goerr option"
  ml_start :: "goerr option"

datatype setupAct = NewCertWatcher string string | NewManager managerOptions | NewClient | SetupController string
  | AddWatcher string | AddCheck string | StartManager

text \<open>One fallible call: it is recorded, and an error ends the process with the logged message.\<close>

definition act :: "setupAct \<Rightarrow> goerr option \<Rightarrow> string \<Rightarrow> (setupAct list, string + unit) state" where
  "act a err msg = do {
     _ \<leftarrow> modify (\<lambda>tr. tr @ [a]);
     (case err of Some _ \<Rightarrow> ret (Inl msg) | None \<Rightarrow> ret (Inr ()))
   }"

text \<open>Running a list of such calls until one fails.\<close>

definition acts :: "(setupAct \<times> goerr option \<times> string) list \<Rightarrow> (setupAct list, string + unit) state" where
  "acts as = foreach (\<lambda>a _. case a of (x, err, msg) \<Rightarrow> act x err msg) as ()"

definition tlsOpts :: "operatorFlags \<Rightarrow> tlsOpt list" where
  "tlsOpts f = (if \<not> of_enableHTTP2 f then [DisableHTTP2] else [])"

definition webhookCert :: "operatorFlags \<Rightarrow> string" where
  "webhookCert f = pathJoin [of_webhookCertPath f, of_webhookCertName f]"

definition webhookKey :: "operatorFlags \<Rightarrow> string" where
  "webhookKey f = pathJoin [of_webhookCertPath f, of_webhookCertKey f]"

definition metricsCert :: "operatorFlags \<Rightarrow> string" where
  "metricsCert f = pathJoin [of_metricsCertPath f, of_metricsCertName f]"

definition metricsKey :: "operatorFlags \<Rightarrow> string" where
  "metricsKey f = pathJoin [of_metricsCertPath f, of_metricsCertKey f]"

definition managerOptionsFor :: "operatorFlags \<Rightarrow> managerOptions" where
  "managerOptionsFor f =
     \<lparr>mo_metricsBindAddress = of_metricsAddr f, mo_metricsSecureServing = of_secureMetrics f,
      mo_metricsTLSOpts = tlsOpts f @
        (if of_metricsCertPath f \<noteq> [] then [GetCertificateFrom (metricsCert f) (metricsKey f)] else []),
      mo_metricsAuthFilter = of_secureMetrics f,
      mo_webhookTLSOpts = tlsOpts f @
        (if of_webhookCertPath f \<noteq> [] then [GetCertificateFrom (webhookCert f) (webhookKey f)] else []),
      mo_healthProbeBindAddress = of_probeAddr f, mo_leaderElection = of_enableLeaderElection f,
      mo_leaderElectionID = ''10738010.ogo.io''\<rparr>"

definition controllerNames :: "string list" where
  "controllerNames = [''OpenShellGateway'', ''OpenShellProvider'', ''OpenShellPolicy'', ''OpenShellWorkspaceMember'']"

text \<open>The calls before the manager is started, in order.\<close>

definition setupCalls :: "managerLib \<Rightarrow> operatorFlags \<Rightarrow> (setupAct \<times> goerr option \<times> string) list" where
  "setupCalls L f =
     (if of_webhookCertPath f \<noteq> []
      then [(NewCertWatcher (webhookCert f) (webhookKey f), ml_certWatcher L (webhookCert f) (webhookKey f),
             ''Failed to initialize webhook certificate watcher'')]
      else []) @
     (if of_metricsCertPath f \<noteq> []
      then [(NewCertWatcher (metricsCert f) (metricsKey f), ml_certWatcher L (metricsCert f) (metricsKey f),
             ''Failed to initialize metrics certificate watcher'')]
      else []) @
     [(NewManager (managerOptionsFor f), ml_newManager L (managerOptionsFor f), ''unable to start manager''),
      (NewClient, ml_newForConfig L, ''unable to create kubernetes client'')] @
     map (\<lambda>c. (SetupController c, ml_setup L c, ''unable to create controller'')) controllerNames @
     (if of_metricsCertPath f \<noteq> []
      then [(AddWatcher ''metrics'', ml_add L ''metrics'', ''unable to add metrics certificate watcher to manager'')]
      else []) @
     (if of_webhookCertPath f \<noteq> []
      then [(AddWatcher ''webhook'', ml_add L ''webhook'', ''unable to add webhook certificate watcher to manager'')]
      else []) @
     [(AddCheck ''healthz'', ml_check L ''healthz'', ''unable to set up health check''),
      (AddCheck ''readyz'', ml_check L ''readyz'', ''unable to set up ready check'')]"

definition operatorMain :: "managerLib \<Rightarrow> operatorFlags \<Rightarrow> (setupAct list, string + unit) state" where
  "operatorMain L f = acts (setupCalls L f @ [(StartManager, ml_start L, ''problem running manager'')])"

section \<open>Lemmas\<close>

lemma acts_Cons:
  "run_state (acts ((x, err, msg) # as)) tr =
     (case err of Some _ \<Rightarrow> (Inl msg, tr @ [x]) | None \<Rightarrow> run_state (acts as) (tr @ [x]))"
  by (simp add: acts_def act_def split: option.splits)

lemma acts_Nil [simp]: "run_state (acts []) tr = (Inr (), tr)"
  by (simp add: acts_def)

text \<open>A last call that was made: every call before it was made and succeeded.\<close>

lemma acts_last:
  assumes "run_state (acts (as @ [z])) tr = (r, tr')" and "fst z \<in> set tr'"
    and "fst z \<notin> set tr" and "fst z \<notin> fst ` set as"
  shows "tr' = tr @ map fst as @ [fst z] \<and> (\<forall>a \<in> set as. fst (snd a) = None)"
  using assms
proof (induction as arbitrary: tr)
  case Nil
  then show ?case by (cases z) (auto simp: acts_Cons split: option.splits)
next
  case (Cons a as)
  obtain x err msg where a: "a = (x, err, msg)" by (metis prod.exhaust)
  show ?case
  proof (cases err)
    case (Some e)
    then show ?thesis using Cons.prems a by (auto simp: acts_Cons)
  next
    case None
    then have "tr' = (tr @ [x]) @ map fst as @ [fst z] \<and> (\<forall>a \<in> set as. fst (snd a) = None)"
      using Cons.prems a by (intro Cons.IH) (auto simp: acts_Cons)
    then show ?thesis using a None by simp
  qed
qed

section \<open>Properties\<close>

text \<open>
  The operator serves only when it is complete, and safely. If the manager is started, then that is
  the last thing \<open>main\<close> does, and before it the manager was created with the options of the flags, all
  four controllers were registered without an error and both probes exist; in those options HTTP/2 is
  switched off for the metrics server and for the webhook server unless the flag enables it, and the
  metrics endpoint requires authentication exactly if it is served securely.
\<close>

theorem operator_starts_complete:
  assumes "run_state (operatorMain L f) [] = (r, tr)" and "StartManager \<in> set tr"
  shows "\<exists>pre. tr = pre @ [StartManager] \<and>
    list_all (\<lambda>c. SetupController c \<in> set pre \<and> ml_setup L c = None) controllerNames \<and>
    list_all (\<lambda>c. AddCheck c \<in> set pre \<and> ml_check L c = None) [''healthz'', ''readyz''] \<and>
    (\<exists>opts. NewManager opts \<in> set pre \<and> ml_newManager L opts = None \<and>
       (\<not> of_enableHTTP2 f \<longrightarrow> DisableHTTP2 \<in> set (mo_metricsTLSOpts opts) \<and> DisableHTTP2 \<in> set (mo_webhookTLSOpts opts)) \<and>
       mo_metricsAuthFilter opts = mo_metricsSecureServing opts)"
proof -
  have "StartManager \<notin> fst ` set (setupCalls L f)" by (auto simp: setupCalls_def)
  then have tr: "tr = map fst (setupCalls L f) @ [StartManager]" and ok: "\<forall>a \<in> set (setupCalls L f). fst (snd a) = None"
    using acts_last [OF assms(1) [unfolded operatorMain_def]] assms(2) by simp_all
  have done_ok: "x \<in> set (map fst (setupCalls L f)) \<and> err = None" if "(x, err, msg) \<in> set (setupCalls L f)" for x err msg
    using that ok by force
  have "list_all (\<lambda>c. SetupController c \<in> set (map fst (setupCalls L f)) \<and> ml_setup L c = None) controllerNames"
    unfolding list_all_iff
    by (rule ballI, rule done_ok [where msg = "''unable to create controller''"]) (simp add: setupCalls_def)
  moreover have "AddCheck ''healthz'' \<in> set (map fst (setupCalls L f)) \<and> ml_check L ''healthz'' = None"
    by (rule done_ok [where msg = "''unable to set up health check''"]) (simp add: setupCalls_def)
  moreover have "AddCheck ''readyz'' \<in> set (map fst (setupCalls L f)) \<and> ml_check L ''readyz'' = None"
    by (rule done_ok [where msg = "''unable to set up ready check''"]) (simp add: setupCalls_def)
  moreover have "NewManager (managerOptionsFor f) \<in> set (map fst (setupCalls L f)) \<and> ml_newManager L (managerOptionsFor f) = None"
    by (rule done_ok [where msg = "''unable to start manager''"]) (simp add: setupCalls_def)
  ultimately show ?thesis
    by (intro exI [of _ "map fst (setupCalls L f)"] conjI exI [of _ "managerOptionsFor f"] tr)
      (simp_all add: managerOptionsFor_def tlsOpts_def)
qed

theorem operator_starts_complete_witness:
  "let L = \<lparr>ml_certWatcher = (\<lambda>c k. None), ml_newManager = (\<lambda>m. None), ml_newForConfig = None, ml_setup = (\<lambda>c. None),
         ml_add = (\<lambda>c. None), ml_check = (\<lambda>c. None), ml_start = None\<rparr>;
       tr = snd (run_state (operatorMain L defaultFlags) [])
   in \<exists>opts pre. tr = pre @ [StartManager] \<and> NewManager opts \<in> set pre \<and> DisableHTTP2 \<in> set (mo_metricsTLSOpts opts)"
proof -
  let ?L = "\<lparr>ml_certWatcher = (\<lambda>c k. None), ml_newManager = (\<lambda>m. None), ml_newForConfig = None, ml_setup = (\<lambda>c. None),
         ml_add = (\<lambda>c. None), ml_check = (\<lambda>c. None), ml_start = None\<rparr>"
  let ?r = "run_state (operatorMain ?L defaultFlags) []"
  have run: "?r = (fst ?r, snd ?r)" by simp
  have started: "StartManager \<in> set (snd ?r)" by code_simp
  have http1: "\<not> of_enableHTTP2 defaultFlags" by code_simp
  from operator_starts_complete [OF run started] http1 show ?thesis unfolding Let_def by blast
qed

end
