(* ===== verification/SmokeConfig.thy ===== *)
theory SmokeConfig
  imports Config Pki
begin

text \<open>
  \<^verbatim>\<open>src/hack/smoke-test-config/main.go\<close>: the tool that writes a representative \<^verbatim>\<open>gateway.toml\<close> and the
  signing keys it refers to. The file system is a parameter; the tool's state adds the history of the
  files written, which no definition reads. \<^verbatim>\<open>filepath.Join\<close> is modelled for Unix.
\<close>

section \<open>Paths\<close>

fun splitSlash :: "string \<Rightarrow> string \<Rightarrow> string list" where
  "splitSlash acc [] = [rev acc]"
| "splitSlash acc (c # cs) = (if c = CHR ''/'' then rev acc # splitSlash [] cs else splitSlash (c # acc) cs)"

text \<open>One path element against the elements kept so far, the last one first.\<close>

definition cleanStep :: "bool \<Rightarrow> string list \<Rightarrow> string \<Rightarrow> string list" where
  "cleanStep rooted kept e =
     (if e = [] \<or> e = ''.'' then kept
      else if e = ''..'' then
        (case kept of
           [] \<Rightarrow> if rooted then [] else [''..'']
         | latest # rest \<Rightarrow> if latest = ''..'' then ''..'' # kept else rest)
      else e # kept)"

definition filepathClean :: "string \<Rightarrow> string" where
  "filepathClean path =
     (let rooted = (path \<noteq> [] \<and> hd path = CHR ''/'');
          body = joinWith ''/'' (rev (foldl (cleanStep rooted) [] (splitSlash [] path))) in
      if rooted then ''/'' @ body else if body = [] then ''.'' else body)"

definition filepathJoin :: "string \<Rightarrow> string \<Rightarrow> string" where
  "filepathJoin a b = (case dropWhile (\<lambda>e. e = []) [a, b] of
     [] \<Rightarrow> [] | es \<Rightarrow> filepathClean (joinWith ''/'' es))"

section \<open>The tool\<close>

record 'w fsLib =
  fs_mkdirAll :: "string \<Rightarrow> nat \<Rightarrow> 'w \<Rightarrow> goerr option \<times> 'w"
  fs_writeFile :: "string \<Rightarrow> string \<Rightarrow> nat \<Rightarrow> 'w \<Rightarrow> goerr option \<times> 'w"

record 'w toolRun =
  tr_sys :: "'w sys"
  tr_files :: "(string \<times> string \<times> nat) list"

definition onSys :: "('w sys, 'a) state \<Rightarrow> ('w toolRun, 'a) state" where
  "onSys m = State (\<lambda>t. case run_state m (tr_sys t) of (x, s) \<Rightarrow> (x, t\<lparr>tr_sys := s\<rparr>))"

definition writeFile :: "'w fsLib \<Rightarrow> string \<Rightarrow> string \<Rightarrow> nat \<Rightarrow> ('w toolRun, goerr option) state" where
  "writeFile F path content perm = do {
     e \<leftarrow> onSys (silent (fs_writeFile F path content perm));
     (case e of
       None \<Rightarrow> do { modify (\<lambda>t. t\<lparr>tr_files := tr_files t @ [(path, content, perm)]\<rparr>); ret None }
     | Some err \<Rightarrow> ret (Some err))
   }"

definition smokeGateway :: openShellGateway where
  "smokeGateway = \<lparr>gw_meta = noMeta\<lparr>om_name := ''smoke-test''\<rparr>,
     gw_spec = zeroGatewaySpec
       \<lparr>gs_namespace := ''ogo'',
        gs_auth := (gs_auth zeroGatewaySpec)\<lparr>au_allowUnauthenticated := True\<rparr>,
        gs_tls := (gs_tls zeroGatewaySpec)\<lparr>tls_enabled := Some False\<rparr>,
        gs_sandbox := (gs_sandbox zeroGatewaySpec)
          \<lparr>sb_imagePullPolicy := ''IfNotPresent'', sb_workspaceStorageSize := ''2Gi'',
           sb_runtimeClassName := ''kata'', sb_appArmorProfile := ''Unconfined''\<rparr>\<rparr>,
     gw_status = zeroGatewayStatus\<rparr>"

text \<open>The three files of the keys; \<^verbatim>\<open>0o644\<close> is 420, \<^verbatim>\<open>0o755\<close> is 493.\<close>

definition keyFiles :: "jwtKeys \<Rightarrow> (string \<times> string \<times> nat) list" where
  "keyFiles keys = [(''signing.pem'', jk_SigningKey keys, 420), (''public.pem'', jk_PublicKey keys, 420),
     (''kid'', jk_KID keys, 420)]"

definition writeFiles :: "'w fsLib \<Rightarrow> string \<Rightarrow> (string \<times> string \<times> nat) list \<Rightarrow> ('w toolRun, string + unit) state" where
  "writeFiles F dir files = foreach (\<lambda>(name, content, perm) _. do {
       e \<leftarrow> writeFile F (filepathJoin dir name) content perm;
       (case e of
         Some err \<Rightarrow> ret (Inl (''write '' @ name @ '': '' @ errText err @ nl))
       | None \<Rightarrow> ret (Inr ()))
     }) files ()"

text \<open>\<open>Inl\<close> is the message on standard error before \<^verbatim>\<open>os.Exit(1)\<close>, \<open>Inr\<close> the final output.\<close>

definition smokeMain :: "'w env \<Rightarrow> 'w pkiLib \<Rightarrow> 'w fsLib \<Rightarrow> string list \<Rightarrow> ('w toolRun, string + string) state" where
  "smokeMain E P F args =
     (if length args \<noteq> 2 then ret (Inl (''usage: smoke-test-config <output-dir>'' @ nl))
      else let outDir = args ! 1; jwtDir = filepathJoin outDir ''jwt'' in do {
        e1 \<leftarrow> onSys (silent (fs_mkdirAll F outDir 493));
        (case e1 of
          Some e \<Rightarrow> ret (Inl (''mkdir output dir: '' @ errText e @ nl))
        | None \<Rightarrow> do {
            e2 \<leftarrow> writeFile F (filepathJoin outDir ''gateway.toml'') (RenderGatewayTOML smokeGateway ''ogo'' []) 420;
            (case e2 of
              Some e \<Rightarrow> ret (Inl (''write gateway.toml: '' @ errText e @ nl))
            | None \<Rightarrow> do {
                k \<leftarrow> onSys (GenerateJWTKeys E P);
                (case k of
                  Inl e \<Rightarrow> ret (Inl (''generate JWT keys: '' @ errText e @ nl))
                | Inr keys \<Rightarrow> do {
                    e3 \<leftarrow> onSys (silent (fs_mkdirAll F jwtDir 493));
                    (case e3 of
                      Some e \<Rightarrow> ret (Inl (''mkdir jwt dir: '' @ errText e @ nl))
                    | None \<Rightarrow> do {
                        r \<leftarrow> writeFiles F jwtDir (keyFiles keys);
                        (case r of
                          Inl msg \<Rightarrow> ret (Inl msg)
                        | Inr _ \<Rightarrow> ret (Inr (''Wrote '' @ outDir @ '' (gateway.toml + jwt/{signing,public}.pem,kid)'' @ nl)))
                      })
                  })
              })
          })
      })"

section \<open>Lemmas\<close>

lemma wp_onSys: "wp (onSys m) Q t = wp m (\<lambda>x s. Q x (t\<lparr>tr_sys := s\<rparr>)) (tr_sys t)"
  by (simp add: wp_def onSys_def split: prod.splits)

lemma onSys_wp: "(\<And>x s. Q x (t\<lparr>tr_sys := s\<rparr>)) \<Longrightarrow> wp (onSys m) Q t"
  by (simp add: wp_onSys wp_any)

lemma writeFile_wp:
  assumes "\<And>e s. Q (Some e) (t\<lparr>tr_sys := s\<rparr>)"
    and "\<And>s. Q None (t\<lparr>tr_sys := s, tr_files := tr_files t @ [(path, content, perm)]\<rparr>)"
  shows "wp (writeFile F path content perm) Q t"
  unfolding writeFile_def by (intro wp_rules onSys_wp) (simp_all add: assms)

abbreviation inDir :: "string \<Rightarrow> (string \<times> string \<times> nat) list \<Rightarrow> (string \<times> string \<times> nat) list" where
  "inDir dir files \<equiv> map (\<lambda>(name, content, perm). (filepathJoin dir name, content, perm)) files"

lemma wp_writeFiles_Cons:
  "wp (writeFiles F dir ((name, content, perm) # files)) Q t =
   wp (writeFile F (filepathJoin dir name) content perm) (\<lambda>e. case e of
       Some err \<Rightarrow> Q (Inl (''write '' @ name @ '': '' @ errText err @ nl))
     | None \<Rightarrow> wp (writeFiles F dir files) Q) t"
  unfolding writeFiles_def foreach.simps prod.case wp_bind
  by (rule arg_cong [where f = "\<lambda>R. wp _ R t"]) (simp add: fun_eq_iff split: option.split)

lemma writeFiles_wp:
  assumes "\<And>msg t. Q (Inl msg) t"
    and "\<And>s. Q (Inr ()) (t\<lparr>tr_sys := s, tr_files := tr_files t @ inDir dir files\<rparr>)"
  shows "wp (writeFiles F dir files) Q t"
  using assms(2)
proof (induction files arbitrary: t)
  case Nil
  then show ?case using Nil [of "tr_sys t"] by (simp add: writeFiles_def)
next
  case (Cons f files)
  obtain name content perm where f: "f = (name, content, perm)" by (cases f)
  have "wp (writeFiles F dir files) Q (t\<lparr>tr_sys := s, tr_files := tr_files t @ [(filepathJoin dir name, content, perm)]\<rparr>)" for s
    by (rule Cons.IH) (use Cons.prems f in simp)
  then show ?case unfolding f wp_writeFiles_Cons by (intro writeFile_wp) (simp_all add: assms(1))
qed

text \<open>What a successful run has written.\<close>

definition wrote :: "string \<Rightarrow> jwtKeys \<Rightarrow> (string \<times> string \<times> nat) list" where
  "wrote outDir keys = (filepathJoin outDir ''gateway.toml'', RenderGatewayTOML smokeGateway ''ogo'' [], 420) #
     inDir (filepathJoin outDir ''jwt'') (keyFiles keys)"

lemma smokeMain_wp:
  "wp (smokeMain E P F args) (\<lambda>r t'. \<forall>out. r = Inr out \<longrightarrow> length args = 2 \<and>
     (\<exists>keys. tr_files t' = tr_files t @ wrote (args ! 1) keys)) t"
  unfolding smokeMain_def
  by (intro wp_rules onSys_wp writeFile_wp writeFiles_wp) (auto simp: wrote_def)

lemma smoke_safe: "safeGateway smokeGateway ''ogo'' []"
  by code_simp

lemma smoke_off: "\<not> tlsEnabled smokeGateway"
  by code_simp

abbreviation settingKeys :: "setting list \<Rightarrow> (string \<times> string) list" where
  "settingKeys xs \<equiv> map (\<lambda>(sec, k, v). (sec, k)) xs"

lemma smoke_keys_maximal:
  assumes "\<not> tlsEnabled gw"
  shows "set (settingKeys (gatewaySettings gw ns [])) \<subseteq> set (settingKeys (gatewaySettings smokeGateway ''ogo'' []))"
proof -
  have sb: "sb_imagePullPolicy (gs_sandbox (gw_spec smokeGateway)) \<noteq> []"
    "sb_workspaceStorageSize (gs_sandbox (gw_spec smokeGateway)) \<noteq> []"
    "sb_runtimeClassName (gs_sandbox (gw_spec smokeGateway)) \<noteq> []"
    "sb_appArmorProfile (gs_sandbox (gw_spec smokeGateway)) \<noteq> []"
    "au_allowUnauthenticated (gs_auth (gw_spec smokeGateway))"
    by (simp_all add: smokeGateway_def)
  show ?thesis
    using assms smoke_off sb by (simp add: gatewaySettings_def optionalField_def Let_def image_Un image_subset_iff)
qed

lemma smoke_key_files:
  "\<forall>(sec, k, v) \<in> set (gatewaySettings smokeGateway ''ogo'' []). \<forall>f. v = TString (''/etc/openshell-jwt/'' @ f) \<longrightarrow>
     (\<exists>content. (filepathJoin (filepathJoin outDir ''jwt'') f, content, 420) \<in> set (wrote outDir keys))"
proof -
  have "list_all (\<lambda>(sec, k, v). case v of TString x \<Rightarrow>
      hasPrefix x ''/etc/openshell-jwt/'' \<longrightarrow> drop 19 x \<in> {''signing.pem'', ''public.pem'', ''kid''} | TRaw x \<Rightarrow> True)
    (gatewaySettings smokeGateway ''ogo'' [])" by code_simp
  moreover have "hasPrefix (''/etc/openshell-jwt/'' @ f) ''/etc/openshell-jwt/''"
    "drop 19 (''/etc/openshell-jwt/'' @ f) = f" for f
    by (simp_all add: hasPrefix_def numeral_eq_Suc)
  ultimately have "\<forall>(sec, k, v) \<in> set (gatewaySettings smokeGateway ''ogo'' []). \<forall>f.
      v = TString (''/etc/openshell-jwt/'' @ f) \<longrightarrow> f \<in> {''signing.pem'', ''public.pem'', ''kid''}"
    by (fastforce simp: list_all_iff)
  then show ?thesis by (fastforce simp: wrote_def keyFiles_def)
qed

section \<open>Example\<close>

definition memFs :: "memWorld fsLib" where
  "memFs = \<lparr>fs_mkdirAll = (\<lambda>p m w. (None, w)), fs_writeFile = (\<lambda>p c m w. (None, w))\<rparr>"

definition exampleTool :: "(string + string) \<times> memWorld toolRun" where
  "exampleTool = run_state (smokeMain memEnv memPki memFs [''smoke-test-config'', ''./out/''])
     \<lparr>tr_sys = memSys \<lparr>mw_objs = [], mw_fake = newFakeOpenShellServer, mw_clock = 0\<rparr>, tr_files = []\<rparr>"

lemma exampleTool_ok: "\<exists>out. fst exampleTool = Inr out"
proof -
  have "wp (onSys (silent (fs_mkdirAll memFs p m))) (\<lambda>r t. r = None) t"
    and "wp (writeFile memFs p c m) (\<lambda>r t. r = None) t"
    and "wp (onSys (GenerateJWTKeys memEnv memPki)) (\<lambda>r t. \<exists>keys. r = Inr keys) t" for p c m t
    by (simp_all add: wp_def onSys_def silent_def memFs_def writeFile_def GenerateJWTKeys_def memPki_def)
  note ok = wp_mono [OF this(1)] wp_mono [OF this(2)] wp_mono [OF this(3)]
  have "wp (writeFiles memFs dir files) (\<lambda>r t. r = Inr ()) t" for dir files t
    by (induction files arbitrary: t) (auto simp: writeFiles_def intro!: ok(2) wp_rules)
  note ok = ok wp_mono [OF this]
  have "wp (smokeMain memEnv memPki memFs [a, b]) (\<lambda>r t. \<exists>out. r = Inr out) t" for a b t
    unfolding smokeMain_def by (intro ok wp_rules) simp_all
  then show ?thesis unfolding exampleTool_def wp_def case_prod_beta by blast
qed

section \<open>Properties\<close>

text \<open>
  The smoke-test tool hands over a complete configuration. A run that reports success was given an
  output directory and wrote exactly four files, all readable by everyone: a configuration that reads
  back as settings, and, for every key path under \<^verbatim>\<open>/etc/openshell-jwt\<close> that those settings name, the
  file of that name in the directory to be mounted there. The settings have every key that the
  operator writes for any gateway with TLS and OIDC off, so no such key goes untested.
\<close>

theorem smoke_config_complete:
  assumes "run_state (smokeMain E P F args) t = (Inr out, t')"
  shows "\<exists>prog outDir keys settings. args = [prog, outDir] \<and>
    tr_files t' = tr_files t @ wrote outDir keys \<and> list_all (\<lambda>(path, content, perm). perm = 420) (wrote outDir keys) \<and>
    readTOML (fst (snd (hd (wrote outDir keys)))) = Some settings \<and>
    (\<forall>(sec, k, v) \<in> set settings. \<forall>f. v = TString (''/etc/openshell-jwt/'' @ f) \<longrightarrow>
      (\<exists>content. (filepathJoin (filepathJoin outDir ''jwt'') f, content, 420) \<in> set (wrote outDir keys))) \<and>
    (\<forall>gw ns. \<not> tlsEnabled gw \<longrightarrow> set (settingKeys (gatewaySettings gw ns [])) \<subseteq> set (settingKeys settings))"
proof -
  from wpD [OF smokeMain_wp assms] obtain keys where k: "length args = 2"
    "tr_files t' = tr_files t @ wrote (args ! 1) keys" by blast
  then obtain prog outDir where args: "args = [prog, outDir]"
    by (auto simp: numeral_2_eq_2 length_Suc_conv)
  let ?s = "gatewaySettings smokeGateway ''ogo'' []"
  have "list_all (\<lambda>(path, content, perm). perm = 420) (wrote outDir keys)"
    by (simp add: wrote_def keyFiles_def)
  moreover have "readTOML (fst (snd (hd (wrote outDir keys)))) = Some ?s"
    using readTOML_render [OF smoke_safe] by (simp add: wrote_def)
  moreover have "\<forall>(sec, k, v) \<in> set ?s. \<forall>f. v = TString (''/etc/openshell-jwt/'' @ f) \<longrightarrow>
      (\<exists>content. (filepathJoin (filepathJoin outDir ''jwt'') f, content, 420) \<in> set (wrote outDir keys))"
    by (rule smoke_key_files)
  ultimately show ?thesis using k(2) args smoke_keys_maximal
    by (intro exI [of _ prog] exI [of _ outDir] exI [of _ keys] exI [of _ ?s]) simp
qed

theorem smoke_config_complete_witness:
  "\<exists>keys settings. tr_files (snd exampleTool) = wrote ''./out/'' keys \<and>
     fst (wrote ''./out/'' keys ! 1) = ''out/jwt/signing.pem'' \<and>
     readTOML (fst (snd (hd (wrote ''./out/'' keys)))) = Some settings"
proof -
  obtain out where "fst exampleTool = Inr out" using exampleTool_ok by blast
  then have r: "exampleTool = (Inr out, snd exampleTool)" by (metis prod.collapse)
  have "filepathJoin (filepathJoin ''./out/'' ''jwt'') ''signing.pem'' = ''out/jwt/signing.pem''" by code_simp
  then have "fst (wrote ''./out/'' keys ! 1) = ''out/jwt/signing.pem''" for keys
    by (simp add: wrote_def keyFiles_def)
  with smoke_config_complete [OF r [unfolded exampleTool_def]] show ?thesis
    by (auto simp: exampleTool_def)
qed

end
