(* ===== verification/GoHeap.thy ===== *)
theory GoHeap
  imports Prelude
begin

text \<open>
  Go's memory as far as copying needs it: structs, pointers, slices and maps over a heap of cells, the
  types that say which of them a value holds, and what it means that a value represents some content.
  The rest of the development passes resources as values, where copies cannot be told from originals;
  here they can, and the theory \<open>DeepCopy\<close> uses it for the generated copy functions.
\<close>

section \<open>Values and memory\<close>

datatype atom = StrAtom string | IntAtom int | BoolAtom bool

text \<open>
  A pointer is nil or an address; a slice is nil or a backing array with an offset and a length; a map is
  nil or an address. A struct holds its fields under their names.
\<close>

datatype goval = GAtom atom | GStruct "(string \<times> goval) list" | GPtr "nat option"
  | GSlice "(nat \<times> nat \<times> nat) option" | GMap "nat option"

datatype cell = ValCell goval | ArrCell "goval list" | MapCell "(string \<times> goval) list"

text \<open>Cells are allocated in order; addresses from \<open>hp_lim\<close> on are free.\<close>

record goHeap =
  hp_cells :: "nat \<Rightarrow> cell option"
  hp_lim :: nat

type_synonym 'a go = "(goHeap, 'a) state"

definition alloc :: "cell \<Rightarrow> nat go" where
  "alloc c = State (\<lambda>h. (hp_lim h, h\<lparr>hp_cells := (hp_cells h)(hp_lim h \<mapsto> c), hp_lim := Suc (hp_lim h)\<rparr>))"

definition store :: "nat \<Rightarrow> cell \<Rightarrow> unit go" where
  "store a c = modify (\<lambda>h. h\<lparr>hp_cells := (hp_cells h)(a \<mapsto> c)\<rparr>)"

text \<open>
  What a fresh variable holds before it is assigned. Go has no dangling addresses, so the other cases
  of the reads below do not arise; they give the same value.
\<close>

definition unset :: goval where "unset = GStruct []"

definition loadVal :: "nat \<Rightarrow> goval go" where
  "loadVal a = gets (\<lambda>h. case hp_cells h a of Some (ValCell v) \<Rightarrow> v | _ \<Rightarrow> unset)"

definition loadElem :: "nat \<Rightarrow> nat \<Rightarrow> goval go" where
  "loadElem a i = gets (\<lambda>h. case hp_cells h a of Some (ArrCell vs) \<Rightarrow> if i < length vs then vs ! i else unset | _ \<Rightarrow> unset)"

definition storeElem :: "nat \<Rightarrow> nat \<Rightarrow> goval \<Rightarrow> unit go" where
  "storeElem a i v = modify (\<lambda>h. case hp_cells h a of
     Some (ArrCell vs) \<Rightarrow> h\<lparr>hp_cells := (hp_cells h)(a \<mapsto> ArrCell (vs[i := v]))\<rparr> | _ \<Rightarrow> h)"

definition loadMap :: "nat \<Rightarrow> (string \<times> goval) list go" where
  "loadMap a = gets (\<lambda>h. case hp_cells h a of Some (MapCell m) \<Rightarrow> m | _ \<Rightarrow> [])"

definition storeKey :: "nat \<Rightarrow> string \<Rightarrow> goval \<Rightarrow> unit go" where
  "storeKey a k v = modify (\<lambda>h. case hp_cells h a of
     Some (MapCell m) \<Rightarrow> h\<lparr>hp_cells := (hp_cells h)(a \<mapsto> MapCell (AList.update k v m))\<rparr> | _ \<Rightarrow> h)"

definition getField :: "string \<Rightarrow> goval \<Rightarrow> goval option" where
  "getField f v = (case v of GStruct fs \<Rightarrow> map_of fs f | _ \<Rightarrow> None)"

definition setField :: "string \<Rightarrow> goval \<Rightarrow> goval \<Rightarrow> goval" where
  "setField f u v = (case v of GStruct fs \<Rightarrow> GStruct (map (\<lambda>(g, w). (g, if g = f then u else w)) fs) | _ \<Rightarrow> v)"

section \<open>Types and content\<close>

datatype gotype = TAtom | TStruct "(string \<times> gotype) list" | TPtr gotype | TSlice gotype | TMap gotype

text \<open>What a value stands for, whatever its addresses. A nil slice is not an empty one.\<close>

datatype content = CAtom atom | CStruct "content list" | CNil | CRef content | CSeq "content list"
  | CDict "string \<Rightarrow> content option"

text \<open>
  \<open>repr T h lo v x\<close>: the value \<open>v\<close> of type \<open>T\<close> stands for \<open>x\<close> in heap \<open>h\<close>, and every address it leads to is
  at least \<open>lo\<close>.
\<close>

primrec repr :: "gotype \<Rightarrow> goHeap \<Rightarrow> nat \<Rightarrow> goval \<Rightarrow> content \<Rightarrow> bool" where
  "repr TAtom h lo v x = (\<exists>a. v = GAtom a \<and> x = CAtom a)"
| "repr (TStruct fs) h lo v x = (\<exists>vs xs. v = GStruct vs \<and> x = CStruct xs \<and> map fst vs = map fst fs \<and> length xs = length fs \<and>
     (\<forall>i < length fs. snd (map (map_prod id repr) fs ! i) h lo (snd (vs ! i)) (xs ! i)))"
| "repr (TPtr T) h lo v x = (v = GPtr None \<and> x = CNil \<or>
     (\<exists>a u y. v = GPtr (Some a) \<and> x = CRef y \<and> lo \<le> a \<and> hp_cells h a = Some (ValCell u) \<and> repr T h lo u y))"
| "repr (TSlice T) h lo v x = (v = GSlice None \<and> x = CNil \<or>
     (\<exists>a off n vs ys. v = GSlice (Some (a, off, n)) \<and> x = CSeq ys \<and> lo \<le> a \<and> hp_cells h a = Some (ArrCell vs) \<and>
        off + n \<le> length vs \<and> list_all2 (repr T h lo) (take n (drop off vs)) ys))"
| "repr (TMap T) h lo v x = (v = GMap None \<and> x = CNil \<or>
     (\<exists>a m d. v = GMap (Some a) \<and> x = CDict d \<and> lo \<le> a \<and> hp_cells h a = Some (MapCell m) \<and> distinct (map fst m) \<and>
        (\<forall>k. rel_option (repr T h lo) (map_of m k) (d k))))"

primrec flat :: "gotype \<Rightarrow> bool" where
  "flat TAtom = True"
| "flat (TStruct fs) = list_all (\<lambda>p. snd p) (map (map_prod id flat) fs)"
| "flat (TPtr T) = False"
| "flat (TSlice T) = False"
| "flat (TMap T) = False"

definition wfHeap :: "goHeap \<Rightarrow> bool" where
  "wfHeap h = (\<forall>a \<ge> hp_lim h. hp_cells h a = None)"

definition grows :: "goHeap \<Rightarrow> goHeap \<Rightarrow> bool" where
  "grows h h' = (wfHeap h' \<and> hp_lim h \<le> hp_lim h' \<and> (\<forall>a < hp_lim h. hp_cells h' a = hp_cells h a))"

text \<open>
  A function that copies values of type \<open>T\<close>: its result stands for the same content, all it leads to is
  new, and nothing that was there has changed.
\<close>

definition copies :: "gotype \<Rightarrow> (goval \<Rightarrow> goval go) \<Rightarrow> bool" where
  "copies T f = (\<forall>h v x. wfHeap h \<longrightarrow> repr T h 0 v x \<longrightarrow>
     (case run_state (f v) h of (v', h') \<Rightarrow> grows h h' \<and> repr T h' (hp_lim h) v' x))"

section \<open>Copying\<close>

text \<open>
  The statements that the generator writes. A method \<open>DeepCopyInto\<close> is a function from \<open>*in\<close> to what it
  leaves in \<open>*out\<close>: it starts with \<open>*out = *in\<close>, and then assigns fields of \<open>*out\<close> from those of \<open>*in\<close>.
\<close>

fun assignFields :: "(string \<times> (goval \<Rightarrow> goval go)) list \<Rightarrow> goval \<Rightarrow> goval \<Rightarrow> goval go" where
  "assignFields [] v out = ret out"
| "assignFields ((f, copy) # ss) v out = (case getField f v of
     None \<Rightarrow> assignFields ss v out
   | Some u \<Rightarrow> do { u' \<leftarrow> copy u; assignFields ss v (setField f u' out) })"

definition copyStruct :: "(string \<times> (goval \<Rightarrow> goval go)) list \<Rightarrow> goval \<Rightarrow> goval go" where
  "copyStruct ss v = assignFields ss v v"

text \<open>\<^verbatim>\<open>if *in != nil { *out = new(T); copy **in into **out }\<close>\<close>

definition copyPtr :: "(goval \<Rightarrow> goval go) \<Rightarrow> goval \<Rightarrow> goval go" where
  "copyPtr copy u = (case u of
     GPtr (Some a) \<Rightarrow> do {
       b \<leftarrow> alloc (ValCell unset);
       v \<leftarrow> loadVal a;
       v' \<leftarrow> copy v;
       _ \<leftarrow> store b (ValCell v');
       ret (GPtr (Some b))
     }
   | _ \<Rightarrow> ret u)"

text \<open>\<^verbatim>\<open>if *in != nil { *out = make([]T, len(*in)); for i := range *in { copy (*in)[i] into (*out)[i] } }\<close>\<close>

fun copyRange :: "(goval \<Rightarrow> goval go) \<Rightarrow> nat \<Rightarrow> nat \<Rightarrow> nat \<Rightarrow> nat \<Rightarrow> nat \<Rightarrow> unit go" where
  "copyRange copy a off b i 0 = ret ()"
| "copyRange copy a off b i (Suc k) = do {
     v \<leftarrow> loadElem a (off + i);
     v' \<leftarrow> copy v;
     _ \<leftarrow> storeElem b i v';
     copyRange copy a off b (Suc i) k
   }"

definition copySlice :: "(goval \<Rightarrow> goval go) \<Rightarrow> goval \<Rightarrow> goval go" where
  "copySlice copy u = (case u of
     GSlice (Some (a, off, n)) \<Rightarrow> do {
       b \<leftarrow> alloc (ArrCell (replicate n unset));
       _ \<leftarrow> copyRange copy a off b 0 n;
       ret (GSlice (Some (b, 0, n)))
     }
   | _ \<Rightarrow> ret u)"

text \<open>
  \<^verbatim>\<open>if *in != nil { *out = make(map[string]T, len(*in)); for key, val := range *in { (*out)[key] = copy of val } }\<close>
  Go visits the entries of a map in an order of its own choice: the parameter \<open>order\<close>.
\<close>

type_synonym mapOrder = "(string \<times> goval) list \<Rightarrow> (string \<times> goval) list"

fun copyEntries :: "(goval \<Rightarrow> goval go) \<Rightarrow> nat \<Rightarrow> (string \<times> goval) list \<Rightarrow> unit go" where
  "copyEntries copy b [] = ret ()"
| "copyEntries copy b ((k, v) # es) = do {
     v' \<leftarrow> copy v;
     _ \<leftarrow> storeKey b k v';
     copyEntries copy b es
   }"

definition copyMap :: "mapOrder \<Rightarrow> (goval \<Rightarrow> goval go) \<Rightarrow> goval \<Rightarrow> goval go" where
  "copyMap order copy u = (case u of
     GMap (Some a) \<Rightarrow> do {
       b \<leftarrow> alloc (MapCell []);
       es \<leftarrow> loadMap a;
       _ \<leftarrow> copyEntries copy b (order es);
       ret (GMap (Some b))
     }
   | _ \<Rightarrow> ret u)"

text \<open>The method \<open>DeepCopy\<close>, on a pointer that may be nil, and the value \<^verbatim>\<open>*val.DeepCopy()\<close> for a variable \<open>val\<close>.\<close>

definition deepCopy :: "(goval \<Rightarrow> goval go) \<Rightarrow> nat option \<Rightarrow> nat option go" where
  "deepCopy into p = (case p of
     None \<Rightarrow> ret None
   | Some a \<Rightarrow> do {
       b \<leftarrow> alloc (ValCell unset);
       v \<leftarrow> loadVal a;
       v' \<leftarrow> into v;
       _ \<leftarrow> store b (ValCell v');
       ret (Some b)
     })"

definition copyVar :: "(nat option \<Rightarrow> nat option go) \<Rightarrow> goval \<Rightarrow> goval go" where
  "copyVar copy val = do {
     p \<leftarrow> alloc (ValCell val);
     c \<leftarrow> copy (Some p);
     (case c of None \<Rightarrow> ret val | Some b \<Rightarrow> loadVal b)
   }"

section \<open>What the heap does to representations\<close>

lemma run_heap [simp]:
  "run_state (alloc c) h = (hp_lim h, h\<lparr>hp_cells := (hp_cells h)(hp_lim h \<mapsto> c), hp_lim := Suc (hp_lim h)\<rparr>)"
  "run_state (store a c) h = ((), h\<lparr>hp_cells := (hp_cells h)(a \<mapsto> c)\<rparr>)"
  "hp_cells h a = Some (ValCell v) \<Longrightarrow> run_state (loadVal a) h = (v, h)"
  "hp_cells h a = Some (ArrCell vs) \<Longrightarrow> i < length vs \<Longrightarrow> run_state (loadElem a i) h = (vs ! i, h)"
  "hp_cells h a = Some (ArrCell vs) \<Longrightarrow>
    run_state (storeElem a i v) h = ((), h\<lparr>hp_cells := (hp_cells h)(a \<mapsto> ArrCell (vs[i := v]))\<rparr>)"
  "hp_cells h a = Some (MapCell m) \<Longrightarrow> run_state (loadMap a) h = (m, h)"
  "hp_cells h a = Some (MapCell m) \<Longrightarrow>
    run_state (storeKey a k v) h = ((), h\<lparr>hp_cells := (hp_cells h)(a \<mapsto> MapCell (AList.update k v m))\<rparr>)"
  by (simp_all add: alloc_def store_def loadVal_def loadElem_def storeElem_def loadMap_def storeKey_def)

lemma repr_struct:
  "repr (TStruct fs) h lo v x \<longleftrightarrow> (\<exists>vs xs. v = GStruct vs \<and> x = CStruct xs \<and> map fst vs = map fst fs \<and>
     length xs = length fs \<and> (\<forall>i < length fs. repr (snd (fs ! i)) h lo (snd (vs ! i)) (xs ! i)))"
  by simp

lemma flat_struct: "flat (TStruct fs) \<longleftrightarrow> (\<forall>i < length fs. flat (snd (fs ! i)))"
  by (simp add: list_all_length)

lemmas repr_simps = repr.simps(1,3,4,5) repr_struct
declare repr.simps(2) [simp del] flat.simps(2) [simp del]

text \<open>A representation depends only on the cells it leads to.\<close>

lemma repr_frame:
  assumes "repr T h lo v x" and "lo' \<le> lo" and "\<And>a. lo \<le> a \<Longrightarrow> hp_cells h a \<noteq> None \<Longrightarrow> hp_cells h' a = hp_cells h a"
  shows "repr T h' lo' v x"
  using assms(1)
proof (induction T arbitrary: v x)
  case (TStruct fs)
  have "repr (snd (fs ! i)) h' lo' u y" if "i < length fs" "repr (snd (fs ! i)) h lo u y" for i u y
    using TStruct.IH [of "fs ! i" "snd (fs ! i)"] that by (metis nth_mem prod.collapse snds.intros)
  then show ?case using TStruct.prems unfolding repr_struct by blast
next
  case (TPtr T)
  then show ?case using assms(2,3) by auto
next
  case (TSlice T)
  have "list_all2 (repr T h' lo') us ys" if "list_all2 (repr T h lo) us ys" for us ys
    using that TSlice.IH by (auto elim: list_all2_mono)
  then show ?case using TSlice.prems assms(2,3) by fastforce
next
  case (TMap T)
  have "rel_option (repr T h' lo') o1 o2" if "rel_option (repr T h lo) o1 o2" for o1 o2
    using that TMap.IH by (auto elim: option.rel_mono_strong)
  then show ?case using TMap.prems assms(2,3) by fastforce
qed simp

text \<open>A value without references represents the same everywhere.\<close>

lemma repr_flat:
  assumes "flat T" and "repr T h lo v x"
  shows "repr T h' lo' v x"
  using assms
proof (induction T arbitrary: v x)
  case (TStruct fs)
  have "repr (snd (fs ! i)) h' lo' u y" if "i < length fs" "repr (snd (fs ! i)) h lo u y" for i u y
    using TStruct.IH [of "fs ! i" "snd (fs ! i)"] that TStruct.prems(1) unfolding flat_struct
    by (metis nth_mem prod.collapse snds.intros)
  then show ?case using TStruct.prems unfolding repr_struct by blast
qed simp_all

lemma growsD:
  assumes "grows h h'"
  shows "wfHeap h'" and "hp_lim h \<le> hp_lim h'" and "a < hp_lim h \<Longrightarrow> hp_cells h' a = hp_cells h a"
  using assms by (simp_all add: grows_def)

lemma grows_trans: "grows h h' \<Longrightarrow> grows h' h'' \<Longrightarrow> grows h h''"
  by (auto simp: grows_def)

lemma grows_refl: "wfHeap h \<Longrightarrow> grows h h"
  by (simp add: grows_def)

lemma wfHeap_below: "wfHeap h \<Longrightarrow> hp_cells h a \<noteq> None \<Longrightarrow> a < hp_lim h"
  unfolding wfHeap_def by (meson not_le)

lemma repr_grows: "repr T h lo v x \<Longrightarrow> wfHeap h \<Longrightarrow> grows h h' \<Longrightarrow> lo' \<le> lo \<Longrightarrow> repr T h' lo' v x"
  by (erule repr_frame) (auto dest: wfHeap_below growsD(3))

lemma copiesI:
  assumes "\<And>h v x. wfHeap h \<Longrightarrow> repr T h 0 v x \<Longrightarrow>
    \<exists>v' h'. run_state (f v) h = (v', h') \<and> grows h h' \<and> repr T h' (hp_lim h) v' x"
  shows "copies T f"
  unfolding copies_def using assms by fastforce

lemma copiesE:
  assumes "copies T f" and "wfHeap h" and "repr T h 0 v x"
  obtains v' h' where "run_state (f v) h = (v', h')" and "grows h h'" and "repr T h' (hp_lim h) v' x"
proof -
  obtain v' h' where run: "run_state (f v) h = (v', h')" by fastforce
  have "grows h h' \<and> repr T h' (hp_lim h) v' x"
    using assms(1) [unfolded copies_def, rule_format, OF assms(2,3)] run by simp
  then show ?thesis using that run by blast
qed

section \<open>The copy rules\<close>

named_theorems copy_rules "rules for what copies values of a type"

lemma copies_flat [copy_rules]: "flat T \<Longrightarrow> copies T ret"
  by (rule copiesI) (auto intro: grows_refl repr_flat)

text \<open>Copying into a cell that was just allocated.\<close>

lemma fresh_cell:
  assumes "copies T copy" and "wfHeap h" and "hp_cells h a = Some (ValCell u)" and "repr T h 0 u y"
  shows "\<exists>u' h'. run_state (do { b \<leftarrow> alloc (ValCell unset); v \<leftarrow> loadVal a; v' \<leftarrow> copy v; _ \<leftarrow> store b (ValCell v'); ret (g b) }) h =
      (g (hp_lim h), h') \<and> grows h h' \<and> hp_cells h' (hp_lim h) = Some (ValCell u') \<and> repr T h' (Suc (hp_lim h)) u' y"
proof -
  let ?b = "hp_lim h"
  let ?h1 = "h\<lparr>hp_cells := (hp_cells h)(?b \<mapsto> ValCell unset), hp_lim := Suc ?b\<rparr>"
  have a: "a < ?b" using wfHeap_below assms(2,3) by (metis option.distinct(1))
  have g1: "grows h ?h1" using assms(2) by (auto simp: grows_def wfHeap_def)
  obtain u' h2 where c: "run_state (copy u) ?h1 = (u', h2)" "grows ?h1 h2" "repr T h2 (Suc ?b) u' y"
    by (rule copiesE [OF assms(1) growsD(1) [OF g1] repr_grows [OF assms(4,2) g1]]) simp_all
  let ?h3 = "h2\<lparr>hp_cells := (hp_cells h2)(?b \<mapsto> ValCell u')\<rparr>"
  have "grows h ?h3" using growsD [OF c(2)] by (auto simp: grows_def wfHeap_def)
  moreover have "repr T ?h3 (Suc ?b) u' y" by (rule repr_frame [OF c(3)]) auto
  moreover have "run_state (loadVal a) ?h1 = (u, ?h1)" using assms(3) a by simp
  ultimately show ?thesis using c(1) by (intro exI [of _ u'] exI [of _ ?h3]) simp
qed

lemma copies_ptr [copy_rules]:
  assumes "copies T copy"
  shows "copies (TPtr T) (copyPtr copy)"
proof (rule copiesI)
  fix h v x assume h: "wfHeap h" and v: "repr (TPtr T) h 0 v x"
  show "\<exists>v' h'. run_state (copyPtr copy v) h = (v', h') \<and> grows h h' \<and> repr (TPtr T) h' (hp_lim h) v' x"
  proof (cases "v = GPtr None")
    case True
    then show ?thesis using v h by (auto simp: copyPtr_def intro: grows_refl)
  next
    case False
    then obtain a u y where a: "v = GPtr (Some a)" "x = CRef y" "hp_cells h a = Some (ValCell u)" "repr T h 0 u y" using v by auto
    from fresh_cell [OF assms h a(3,4), of "\<lambda>b. GPtr (Some b)"] obtain u' h' where
      r: "run_state (copyPtr copy v) h = (GPtr (Some (hp_lim h)), h')" "grows h h'"
      "hp_cells h' (hp_lim h) = Some (ValCell u')" "repr T h' (Suc (hp_lim h)) u' y"
      unfolding a(1) copyPtr_def by auto
    then have "repr (TPtr T) h' (hp_lim h) (GPtr (Some (hp_lim h))) x" using a(2) by (auto intro: repr_frame)
    then show ?thesis using r by blast
  qed
qed

text \<open>
  The two loops. \<open>h0\<close> is the heap before the new array or map was allocated at its limit \<open>b\<close>; below \<open>b\<close>
  nothing changes, so the source is read as it was.
\<close>

definition fills :: "goHeap \<Rightarrow> goHeap \<Rightarrow> bool" where
  "fills h0 h = (wfHeap h0 \<and> wfHeap h \<and> hp_lim h0 < hp_lim h \<and> (\<forall>a < hp_lim h0. hp_cells h a = hp_cells h0 a))"

lemma fills_alloc: "wfHeap h \<Longrightarrow> fills h (h\<lparr>hp_cells := (hp_cells h)(hp_lim h \<mapsto> c), hp_lim := Suc (hp_lim h)\<rparr>)"
  by (auto simp: fills_def wfHeap_def)

lemma fills_source: "fills h0 h \<Longrightarrow> repr T h0 lo v x \<Longrightarrow> repr T h lo v x"
  by (erule repr_frame) (auto simp: fills_def dest: wfHeap_below)

lemma fills_grows: "fills h0 h \<Longrightarrow> grows h h' \<Longrightarrow> fills h0 h'"
  by (auto simp: fills_def grows_def)

lemma fills_store: "fills h0 h \<Longrightarrow> fills h0 (h\<lparr>hp_cells := (hp_cells h)(hp_lim h0 \<mapsto> c)\<rparr>)"
  by (auto simp: fills_def wfHeap_def)

lemma fills_done: "fills h0 h \<Longrightarrow> grows h0 h"
  by (simp add: fills_def grows_def)

text \<open>One step of either loop: copy a value of the source, write the cell.\<close>

lemma fill_step:
  assumes "copies T copy" and "fills h0 h" and "repr T h0 0 v x" and "b = hp_lim h0"
  obtains v' h' where "run_state (copy v) h = (v', h')" and "hp_cells h' b = hp_cells h b"
    and "\<And>c. fills h0 (h'\<lparr>hp_cells := (hp_cells h')(b \<mapsto> c)\<rparr>)"
    and "\<And>c. repr T (h'\<lparr>hp_cells := (hp_cells h')(b \<mapsto> c)\<rparr>) (Suc b) v' x"
    and "\<And>u y c. repr T h (Suc b) u y \<Longrightarrow> repr T (h'\<lparr>hp_cells := (hp_cells h')(b \<mapsto> c)\<rparr>) (Suc b) u y"
proof -
  have wf: "wfHeap h" "b < hp_lim h" using assms(2,4) by (simp_all add: fills_def)
  obtain v' h' where c: "run_state (copy v) h = (v', h')" "grows h h'" "repr T h' (hp_lim h) v' x"
    by (rule copiesE [OF assms(1) wf(1) fills_source [OF assms(2,3)]])
  have new: "repr T h' (Suc b) v' x" by (rule repr_frame [OF c(3)]) (use wf in auto)
  show ?thesis
  proof (rule that [OF c(1)])
    show "hp_cells h' b = hp_cells h b" using growsD(3) [OF c(2)] wf(2) by simp
    show "fills h0 (h'\<lparr>hp_cells := (hp_cells h')(b \<mapsto> c)\<rparr>)" for c
      using fills_store [OF fills_grows [OF assms(2) c(2)]] assms(4) by simp
    show "repr T (h'\<lparr>hp_cells := (hp_cells h')(b \<mapsto> c)\<rparr>) (Suc b) v' x" for c
      by (rule repr_frame [OF new]) auto
    show "repr T (h'\<lparr>hp_cells := (hp_cells h')(b \<mapsto> c)\<rparr>) (Suc b) u y" if "repr T h (Suc b) u y" for u y c
      by (rule repr_frame [OF repr_grows [OF that wf(1) c(2) order_refl]]) auto
  qed
qed

lemma copyRange_fills:
  assumes "copies T copy" and "b = hp_lim h0" and "hp_cells h0 a = Some (ArrCell vs)"
  shows "fills h0 h \<Longrightarrow> off + (i + k) \<le> length vs \<Longrightarrow> hp_cells h b = Some (ArrCell us) \<Longrightarrow> length us = i + k \<Longrightarrow>
    list_all2 (repr T h0 0) (take k (drop (off + i) vs)) xs \<Longrightarrow> list_all2 (repr T h (Suc b)) (take i us) ys \<Longrightarrow>
    \<exists>h' us'. run_state (copyRange copy a off b i k) h = ((), h') \<and> fills h0 h' \<and>
      hp_cells h' b = Some (ArrCell us') \<and> length us' = i + k \<and> list_all2 (repr T h' (Suc b)) us' (ys @ xs)"
proof (induction k arbitrary: h i us xs ys)
  case 0
  then show ?case by simp
next
  case (Suc k)
  let ?v = "vs ! (off + i)"
  have a: "a < b" using assms(2,3) Suc.prems(1) wfHeap_below by (metis fills_def option.distinct(1))
  have split: "take (Suc k) (drop (off + i) vs) = ?v # take k (drop (off + Suc i) vs)"
    using Suc.prems(2) by (simp add: Cons_nth_drop_Suc [symmetric])
  then obtain x xs' where xs: "xs = x # xs'" "repr T h0 0 ?v x" "list_all2 (repr T h0 0) (take k (drop (off + Suc i) vs)) xs'"
    using Suc.prems(5) by (auto simp: list_all2_Cons1)
  obtain v' h' where c: "run_state (copy ?v) h = (v', h')" "hp_cells h' b = hp_cells h b"
      "\<And>c. fills h0 (h'\<lparr>hp_cells := (hp_cells h')(b \<mapsto> c)\<rparr>)"
      "\<And>c. repr T (h'\<lparr>hp_cells := (hp_cells h')(b \<mapsto> c)\<rparr>) (Suc b) v' x"
      "\<And>u y c. repr T h (Suc b) u y \<Longrightarrow> repr T (h'\<lparr>hp_cells := (hp_cells h')(b \<mapsto> c)\<rparr>) (Suc b) u y"
    using fill_step [OF assms(1) Suc.prems(1) xs(2) assms(2)] by blast
  let ?us = "us[i := v']"
  let ?h = "h'\<lparr>hp_cells := (hp_cells h')(b \<mapsto> ArrCell ?us)\<rparr>"
  have take: "take (Suc i) ?us = take i us @ [v']"
    using Suc.prems(4) by (simp add: take_Suc_conv_app_nth)
  have filled: "list_all2 (repr T ?h (Suc b)) (take (Suc i) ?us) (ys @ [x])"
    unfolding take using Suc.prems(6) c(4,5) by (auto intro!: list_all2_appendI elim: list_all2_mono)
  have "off + (Suc i + k) \<le> length vs" "hp_cells ?h b = Some (ArrCell ?us)" "length ?us = Suc i + k"
    using Suc.prems(2,4) by simp_all
  from Suc.IH [OF c(3) this xs(3) filled] obtain h'' us'' where
    IH: "run_state (copyRange copy a off b (Suc i) k) ?h = ((), h'')" "fills h0 h''" "hp_cells h'' b = Some (ArrCell us'')"
      "length us'' = Suc i + k" "list_all2 (repr T h'' (Suc b)) us'' ((ys @ [x]) @ xs')" by blast
  have "hp_cells h a = Some (ArrCell vs)" using Suc.prems(1) a assms(2,3) by (simp add: fills_def)
  then have "run_state (copyRange copy a off b i (Suc k)) h = ((), h'')"
    using c(1,2) IH(1) Suc.prems(2,3) by simp
  then show ?case using IH(2-5) xs(1) by (intro exI [of _ h''] exI [of _ us'']) simp
qed

lemma copies_slice [copy_rules]:
  assumes "copies T copy"
  shows "copies (TSlice T) (copySlice copy)"
proof (rule copiesI)
  fix h v x assume h: "wfHeap h" and v: "repr (TSlice T) h 0 v x"
  show "\<exists>v' h'. run_state (copySlice copy v) h = (v', h') \<and> grows h h' \<and> repr (TSlice T) h' (hp_lim h) v' x"
  proof (cases "v = GSlice None")
    case True
    then show ?thesis using v h by (auto simp: copySlice_def intro: grows_refl)
  next
    case False
    then obtain a off n vs ys where a: "v = GSlice (Some (a, off, n))" "x = CSeq ys" "hp_cells h a = Some (ArrCell vs)"
      "off + n \<le> length vs" "list_all2 (repr T h 0) (take n (drop off vs)) ys"
      using v unfolding repr.simps by blast
    let ?b = "hp_lim h"
    let ?h1 = "h\<lparr>hp_cells := (hp_cells h)(?b \<mapsto> ArrCell (replicate n unset)), hp_lim := Suc ?b\<rparr>"
    obtain h' us' where r: "run_state (copyRange copy a off ?b 0 n) ?h1 = ((), h')" "fills h h'"
      "hp_cells h' ?b = Some (ArrCell us')" "length us' = n" "list_all2 (repr T h' (Suc ?b)) us' ys"
      using copyRange_fills [OF assms refl a(3) fills_alloc [OF h], where off = off and i = 0 and k = n and us = "replicate n unset"
          and xs = ys and ys = "[]"] a(4,5) by auto
    have "list_all2 (repr T h' ?b) us' ys" using r(5) by (auto elim!: list_all2_mono intro: repr_frame)
    then have "repr (TSlice T) h' ?b (GSlice (Some (?b, 0, n))) x" using a(2) r(3,4) by auto
    then show ?thesis using r(1) fills_done [OF r(2)] by (simp add: a(1) copySlice_def)
  qed
qed

lemma update_new: "k \<notin> fst ` set m \<Longrightarrow> AList.update k v m = m @ [(k, v)]"
  by (induction m) auto

lemma copyEntries_fills:
  assumes "copies T copy" and "b = hp_lim h0"
  shows "fills h0 h \<Longrightarrow> hp_cells h b = Some (MapCell m) \<Longrightarrow> distinct (map fst m @ map fst es) \<Longrightarrow>
    list_all2 (repr T h0 0) (map snd es) xs \<Longrightarrow> list_all2 (repr T h (Suc b)) (map snd m) ys \<Longrightarrow>
    \<exists>h' m'. run_state (copyEntries copy b es) h = ((), h') \<and> fills h0 h' \<and> hp_cells h' b = Some (MapCell m') \<and>
      map fst m' = map fst m @ map fst es \<and> list_all2 (repr T h' (Suc b)) (map snd m') (ys @ xs)"
proof (induction es arbitrary: h m xs ys)
  case Nil
  then show ?case by simp
next
  case (Cons e es)
  obtain k v where e: "e = (k, v)" by (cases e)
  obtain x xs' where xs: "xs = x # xs'" "repr T h0 0 v x" "list_all2 (repr T h0 0) (map snd es) xs'"
    using Cons.prems(4) e by (auto simp: list_all2_Cons1)
  obtain v' h' where c: "run_state (copy v) h = (v', h')" "hp_cells h' b = hp_cells h b"
      "\<And>c. fills h0 (h'\<lparr>hp_cells := (hp_cells h')(b \<mapsto> c)\<rparr>)"
      "\<And>c. repr T (h'\<lparr>hp_cells := (hp_cells h')(b \<mapsto> c)\<rparr>) (Suc b) v' x"
      "\<And>u y c. repr T h (Suc b) u y \<Longrightarrow> repr T (h'\<lparr>hp_cells := (hp_cells h')(b \<mapsto> c)\<rparr>) (Suc b) u y"
    using fill_step [OF assms(1) Cons.prems(1) xs(2) assms(2)] by blast
  let ?m = "m @ [(k, v')]"
  let ?h = "h'\<lparr>hp_cells := (hp_cells h')(b \<mapsto> MapCell ?m)\<rparr>"
  have new: "AList.update k v' m = ?m" using Cons.prems(3) e by (intro update_new) auto
  have filled: "list_all2 (repr T ?h (Suc b)) (map snd ?m) (ys @ [x])"
    using Cons.prems(5) c(4,5) by (auto intro!: list_all2_appendI elim: list_all2_mono)
  have "hp_cells ?h b = Some (MapCell ?m)" "distinct (map fst ?m @ map fst es)" using Cons.prems(3) e by auto
  from Cons.IH [OF c(3) this xs(3) filled] obtain h'' m'' where
    IH: "run_state (copyEntries copy b es) ?h = ((), h'')" "fills h0 h''" "hp_cells h'' b = Some (MapCell m'')"
      "map fst m'' = map fst ?m @ map fst es" "list_all2 (repr T h'' (Suc b)) (map snd m'') ((ys @ [x]) @ xs')" by blast
  have "run_state (copyEntries copy b (e # es)) h = ((), h'')"
    using c(1,2) IH(1) Cons.prems(2) new e by simp
  then show ?case using IH(2-5) xs(1) e by (intro exI [of _ h''] exI [of _ m'']) simp
qed

text \<open>Go visits every entry of a map once.\<close>

definition visitsAll :: "mapOrder \<Rightarrow> bool" where
  "visitsAll order = (\<forall>m. distinct (map fst m) \<longrightarrow> distinct (map fst (order m)) \<and> set (order m) = set m)"

lemma map_of_values:
  assumes "map fst m' = map fst m" and "distinct (map fst m)" and "list_all2 R (map snd m') (map (\<lambda>e. the (d (fst e))) m)"
    and "\<And>k. map_of m k = None \<longleftrightarrow> d k = None"
  shows "rel_option R (map_of m' k) (d k)"
proof (cases "k \<in> set (map fst m)")
  case False
  then have "map_of m k = None" "map_of m' k = None" using assms(1) by (metis map_of_eq_None_iff set_map)+
  then show ?thesis using assms(4) by simp
next
  case True
  then obtain i where i: "i < length m" "k = fst (m ! i)" by (metis in_set_conv_nth length_map nth_map)
  have len: "length m' = length m" using assms(1) by (metis length_map)
  have "m' ! i = (k, snd (m' ! i))" using i len assms(1) by (metis nth_map prod.collapse)
  moreover have "distinct (map fst m')" using assms(1,2) by simp
  ultimately have "map_of m' k = Some (snd (m' ! i))" using i len by (metis map_of_is_SomeI nth_mem)
  moreover have "map_of m k = Some (snd (m ! i))" using i assms(2) by (metis map_of_is_SomeI nth_mem prod.collapse)
  moreover have "R (snd (m' ! i)) (the (d k))" using list_all2_nthD [OF assms(3), of i] i len by simp
  ultimately show ?thesis using assms(4) [of k] by auto
qed

lemma copies_map [copy_rules]:
  assumes "copies T copy" and "visitsAll order"
  shows "copies (TMap T) (copyMap order copy)"
proof (rule copiesI)
  fix h v x assume h: "wfHeap h" and v: "repr (TMap T) h 0 v x"
  show "\<exists>v' h'. run_state (copyMap order copy v) h = (v', h') \<and> grows h h' \<and> repr (TMap T) h' (hp_lim h) v' x"
  proof (cases "v = GMap None")
    case True
    then show ?thesis using v h by (auto simp: copyMap_def intro: grows_refl)
  next
    case False
    then obtain a m d where a: "v = GMap (Some a)" "x = CDict d" "hp_cells h a = Some (MapCell m)" "distinct (map fst m)"
      "\<And>k. rel_option (repr T h 0) (map_of m k) (d k)" using v by auto
    let ?b = "hp_lim h" and ?es = "order m" and ?xs = "map (\<lambda>e. the (d (fst e))) (order m)"
    let ?h1 = "h\<lparr>hp_cells := (hp_cells h)(?b \<mapsto> MapCell []), hp_lim := Suc ?b\<rparr>"
    have es: "distinct (map fst ?es)" "map_of ?es = map_of m"
      using assms(2) a(4) by (auto simp: visitsAll_def map_of_inject_set)
    have dom: "map_of ?es k = None \<longleftrightarrow> d k = None" for k using a(5) [of k] es(2) by (auto elim: option.rel_cases)
    have "repr T h 0 (snd e) (the (d (fst e)))" if "e \<in> set ?es" for e
    proof -
      have "map_of m (fst e) = Some (snd e)" using that es by (metis map_of_is_SomeI prod.collapse)
      then show ?thesis using a(5) [of "fst e"] by (auto elim: option.rel_cases)
    qed
    then have src: "list_all2 (repr T h 0) (map snd ?es) ?xs" by (simp add: list_all2_conv_all_nth)
    obtain h' m' where r: "run_state (copyEntries copy ?b ?es) ?h1 = ((), h')" "fills h h'" "hp_cells h' ?b = Some (MapCell m')"
      "map fst m' = map fst ?es" "list_all2 (repr T h' (Suc ?b)) (map snd m') ?xs"
      using copyEntries_fills [OF assms(1) refl fills_alloc [OF h], where m = "[]" and es = ?es and xs = ?xs and ys = "[]"] es(1) src by auto
    have "list_all2 (repr T h' ?b) (map snd m') ?xs" using r(5) by (auto elim!: list_all2_mono intro: repr_frame)
    then have "rel_option (repr T h' ?b) (map_of m' k) (d k)" for k
      using map_of_values [OF r(4) es(1) _ dom] by blast
    then have "repr (TMap T) h' ?b (GMap (Some ?b)) x" using a(2) r(3,4) es(1) by auto
    moreover have "a < ?b" using wfHeap_below [OF h] a(3) by (metis option.distinct(1))
    ultimately show ?thesis using r(1) fills_done [OF r(2)] a(3) by (simp add: a(1) copyMap_def)
  qed
qed

text \<open>
  A struct is copied if every field that leads to other cells is: a field without a statement of its own is
  shared with the original, which is harmless exactly if its type is flat.
\<close>

definition covered :: "(string \<times> gotype) list \<Rightarrow> (string \<times> (goval \<Rightarrow> goval go)) list \<Rightarrow> bool" where
  "covered fs ss = list_all (\<lambda>(f, T). case map_of ss f of None \<Rightarrow> flat T | Some copy \<Rightarrow> copies T copy) fs"

lemma covered_nth: "covered fs ss \<longleftrightarrow>
    (\<forall>i < length fs. case map_of ss (fst (fs ! i)) of None \<Rightarrow> flat (snd (fs ! i)) | Some copy \<Rightarrow> copies (snd (fs ! i)) copy)"
  by (simp add: covered_def list_all_length split_beta)

lemma setField_nth:
  assumes "map fst os = map fst fs" and "distinct (map fst fs)" and "j < length fs"
  shows "\<exists>os'. setField (fst (fs ! j)) u (GStruct os) = GStruct os' \<and> map fst os' = map fst fs \<and>
    (\<forall>i < length fs. snd (os' ! i) = (if i = j then u else snd (os ! i)))"
proof -
  let ?os = "map (\<lambda>(g, w). (g, if g = fst (fs ! j) then u else w)) os"
  have len: "length os = length fs" using assms(1) by (metis length_map)
  have "fst (os ! i) = fst (fs ! i)" if "i < length fs" for i using assms(1) len that by (metis nth_map)
  moreover have "fst (fs ! i) = fst (fs ! j) \<longleftrightarrow> i = j" if "i < length fs" for i
    using assms(2,3) that by (metis length_map nth_eq_iff_index_eq nth_map)
  ultimately have "\<forall>i < length fs. snd (?os ! i) = (if i = j then u else snd (os ! i))"
    using len by (simp add: split_beta)
  moreover have "map fst ?os = map fst fs" using assms(1) by (simp add: split_beta comp_def)
  ultimately show ?thesis by (intro exI [of _ ?os]) (simp add: setField_def)
qed

text \<open>One assignment: the field has its copy, the other fields are as before.\<close>

lemma assignField_copies:
  assumes "copies (snd (fs ! j)) copy" and "distinct (map fst fs)" and "wfHeap h0" and "map fst vs = map fst fs"
    and "grows h0 h" and "map fst os = map fst fs" and "j < length fs" and "repr (snd (fs ! j)) h0 0 (snd (vs ! j)) x"
  obtains u' h' os' where "getField (fst (fs ! j)) (GStruct vs) = Some (snd (vs ! j))"
    "run_state (copy (snd (vs ! j))) h = (u', h')" "grows h h'"
    "setField (fst (fs ! j)) u' (GStruct os) = GStruct os'" "map fst os' = map fst fs"
    "repr (snd (fs ! j)) h' (hp_lim h0) (snd (os' ! j)) x" "\<forall>i < length fs. i \<noteq> j \<longrightarrow> snd (os' ! i) = snd (os ! i)"
proof -
  have len: "length vs = length fs" using assms(4) by (metis length_map)
  have "vs ! j = (fst (fs ! j), snd (vs ! j))" using assms(4,7) len by (metis nth_map prod.collapse)
  moreover have "distinct (map fst vs)" using assms(2,4) by simp
  ultimately have get: "getField (fst (fs ! j)) (GStruct vs) = Some (snd (vs ! j))"
    using assms(7) len by (metis getField_def goval.case(2) map_of_is_SomeI nth_mem)
  have src: "repr (snd (fs ! j)) h 0 (snd (vs ! j)) x" using repr_grows [OF assms(8,3,5)] by simp
  obtain u' h' where c: "run_state (copy (snd (vs ! j))) h = (u', h')" "grows h h'"
      "repr (snd (fs ! j)) h' (hp_lim h) u' x"
    by (rule copiesE [OF assms(1) growsD(1) [OF assms(5)] src])
  obtain os' where os': "setField (fst (fs ! j)) u' (GStruct os) = GStruct os'" "map fst os' = map fst fs"
      "\<forall>i < length fs. snd (os' ! i) = (if i = j then u' else snd (os ! i))"
    using setField_nth [OF assms(6,2,7)] by metis
  have "repr (snd (fs ! j)) h' (hp_lim h0) u' x" by (rule repr_frame [OF c(3)]) (use growsD(2) [OF assms(5)] in auto)
  then show thesis using that [OF get c(1,2) os'(1,2)] os'(3) assms(7) by simp
qed

lemma assignFields_copies:
  assumes "covered fs all" and "distinct (map fst fs)" and "wfHeap h0"
    and "map fst vs = map fst fs" and "\<forall>i < length fs. repr (snd (fs ! i)) h0 0 (snd (vs ! i)) (xs ! i)"
  shows "grows h0 h \<Longrightarrow> distinct (map fst ss) \<Longrightarrow> set ss \<subseteq> set all \<Longrightarrow> distinct (map fst all) \<Longrightarrow> map fst os = map fst fs \<Longrightarrow>
    \<forall>i < length fs. fst (fs ! i) \<notin> fst ` set ss \<longrightarrow> repr (snd (fs ! i)) h (hp_lim h0) (snd (os ! i)) (xs ! i) \<Longrightarrow>
    \<exists>os' h'. run_state (assignFields ss (GStruct vs) (GStruct os)) h = (GStruct os', h') \<and> grows h0 h' \<and> map fst os' = map fst fs \<and>
      (\<forall>i < length fs. repr (snd (fs ! i)) h' (hp_lim h0) (snd (os' ! i)) (xs ! i))"
proof (induction ss arbitrary: os h)
  case Nil
  then show ?case by simp
next
  case (Cons s ss)
  obtain f copy where s: "s = (f, copy)" by (cases s)
  have len: "length vs = length fs" using assms(4) by (metis length_map)
  show ?case
  proof (cases "f \<in> set (map fst fs)")
    case False
    then have "getField f (GStruct vs) = None" using assms(4) by (metis getField_def goval.case(2) map_of_eq_None_iff set_map)
    moreover have "\<exists>os' h'. run_state (assignFields ss (GStruct vs) (GStruct os)) h = (GStruct os', h') \<and> grows h0 h' \<and>
        map fst os' = map fst fs \<and> (\<forall>i < length fs. repr (snd (fs ! i)) h' (hp_lim h0) (snd (os' ! i)) (xs ! i))"
    proof (rule Cons.IH [OF Cons.prems(1)])
      have "fst (fs ! i) \<noteq> f" if "i < length fs" for i using False that by (metis length_map nth_map nth_mem)
      then show "\<forall>i < length fs. fst (fs ! i) \<notin> fst ` set ss \<longrightarrow> repr (snd (fs ! i)) h (hp_lim h0) (snd (os ! i)) (xs ! i)"
        using Cons.prems(6) s by auto
    qed (use Cons.prems s in auto)
    ultimately show ?thesis using s by simp
  next
    case True
    then obtain j where j: "j < length fs" "f = fst (fs ! j)" by (metis in_set_conv_nth length_map nth_map)
    have "map_of all f = Some copy" using Cons.prems(3,4) s by (metis insert_subset list.simps(15) map_of_is_SomeI)
    then have cp: "copies (snd (fs ! j)) copy" using assms(1) j unfolding covered_nth by fastforce
    obtain u' h' os' where c: "getField f (GStruct vs) = Some (snd (vs ! j))" "run_state (copy (snd (vs ! j))) h = (u', h')" "grows h h'"
        "setField f u' (GStruct os) = GStruct os'" "map fst os' = map fst fs"
        "repr (snd (fs ! j)) h' (hp_lim h0) (snd (os' ! j)) (xs ! j)" "\<forall>i < length fs. i \<noteq> j \<longrightarrow> snd (os' ! i) = snd (os ! i)"
      using assignField_copies [OF cp assms(2-4) Cons.prems(1,5) j(1)] assms(5) j by metis
    have "repr (snd (fs ! i)) h' (hp_lim h0) (snd (os' ! i)) (xs ! i)" if i: "i < length fs" "fst (fs ! i) \<notin> fst ` set ss" for i
    proof (cases "i = j")
      case False
      then have "fst (fs ! i) \<noteq> f" using assms(2) i j by (metis length_map nth_eq_iff_index_eq nth_map)
      then have "repr (snd (fs ! i)) h (hp_lim h0) (snd (os ! i)) (xs ! i)" using Cons.prems(6) i s by auto
      then show ?thesis using c(7) i False repr_grows [OF _ growsD(1) [OF Cons.prems(1)] c(3)] by simp
    qed (use c(6) in simp)
    then have "\<exists>os'' h''. run_state (assignFields ss (GStruct vs) (GStruct os')) h' = (GStruct os'', h'') \<and> grows h0 h'' \<and>
        map fst os'' = map fst fs \<and> (\<forall>i < length fs. repr (snd (fs ! i)) h'' (hp_lim h0) (snd (os'' ! i)) (xs ! i))"
      by (intro Cons.IH [OF grows_trans [OF Cons.prems(1) c(3)]]) (use Cons.prems c(5) in auto)
    then show ?thesis using s c(1,2,4) by simp
  qed
qed

lemma copies_struct [copy_rules]:
  assumes "covered fs ss" and "distinct (map fst fs)" and "distinct (map fst ss)"
  shows "copies (TStruct fs) (copyStruct ss)"
proof (rule copiesI)
  fix h v x assume h: "wfHeap h" and "repr (TStruct fs) h 0 v x"
  then obtain vs xs where v: "v = GStruct vs" "x = CStruct xs" "map fst vs = map fst fs" "length xs = length fs"
    "\<forall>i < length fs. repr (snd (fs ! i)) h 0 (snd (vs ! i)) (xs ! i)" unfolding repr_struct by blast
  have "repr (snd (fs ! i)) h (hp_lim h) (snd (vs ! i)) (xs ! i)" if "i < length fs" "fst (fs ! i) \<notin> fst ` set ss" for i
  proof -
    have "map_of ss (fst (fs ! i)) = None" using that(2) by (metis map_of_eq_None_iff)
    then have "flat (snd (fs ! i))" using assms(1) that(1) unfolding covered_nth by fastforce
    then show ?thesis using repr_flat v(5) that(1) by blast
  qed
  then obtain os h' where "run_state (assignFields ss (GStruct vs) (GStruct vs)) h = (GStruct os, h')" "grows h h'"
      "map fst os = map fst fs" "\<forall>i < length fs. repr (snd (fs ! i)) h' (hp_lim h) (snd (os ! i)) (xs ! i)"
    using assignFields_copies [OF assms(1,2) h v(3,5) grows_refl [OF h] assms(3) subset_refl assms(3) v(3)] by blast
  then show "\<exists>v' h'. run_state (copyStruct ss v) h = (v', h') \<and> grows h h' \<and> repr (TStruct fs) h' (hp_lim h) v' x"
    using v by (auto simp: copyStruct_def repr_struct)
qed

lemma deepCopy_fresh:
  assumes "copies T into" and "wfHeap h" and "hp_cells h a = Some (ValCell v)" and "repr T h 0 v x"
  shows "\<exists>v' h'. run_state (deepCopy into (Some a)) h = (Some (hp_lim h), h') \<and> grows h h' \<and>
    hp_cells h' (hp_lim h) = Some (ValCell v') \<and> repr T h' (Suc (hp_lim h)) v' x"
  using fresh_cell [OF assms, of Some] by (simp add: deepCopy_def)

lemma copies_var [copy_rules]:
  assumes "copies T into"
  shows "copies T (copyVar (deepCopy into))"
proof (rule copiesI)
  fix h v x assume h: "wfHeap h" and v: "repr T h 0 v x"
  let ?h1 = "h\<lparr>hp_cells := (hp_cells h)(hp_lim h \<mapsto> ValCell v), hp_lim := Suc (hp_lim h)\<rparr>"
  have g: "grows h ?h1" using h by (auto simp: grows_def wfHeap_def)
  obtain v' h' where r: "run_state (deepCopy into (Some (hp_lim h))) ?h1 = (Some (Suc (hp_lim h)), h')" "grows ?h1 h'"
      "hp_cells h' (Suc (hp_lim h)) = Some (ValCell v')" "repr T h' (Suc (Suc (hp_lim h))) v' x"
    using deepCopy_fresh [OF assms growsD(1) [OF g] _ repr_grows [OF v h g order_refl], of "hp_lim h"] by auto
  have "repr T h' (hp_lim h) v' x" by (rule repr_frame [OF r(4)]) auto
  then show "\<exists>v' h'. run_state (copyVar (deepCopy into) v) h = (v', h') \<and> grows h h' \<and> repr T h' (hp_lim h) v' x"
    using r grows_trans [OF g r(2)] by (simp add: copyVar_def)
qed

end
