(* ===== verification/DeepCopy.thy ===== *)
theory DeepCopy
  imports GoHeap
begin

text \<open>
  The generated copy functions of \<^verbatim>\<open>src/api/v1alpha1/zz_generated.deepcopy.go\<close>, over the memory of
  \<open>GoHeap\<close>, and the struct types they copy. The types of apimachinery and of the core API, their copy functions and the
  order in which Go visits a map are the parameter \<open>copyLib\<close>.
\<close>

section \<open>Types\<close>

record copyLib =
  cl_typeMeta :: gotype
  cl_objectMeta :: gotype
  cl_listMeta :: gotype
  cl_condition :: gotype
  cl_resources :: gotype
  cl_copyObjectMeta :: "goval \<Rightarrow> goval go"
  cl_copyListMeta :: "goval \<Rightarrow> goval go"
  cl_copyCondition :: "goval \<Rightarrow> goval go"
  cl_copyResources :: "goval \<Rightarrow> goval go"
  cl_order :: mapOrder

text \<open>The structs of \<^verbatim>\<open>src/api/v1alpha1\<close>, field by field; strings, numbers and booleans are atoms.\<close>

definition EmbeddedDatabaseConfigT :: "gotype" where
  "EmbeddedDatabaseConfigT = TStruct
    [(''StorageSize'', TAtom), (''Image'', TAtom)]"

definition DatabaseSpecT :: "gotype" where
  "DatabaseSpecT = TStruct
    [(''Embedded'', TAtom), (''EmbeddedConfig'', TPtr EmbeddedDatabaseConfigT), (''SecretName'', TAtom)]"

definition SandboxSpecT :: "gotype" where
  "SandboxSpecT = TStruct
    [(''Namespace'', TAtom), (''DefaultImage'', TAtom), (''ImagePullPolicy'', TAtom),
     (''WorkspaceStorageSize'', TAtom), (''RuntimeClassName'', TAtom), (''AppArmorProfile'', TAtom)]"

definition CertManagerSpecT :: "gotype" where
  "CertManagerSpecT = TStruct
    [(''Enabled'', TAtom), (''IssuerName'', TAtom), (''IssuerKind'', TAtom)]"

definition TLSSpecT :: "gotype" where
  "TLSSpecT = TStruct
    [(''Enabled'', TPtr TAtom), (''CertManager'', CertManagerSpecT), (''ServerCertSecretName'', TAtom)]"

definition GatewayAPISpecT :: "gotype" where
  "GatewayAPISpecT = TStruct
    [(''Enabled'', TPtr TAtom), (''GatewayClassName'', TAtom), (''InstallEnvoyGateway'', TPtr TAtom),
     (''GrantSCCs'', TPtr TAtom)]"

definition RouteSpecT :: "gotype" where
  "RouteSpecT = TStruct
    [(''Enabled'', TPtr TAtom), (''Hostname'', TAtom), (''GatewayAPI'', GatewayAPISpecT)]"

definition OpenShiftAuthT :: "gotype" where
  "OpenShiftAuthT = TStruct
    [(''Enabled'', TPtr TAtom), (''UserGroup'', TAtom), (''AdminGroup'', TAtom), (''TokenTTL'', TAtom),
     (''AutoCreateGroups'', TPtr TAtom)]"

definition AuthSpecT :: "gotype" where
  "AuthSpecT = TStruct
    [(''AllowUnauthenticated'', TAtom), (''OpenShift'', OpenShiftAuthT)]"

definition NetworkPolicySpecT :: "gotype" where
  "NetworkPolicySpecT = TStruct
    [(''Enabled'', TPtr TAtom)]"

definition OpenShellGatewaySpecT :: "copyLib \<Rightarrow> gotype" where
  "OpenShellGatewaySpecT L = TStruct
    [(''Namespace'', TAtom), (''Image'', TAtom), (''ImageTag'', TAtom), (''SupervisorImage'', TAtom),
     (''AuthBridgeImage'', TAtom), (''Replicas'', TPtr TAtom), (''Database'', DatabaseSpecT),
     (''Sandbox'', SandboxSpecT), (''TLS'', TLSSpecT), (''Route'', RouteSpecT), (''Auth'', AuthSpecT),
     (''LogLevel'', TAtom), (''Resources'', cl_resources L), (''NetworkPolicy'', NetworkPolicySpecT)]"

definition OpenShellGatewayStatusT :: "copyLib \<Rightarrow> gotype" where
  "OpenShellGatewayStatusT L = TStruct
    [(''Phase'', TAtom), (''GatewayURL'', TAtom), (''ClientCertSecretName'', TAtom),
     (''ObservedGeneration'', TAtom), (''Conditions'', TSlice (cl_condition L))]"

definition OpenShellGatewayT :: "copyLib \<Rightarrow> gotype" where
  "OpenShellGatewayT L = TStruct
    [(''TypeMeta'', cl_typeMeta L), (''ObjectMeta'', cl_objectMeta L), (''Spec'', OpenShellGatewaySpecT L),
     (''Status'', OpenShellGatewayStatusT L)]"

definition OpenShellGatewayListT :: "copyLib \<Rightarrow> gotype" where
  "OpenShellGatewayListT L = TStruct
    [(''TypeMeta'', cl_typeMeta L), (''ListMeta'', cl_listMeta L),
     (''Items'', TSlice (OpenShellGatewayT L))]"

definition FilesystemPolicyT :: "gotype" where
  "FilesystemPolicyT = TStruct
    [(''IncludeWorkdir'', TAtom), (''ReadOnly'', TSlice TAtom), (''ReadWrite'', TSlice TAtom)]"

definition NetworkEndpointT :: "gotype" where
  "NetworkEndpointT = TStruct
    [(''Host'', TAtom), (''Port'', TAtom), (''Protocol'', TAtom), (''Enforcement'', TAtom),
     (''Access'', TAtom)]"

definition NetworkBinaryT :: "gotype" where
  "NetworkBinaryT = TStruct
    [(''Path'', TAtom)]"

definition NetworkPolicyRuleT :: "gotype" where
  "NetworkPolicyRuleT = TStruct
    [(''Name'', TAtom), (''Endpoints'', TSlice NetworkEndpointT), (''Binaries'', TSlice NetworkBinaryT)]"

definition ProcessPolicyT :: "gotype" where
  "ProcessPolicyT = TStruct
    [(''RunAsUser'', TAtom), (''RunAsGroup'', TAtom)]"

definition OpenShellPolicySpecT :: "gotype" where
  "OpenShellPolicySpecT = TStruct
    [(''PolicyName'', TAtom), (''Filesystem'', TPtr FilesystemPolicyT),
     (''Network'', TMap NetworkPolicyRuleT), (''Process'', TPtr ProcessPolicyT)]"

definition OpenShellPolicyStatusT :: "copyLib \<Rightarrow> gotype" where
  "OpenShellPolicyStatusT L = TStruct
    [(''Phase'', TAtom), (''ObservedGeneration'', TAtom), (''Conditions'', TSlice (cl_condition L)),
     (''AppliedToGateway'', TAtom)]"

definition OpenShellPolicyT :: "copyLib \<Rightarrow> gotype" where
  "OpenShellPolicyT L = TStruct
    [(''TypeMeta'', cl_typeMeta L), (''ObjectMeta'', cl_objectMeta L), (''Spec'', OpenShellPolicySpecT),
     (''Status'', OpenShellPolicyStatusT L)]"

definition OpenShellPolicyListT :: "copyLib \<Rightarrow> gotype" where
  "OpenShellPolicyListT L = TStruct
    [(''TypeMeta'', cl_typeMeta L), (''ListMeta'', cl_listMeta L), (''Items'', TSlice (OpenShellPolicyT L))]"

definition SecretKeyRefT :: "gotype" where
  "SecretKeyRefT = TStruct
    [(''Name'', TAtom), (''Key'', TAtom)]"

definition OpenShellProviderSpecT :: "gotype" where
  "OpenShellProviderSpecT = TStruct
    [(''ProviderType'', TAtom), (''Credentials'', TMap SecretKeyRefT), (''Config'', TMap TAtom)]"

definition OpenShellProviderStatusT :: "copyLib \<Rightarrow> gotype" where
  "OpenShellProviderStatusT L = TStruct
    [(''Phase'', TAtom), (''ObservedGeneration'', TAtom), (''Conditions'', TSlice (cl_condition L)),
     (''ReconciledCredentialKeys'', TSlice TAtom), (''ReconciledConfigKeys'', TSlice TAtom)]"

definition OpenShellProviderT :: "copyLib \<Rightarrow> gotype" where
  "OpenShellProviderT L = TStruct
    [(''TypeMeta'', cl_typeMeta L), (''ObjectMeta'', cl_objectMeta L), (''Spec'', OpenShellProviderSpecT),
     (''Status'', OpenShellProviderStatusT L)]"

definition OpenShellProviderListT :: "copyLib \<Rightarrow> gotype" where
  "OpenShellProviderListT L = TStruct
    [(''TypeMeta'', cl_typeMeta L), (''ListMeta'', cl_listMeta L),
     (''Items'', TSlice (OpenShellProviderT L))]"

definition ServiceAccountReferenceT :: "gotype" where
  "ServiceAccountReferenceT = TStruct
    [(''Name'', TAtom)]"

definition OpenShellWorkspaceMemberSpecT :: "gotype" where
  "OpenShellWorkspaceMemberSpecT = TStruct
    [(''Workspace'', TAtom), (''ServiceAccountRef'', ServiceAccountReferenceT), (''Role'', TAtom)]"

definition OpenShellWorkspaceMemberStatusT :: "copyLib \<Rightarrow> gotype" where
  "OpenShellWorkspaceMemberStatusT L = TStruct
    [(''Phase'', TAtom), (''ObservedGeneration'', TAtom), (''Conditions'', TSlice (cl_condition L)),
     (''ReconciledSubject'', TAtom)]"

definition OpenShellWorkspaceMemberT :: "copyLib \<Rightarrow> gotype" where
  "OpenShellWorkspaceMemberT L = TStruct
    [(''TypeMeta'', cl_typeMeta L), (''ObjectMeta'', cl_objectMeta L),
     (''Spec'', OpenShellWorkspaceMemberSpecT), (''Status'', OpenShellWorkspaceMemberStatusT L)]"

definition OpenShellWorkspaceMemberListT :: "copyLib \<Rightarrow> gotype" where
  "OpenShellWorkspaceMemberListT L = TStruct
    [(''TypeMeta'', cl_typeMeta L), (''ListMeta'', cl_listMeta L),
     (''Items'', TSlice (OpenShellWorkspaceMemberT L))]"

section \<open>Copy functions\<close>

text \<open>A value of the interface \<^verbatim>\<open>runtime.Object\<close>: nil, or a pointer together with its type.\<close>

datatype runtimeObject = NilObject | Object string nat

definition EmbeddedDatabaseConfig_DeepCopyInto :: "goval \<Rightarrow> goval go" where
  "EmbeddedDatabaseConfig_DeepCopyInto = copyStruct []"

definition EmbeddedDatabaseConfig_DeepCopy :: "nat option \<Rightarrow> nat option go" where
  "EmbeddedDatabaseConfig_DeepCopy = deepCopy EmbeddedDatabaseConfig_DeepCopyInto"

definition DatabaseSpec_DeepCopyInto :: "goval \<Rightarrow> goval go" where
  "DatabaseSpec_DeepCopyInto = copyStruct
    [(''EmbeddedConfig'', copyPtr ret)]"

definition DatabaseSpec_DeepCopy :: "nat option \<Rightarrow> nat option go" where
  "DatabaseSpec_DeepCopy = deepCopy DatabaseSpec_DeepCopyInto"

definition SandboxSpec_DeepCopyInto :: "goval \<Rightarrow> goval go" where
  "SandboxSpec_DeepCopyInto = copyStruct []"

definition SandboxSpec_DeepCopy :: "nat option \<Rightarrow> nat option go" where
  "SandboxSpec_DeepCopy = deepCopy SandboxSpec_DeepCopyInto"

definition CertManagerSpec_DeepCopyInto :: "goval \<Rightarrow> goval go" where
  "CertManagerSpec_DeepCopyInto = copyStruct []"

definition CertManagerSpec_DeepCopy :: "nat option \<Rightarrow> nat option go" where
  "CertManagerSpec_DeepCopy = deepCopy CertManagerSpec_DeepCopyInto"

definition TLSSpec_DeepCopyInto :: "goval \<Rightarrow> goval go" where
  "TLSSpec_DeepCopyInto = copyStruct
    [(''Enabled'', copyPtr ret), (''CertManager'', ret)]"

definition TLSSpec_DeepCopy :: "nat option \<Rightarrow> nat option go" where
  "TLSSpec_DeepCopy = deepCopy TLSSpec_DeepCopyInto"

definition GatewayAPISpec_DeepCopyInto :: "goval \<Rightarrow> goval go" where
  "GatewayAPISpec_DeepCopyInto = copyStruct
    [(''Enabled'', copyPtr ret), (''InstallEnvoyGateway'', copyPtr ret), (''GrantSCCs'', copyPtr ret)]"

definition GatewayAPISpec_DeepCopy :: "nat option \<Rightarrow> nat option go" where
  "GatewayAPISpec_DeepCopy = deepCopy GatewayAPISpec_DeepCopyInto"

definition RouteSpec_DeepCopyInto :: "goval \<Rightarrow> goval go" where
  "RouteSpec_DeepCopyInto = copyStruct
    [(''Enabled'', copyPtr ret), (''GatewayAPI'', GatewayAPISpec_DeepCopyInto)]"

definition RouteSpec_DeepCopy :: "nat option \<Rightarrow> nat option go" where
  "RouteSpec_DeepCopy = deepCopy RouteSpec_DeepCopyInto"

definition OpenShiftAuth_DeepCopyInto :: "goval \<Rightarrow> goval go" where
  "OpenShiftAuth_DeepCopyInto = copyStruct
    [(''Enabled'', copyPtr ret), (''AutoCreateGroups'', copyPtr ret)]"

definition OpenShiftAuth_DeepCopy :: "nat option \<Rightarrow> nat option go" where
  "OpenShiftAuth_DeepCopy = deepCopy OpenShiftAuth_DeepCopyInto"

definition AuthSpec_DeepCopyInto :: "goval \<Rightarrow> goval go" where
  "AuthSpec_DeepCopyInto = copyStruct
    [(''OpenShift'', OpenShiftAuth_DeepCopyInto)]"

definition AuthSpec_DeepCopy :: "nat option \<Rightarrow> nat option go" where
  "AuthSpec_DeepCopy = deepCopy AuthSpec_DeepCopyInto"

definition NetworkPolicySpec_DeepCopyInto :: "goval \<Rightarrow> goval go" where
  "NetworkPolicySpec_DeepCopyInto = copyStruct
    [(''Enabled'', copyPtr ret)]"

definition NetworkPolicySpec_DeepCopy :: "nat option \<Rightarrow> nat option go" where
  "NetworkPolicySpec_DeepCopy = deepCopy NetworkPolicySpec_DeepCopyInto"

definition OpenShellGatewaySpec_DeepCopyInto :: "copyLib \<Rightarrow> goval \<Rightarrow> goval go" where
  "OpenShellGatewaySpec_DeepCopyInto L = copyStruct
    [(''Replicas'', copyPtr ret), (''Database'', DatabaseSpec_DeepCopyInto), (''Sandbox'', ret),
     (''TLS'', TLSSpec_DeepCopyInto), (''Route'', RouteSpec_DeepCopyInto),
     (''Auth'', AuthSpec_DeepCopyInto), (''Resources'', cl_copyResources L),
     (''NetworkPolicy'', NetworkPolicySpec_DeepCopyInto)]"

definition OpenShellGatewaySpec_DeepCopy :: "copyLib \<Rightarrow> nat option \<Rightarrow> nat option go" where
  "OpenShellGatewaySpec_DeepCopy L = deepCopy (OpenShellGatewaySpec_DeepCopyInto L)"

definition OpenShellGatewayStatus_DeepCopyInto :: "copyLib \<Rightarrow> goval \<Rightarrow> goval go" where
  "OpenShellGatewayStatus_DeepCopyInto L = copyStruct
    [(''Conditions'', copySlice (cl_copyCondition L))]"

definition OpenShellGatewayStatus_DeepCopy :: "copyLib \<Rightarrow> nat option \<Rightarrow> nat option go" where
  "OpenShellGatewayStatus_DeepCopy L = deepCopy (OpenShellGatewayStatus_DeepCopyInto L)"

definition OpenShellGateway_DeepCopyInto :: "copyLib \<Rightarrow> goval \<Rightarrow> goval go" where
  "OpenShellGateway_DeepCopyInto L = copyStruct
    [(''TypeMeta'', ret), (''ObjectMeta'', cl_copyObjectMeta L),
     (''Spec'', OpenShellGatewaySpec_DeepCopyInto L), (''Status'', OpenShellGatewayStatus_DeepCopyInto L)]"

definition OpenShellGateway_DeepCopy :: "copyLib \<Rightarrow> nat option \<Rightarrow> nat option go" where
  "OpenShellGateway_DeepCopy L = deepCopy (OpenShellGateway_DeepCopyInto L)"

definition OpenShellGateway_DeepCopyObject :: "copyLib \<Rightarrow> nat option \<Rightarrow> runtimeObject go" where
  "OpenShellGateway_DeepCopyObject L p = do {
     c \<leftarrow> OpenShellGateway_DeepCopy L p;
     (case c of Some b \<Rightarrow> ret (Object ''OpenShellGateway'' b) | None \<Rightarrow> ret NilObject)
   }"

definition OpenShellGatewayList_DeepCopyInto :: "copyLib \<Rightarrow> goval \<Rightarrow> goval go" where
  "OpenShellGatewayList_DeepCopyInto L = copyStruct
    [(''TypeMeta'', ret), (''ListMeta'', cl_copyListMeta L),
     (''Items'', copySlice (OpenShellGateway_DeepCopyInto L))]"

definition OpenShellGatewayList_DeepCopy :: "copyLib \<Rightarrow> nat option \<Rightarrow> nat option go" where
  "OpenShellGatewayList_DeepCopy L = deepCopy (OpenShellGatewayList_DeepCopyInto L)"

definition OpenShellGatewayList_DeepCopyObject :: "copyLib \<Rightarrow> nat option \<Rightarrow> runtimeObject go" where
  "OpenShellGatewayList_DeepCopyObject L p = do {
     c \<leftarrow> OpenShellGatewayList_DeepCopy L p;
     (case c of Some b \<Rightarrow> ret (Object ''OpenShellGatewayList'' b) | None \<Rightarrow> ret NilObject)
   }"

definition FilesystemPolicy_DeepCopyInto :: "goval \<Rightarrow> goval go" where
  "FilesystemPolicy_DeepCopyInto = copyStruct
    [(''ReadOnly'', copySlice ret), (''ReadWrite'', copySlice ret)]"

definition FilesystemPolicy_DeepCopy :: "nat option \<Rightarrow> nat option go" where
  "FilesystemPolicy_DeepCopy = deepCopy FilesystemPolicy_DeepCopyInto"

definition NetworkEndpoint_DeepCopyInto :: "goval \<Rightarrow> goval go" where
  "NetworkEndpoint_DeepCopyInto = copyStruct []"

definition NetworkEndpoint_DeepCopy :: "nat option \<Rightarrow> nat option go" where
  "NetworkEndpoint_DeepCopy = deepCopy NetworkEndpoint_DeepCopyInto"

definition NetworkBinary_DeepCopyInto :: "goval \<Rightarrow> goval go" where
  "NetworkBinary_DeepCopyInto = copyStruct []"

definition NetworkBinary_DeepCopy :: "nat option \<Rightarrow> nat option go" where
  "NetworkBinary_DeepCopy = deepCopy NetworkBinary_DeepCopyInto"

definition NetworkPolicyRule_DeepCopyInto :: "goval \<Rightarrow> goval go" where
  "NetworkPolicyRule_DeepCopyInto = copyStruct
    [(''Endpoints'', copySlice ret), (''Binaries'', copySlice ret)]"

definition NetworkPolicyRule_DeepCopy :: "nat option \<Rightarrow> nat option go" where
  "NetworkPolicyRule_DeepCopy = deepCopy NetworkPolicyRule_DeepCopyInto"

definition ProcessPolicy_DeepCopyInto :: "goval \<Rightarrow> goval go" where
  "ProcessPolicy_DeepCopyInto = copyStruct []"

definition ProcessPolicy_DeepCopy :: "nat option \<Rightarrow> nat option go" where
  "ProcessPolicy_DeepCopy = deepCopy ProcessPolicy_DeepCopyInto"

definition OpenShellPolicySpec_DeepCopyInto :: "copyLib \<Rightarrow> goval \<Rightarrow> goval go" where
  "OpenShellPolicySpec_DeepCopyInto L = copyStruct
    [(''Filesystem'', copyPtr FilesystemPolicy_DeepCopyInto),
     (''Network'', copyMap (cl_order L) (copyVar NetworkPolicyRule_DeepCopy)), (''Process'', copyPtr ret)]"

definition OpenShellPolicySpec_DeepCopy :: "copyLib \<Rightarrow> nat option \<Rightarrow> nat option go" where
  "OpenShellPolicySpec_DeepCopy L = deepCopy (OpenShellPolicySpec_DeepCopyInto L)"

definition OpenShellPolicyStatus_DeepCopyInto :: "copyLib \<Rightarrow> goval \<Rightarrow> goval go" where
  "OpenShellPolicyStatus_DeepCopyInto L = copyStruct
    [(''Conditions'', copySlice (cl_copyCondition L))]"

definition OpenShellPolicyStatus_DeepCopy :: "copyLib \<Rightarrow> nat option \<Rightarrow> nat option go" where
  "OpenShellPolicyStatus_DeepCopy L = deepCopy (OpenShellPolicyStatus_DeepCopyInto L)"

definition OpenShellPolicy_DeepCopyInto :: "copyLib \<Rightarrow> goval \<Rightarrow> goval go" where
  "OpenShellPolicy_DeepCopyInto L = copyStruct
    [(''TypeMeta'', ret), (''ObjectMeta'', cl_copyObjectMeta L),
     (''Spec'', OpenShellPolicySpec_DeepCopyInto L), (''Status'', OpenShellPolicyStatus_DeepCopyInto L)]"

definition OpenShellPolicy_DeepCopy :: "copyLib \<Rightarrow> nat option \<Rightarrow> nat option go" where
  "OpenShellPolicy_DeepCopy L = deepCopy (OpenShellPolicy_DeepCopyInto L)"

definition OpenShellPolicy_DeepCopyObject :: "copyLib \<Rightarrow> nat option \<Rightarrow> runtimeObject go" where
  "OpenShellPolicy_DeepCopyObject L p = do {
     c \<leftarrow> OpenShellPolicy_DeepCopy L p;
     (case c of Some b \<Rightarrow> ret (Object ''OpenShellPolicy'' b) | None \<Rightarrow> ret NilObject)
   }"

definition OpenShellPolicyList_DeepCopyInto :: "copyLib \<Rightarrow> goval \<Rightarrow> goval go" where
  "OpenShellPolicyList_DeepCopyInto L = copyStruct
    [(''TypeMeta'', ret), (''ListMeta'', cl_copyListMeta L),
     (''Items'', copySlice (OpenShellPolicy_DeepCopyInto L))]"

definition OpenShellPolicyList_DeepCopy :: "copyLib \<Rightarrow> nat option \<Rightarrow> nat option go" where
  "OpenShellPolicyList_DeepCopy L = deepCopy (OpenShellPolicyList_DeepCopyInto L)"

definition OpenShellPolicyList_DeepCopyObject :: "copyLib \<Rightarrow> nat option \<Rightarrow> runtimeObject go" where
  "OpenShellPolicyList_DeepCopyObject L p = do {
     c \<leftarrow> OpenShellPolicyList_DeepCopy L p;
     (case c of Some b \<Rightarrow> ret (Object ''OpenShellPolicyList'' b) | None \<Rightarrow> ret NilObject)
   }"

definition SecretKeyRef_DeepCopyInto :: "goval \<Rightarrow> goval go" where
  "SecretKeyRef_DeepCopyInto = copyStruct []"

definition SecretKeyRef_DeepCopy :: "nat option \<Rightarrow> nat option go" where
  "SecretKeyRef_DeepCopy = deepCopy SecretKeyRef_DeepCopyInto"

definition OpenShellProviderSpec_DeepCopyInto :: "copyLib \<Rightarrow> goval \<Rightarrow> goval go" where
  "OpenShellProviderSpec_DeepCopyInto L = copyStruct
    [(''Credentials'', copyMap (cl_order L) ret), (''Config'', copyMap (cl_order L) ret)]"

definition OpenShellProviderSpec_DeepCopy :: "copyLib \<Rightarrow> nat option \<Rightarrow> nat option go" where
  "OpenShellProviderSpec_DeepCopy L = deepCopy (OpenShellProviderSpec_DeepCopyInto L)"

definition OpenShellProviderStatus_DeepCopyInto :: "copyLib \<Rightarrow> goval \<Rightarrow> goval go" where
  "OpenShellProviderStatus_DeepCopyInto L = copyStruct
    [(''Conditions'', copySlice (cl_copyCondition L)), (''ReconciledCredentialKeys'', copySlice ret),
     (''ReconciledConfigKeys'', copySlice ret)]"

definition OpenShellProviderStatus_DeepCopy :: "copyLib \<Rightarrow> nat option \<Rightarrow> nat option go" where
  "OpenShellProviderStatus_DeepCopy L = deepCopy (OpenShellProviderStatus_DeepCopyInto L)"

definition OpenShellProvider_DeepCopyInto :: "copyLib \<Rightarrow> goval \<Rightarrow> goval go" where
  "OpenShellProvider_DeepCopyInto L = copyStruct
    [(''TypeMeta'', ret), (''ObjectMeta'', cl_copyObjectMeta L),
     (''Spec'', OpenShellProviderSpec_DeepCopyInto L), (''Status'', OpenShellProviderStatus_DeepCopyInto L)]"

definition OpenShellProvider_DeepCopy :: "copyLib \<Rightarrow> nat option \<Rightarrow> nat option go" where
  "OpenShellProvider_DeepCopy L = deepCopy (OpenShellProvider_DeepCopyInto L)"

definition OpenShellProvider_DeepCopyObject :: "copyLib \<Rightarrow> nat option \<Rightarrow> runtimeObject go" where
  "OpenShellProvider_DeepCopyObject L p = do {
     c \<leftarrow> OpenShellProvider_DeepCopy L p;
     (case c of Some b \<Rightarrow> ret (Object ''OpenShellProvider'' b) | None \<Rightarrow> ret NilObject)
   }"

definition OpenShellProviderList_DeepCopyInto :: "copyLib \<Rightarrow> goval \<Rightarrow> goval go" where
  "OpenShellProviderList_DeepCopyInto L = copyStruct
    [(''TypeMeta'', ret), (''ListMeta'', cl_copyListMeta L),
     (''Items'', copySlice (OpenShellProvider_DeepCopyInto L))]"

definition OpenShellProviderList_DeepCopy :: "copyLib \<Rightarrow> nat option \<Rightarrow> nat option go" where
  "OpenShellProviderList_DeepCopy L = deepCopy (OpenShellProviderList_DeepCopyInto L)"

definition OpenShellProviderList_DeepCopyObject :: "copyLib \<Rightarrow> nat option \<Rightarrow> runtimeObject go" where
  "OpenShellProviderList_DeepCopyObject L p = do {
     c \<leftarrow> OpenShellProviderList_DeepCopy L p;
     (case c of Some b \<Rightarrow> ret (Object ''OpenShellProviderList'' b) | None \<Rightarrow> ret NilObject)
   }"

definition ServiceAccountReference_DeepCopyInto :: "goval \<Rightarrow> goval go" where
  "ServiceAccountReference_DeepCopyInto = copyStruct []"

definition ServiceAccountReference_DeepCopy :: "nat option \<Rightarrow> nat option go" where
  "ServiceAccountReference_DeepCopy = deepCopy ServiceAccountReference_DeepCopyInto"

definition OpenShellWorkspaceMemberSpec_DeepCopyInto :: "goval \<Rightarrow> goval go" where
  "OpenShellWorkspaceMemberSpec_DeepCopyInto = copyStruct
    [(''ServiceAccountRef'', ret)]"

definition OpenShellWorkspaceMemberSpec_DeepCopy :: "nat option \<Rightarrow> nat option go" where
  "OpenShellWorkspaceMemberSpec_DeepCopy = deepCopy OpenShellWorkspaceMemberSpec_DeepCopyInto"

definition OpenShellWorkspaceMemberStatus_DeepCopyInto :: "copyLib \<Rightarrow> goval \<Rightarrow> goval go" where
  "OpenShellWorkspaceMemberStatus_DeepCopyInto L = copyStruct
    [(''Conditions'', copySlice (cl_copyCondition L))]"

definition OpenShellWorkspaceMemberStatus_DeepCopy :: "copyLib \<Rightarrow> nat option \<Rightarrow> nat option go" where
  "OpenShellWorkspaceMemberStatus_DeepCopy L = deepCopy (OpenShellWorkspaceMemberStatus_DeepCopyInto L)"

definition OpenShellWorkspaceMember_DeepCopyInto :: "copyLib \<Rightarrow> goval \<Rightarrow> goval go" where
  "OpenShellWorkspaceMember_DeepCopyInto L = copyStruct
    [(''TypeMeta'', ret), (''ObjectMeta'', cl_copyObjectMeta L), (''Spec'', ret),
     (''Status'', OpenShellWorkspaceMemberStatus_DeepCopyInto L)]"

definition OpenShellWorkspaceMember_DeepCopy :: "copyLib \<Rightarrow> nat option \<Rightarrow> nat option go" where
  "OpenShellWorkspaceMember_DeepCopy L = deepCopy (OpenShellWorkspaceMember_DeepCopyInto L)"

definition OpenShellWorkspaceMember_DeepCopyObject :: "copyLib \<Rightarrow> nat option \<Rightarrow> runtimeObject go" where
  "OpenShellWorkspaceMember_DeepCopyObject L p = do {
     c \<leftarrow> OpenShellWorkspaceMember_DeepCopy L p;
     (case c of Some b \<Rightarrow> ret (Object ''OpenShellWorkspaceMember'' b) | None \<Rightarrow> ret NilObject)
   }"

definition OpenShellWorkspaceMemberList_DeepCopyInto :: "copyLib \<Rightarrow> goval \<Rightarrow> goval go" where
  "OpenShellWorkspaceMemberList_DeepCopyInto L = copyStruct
    [(''TypeMeta'', ret), (''ListMeta'', cl_copyListMeta L),
     (''Items'', copySlice (OpenShellWorkspaceMember_DeepCopyInto L))]"

definition OpenShellWorkspaceMemberList_DeepCopy :: "copyLib \<Rightarrow> nat option \<Rightarrow> nat option go" where
  "OpenShellWorkspaceMemberList_DeepCopy L = deepCopy (OpenShellWorkspaceMemberList_DeepCopyInto L)"

definition OpenShellWorkspaceMemberList_DeepCopyObject :: "copyLib \<Rightarrow> nat option \<Rightarrow> runtimeObject go" where
  "OpenShellWorkspaceMemberList_DeepCopyObject L p = do {
     c \<leftarrow> OpenShellWorkspaceMemberList_DeepCopy L p;
     (case c of Some b \<Rightarrow> ret (Object ''OpenShellWorkspaceMemberList'' b) | None \<Rightarrow> ret NilObject)
   }"

text \<open>The types that implement \<^verbatim>\<open>runtime.Object\<close>.\<close>

definition runtimeObjects :: "copyLib \<Rightarrow> (string \<times> gotype \<times> (nat option \<Rightarrow> runtimeObject go)) list" where
  "runtimeObjects L =
    [(''OpenShellGateway'', OpenShellGatewayT L, OpenShellGateway_DeepCopyObject L),
     (''OpenShellGatewayList'', OpenShellGatewayListT L, OpenShellGatewayList_DeepCopyObject L),
     (''OpenShellPolicy'', OpenShellPolicyT L, OpenShellPolicy_DeepCopyObject L),
     (''OpenShellPolicyList'', OpenShellPolicyListT L, OpenShellPolicyList_DeepCopyObject L),
     (''OpenShellProvider'', OpenShellProviderT L, OpenShellProvider_DeepCopyObject L),
     (''OpenShellProviderList'', OpenShellProviderListT L, OpenShellProviderList_DeepCopyObject L),
     (''OpenShellWorkspaceMember'', OpenShellWorkspaceMemberT L, OpenShellWorkspaceMember_DeepCopyObject L),
     (''OpenShellWorkspaceMemberList'', OpenShellWorkspaceMemberListT L, OpenShellWorkspaceMemberList_DeepCopyObject L)]"

text \<open>Every runtime object is copied by a function of the shape of \<open>DeepCopyObject\<close> around one that copies its type.\<close>

definition objectCopy :: "string \<Rightarrow> (goval \<Rightarrow> goval go) \<Rightarrow> nat option \<Rightarrow> runtimeObject go" where
  "objectCopy name into p = do {
     c \<leftarrow> deepCopy into p;
     (case c of Some b \<Rightarrow> ret (Object name b) | None \<Rightarrow> ret NilObject)
   }"

lemmas object_defs = OpenShellGateway_DeepCopyObject_def OpenShellGateway_DeepCopy_def
  OpenShellGatewayList_DeepCopyObject_def OpenShellGatewayList_DeepCopy_def
  OpenShellPolicy_DeepCopyObject_def OpenShellPolicy_DeepCopy_def
  OpenShellPolicyList_DeepCopyObject_def OpenShellPolicyList_DeepCopy_def
  OpenShellProvider_DeepCopyObject_def OpenShellProvider_DeepCopy_def
  OpenShellProviderList_DeepCopyObject_def OpenShellProviderList_DeepCopy_def
  OpenShellWorkspaceMember_DeepCopyObject_def OpenShellWorkspaceMember_DeepCopy_def
  OpenShellWorkspaceMemberList_DeepCopyObject_def OpenShellWorkspaceMemberList_DeepCopy_def

section \<open>The functions copy their types\<close>

text \<open>What the libraries promise: their copy functions copy, and a map is visited entry by entry.\<close>

locale copy_lib =
  fixes L :: copyLib
  assumes order: "visitsAll (cl_order L)"
    and typeMeta: "flat (cl_typeMeta L)"
    and objectMeta: "copies (cl_objectMeta L) (cl_copyObjectMeta L)"
    and listMeta: "copies (cl_listMeta L) (cl_copyListMeta L)"
    and condition: "copies (cl_condition L) (cl_copyCondition L)"
    and resources: "copies (cl_resources L) (cl_copyResources L)"
begin

lemmas lib = order typeMeta objectMeta listMeta condition resources

lemmas flat_types = flat.simps EmbeddedDatabaseConfigT_def SandboxSpecT_def CertManagerSpecT_def NetworkEndpointT_def
  NetworkBinaryT_def ProcessPolicyT_def SecretKeyRefT_def ServiceAccountReferenceT_def OpenShellWorkspaceMemberSpecT_def

lemma copies_EmbeddedDatabaseConfig: "copies EmbeddedDatabaseConfigT EmbeddedDatabaseConfig_DeepCopyInto"
  unfolding EmbeddedDatabaseConfigT_def EmbeddedDatabaseConfig_DeepCopyInto_def by (rule copies_struct) (simp_all add: covered_def copy_rules flat_types lib )

lemma copies_DatabaseSpec: "copies DatabaseSpecT DatabaseSpec_DeepCopyInto"
  unfolding DatabaseSpecT_def DatabaseSpec_DeepCopyInto_def by (rule copies_struct) (simp_all add: covered_def copy_rules flat_types lib )

lemma copies_SandboxSpec: "copies SandboxSpecT SandboxSpec_DeepCopyInto"
  unfolding SandboxSpecT_def SandboxSpec_DeepCopyInto_def by (rule copies_struct) (simp_all add: covered_def copy_rules flat_types lib )

lemma copies_CertManagerSpec: "copies CertManagerSpecT CertManagerSpec_DeepCopyInto"
  unfolding CertManagerSpecT_def CertManagerSpec_DeepCopyInto_def by (rule copies_struct) (simp_all add: covered_def copy_rules flat_types lib )

lemma copies_TLSSpec: "copies TLSSpecT TLSSpec_DeepCopyInto"
  unfolding TLSSpecT_def TLSSpec_DeepCopyInto_def by (rule copies_struct) (simp_all add: covered_def copy_rules flat_types lib )

lemma copies_GatewayAPISpec: "copies GatewayAPISpecT GatewayAPISpec_DeepCopyInto"
  unfolding GatewayAPISpecT_def GatewayAPISpec_DeepCopyInto_def by (rule copies_struct) (simp_all add: covered_def copy_rules flat_types lib )

lemma copies_RouteSpec: "copies RouteSpecT RouteSpec_DeepCopyInto"
  unfolding RouteSpecT_def RouteSpec_DeepCopyInto_def by (rule copies_struct) (simp_all add: covered_def copy_rules flat_types lib copies_GatewayAPISpec)

lemma copies_OpenShiftAuth: "copies OpenShiftAuthT OpenShiftAuth_DeepCopyInto"
  unfolding OpenShiftAuthT_def OpenShiftAuth_DeepCopyInto_def by (rule copies_struct) (simp_all add: covered_def copy_rules flat_types lib )

lemma copies_AuthSpec: "copies AuthSpecT AuthSpec_DeepCopyInto"
  unfolding AuthSpecT_def AuthSpec_DeepCopyInto_def by (rule copies_struct) (simp_all add: covered_def copy_rules flat_types lib copies_OpenShiftAuth)

lemma copies_NetworkPolicySpec: "copies NetworkPolicySpecT NetworkPolicySpec_DeepCopyInto"
  unfolding NetworkPolicySpecT_def NetworkPolicySpec_DeepCopyInto_def by (rule copies_struct) (simp_all add: covered_def copy_rules flat_types lib )

lemma copies_OpenShellGatewaySpec: "copies (OpenShellGatewaySpecT L) (OpenShellGatewaySpec_DeepCopyInto L)"
  unfolding OpenShellGatewaySpecT_def OpenShellGatewaySpec_DeepCopyInto_def by (rule copies_struct) (simp_all add: covered_def copy_rules flat_types lib copies_DatabaseSpec copies_TLSSpec copies_RouteSpec copies_AuthSpec copies_NetworkPolicySpec)

lemma copies_OpenShellGatewayStatus: "copies (OpenShellGatewayStatusT L) (OpenShellGatewayStatus_DeepCopyInto L)"
  unfolding OpenShellGatewayStatusT_def OpenShellGatewayStatus_DeepCopyInto_def by (rule copies_struct) (simp_all add: covered_def copy_rules flat_types lib )

lemma copies_OpenShellGateway: "copies (OpenShellGatewayT L) (OpenShellGateway_DeepCopyInto L)"
  unfolding OpenShellGatewayT_def OpenShellGateway_DeepCopyInto_def by (rule copies_struct) (simp_all add: covered_def copy_rules flat_types lib copies_OpenShellGatewaySpec copies_OpenShellGatewayStatus)

lemma copies_OpenShellGatewayList: "copies (OpenShellGatewayListT L) (OpenShellGatewayList_DeepCopyInto L)"
  unfolding OpenShellGatewayListT_def OpenShellGatewayList_DeepCopyInto_def by (rule copies_struct) (simp_all add: covered_def copy_rules flat_types lib copies_OpenShellGateway)

lemma copies_FilesystemPolicy: "copies FilesystemPolicyT FilesystemPolicy_DeepCopyInto"
  unfolding FilesystemPolicyT_def FilesystemPolicy_DeepCopyInto_def by (rule copies_struct) (simp_all add: covered_def copy_rules flat_types lib )

lemma copies_NetworkEndpoint: "copies NetworkEndpointT NetworkEndpoint_DeepCopyInto"
  unfolding NetworkEndpointT_def NetworkEndpoint_DeepCopyInto_def by (rule copies_struct) (simp_all add: covered_def copy_rules flat_types lib )

lemma copies_NetworkBinary: "copies NetworkBinaryT NetworkBinary_DeepCopyInto"
  unfolding NetworkBinaryT_def NetworkBinary_DeepCopyInto_def by (rule copies_struct) (simp_all add: covered_def copy_rules flat_types lib )

lemma copies_NetworkPolicyRule: "copies NetworkPolicyRuleT NetworkPolicyRule_DeepCopyInto"
  unfolding NetworkPolicyRuleT_def NetworkPolicyRule_DeepCopyInto_def by (rule copies_struct) (simp_all add: covered_def copy_rules flat_types lib )

lemma copies_ProcessPolicy: "copies ProcessPolicyT ProcessPolicy_DeepCopyInto"
  unfolding ProcessPolicyT_def ProcessPolicy_DeepCopyInto_def by (rule copies_struct) (simp_all add: covered_def copy_rules flat_types lib )

lemma copies_OpenShellPolicySpec: "copies OpenShellPolicySpecT (OpenShellPolicySpec_DeepCopyInto L)"
  unfolding OpenShellPolicySpecT_def OpenShellPolicySpec_DeepCopyInto_def by (rule copies_struct) (simp_all add: covered_def copy_rules flat_types lib copies_FilesystemPolicy copies_NetworkPolicyRule NetworkPolicyRule_DeepCopy_def)

lemma copies_OpenShellPolicyStatus: "copies (OpenShellPolicyStatusT L) (OpenShellPolicyStatus_DeepCopyInto L)"
  unfolding OpenShellPolicyStatusT_def OpenShellPolicyStatus_DeepCopyInto_def by (rule copies_struct) (simp_all add: covered_def copy_rules flat_types lib )

lemma copies_OpenShellPolicy: "copies (OpenShellPolicyT L) (OpenShellPolicy_DeepCopyInto L)"
  unfolding OpenShellPolicyT_def OpenShellPolicy_DeepCopyInto_def by (rule copies_struct) (simp_all add: covered_def copy_rules flat_types lib copies_OpenShellPolicySpec copies_OpenShellPolicyStatus)

lemma copies_OpenShellPolicyList: "copies (OpenShellPolicyListT L) (OpenShellPolicyList_DeepCopyInto L)"
  unfolding OpenShellPolicyListT_def OpenShellPolicyList_DeepCopyInto_def by (rule copies_struct) (simp_all add: covered_def copy_rules flat_types lib copies_OpenShellPolicy)

lemma copies_SecretKeyRef: "copies SecretKeyRefT SecretKeyRef_DeepCopyInto"
  unfolding SecretKeyRefT_def SecretKeyRef_DeepCopyInto_def by (rule copies_struct) (simp_all add: covered_def copy_rules flat_types lib )

lemma copies_OpenShellProviderSpec: "copies OpenShellProviderSpecT (OpenShellProviderSpec_DeepCopyInto L)"
  unfolding OpenShellProviderSpecT_def OpenShellProviderSpec_DeepCopyInto_def by (rule copies_struct) (simp_all add: covered_def copy_rules flat_types lib )

lemma copies_OpenShellProviderStatus: "copies (OpenShellProviderStatusT L) (OpenShellProviderStatus_DeepCopyInto L)"
  unfolding OpenShellProviderStatusT_def OpenShellProviderStatus_DeepCopyInto_def by (rule copies_struct) (simp_all add: covered_def copy_rules flat_types lib )

lemma copies_OpenShellProvider: "copies (OpenShellProviderT L) (OpenShellProvider_DeepCopyInto L)"
  unfolding OpenShellProviderT_def OpenShellProvider_DeepCopyInto_def by (rule copies_struct) (simp_all add: covered_def copy_rules flat_types lib copies_OpenShellProviderSpec copies_OpenShellProviderStatus)

lemma copies_OpenShellProviderList: "copies (OpenShellProviderListT L) (OpenShellProviderList_DeepCopyInto L)"
  unfolding OpenShellProviderListT_def OpenShellProviderList_DeepCopyInto_def by (rule copies_struct) (simp_all add: covered_def copy_rules flat_types lib copies_OpenShellProvider)

lemma copies_ServiceAccountReference: "copies ServiceAccountReferenceT ServiceAccountReference_DeepCopyInto"
  unfolding ServiceAccountReferenceT_def ServiceAccountReference_DeepCopyInto_def by (rule copies_struct) (simp_all add: covered_def copy_rules flat_types lib )

lemma copies_OpenShellWorkspaceMemberSpec: "copies OpenShellWorkspaceMemberSpecT OpenShellWorkspaceMemberSpec_DeepCopyInto"
  unfolding OpenShellWorkspaceMemberSpecT_def OpenShellWorkspaceMemberSpec_DeepCopyInto_def by (rule copies_struct) (simp_all add: covered_def copy_rules flat_types lib )

lemma copies_OpenShellWorkspaceMemberStatus: "copies (OpenShellWorkspaceMemberStatusT L) (OpenShellWorkspaceMemberStatus_DeepCopyInto L)"
  unfolding OpenShellWorkspaceMemberStatusT_def OpenShellWorkspaceMemberStatus_DeepCopyInto_def by (rule copies_struct) (simp_all add: covered_def copy_rules flat_types lib )

lemma copies_OpenShellWorkspaceMember: "copies (OpenShellWorkspaceMemberT L) (OpenShellWorkspaceMember_DeepCopyInto L)"
  unfolding OpenShellWorkspaceMemberT_def OpenShellWorkspaceMember_DeepCopyInto_def by (rule copies_struct) (simp_all add: covered_def copy_rules flat_types lib copies_OpenShellWorkspaceMemberStatus)

lemma copies_OpenShellWorkspaceMemberList: "copies (OpenShellWorkspaceMemberListT L) (OpenShellWorkspaceMemberList_DeepCopyInto L)"
  unfolding OpenShellWorkspaceMemberListT_def OpenShellWorkspaceMemberList_DeepCopyInto_def by (rule copies_struct) (simp_all add: covered_def copy_rules flat_types lib copies_OpenShellWorkspaceMember)

lemma runtimeObjects_copy:
  assumes "(name, T, f) \<in> set (runtimeObjects L)"
  shows "\<exists>into. copies T into \<and> f = objectCopy name into"
proof -
  have eqs: "OpenShellGateway_DeepCopyObject L = objectCopy ''OpenShellGateway'' (OpenShellGateway_DeepCopyInto L)"
    "OpenShellGatewayList_DeepCopyObject L = objectCopy ''OpenShellGatewayList'' (OpenShellGatewayList_DeepCopyInto L)"
    "OpenShellPolicy_DeepCopyObject L = objectCopy ''OpenShellPolicy'' (OpenShellPolicy_DeepCopyInto L)"
    "OpenShellPolicyList_DeepCopyObject L = objectCopy ''OpenShellPolicyList'' (OpenShellPolicyList_DeepCopyInto L)"
    "OpenShellProvider_DeepCopyObject L = objectCopy ''OpenShellProvider'' (OpenShellProvider_DeepCopyInto L)"
    "OpenShellProviderList_DeepCopyObject L = objectCopy ''OpenShellProviderList'' (OpenShellProviderList_DeepCopyInto L)"
    "OpenShellWorkspaceMember_DeepCopyObject L = objectCopy ''OpenShellWorkspaceMember'' (OpenShellWorkspaceMember_DeepCopyInto L)"
    "OpenShellWorkspaceMemberList_DeepCopyObject L = objectCopy ''OpenShellWorkspaceMemberList'' (OpenShellWorkspaceMemberList_DeepCopyInto L)"
    by (simp_all add: fun_eq_iff objectCopy_def object_defs)
  show ?thesis
    using assms unfolding runtimeObjects_def eqs
    by (auto intro: copies_OpenShellGateway copies_OpenShellGatewayList copies_OpenShellPolicy copies_OpenShellPolicyList copies_OpenShellProvider copies_OpenShellProviderList copies_OpenShellWorkspaceMember copies_OpenShellWorkspaceMemberList)
qed

end

section \<open>Properties\<close>

lemma objectCopy_nil: "run_state (objectCopy name into None) h = (NilObject, h)"
  by (simp add: objectCopy_def deepCopy_def)

lemma objectCopy_fresh:
  assumes "copies T into" and "wfHeap h" and "hp_cells h a = Some (ValCell v)" and "repr T h 0 v x"
  shows "\<exists>v' h'. run_state (objectCopy name into (Some a)) h = (Object name (hp_lim h), h') \<and> grows h h' \<and>
    hp_cells h' (hp_lim h) = Some (ValCell v') \<and> repr T h' (hp_lim h) v' x"
proof -
  obtain v' h' where r: "run_state (deepCopy into (Some a)) h = (Some (hp_lim h), h')" "grows h h'"
    "hp_cells h' (hp_lim h) = Some (ValCell v')" "repr T h' (Suc (hp_lim h)) v' x"
    using deepCopy_fresh [OF assms] by blast
  have "repr T h' (hp_lim h) v' x" by (rule repr_frame [OF r(4)]) auto
  then show ?thesis using r by (simp add: objectCopy_def)
qed

text \<open>
  C21: a deep copy is a copy and nothing is shared. For each of the eight types of the API that a client or a
  cache handles, and whatever its content, \<open>DeepCopyObject\<close> of a pointer returns a new pointer with the same
  dynamic type to a value that stands for the same content, leaves every cell that existed unchanged, and
  from then on the two are independent: whatever becomes of the cells that were allocated since, the
  original still stands for its content, and whatever becomes of the older cells, so does the copy. For a nil
  pointer it returns the nil interface.
\<close>

theorem deepcopy_independent:
  assumes "copy_lib L" and "(name, T, deepCopyObject) \<in> set (runtimeObjects L)"
    and "wfHeap h" and "hp_cells h a = Some (ValCell v)" and "repr T h 0 v x"
  shows "run_state (deepCopyObject None) h = (NilObject, h) \<and>
    (\<exists>b v' h'. run_state (deepCopyObject (Some a)) h = (Object name b, h') \<and>
       hp_lim h \<le> b \<and> hp_cells h' b = Some (ValCell v') \<and> repr T h' (hp_lim h) v' x \<and>
       (\<forall>c < hp_lim h. hp_cells h' c = hp_cells h c) \<and>
       (\<forall>later. (\<forall>c < hp_lim h. hp_cells later c = hp_cells h' c) \<longrightarrow> hp_cells later a = Some (ValCell v) \<and> repr T later 0 v x) \<and>
       (\<forall>later. (\<forall>c \<ge> hp_lim h. hp_cells later c = hp_cells h' c) \<longrightarrow> repr T later (hp_lim h) v' x))"
proof -
  obtain into where into: "copies T into" "deepCopyObject = objectCopy name into"
    using copy_lib.runtimeObjects_copy [OF assms(1,2)] by blast
  obtain v' h' where r: "run_state (deepCopyObject (Some a)) h = (Object name (hp_lim h), h')" "grows h h'"
    "hp_cells h' (hp_lim h) = Some (ValCell v')" "repr T h' (hp_lim h) v' x"
    using objectCopy_fresh [OF into(1) assms(3-5)] unfolding into(2) by blast
  have a: "a < hp_lim h" using wfHeap_below [OF assms(3)] assms(4) by (metis option.distinct(1))
  have kept: "hp_cells h' c = hp_cells h c" if "c < hp_lim h" for c using growsD(3) [OF r(2) that] .
  have original: "hp_cells later a = Some (ValCell v) \<and> repr T later 0 v x" if "\<forall>c < hp_lim h. hp_cells later c = hp_cells h' c" for later
  proof
    show "hp_cells later a = Some (ValCell v)" using that a kept assms(4) by simp
    show "repr T later 0 v x" by (rule repr_frame [OF assms(5)]) (use that kept wfHeap_below [OF assms(3)] in auto)
  qed
  have copy: "repr T later (hp_lim h) v' x" if "\<forall>c \<ge> hp_lim h. hp_cells later c = hp_cells h' c" for later
    by (rule repr_frame [OF r(4)]) (use that in auto)
  show ?thesis
    using r(1,3,4) kept original copy objectCopy_nil [of name into h] unfolding into(2) by blast
qed

text \<open>Types of the libraries with references in them, and a policy that uses some.\<close>

definition exampleLib :: copyLib where
  "exampleLib = \<lparr>
     cl_typeMeta = TStruct [(''Kind'', TAtom), (''APIVersion'', TAtom)],
     cl_objectMeta = TStruct [(''Name'', TAtom), (''Labels'', TMap TAtom), (''Finalizers'', TSlice TAtom)],
     cl_listMeta = TStruct [(''ResourceVersion'', TAtom), (''RemainingItemCount'', TPtr TAtom)],
     cl_condition = TStruct [(''Type'', TAtom), (''Status'', TAtom)],
     cl_resources = TStruct [(''Limits'', TMap TAtom), (''Requests'', TMap TAtom)],
     cl_copyObjectMeta = copyStruct [(''Labels'', copyMap rev ret), (''Finalizers'', copySlice ret)],
     cl_copyListMeta = copyStruct [(''RemainingItemCount'', copyPtr ret)],
     cl_copyCondition = copyStruct [],
     cl_copyResources = copyStruct [(''Limits'', copyMap rev ret), (''Requests'', copyMap rev ret)],
     cl_order = rev\<rparr>"

interpretation exampleLib: copy_lib exampleLib
proof
  have rev: "visitsAll rev" by (simp add: visitsAll_def rev_map [symmetric])
  then show "visitsAll (cl_order exampleLib)" by (simp add: exampleLib_def)
  show "flat (cl_typeMeta exampleLib)" by (simp add: exampleLib_def flat.simps)
  show "copies (cl_objectMeta exampleLib) (cl_copyObjectMeta exampleLib)" "copies (cl_listMeta exampleLib) (cl_copyListMeta exampleLib)"
    "copies (cl_condition exampleLib) (cl_copyCondition exampleLib)" "copies (cl_resources exampleLib) (cl_copyResources exampleLib)"
    unfolding exampleLib_def copyLib.simps
    by (rule copies_struct; simp add: covered_def copy_rules flat.simps rev)+
qed

abbreviation strVal :: "string \<Rightarrow> goval" where "strVal t \<equiv> GAtom (StrAtom t)"
abbreviation strCon :: "string \<Rightarrow> content" where "strCon t \<equiv> CAtom (StrAtom t)"

definition examplePolicy :: goval where
  "examplePolicy = GStruct
    [(''TypeMeta'', GStruct [(''Kind'', strVal ''OpenShellPolicy''), (''APIVersion'', strVal ''v1alpha1'')]),
     (''ObjectMeta'', GStruct [(''Name'', strVal ''p''), (''Labels'', GMap (Some 1)), (''Finalizers'', GSlice None)]),
     (''Spec'', GStruct [(''PolicyName'', strVal ''p''), (''Filesystem'', GPtr None), (''Network'', GMap None), (''Process'', GPtr (Some 2))]),
     (''Status'', GStruct [(''Phase'', strVal []), (''ObservedGeneration'', GAtom (IntAtom 1)), (''Conditions'', GSlice None),
       (''AppliedToGateway'', GAtom (BoolAtom True))])]"

definition exampleHeap :: goHeap where
  "exampleHeap = \<lparr>hp_cells = [0 \<mapsto> ValCell examplePolicy, 1 \<mapsto> MapCell [(''app'', strVal ''ogo'')],
     2 \<mapsto> ValCell (GStruct [(''RunAsUser'', strVal ''u''), (''RunAsGroup'', strVal ''g'')])], hp_lim = 3\<rparr>"

definition exampleContent :: content where
  "exampleContent = CStruct
    [CStruct [strCon ''OpenShellPolicy'', strCon ''v1alpha1''],
     CStruct [strCon ''p'', CDict [''app'' \<mapsto> strCon ''ogo''], CNil],
     CStruct [strCon ''p'', CNil, CNil, CRef (CStruct [strCon ''u'', strCon ''g''])],
     CStruct [strCon [], CAtom (IntAtom 1), CNil, CAtom (BoolAtom True)]]"

theorem deepcopy_independent_witness:
  "\<exists>b v' h'. run_state (OpenShellPolicy_DeepCopyObject exampleLib (Some 0)) exampleHeap = (Object ''OpenShellPolicy'' b, h') \<and>
     3 \<le> b \<and> hp_cells h' b = Some (ValCell v') \<and> repr (OpenShellPolicyT exampleLib) h' 3 v' exampleContent"
proof -
  have mem: "(''OpenShellPolicy'', OpenShellPolicyT exampleLib, OpenShellPolicy_DeepCopyObject exampleLib) \<in> set (runtimeObjects exampleLib)"
    by (simp add: runtimeObjects_def)
  have wf: "wfHeap exampleHeap" by (auto simp: wfHeap_def exampleHeap_def)
  have lim: "hp_lim exampleHeap = 3" and cell: "hp_cells exampleHeap 0 = Some (ValCell examplePolicy)"
    by (simp_all add: exampleHeap_def)
  have "repr (OpenShellPolicyT exampleLib) exampleHeap 0 examplePolicy exampleContent"
    by (simp add: OpenShellPolicyT_def OpenShellPolicySpecT_def OpenShellPolicyStatusT_def ProcessPolicyT_def exampleLib_def repr_struct
        examplePolicy_def exampleContent_def exampleHeap_def All_less_Suc2 numeral_eq_Suc)
  from deepcopy_independent [OF exampleLib.copy_lib_axioms mem wf cell this]
  show ?thesis unfolding lim by blast
qed

end
