(* ===== verification/TestUtils.thy ===== *)
theory TestUtils
  imports Kube "HOL-Library.Sublist"
begin

text \<open>
  \<^verbatim>\<open>src/test/utils/utils.go\<close>: the helpers of the end-to-end tests. They run \<^verbatim>\<open>kubectl\<close> and \<^verbatim>\<open>kind\<close> in the
  project's directory, look for installed CRDs in the output, and uncomment blocks of a file. The operating
  system is the parameter \<open>osLib\<close>; the state adds the histories of commands, of written files and of what
  goes to \<^verbatim>\<open>GinkgoWriter\<close>, which no definition reads.
\<close>

section \<open>Strings\<close>

abbreviation newline :: char where "newline \<equiv> CHR 0x0A"
abbreviation carriageReturn :: char where "carriageReturn \<equiv> CHR 0x0D"

text \<open>\<^verbatim>\<open>strings.Index\<close>, \<^verbatim>\<open>strings.Contains\<close>, \<^verbatim>\<open>strings.Split\<close> at a byte, and \<^verbatim>\<open>strings.ReplaceAll\<close> of
  a text that is not empty.\<close>

fun indexOf :: "string \<Rightarrow> string \<Rightarrow> nat option" where
  "indexOf [] sub = (if sub = [] then Some 0 else None)"
| "indexOf (c # cs) sub = (if hasPrefix (c # cs) sub then Some 0 else map_option Suc (indexOf cs sub))"

definition containsText :: "string \<Rightarrow> string \<Rightarrow> bool" where
  "containsText s sub = (indexOf s sub \<noteq> None)"

fun splitOn :: "char \<Rightarrow> string \<Rightarrow> string list" where
  "splitOn c [] = [[]]"
| "splitOn c (x # xs) = (case splitOn c xs of
     [] \<Rightarrow> []
   | l # ls \<Rightarrow> if x = c then [] # l # ls else (x # l) # ls)"

function replaceAll :: "string \<Rightarrow> string \<Rightarrow> string \<Rightarrow> string" where
  "replaceAll s old new =
     (if s = [] then []
      else if old \<noteq> [] \<and> hasPrefix s old then new @ replaceAll (drop (length old) s) old new
      else hd s # replaceAll (tl s) old new)"
  by pat_completeness auto

termination
  by (relation "measure (\<lambda>(s, old, new). length s)") auto

declare replaceAll.simps [simp del]

text \<open>
  \<^verbatim>\<open>bufio.Scanner\<close> with its default split function and buffer: the texts of the lines until \<^verbatim>\<open>Scan\<close> returns
  false. A line loses its line break and one carriage return before it; the last line break does not begin
  another line; a line of \<^verbatim>\<open>bufio.MaxScanTokenSize\<close> bytes or more ends the scan.
\<close>

definition maxScanTokenSize :: nat where
  "maxScanTokenSize = 64 * 1024"

definition dropCR :: "string \<Rightarrow> string" where
  "dropCR l = (if l \<noteq> [] \<and> last l = carriageReturn then butlast l else l)"

lemma cutAt_shorter: "cutAt s c = (line, rest, found) \<Longrightarrow> s \<noteq> [] \<Longrightarrow> length rest < length s"
  by (induction s arbitrary: line rest found) (fastforce split: if_splits prod.splits)+

function scanLines :: "string \<Rightarrow> string list" where
  "scanLines s =
     (if s = [] then []
      else case cutAt s newline of (line, rest, found) \<Rightarrow>
        if maxScanTokenSize \<le> length line then [] else dropCR line # scanLines rest)"
  by pat_completeness auto

termination
  by (relation "measure length") (auto dest: cutAt_shorter [OF sym])

declare scanLines.simps [simp del]

section \<open>The operating system\<close>

text \<open>The fields of \<^verbatim>\<open>exec.Cmd\<close> the helpers and the tests set.\<close>

record command =
  cm_args :: "string list"
  cm_dir :: string
  cm_env :: "string list"
  cm_stdin :: string

definition execCommand :: "string \<Rightarrow> string list \<Rightarrow> command" where
  "execCommand name args = \<lparr>cm_args = name # args, cm_dir = [], cm_env = [], cm_stdin = []\<rparr>"

record 'w osLib =
  os_getwd :: "'w \<Rightarrow> (string \<times> goerr option) \<times> 'w"
  os_chdir :: "string \<Rightarrow> 'w \<Rightarrow> goerr option \<times> 'w"
  os_environ :: "'w \<Rightarrow> string list"
  os_lookupEnv :: "string \<Rightarrow> 'w \<Rightarrow> string option"
  os_combinedOutput :: "command \<Rightarrow> 'w \<Rightarrow> (string \<times> goerr option) \<times> 'w"
  os_readFile :: "string \<Rightarrow> 'w \<Rightarrow> (goerr + string) \<times> 'w"
  os_writeFile :: "string \<Rightarrow> string \<Rightarrow> nat \<Rightarrow> 'w \<Rightarrow> goerr option \<times> 'w"

record 'w testRun =
  te_world :: 'w
  te_commands :: "command list"
  te_files :: "(string \<times> string \<times> nat) list"
  te_output :: "string list"

definition onOS :: "('w \<Rightarrow> 'a \<times> 'w) \<Rightarrow> ('w testRun, 'a) state" where
  "onOS f = State (\<lambda>t. case f (te_world t) of (x, w) \<Rightarrow> (x, t\<lparr>te_world := w\<rparr>))"

definition ginkgoWrite :: "string \<Rightarrow> ('w testRun, unit) state" where
  "ginkgoWrite line = modify (\<lambda>t. t\<lparr>te_output := te_output t @ [line]\<rparr>)"

section \<open>Running commands\<close>

definition warnError :: "goerr \<Rightarrow> ('w testRun, unit) state" where
  "warnError err = ginkgoWrite (''warning: '' @ errText err @ [newline])"

definition GetProjectDir :: "'w osLib \<Rightarrow> ('w testRun, string \<times> goerr option) state" where
  "GetProjectDir OS = do {
     r \<leftarrow> onOS (os_getwd OS);
     (case r of
       (wd, Some err) \<Rightarrow> ret (wd, Some (Wrapf ''failed to get current working directory: '' err []))
     | (wd, None) \<Rightarrow> ret (replaceAll wd ''/test/e2e'' [], None))
   }"

definition Run :: "'w osLib \<Rightarrow> command \<Rightarrow> ('w testRun, string \<times> goerr option) state" where
  "Run OS cmd = do {
     d \<leftarrow> GetProjectDir OS;
     (let dir = fst d in do {
       e \<leftarrow> onOS (os_chdir OS dir);
       _ \<leftarrow> (case e of Some err \<Rightarrow> ginkgoWrite (''chdir dir: '' @ quote (errText err) @ [newline]) | None \<Rightarrow> ret ());
       environ \<leftarrow> gets (\<lambda>t. os_environ OS (te_world t));
       (let cmd' = cmd\<lparr>cm_dir := dir, cm_env := environ @ [''GO111MODULE=on'']\<rparr>;
            line = joinWith '' '' (cm_args cmd') in do {
         _ \<leftarrow> ginkgoWrite (''running: '' @ quote line @ [newline]);
         _ \<leftarrow> modify (\<lambda>t. t\<lparr>te_commands := te_commands t @ [cmd']\<rparr>);
         r \<leftarrow> onOS (os_combinedOutput OS cmd');
         (case r of
           (output, Some err) \<Rightarrow> ret (output,
             Some (Wrapf (quote line @ '' failed with error '' @ quote output @ '': '') err []))
         | (output, None) \<Rightarrow> ret (output, None))
       })
     })
   }"

definition prometheusOperatorVersion :: string where
  "prometheusOperatorVersion = ''v0.77.1''"

definition prometheusOperatorURL :: "string \<Rightarrow> string" where
  "prometheusOperatorURL version = ''https://github.com/prometheus-operator/prometheus-operator/'' @
     ''releases/download/'' @ version @ ''/bundle.yaml''"

definition certmanagerVersion :: string where
  "certmanagerVersion = ''v1.16.3''"

definition certmanagerURLTmpl :: "string \<Rightarrow> string" where
  "certmanagerURLTmpl version =
     ''https://github.com/cert-manager/cert-manager/releases/download/'' @ version @ ''/cert-manager.yaml''"

definition InstallPrometheusOperator :: "'w osLib \<Rightarrow> ('w testRun, goerr option) state" where
  "InstallPrometheusOperator OS = do {
     r \<leftarrow> Run OS (execCommand ''kubectl'' [''create'', ''-f'', prometheusOperatorURL prometheusOperatorVersion]);
     ret (snd r)
   }"

definition UninstallPrometheusOperator :: "'w osLib \<Rightarrow> ('w testRun, unit) state" where
  "UninstallPrometheusOperator OS = do {
     r \<leftarrow> Run OS (execCommand ''kubectl'' [''delete'', ''-f'', prometheusOperatorURL prometheusOperatorVersion]);
     (case snd r of Some err \<Rightarrow> warnError err | None \<Rightarrow> ret ())
   }"

definition UninstallCertManager :: "'w osLib \<Rightarrow> ('w testRun, unit) state" where
  "UninstallCertManager OS = do {
     r \<leftarrow> Run OS (execCommand ''kubectl'' [''delete'', ''-f'', certmanagerURLTmpl certmanagerVersion]);
     (case snd r of Some err \<Rightarrow> warnError err | None \<Rightarrow> ret ())
   }"

definition InstallCertManager :: "'w osLib \<Rightarrow> ('w testRun, goerr option) state" where
  "InstallCertManager OS = do {
     r \<leftarrow> Run OS (execCommand ''kubectl'' [''apply'', ''-f'', certmanagerURLTmpl certmanagerVersion]);
     (case snd r of
       Some err \<Rightarrow> ret (Some err)
     | None \<Rightarrow> do {
         r' \<leftarrow> Run OS (execCommand ''kubectl'' [''wait'', ''deployment.apps/cert-manager-webhook'',
           ''--for'', ''condition=Available'', ''--namespace'', ''cert-manager'', ''--timeout'', ''5m'']);
         ret (snd r')
       })
   }"

definition GetNonEmptyLines :: "string \<Rightarrow> string list" where
  "GetNonEmptyLines output = filter (\<lambda>element. element \<noteq> []) (splitOn newline output)"

definition prometheusCRDs :: "string list" where
  "prometheusCRDs = [''prometheuses.monitoring.coreos.com'', ''prometheusrules.monitoring.coreos.com'',
     ''prometheusagents.monitoring.coreos.com'']"

definition certManagerCRDs :: "string list" where
  "certManagerCRDs = [''certificates.cert-manager.io'', ''issuers.cert-manager.io'', ''clusterissuers.cert-manager.io'',
     ''certificaterequests.cert-manager.io'', ''orders.acme.cert-manager.io'', ''challenges.acme.cert-manager.io'']"

definition IsPrometheusCRDsInstalled :: "'w osLib \<Rightarrow> ('w testRun, bool) state" where
  "IsPrometheusCRDsInstalled OS = do {
     r \<leftarrow> Run OS (execCommand ''kubectl'' [''get'', ''crds'', ''-o'', ''custom-columns=NAME:.metadata.name'']);
     (case r of
       (output, Some err) \<Rightarrow> ret False
     | (output, None) \<Rightarrow> let crdList = GetNonEmptyLines output in
         ret (list_ex (\<lambda>crd. list_ex (\<lambda>line. containsText line crd) crdList) prometheusCRDs))
   }"

definition IsCertManagerCRDsInstalled :: "'w osLib \<Rightarrow> ('w testRun, bool) state" where
  "IsCertManagerCRDsInstalled OS = do {
     r \<leftarrow> Run OS (execCommand ''kubectl'' [''get'', ''crds'']);
     (case r of
       (output, Some err) \<Rightarrow> ret False
     | (output, None) \<Rightarrow> let crdList = GetNonEmptyLines output in
         ret (list_ex (\<lambda>crd. list_ex (\<lambda>line. containsText line crd) crdList) certManagerCRDs))
   }"

definition LoadImageToKindCluster :: "'w osLib \<Rightarrow> string \<Rightarrow> ('w testRun, goerr option) state" where
  "LoadImageToKindCluster OS name = do {
     v \<leftarrow> gets (\<lambda>t. os_lookupEnv OS ''KIND_CLUSTER'' (te_world t));
     (let cluster = (case v of Some c \<Rightarrow> c | None \<Rightarrow> ''kind'') in do {
       r \<leftarrow> Run OS (execCommand ''kind'' [''load'', ''docker-image'', name, ''--name'', cluster]);
       ret (snd r)
     })
   }"

section \<open>Uncommenting a block\<close>

text \<open>The loop over the scanner; \<open>out\<close> is the buffer. Writing to a \<^verbatim>\<open>bytes.Buffer\<close> does not fail.\<close>

fun writeUncommented :: "string \<Rightarrow> string \<Rightarrow> string list \<Rightarrow> string" where
  "writeUncommented pre out [] = out"
| "writeUncommented pre out (text # rest) =
     (let out' = out @ trimPrefix text pre in
      if rest = [] then out' else writeUncommented pre (out' @ [newline]) rest)"

definition writeTestFile :: "'w osLib \<Rightarrow> string \<Rightarrow> string \<Rightarrow> nat \<Rightarrow> ('w testRun, goerr option) state" where
  "writeTestFile OS filename content perm = do {
     e \<leftarrow> onOS (os_writeFile OS filename content perm);
     _ \<leftarrow> modify (\<lambda>t. t\<lparr>te_files := te_files t @ [(filename, content, perm)]\<rparr>);
     ret e
   }"

definition UncommentCode :: "'w osLib \<Rightarrow> string \<Rightarrow> string \<Rightarrow> string \<Rightarrow> ('w testRun, goerr option) state" where
  "UncommentCode OS filename target pre = do {
     r \<leftarrow> onOS (os_readFile OS filename);
     (case r of
       Inl err \<Rightarrow> ret (Some (Wrapf (''failed to read file '' @ quote filename @ '': '') err []))
     | Inr content \<Rightarrow>
         (case indexOf content target of
           None \<Rightarrow> ret (Some (Errorf (''unable to find the code '' @ quote target @ '' to be uncomment'')))
         | Some idx \<Rightarrow>
             (case scanLines target of
               [] \<Rightarrow> ret None
             | text # rest \<Rightarrow> do {
                 e \<leftarrow> writeTestFile OS filename (writeUncommented pre (take idx content) (text # rest) @
                   drop (idx + length target) content) 420;
                 (case e of
                   Some err \<Rightarrow> ret (Some (Wrapf (''failed to write file '' @ quote filename @ '': '') err []))
                 | None \<Rightarrow> ret None)
               })))
   }"

section \<open>Lemmas\<close>

lemma wp_onOS: "wp (onOS f) Q t = (case f (te_world t) of (x, w) \<Rightarrow> Q x (t\<lparr>te_world := w\<rparr>))"
  by (simp add: wp_def onOS_def split: prod.splits)

lemma onOS_wp: "(\<And>x w. f (te_world t) = (x, w) \<Longrightarrow> Q x (t\<lparr>te_world := w\<rparr>)) \<Longrightarrow> wp (onOS f) Q t"
  by (simp add: wp_onOS split: prod.split)

lemma ginkgoWrite_wp [wp_rules]: "Q () (t\<lparr>te_output := te_output t @ [line]\<rparr>) \<Longrightarrow> wp (ginkgoWrite line) Q t"
  by (simp add: ginkgoWrite_def)

lemma hasPrefix_prefix: "hasPrefix s p \<longleftrightarrow> prefix p s"
  by (simp add: hasPrefix_iff prefix_def)

lemma indexOf_split: "indexOf s sub = Some i \<Longrightarrow> \<exists>b. s = take i s @ sub @ b"
proof (induction s arbitrary: i)
  case (Cons c cs)
  then show ?case by (auto simp: hasPrefix_iff split: if_splits)
qed (simp split: if_splits)

lemma indexOf_sublist: "indexOf s sub = None \<longleftrightarrow> \<not> sublist sub s"
  by (induction s) (auto simp: hasPrefix_prefix sublist_Cons_right)

lemma containsText_sublist: "containsText s sub \<longleftrightarrow> sublist sub s"
  by (simp add: containsText_def indexOf_sublist)

text \<open>A text without line breaks is found in the lines exactly if it is found in the whole output.\<close>

lemma splitOn_Cons: "\<exists>ls. splitOn c s = takeWhile (\<lambda>x. x \<noteq> c) s # ls"
  by (induction s) auto

lemma prefix_takeWhile: "c \<notin> set p \<Longrightarrow> prefix p (takeWhile (\<lambda>x. x \<noteq> c) s) \<longleftrightarrow> prefix p s"
proof (induction s arbitrary: p)
  case (Cons x s)
  then show ?case by (cases p) auto
qed simp

lemma lines_contain:
  assumes "sub \<noteq> []" and "c \<notin> set sub"
  shows "(\<exists>line \<in> set (splitOn c s). sublist sub line) \<longleftrightarrow> sublist sub s"
proof (induction s)
  case (Cons x s)
  obtain ls where ls: "splitOn c s = takeWhile (\<lambda>x. x \<noteq> c) s # ls" using splitOn_Cons by blast
  have "prefix sub (x # takeWhile (\<lambda>x. x \<noteq> c) s) \<longleftrightarrow> prefix sub (x # s)" if "x \<noteq> c"
    using prefix_takeWhile [OF assms(2), of "x # s"] that by simp
  moreover have "\<not> prefix sub (c # s)" using assms by (cases sub) auto
  ultimately show ?case using Cons ls assms(1) by (auto simp: sublist_Cons_right)
qed (simp add: assms(1))

lemma GetNonEmptyLines_contains:
  assumes "sub \<noteq> []" and "newline \<notin> set sub"
  shows "list_ex (\<lambda>line. containsText line sub) (GetNonEmptyLines output) \<longleftrightarrow> sublist sub output"
proof -
  have "list_ex (\<lambda>line. containsText line sub) (GetNonEmptyLines output) \<longleftrightarrow>
      (\<exists>line \<in> set (splitOn newline output). sublist sub line)"
    using assms(1) by (auto simp: GetNonEmptyLines_def list_ex_iff containsText_sublist)
  then show ?thesis using lines_contain [OF assms] by simp
qed

lemma any_crd_contained:
  assumes "list_all (\<lambda>crd. crd \<noteq> [] \<and> newline \<notin> set crd) crds"
  shows "list_ex (\<lambda>crd. list_ex (\<lambda>line. containsText line crd) (GetNonEmptyLines output)) crds \<longleftrightarrow>
    (\<exists>crd \<in> set crds. sublist crd output)"
  using assms by (auto simp: list_ex_iff list_all_iff GetNonEmptyLines_contains [unfolded list_ex_iff])

text \<open>The lines the scanner finds in a block.\<close>

definition scannable :: "string \<Rightarrow> bool" where
  "scannable l = (newline \<notin> set l \<and> length l < maxScanTokenSize \<and> (l \<noteq> [] \<longrightarrow> last l \<noteq> carriageReturn))"

lemma scan_line: "scannable l \<Longrightarrow> scanLines (l @ newline # rest) = l # scanLines rest"
  by (subst scanLines.simps) (auto simp: scannable_def cutAt_append dropCR_def)

lemma scan_last: "scannable l \<Longrightarrow> l \<noteq> [] \<Longrightarrow> scanLines l = [l]"
  by (subst scanLines.simps) (simp add: scannable_def cutAt_absent dropCR_def scanLines.simps [of "[]"])

lemma scan_long:
  assumes "newline \<notin> set l" and "maxScanTokenSize \<le> length l"
  shows "scanLines (l @ newline # rest) = []" and "scanLines l = []"
  using assms by (subst scanLines.simps, simp add: cutAt_append cutAt_absent)+

lemma scan_block:
  assumes "list_all scannable ls" and "ls \<noteq> []" and "last ls \<noteq> []"
  shows "scanLines (joinWith [newline] ls) = ls" and "scanLines (joinWith [newline] ls @ [newline]) = ls"
  using assms
  by (induction ls rule: induct_list012) (simp_all add: scan_line scan_last scanLines.simps [of "[]"])

lemma joinWith_Cons: "joinWith sep (x # xs) = x @ (if xs = [] then [] else sep @ joinWith sep xs)"
  by (cases xs) simp_all

lemma writeUncommented_join:
  "writeUncommented pre out ls = out @ joinWith [newline] (map (\<lambda>l. trimPrefix l pre) ls)"
  by (induction ls arbitrary: out) (simp_all add: joinWith_Cons Let_def)

lemma uncomment_run:
  assumes "os_readFile OS filename (te_world t) = (Inr (before @ target @ after), w)"
    and "indexOf (before @ target @ after) target = Some (length before)" and "scanLines target = l # ls"
  shows "run_state (UncommentCode OS filename target pre) t =
    (let new = before @ joinWith [newline] (map (\<lambda>l. trimPrefix l pre) (l # ls)) @ after in
     case os_writeFile OS filename new 420 w of (e, w') \<Rightarrow>
       (map_option (\<lambda>err. Wrapf (''failed to write file '' @ quote filename @ '': '') err []) e,
        t\<lparr>te_world := w', te_files := te_files t @ [(filename, new, 420)]\<rparr>))"
  using assms
  by (simp add: UncommentCode_def writeTestFile_def onOS_def writeUncommented_join Let_def del: joinWith.simps list.map
      split: prod.splits option.splits)

lemma Run_wp:
  assumes "\<And>r dir environ t'. te_commands t' = te_commands t @ [cmd\<lparr>cm_dir := dir, cm_env := environ @ [''GO111MODULE=on'']\<rparr>] \<Longrightarrow>
      te_files t' = te_files t \<Longrightarrow> Q r t'"
  shows "wp (Run OS cmd) Q t"
  unfolding Run_def GetProjectDir_def by (intro wp_rules onOS_wp) (auto intro!: assms)

section \<open>Properties\<close>

text \<open>A block of lines with a comment prefix before each.\<close>

definition commented :: "string \<Rightarrow> string list \<Rightarrow> string" where
  "commented pre ls = joinWith [newline] (map (\<lambda>l. pre @ l) ls)"

text \<open>
  \<open>UncommentCode\<close> undoes commenting. Given a block of lines, each behind the comment prefix, as the target, and
  a file in which that block first occurs between \<open>before\<close> and \<open>after\<close>, it writes the file with the
  plain lines in place of the block and nothing else changed, and fails only if writing does. The lines must be
  such that the scanner delivers them: no line break or final carriage return in them, shorter than the
  scanner's limit, and the last not empty.
\<close>

theorem uncomment_restores:
  assumes "os_readFile OS filename (te_world t) = (Inr (before @ commented pre ls @ after), w)"
    and "indexOf (before @ commented pre ls @ after) (commented pre ls) = Some (length before)"
    and "list_all (\<lambda>l. scannable (pre @ l)) ls" and "ls \<noteq> []" and "pre @ last ls \<noteq> []"
  shows "run_state (UncommentCode OS filename (commented pre ls) pre) t =
    (let new = before @ joinWith [newline] ls @ after in
     case os_writeFile OS filename new 420 w of (e, w') \<Rightarrow>
       (map_option (\<lambda>err. Wrapf (''failed to write file '' @ quote filename @ '': '') err []) e,
        t\<lparr>te_world := w', te_files := te_files t @ [(filename, new, 420)]\<rparr>))"
proof -
  have scan: "scanLines (commented pre ls) = map (\<lambda>l. pre @ l) ls"
    unfolding commented_def by (rule scan_block) (use assms in \<open>auto simp: list_all_iff last_map\<close>)
  then obtain l rest where ls: "map (\<lambda>l. pre @ l) ls = l # rest" using assms(4) by (cases ls) auto
  have "map (\<lambda>l. trimPrefix l pre) (l # rest) = ls" unfolding ls [symmetric] by (simp add: comp_def)
  then show ?thesis using uncomment_run [OF assms(1,2) scan [unfolded ls]] by metis
qed

text \<open>An operating system with one file, the world.\<close>

definition exampleOS :: "string osLib" where
  "exampleOS = \<lparr>os_getwd = (\<lambda>w. ((''/ogo/test/e2e'', None), w)), os_chdir = (\<lambda>d w. (None, w)), os_environ = (\<lambda>w. []),
     os_lookupEnv = (\<lambda>k w. None), os_combinedOutput = (\<lambda>c w. (([], None), w)),
     os_readFile = (\<lambda>f w. (Inr w, w)), os_writeFile = (\<lambda>f c m w. (None, c))\<rparr>"

definition exampleFile :: "string \<Rightarrow> string testRun" where
  "exampleFile content = \<lparr>te_world = content, te_commands = [], te_files = [], te_output = []\<rparr>"

theorem uncomment_restores_witness:
  "run_state (UncommentCode exampleOS ''kustomization.yaml'' (commented ''#'' [''- webhook'', ''  patch'']) ''#'')
     (exampleFile (''a'' @ newline # commented ''#'' [''- webhook'', ''  patch''] @ newline # ''z'')) =
   (let new = ''a'' @ newline # joinWith [newline] [''- webhook'', ''  patch''] @ newline # ''z'' in
    (None, (exampleFile new)\<lparr>te_files := [(''kustomization.yaml'', new, 420)]\<rparr>))"
  using uncomment_restores [of exampleOS "''kustomization.yaml''"
      "exampleFile (''a'' @ newline # commented ''#'' [''- webhook'', ''  patch''] @ newline # ''z'')"
      "''a'' @ [newline]" "''#''" "[''- webhook'', ''  patch'']" "newline # ''z''"]
  by (simp add: exampleOS_def exampleFile_def commented_def hasPrefix_def scannable_def maxScanTokenSize_def)

text \<open>If the target ends with a line break, that line break is lost and the text behind it joins the last line.\<close>

theorem uncomment_loses_line_break:
  assumes "os_readFile OS filename (te_world t) = (Inr (before @ (commented pre ls @ [newline]) @ after), w)"
    and "indexOf (before @ (commented pre ls @ [newline]) @ after) (commented pre ls @ [newline]) = Some (length before)"
    and "list_all (\<lambda>l. scannable (pre @ l)) ls" and "ls \<noteq> []" and "pre @ last ls \<noteq> []"
  shows "te_files (snd (run_state (UncommentCode OS filename (commented pre ls @ [newline]) pre) t)) =
    te_files t @ [(filename, before @ joinWith [newline] ls @ after, 420)]"
proof -
  have scan: "scanLines (commented pre ls @ [newline]) = map (\<lambda>l. pre @ l) ls"
    unfolding commented_def by (rule scan_block) (use assms in \<open>auto simp: list_all_iff last_map\<close>)
  then obtain l rest where ls: "map (\<lambda>l. pre @ l) ls = l # rest" using assms(4) by (cases ls) auto
  have "map (\<lambda>l. trimPrefix l pre) (l # rest) = ls" unfolding ls [symmetric] by (simp add: comp_def)
  then show ?thesis using uncomment_run [OF assms(1,2) scan [unfolded ls]]
    by (simp add: Let_def case_prod_beta del: joinWith.simps list.map)
qed

text \<open>If a line of the target is as long as the scanner's limit, it and all lines after it are removed from the file,
  and the helper reports success.\<close>

theorem uncomment_loses_long_line:
  assumes "os_readFile OS filename (te_world t) = (Inr (before @ (first @ newline # long) @ after), w)"
    and "indexOf (before @ (first @ newline # long) @ after) (first @ newline # long) = Some (length before)"
    and "scannable first" and "newline \<notin> set long" and "maxScanTokenSize \<le> length long"
    and "\<And>content. fst (os_writeFile OS filename content 420 w) = None"
  shows "\<exists>w'. run_state (UncommentCode OS filename (first @ newline # long) pre) t =
    (None, t\<lparr>te_world := w', te_files := te_files t @ [(filename, before @ trimPrefix first pre @ after, 420)]\<rparr>)"
proof -
  have "scanLines (first @ newline # long) = [first]" using scan_line [OF assms(3)] scan_long(2) [OF assms(4,5)] by simp
  from uncomment_run [OF assms(1,2) this] show ?thesis
    using assms(6) [of "before @ trimPrefix first pre @ after"] by (auto simp: case_prod_beta Let_def)
qed

text \<open>
  The searches for CRDs find what they name. Splitting the output into lines makes no difference: the answer is
  yes exactly if the command succeeded and its output has one of the names somewhere.
\<close>

theorem crds_installed_iff:
  "run_state (IsCertManagerCRDsInstalled OS) t =
    (case run_state (Run OS (execCommand ''kubectl'' [''get'', ''crds''])) t of
       ((output, e), t') \<Rightarrow> (e = None \<and> (\<exists>crd \<in> set certManagerCRDs. sublist crd output), t'))"
  "run_state (IsPrometheusCRDsInstalled OS) t =
    (case run_state (Run OS (execCommand ''kubectl'' [''get'', ''crds'', ''-o'', ''custom-columns=NAME:.metadata.name''])) t of
       ((output, e), t') \<Rightarrow> (e = None \<and> (\<exists>crd \<in> set prometheusCRDs. sublist crd output), t'))"
proof -
  have "list_all (\<lambda>crd. crd \<noteq> [] \<and> newline \<notin> set crd) certManagerCRDs"
    and "list_all (\<lambda>crd. crd \<noteq> [] \<and> newline \<notin> set crd) prometheusCRDs" by code_simp+
  note any = this [THEN any_crd_contained]
  show "run_state (IsCertManagerCRDsInstalled OS) t =
      (case run_state (Run OS (execCommand ''kubectl'' [''get'', ''crds''])) t of
         ((output, e), t') \<Rightarrow> (e = None \<and> (\<exists>crd \<in> set certManagerCRDs. sublist crd output), t'))"
    by (simp add: IsCertManagerCRDsInstalled_def any(1) Let_def split: prod.splits option.splits)
  show "run_state (IsPrometheusCRDsInstalled OS) t =
      (case run_state (Run OS (execCommand ''kubectl'' [''get'', ''crds'', ''-o'', ''custom-columns=NAME:.metadata.name''])) t of
         ((output, e), t') \<Rightarrow> (e = None \<and> (\<exists>crd \<in> set prometheusCRDs. sublist crd output), t'))"
    by (simp add: IsPrometheusCRDsInstalled_def any(2) Let_def split: prod.splits option.splits)
qed

text \<open>The installation of cert-manager is reported as done only after its webhook was waited for.\<close>

theorem cert_manager_awaited:
  assumes "run_state (InstallCertManager OS) t = (None, t')"
  shows "\<exists>apply wait. te_commands t' = te_commands t @ [apply, wait] \<and>
    cm_args apply = [''kubectl'', ''apply'', ''-f'', certmanagerURLTmpl certmanagerVersion] \<and>
    take 3 (cm_args wait) = [''kubectl'', ''wait'', ''deployment.apps/cert-manager-webhook'']"
proof -
  have "wp (InstallCertManager OS) (\<lambda>r t'. r = None \<longrightarrow> (\<exists>apply wait. te_commands t' = te_commands t @ [apply, wait] \<and>
      cm_args apply = [''kubectl'', ''apply'', ''-f'', certmanagerURLTmpl certmanagerVersion] \<and>
      take 3 (cm_args wait) = [''kubectl'', ''wait'', ''deployment.apps/cert-manager-webhook''])) t"
    unfolding InstallCertManager_def by (intro wp_rules Run_wp) (auto simp: execCommand_def)
  from wpD [OF this assms] show ?thesis by blast
qed

end
