(* ===== verification/Spec2Isabelle.thy ===== *)
theory Spec2Isabelle
  imports Watches SecretWrites Settles BridgeMain OperatorMain SmokeConfig DeepCopy TestUtils
begin

text \<open>
  A verification library for OGO, the Kubernetes operator that runs an OpenShell gateway, and for the
  auth-bridge that runs beside the gateway and turns OpenShift logins into gateway tokens. It models the
  Go code under \<^verbatim>\<open>src/\<close>; names of files below are relative to \<^verbatim>\<open>src/internal/controller\<close> where no
  directory is given.

  \<^bold>\<open>The program.\<close> Four controllers reconcile four custom resources (\<^verbatim>\<open>src/api/v1alpha1\<close>). The gateway
  controller creates everything a gateway needs in the cluster: certificates, keys, the configuration
  file, the Deployment, Routes or Gateway API resources, and four optional dependencies (Envoy Gateway,
  the SCC of its proxies, an embedded PostgreSQL, OpenShift groups). The provider, policy and member
  controllers push their resources to the running gateway over gRPC, with an admin token they mint from
  the gateway's own key. The auth-bridge (\<^verbatim>\<open>src/internal/authbridge\<close>) is an HTTP server with a table of
  pending codes.

  \<^bold>\<open>How code becomes theory.\<close> A stateful Go function is a value of the state monad over \<open>sys\<close>, which holds
  the outside world, the detection caches and the history of calls. Everything outside the repository
  (the Kubernetes client, discovery, apimachinery's helpers, gRPC, the clock, the random source, the
  cryptographic, YAML and HTTP libraries) is a field of a record of functions: \<open>env\<close>, \<open>pkiLib\<close>,
  \<open>yamlLib\<close>, \<open>managerLib\<close> and the auth-bridge's own record. No law is built in; a property that needs
  one names it, as a locale predicate (\<open>gateway_service\<close>, \<open>condition_env\<close>, \<open>object_store\<close>, \<open>cluster_store\<close>) or
  as a hypothesis, and its witness discharges it for the in-memory environment \<open>memEnv\<close> of \<open>FakeGateway\<close>.
  Errors are values of \<open>goerr\<close>, early returns of a loop are \<open>Inl\<close> of \<open>foreach\<close>.

  \<^bold>\<open>Proof tools.\<close> Three small calculi follow the structure of a program: \<open>wp\<close> (what holds after it),
  \<open>onlyCalls\<close> (which calls it may make) and \<open>results\<close> (what it may return), each with a collection of
  introduction rules.

  \<^bold>\<open>Theories.\<close>
  \<^item> \<open>Prelude\<close>: strings, maps, the state monad, loops, \<open>wp\<close> and \<open>results\<close>. \<open>Api_Types\<close>: the structs of
    \<^verbatim>\<open>src/api/v1alpha1\<close>. \<open>Kube\<close>: the environment, objects, calls, \<open>onlyCalls\<close>.
  \<^item> \<open>Naming\<close>, \<open>Detect\<close>, \<open>Singleton\<close>, \<open>Jwt\<close>, \<open>Grpc\<close>: the pure helpers of
    \<^verbatim>\<open>openshellgateway_controller.go\<close> and \<^verbatim>\<open>dependency.go\<close>, \<^verbatim>\<open>src/internal/openshift/detect.go\<close>,
    \<^verbatim>\<open>singleton.go\<close>, \<^verbatim>\<open>src/internal/authbridge/jwt.go\<close>, \<^verbatim>\<open>openshell_grpc.go\<close>. They show that the
    singleton choice is the head of a stable sort, that admin tokens live for a minute, and that the
    gateway is dialled in plaintext only if TLS is off.
  \<^item> \<open>GatewayService\<close> states the contract of the gateway's RPCs over an abstract view of its state;
    \<open>FakeGateway\<close> interprets it on the stand-in of \<^verbatim>\<open>fake_gateway_test.go\<close>. \<open>Controllers\<close>: the shape
    the three gateway-facing controllers share, as a locale.
  \<^item> \<open>Provider\<close>, \<open>Policy\<close>, \<open>Member\<close>: \<^verbatim>\<open>openshellprovider_controller.go\<close>, \<^verbatim>\<open>openshellpolicy_controller.go\<close>,
    \<^verbatim>\<open>openshellworkspacemember_controller.go\<close>. They show what a successful sync leaves on the gateway,
    that access is withdrawn before it is granted anew, that only the active policy is pushed and that
    finalizers are released only after the gateway let go.
  \<^item> \<open>Config\<close>: \<^verbatim>\<open>src/internal/gateway/config.go\<close> with a reader for the TOML it writes (round trip).
    \<open>Pki\<close>: \<^verbatim>\<open>src/internal/pki/pki.go\<close> (the certificates of a bundle fit together).
  \<^item> \<open>Resources\<close>, \<open>Deployment\<close>, \<open>Dependencies\<close>, \<open>Routing\<close>, \<open>Status\<close>: the parts of
    \<^verbatim>\<open>openshellgateway_controller.go\<close> and the files \<^verbatim>\<open>dep_*.go\<close>. They show that the TLS Secrets always
    belong together, that the pod template is well-formed and its hash detects changes, that
    dependencies destroy only what they own (a locale, interpreted four times), that Route cleanup is
    exact, that the OAuth client follows its Secret, and that the status tells the truth.
  \<^item> \<open>GatewayReconcile\<close>, \<open>GatewayOrder\<close>: \<open>Reconcile\<close> and \<open>reconcileDelete\<close> put those parts together. They
    show that only the oldest gateway acts and only under its finalizer, that nothing foreign is
    deleted, that the finalizer goes last, that the loop over the steps refines a big-step relation,
    that failures are reported with their step, and that the Secret watch is exact.
  \<^item> \<open>Provisioned\<close>, \<open>SecretWrites\<close>: the objects the pod refers to against the steps that provide them. They
    show that the volumes of the pod exist before its Deployment is written, in which configurations one
    does not, and that no Secret is written but the ones the controller generates. They add two calculi,
    \<open>retains\<close> (what a program does not lose) and \<open>secures\<close> (what a good result guarantees).
  \<^item> \<open>Settles\<close>: the desired state of the core objects as one function, which the steps implement. It shows that
    a reconcile that finds its own work asks for no change.
  \<^item> \<open>OpenShiftClient\<close>, \<open>BridgeServer\<close>, \<open>BridgeMain\<close>: \<^verbatim>\<open>src/internal/authbridge\<close> and
    \<^verbatim>\<open>src/cmd/auth-bridge/main.go\<close>, with the interleaving of requests as a step relation. They show
    that tokens only go to authorized users, redirects only to allowed addresses, that the table of
    codes stays bounded, codes are used once, and that the process always comes to an orderly end.
  \<^item> \<open>OperatorMain\<close>: \<^verbatim>\<open>src/cmd/main.go\<close>, from the parsed flags to the running manager.
  \<^item> \<open>Watches\<close>: the four \<open>SetupWithManager\<close> functions as tables of watched kinds, and the scheme. They show that a change of
    a Secret reaches exactly the resources that read it, and that policies do not keep waking each other.
  \<^item> \<open>SmokeConfig\<close>: \<^verbatim>\<open>src/hack/smoke-test-config/main.go\<close>. The configuration it writes is complete.
  \<^item> \<open>GoHeap\<close>, \<open>DeepCopy\<close>: \<^verbatim>\<open>src/api/v1alpha1/zz_generated.deepcopy.go\<close>. The other theories treat the
    structs of the API as values; here they are what they are in Go, graphs of structs, pointers, slices and
    maps in a memory. \<open>GoHeap\<close> has the memory, the types, the content a value stands for (\<open>repr\<close>) and the
    statements the generator emits, each with its rule; \<open>DeepCopy\<close> has every generated function. They show
    that a deep copy has the content of the original and shares no memory with it, which is what makes the
    treatment as values right. The copy functions of other packages are a parameter under the locale
    \<open>copy_lib\<close>.
  \<^item> \<open>TestUtils\<close>: the helpers of the end-to-end tests in \<^verbatim>\<open>src/test/utils/utils.go\<close>. They show that
    uncommenting a block undoes commenting it, for which targets it does not, and that the searches for
    installed CRDs are exact.
  \<^item> This theory puts the parts together: the environment the operator gives the auth-bridge, the
    configuration it gives the gateway, the tokens the one issues and the other accepts, the tokens the
    controllers mint for themselves, and the ports.

  \<^bold>\<open>Bounds.\<close> There is no fuel: every loop of the code runs over a finite slice or map. Ports sent to the
  gateway are 32-bit words, as in the protocol; replica counts, times and sizes are unbounded integers,
  since the code only compares or copies them.

  \<^bold>\<open>Not modelled.\<close> The generated protobuf stubs: the RPCs they stand for are parameters. Logging, apart from what the auth-bridge's \<open>main\<close> logs; the panics on a failing random
  source; manifests and charts, which are data. The work
  queue is controller-runtime's: a table of watches says what is requested, not when it runs.
  Concurrency inside a controller is not modelled either, since controller-runtime runs one reconcile per
  resource at a time; other writers show up as arbitrary answers of the environment.
\<close>

section \<open>The deployed auth-bridge\<close>

text \<open>
  The Deployment (\<open>Deployment\<close>) configures the auth-bridge (\<open>BridgeMain\<close>) through environment variables,
  and the gateway through its configuration file (\<open>Config\<close>). The container runtime puts them together:
  a variable with a literal value has that value, a reference to a Secret has the Secret's value, a
  variable that is not set is empty. Kubernetes expands \<^verbatim>\<open>$(NAME)\<close> in literal values, so the rule is
  stated for values without a dollar sign only.
\<close>

definition plainEnv :: "(string \<times> envSource) list \<Rightarrow> bool" where
  "plainEnv envs = list_all (\<lambda>(k, v). case v of EnvValue x \<Rightarrow> CHR ''$'' \<notin> set x | _ \<Rightarrow> True) envs"

definition runsWith :: "(string \<Rightarrow> string \<Rightarrow> string) \<Rightarrow> (string \<times> envSource) list \<Rightarrow> (string \<Rightarrow> string) \<Rightarrow> bool" where
  "runsWith secretValue envs getenv = (\<forall>k. case map_of envs k of
       None \<Rightarrow> getenv k = []
     | Some (EnvValue x) \<Rightarrow> CHR ''$'' \<notin> set x \<longrightarrow> getenv k = x
     | Some (EnvSecretKeyRef name key) \<Rightarrow> getenv k = secretValue name key)"

definition lookupEnv :: "(string \<times> envSource) list \<Rightarrow> (string \<Rightarrow> string) \<Rightarrow> string \<Rightarrow> string option" where
  "lookupEnv envs getenv k = (if hasKey envs k then Some (getenv k) else None)"

text \<open>
  The kubelet shows a Secret as files, one for each key, wherever a container mounts a volume of it.
  \<open>secretData\<close> is what the Secrets of the gateway's namespace hold.
\<close>

definition mountsSecrets :: "(string \<Rightarrow> smap) \<Rightarrow> openShellGateway \<Rightarrow> (string \<Rightarrow> 'w \<Rightarrow> (goerr + string) \<times> 'w) \<Rightarrow> bool" where
  "mountsSecrets secretData gw rd =
     (\<forall>vm n mode key v w. vm \<in> set (ct_volumeMounts (authBridgeContainer gw)) \<longrightarrow>
        (vm_name vm, VolSecret n mode []) \<in> set (gatewayVolumes gw) \<longrightarrow> map_of (secretData n) key = Some v \<longrightarrow>
        fst (rd (vm_mountPath vm @ ''/'' @ key) w) = Inr v)"

text \<open>The operator and the auth-bridge are built with the same cryptographic library.\<close>

definition sameCrypto :: "'w env \<Rightarrow> 'v env \<Rightarrow> bool" where
  "sameCrypto E E' = (e_pemDecode E = e_pemDecode E' \<and> e_parsePKCS8 E = e_parsePKCS8 E' \<and>
     e_sha256 E = e_sha256 E' \<and> e_marshalPKCS1Public E = e_marshalPKCS1Public E')"

lemma runsWith_get:
  assumes "runsWith secretValue envs getenv" and "plainEnv envs"
  shows "getenv k = (case map_of envs k of None \<Rightarrow> [] | Some (EnvValue x) \<Rightarrow> x
    | Some (EnvSecretKeyRef name key) \<Rightarrow> secretValue name key)"
proof (cases "map_of envs k")
  case None
  then show ?thesis using assms(1) by (auto simp: runsWith_def dest: spec [of _ k])
next
  case (Some v)
  have "CHR ''$'' \<notin> set x" if "v = EnvValue x" for x
    using map_of_SomeD [OF Some] that assms(2) by (auto simp: plainEnv_def list_all_iff)
  then show ?thesis
    using assms(1) Some by (auto simp: runsWith_def split: envSource.splits dest!: spec [of _ k])
qed

lemma bridge_env:
  assumes "runsWith secretValue (authBridgeEnv gw) getenv" and "plainEnv (authBridgeEnv gw)"
  shows "getenv ''AUTH_BRIDGE_ISSUER'' = authBridgeInternalURL gw"
    and "getenv ''AUTH_BRIDGE_EXTERNAL_ISSUER'' = authBridgeExternalURL gw"
    and "getenv ''AUTH_BRIDGE_AUDIENCE'' = []"
    and "getenv ''AUTH_BRIDGE_USER_GROUP'' = oa_userGroup (au_openShift (gs_auth (gw_spec gw)))"
    and "getenv ''AUTH_BRIDGE_ADMIN_GROUP'' = oa_adminGroup (au_openShift (gs_auth (gw_spec gw)))"
    and "getenv ''AUTH_BRIDGE_TLS_CERT'' = (if tlsEnabled gw then ''/etc/auth-bridge-tls/tls.crt'' else [])"
    and "getenv ''AUTH_BRIDGE_TLS_LISTEN'' = (if tlsEnabled gw then '':8443'' else [])"
    and "lookupEnv (authBridgeEnv gw) getenv ''AUTH_BRIDGE_LISTEN'' =
      (if tlsEnabled gw then Some ''127.0.0.1:8085'' else None)"
  by (simp_all add: runsWith_get [OF assms] authBridgeEnv_def lookupEnv_def hasKey_def)

lemma deployed_config:
  assumes "runsWith secretValue (authBridgeEnv gw) (b_getenv B)" and "plainEnv (authBridgeEnv gw)"
    and "cfg = readConfig B parse (lookupEnv (authBridgeEnv gw) (b_getenv B) ''AUTH_BRIDGE_LISTEN'')"
  shows "bc_Issuer cfg = authBridgeInternalURL gw" and "bc_ExternalIssuer cfg = authBridgeExternalURL gw"
    and "bc_Audience cfg = gatewayOIDCAudience"
    and "bc_UserGroup cfg = oa_userGroup (au_openShift (gs_auth (gw_spec gw)))"
    and "bc_AdminGroup cfg = oa_adminGroup (au_openShift (gs_auth (gw_spec gw)))"
    and "listeners B cfg =
      (if tlsEnabled gw then [(''127.0.0.1:8085'', False), ('':8443'', True)] else [('':8085'', False)])"
proof -
  have "authBridgeInternalURL gw \<noteq> []" "authBridgeExternalURL gw \<noteq> []"
    by (simp_all add: authBridgeInternalURL_def authBridgeExternalURL_def)
  then show "bc_Issuer cfg = authBridgeInternalURL gw" "bc_ExternalIssuer cfg = authBridgeExternalURL gw"
    "bc_Audience cfg = gatewayOIDCAudience"
    "bc_UserGroup cfg = oa_userGroup (au_openShift (gs_auth (gw_spec gw)))"
    "bc_AdminGroup cfg = oa_adminGroup (au_openShift (gs_auth (gw_spec gw)))"
    using bridge_env [OF assms(1,2)] by (simp_all add: assms(3) readConfig_def envOrDefault_def Let_def)
  show "listeners B cfg =
      (if tlsEnabled gw then [(''127.0.0.1:8085'', False), ('':8443'', True)] else [('':8085'', False)])"
    using bridge_env [OF assms(1,2)]
    by (simp add: assms(3) listeners_def readConfig_def envOrDefault_def resolveListenAddr_def Let_def)
qed

lemma trimSpace_idem [simp]: "trimSpace (trimSpace s) = trimSpace s"
proof -
  let ?xs = "dropWhile isSpaceByte s"
  have "?xs = rev (dropWhile isSpaceByte (rev ?xs)) @ rev (takeWhile isSpaceByte (rev ?xs))"
    by (metis rev_append rev_rev_ident takeWhile_dropWhile_id)
  then have xs: "?xs = trimSpace s @ rev (takeWhile isSpaceByte (rev ?xs))" by (simp add: trimSpace_def)
  have "\<not> isSpaceByte (hd (trimSpace s))" if "trimSpace s \<noteq> []"
    using that hd_dropWhile [of isSpaceByte s] xs by (metis append_is_Nil_conv hd_append2)
  moreover have "\<not> isSpaceByte (hd (rev (trimSpace s)))" if "trimSpace s \<noteq> []"
    using that hd_dropWhile [of isSpaceByte "rev ?xs"] by (simp add: trimSpace_def)
  ultimately have "dropWhile isSpaceByte (trimSpace s) = trimSpace s" "dropWhile isSpaceByte (rev (trimSpace s)) = rev (trimSpace s)"
    by (auto simp: dropWhile_eq_self_iff)
  then show ?thesis by (simp add: trimSpace_def [of "trimSpace s"])
qed

lemma NewJWTSignerFromPEM_same:
  "sameCrypto E E' \<Longrightarrow> trimSpace k = trimSpace k' \<Longrightarrow> NewJWTSignerFromPEM E pem k = NewJWTSignerFromPEM E' pem k'"
  unfolding NewJWTSignerFromPEM_def sameCrypto_def by (elim conjE) (simp only: Let_def)

lemma MintToken_result:
  assumes "run_state (MintToken E signer iss aud sub user email roles ttl) s = (Inr tok, t)"
  shows "\<exists>now h p sg u u'. e_jsonMarshal E (headerJSON (js_kid signer)) = Inr h \<and>
    e_jsonMarshal E (claimsJSON (mkClaims now iss aud sub user email roles ttl)) = Inr p \<and>
    e_signPKCS1v15 E (js_privateKey signer) (e_sha256 E (signingInput h p)) u = (Inr sg, u') \<and>
    tok = signingInput h p @ ''.'' @ b64url sg"
proof -
  have "wp (MintToken E signer iss aud sub user email roles ttl) (\<lambda>r t. \<forall>tok. r = Inr tok \<longrightarrow>
      (\<exists>now h p sg u u'. e_jsonMarshal E (headerJSON (js_kid signer)) = Inr h \<and>
        e_jsonMarshal E (claimsJSON (mkClaims now iss aud sub user email roles ttl)) = Inr p \<and>
        e_signPKCS1v15 E (js_privateKey signer) (e_sha256 E (signingInput h p)) u = (Inr sg, u') \<and>
        tok = signingInput h p @ ''.'' @ b64url sg)) s"
    unfolding MintToken_def timeNow_def by (intro wp_rules) (simp_all, blast)
  from wpD [OF this assms] show ?thesis by blast
qed

lemma mintAdminToken_result:
  assumes "run_state (mintAdminToken E gw) s = (Inr tok, t)"
  shows "\<exists>ob w signer now h p sg u u'.
    e_get E KSecret (nsn (gatewayNamespace gw) (gw_name gw @ ''-auth-bridge-keys'')) (world s) = (Inr ob, w) \<and>
    NewJWTSignerFromPEM E (mget (sec_data (secretOf ob)) ''signing.pem'') (mget (sec_data (secretOf ob)) ''kid'') = Inr signer \<and>
    e_jsonMarshal E (headerJSON (js_kid signer)) = Inr h \<and>
    e_jsonMarshal E (claimsJSON (mkClaims now (authBridgeInternalURL gw) gatewayOIDCAudience ''ogo-controller'' ''ogo-controller''
      [] [gatewayAdminRole] adminTokenTTL)) = Inr p \<and>
    e_signPKCS1v15 E (js_privateKey signer) (e_sha256 E (signingInput h p)) u = (Inr sg, u') \<and>
    tok = signingInput h p @ ''.'' @ b64url sg"
proof -
  obtain r w where get: "e_get E KSecret (nsn (gatewayNamespace gw) (gw_name gw @ ''-auth-bridge-keys'')) (world s) = (r, w)"
    by (metis prod.exhaust)
  obtain ob where ob: "r = Inr ob"
    using assms get by (cases r) (simp_all add: mintAdminToken_def kGet_def invoke_def)
  let ?d = "sec_data (secretOf ob)"
  obtain signer where signer: "NewJWTSignerFromPEM E (mget ?d ''signing.pem'') (mget ?d ''kid'') = Inr signer"
    using assms get ob
    by (cases "NewJWTSignerFromPEM E (mget ?d ''signing.pem'') (mget ?d ''kid'')") (simp_all add: mintAdminToken_def kGet_def invoke_def)
  obtain s' where "run_state (MintToken E signer (authBridgeInternalURL gw) gatewayOIDCAudience ''ogo-controller'' ''ogo-controller'' []
      [gatewayAdminRole] adminTokenTTL) s' = (Inr tok, t)"
    using assms get ob signer by (simp add: mintAdminToken_def kGet_def invoke_def)
  from MintToken_result [OF this] show ?thesis
    using get signer unfolding ob by (elim exE) (intro exI conjI; (assumption | elim conjE, assumption))
qed

lemma deployed_signer:
  assumes "run_state (startBridge B loadPair parse genKey listenEnv) s = (Inr (srv, ls), t)"
    and "runsWith secretValue (authBridgeEnv gw) (b_getenv B)" and "plainEnv (authBridgeEnv gw)"
    and "mountsSecrets secretData gw (b_readFile B)"
    and "map_of (secretData (gw_name gw @ ''-auth-bridge-keys'')) ''signing.pem'' = Some pem"
    and "map_of (secretData (gw_name gw @ ''-auth-bridge-keys'')) ''kid'' = Some kid"
  shows "NewJWTSignerFromPEM (b_env B) pem (trimSpace kid) = Inr (bs_signer srv)"
proof -
  have paths: "b_getenv B ''AUTH_BRIDGE_SIGNING_KEY'' = ''/etc/auth-bridge-keys/signing.pem''"
    "b_getenv B ''AUTH_BRIDGE_PUBLIC_KEY'' = ''/etc/auth-bridge-keys/public.pem''"
    "b_getenv B ''AUTH_BRIDGE_KID'' = ''/etc/auth-bridge-keys/kid''"
    by (simp_all add: runsWith_get [OF assms(2,3)] authBridgeEnv_def)
  have content: "fst (b_readFile B (''/etc/auth-bridge-keys'' @ ''/'' @ key) w) = Inr v"
    if "map_of (secretData (gw_name gw @ ''-auth-bridge-keys'')) key = Some v" for key v w
  proof -
    have "mount ''auth-bridge-keys'' ''/etc/auth-bridge-keys'' True \<in> set (ct_volumeMounts (authBridgeContainer gw))"
      "(''auth-bridge-keys'', VolSecret (gw_name gw @ ''-auth-bridge-keys'') (Some 256) []) \<in> set (gatewayVolumes gw)"
      by (simp_all add: authBridgeContainer_def gatewayVolumes_def Let_def)
    from this(1) [THEN assms(4) [unfolded mountsSecrets_def, rule_format]] this(2) that show ?thesis by simp
  qed
  have files: "fst (b_readFile B ''/etc/auth-bridge-keys/signing.pem'' w) = Inr pem"
    "fst (b_readFile B ''/etc/auth-bridge-keys/kid'' w) = Inr kid" for w
    using content [OF assms(5)] content [OF assms(6)] by simp_all
  have load: "results (\<lambda>r. r = NewJWTSignerFromPEM (b_env B) pem (trimSpace kid)) (NewJWTSigner B genKey)"
    unfolding NewJWTSigner_def loadJWTSigner_def paths Let_def
    using files by (simp add: results_def silent_def split_beta)
  have "wp (startBridge B loadPair parse genKey listenEnv)
      (\<lambda>r t. \<forall>srv ls. r = Inr (srv, ls) \<longrightarrow> NewJWTSignerFromPEM (b_env B) pem (trimSpace kid) = Inr (bs_signer srv)) s"
    unfolding startBridge_def Let_def
    apply (rule wp_bindI, rule wp_any, intro wp_rules, simp)
     apply (rule results_wp [OF load], intro wp_rules)
      apply (auto simp: NewServer_def)
    done
  from wpD [OF this assms(1)] show ?thesis by blast
qed

section \<open>An example deployment\<close>

definition deployedGateway :: openShellGateway where
  "deployedGateway = \<lparr>gw_meta = metaFor ''gw'' [],
     gw_spec = zeroGatewaySpec\<lparr>gs_auth := (gs_auth zeroGatewaySpec)
       \<lparr>au_openShift := (au_openShift (gs_auth zeroGatewaySpec))
         \<lparr>oa_enabled := Some True, oa_userGroup := ''devs'', oa_adminGroup := ''ops''\<rparr>\<rparr>\<rparr>,
     gw_status = zeroGatewayStatus\<rparr>"

definition containerGetenv :: "(string \<times> envSource) list \<Rightarrow> string \<Rightarrow> string" where
  "containerGetenv envs k = (case map_of envs k of
     None \<Rightarrow> [] | Some (EnvValue x) \<Rightarrow> x | Some (EnvSecretKeyRef name key) \<Rightarrow> ''s3cret'')"

definition exampleBenv :: "memWorld benv" where
  "exampleBenv = memBenv\<lparr>b_getenv := containerGetenv (authBridgeEnv deployedGateway)\<rparr>"

definition exampleStart :: "(string + bridgeServer \<times> (string \<times> bool) list) \<times> memWorld sys" where
  "exampleStart = run_state (startBridge exampleBenv (\<lambda>c k w. (Inr ''pair'', w)) (\<lambda>t. Inr 0) (\<lambda>w. (Inr ''key'', w))
     (lookupEnv (authBridgeEnv deployedGateway) (b_getenv exampleBenv) ''AUTH_BRIDGE_LISTEN'')) exampleSys"

definition exampleDeployed :: bridgeServer where
  "exampleDeployed = (case fst exampleStart of Inr (srv, ls) \<Rightarrow> srv | Inl e \<Rightarrow> exampleServer)"

definition exampleDeployedRun :: "memWorld bridgeRun" where
  "exampleDeployedRun = (case run_state (lift (handleTokenExchange exampleBenv exampleDeployed exampleRequest))
     (rn_bridge (initRun exampleSys)) of (resp, b) \<Rightarrow> reply (initRun exampleSys) b resp)"

definition keyData :: "string \<Rightarrow> smap" where
  "keyData n = (if n = ''gw-auth-bridge-keys'' then [(''signing.pem'', ''k''), (''kid'', ''1'')] else [])"

definition mountedBenv :: "memWorld benv" where
  "mountedBenv = exampleBenv\<lparr>b_readFile := (\<lambda>path w. (if path = ''/etc/auth-bridge-keys/signing.pem'' then Inr ''k''
     else if path = ''/etc/auth-bridge-keys/kid'' then Inr ''1'' else Inl (Errorf ''no such file''), w))\<rparr>"

abbreviation keySys :: "memWorld sys" where
  "keySys \<equiv> memSys (exampleWorld [] newFakeOpenShellServer)"

lemma reachable_deployed: "reachable exampleBenv exampleDeployed exampleDeployedRun"
  unfolding reachable_def exampleDeployedRun_def
  by (rule exI [of _ exampleSys]) (auto intro!: r_into_rtranclp token_exchange split: prod.splits)

lemma runsWith_containerGetenv: "runsWith (\<lambda>name key. ''s3cret'') envs (containerGetenv envs)"
  by (auto simp: runsWith_def containerGetenv_def split: option.splits envSource.splits)

lemma exampleBenv_env: "runsWith (\<lambda>name key. ''s3cret'') (authBridgeEnv deployedGateway) (b_getenv exampleBenv)"
  by (simp add: exampleBenv_def runsWith_containerGetenv)

lemma exampleStart_ok: "\<exists>ls. exampleStart = (Inr (exampleDeployed, ls), snd exampleStart)"
proof -
  have "case fst exampleStart of Inl e \<Rightarrow> False | Inr x \<Rightarrow> True" by code_simp
  then obtain srv ls where st: "fst exampleStart = Inr (srv, ls)" by (auto split: sum.splits)
  then have "exampleDeployed = srv" by (simp add: exampleDeployed_def)
  with st have "exampleStart = (Inr (exampleDeployed, ls), snd exampleStart)" by (metis prod.collapse)
  then show ?thesis by (rule exI)
qed

lemma example_plain:
  "authBridgeEnabled deployedGateway True" "plainEnv (authBridgeEnv deployedGateway)"
  "safeGateway deployedGateway ''ogo'' [oidcIssuerFor deployedGateway True]"
  by code_simp+

section \<open>Properties\<close>

lemma toml_oidc_settings:
  assumes "safeGateway gw ns [issuer]" and "issuer \<noteq> []"
  shows "\<exists>settings. readTOML (RenderGatewayTOML gw ns [issuer]) = Some settings \<and>
    (''openshell.gateway.oidc'', ''issuer'', TString issuer) \<in> set settings \<and>
    (''openshell.gateway.oidc'', ''audience'', TString gatewayOIDCAudience) \<in> set settings \<and>
    (''openshell.gateway.oidc'', ''user_role'', TString roleUser) \<in> set settings \<and>
    (''openshell.gateway.oidc'', ''admin_role'', TString roleAdmin) \<in> set settings"
proof -
  have "readTOML (RenderGatewayTOML gw ns [issuer]) = Some (gatewaySettings gw ns [issuer])"
    by (rule readTOML_render [OF assms(1)])
  then show ?thesis using assms(2) by (simp add: gatewaySettings_def Let_def image_Un)
qed



text \<open>
  C15: the gateway accepts the tokens the controllers mint for themselves. Take a gateway with the
  auth-bridge enabled, an auth-bridge that started in the container the Deployment describes, and an admin
  token a controller minted, while the key Secret stayed the same. Then the token is signed, under the key
  ID that the auth-bridge publishes, with the very key whose public half the auth-bridge publishes; its
  issuer and audience are those of the gateway's configuration file, and its one role is that file's
  admin role.
\<close>

theorem admin_token_accepted:
  assumes "authBridgeEnabled gw isOCP" and "safeGateway gw ns [oidcIssuerFor gw isOCP]"
    and "plainEnv (authBridgeEnv gw)" and "runsWith secretValue (authBridgeEnv gw) (b_getenv B)"
    and "mountsSecrets secretData gw (b_readFile B)" and "sameCrypto E (b_env B)"
    and "map_of (secretData (gw_name gw @ ''-auth-bridge-keys'')) ''signing.pem'' = Some pem"
    and "map_of (secretData (gw_name gw @ ''-auth-bridge-keys'')) ''kid'' = Some kid"
    and "fst (e_get E KSecret (nsn (gatewayNamespace gw) (gw_name gw @ ''-auth-bridge-keys'')) (world s')) = Inr ob \<and>
      sec_data (secretOf ob) = secretData (gw_name gw @ ''-auth-bridge-keys'')"
    and "run_state (startBridge B loadPair parse genKey listenEnv) s = (Inr (srv, ls), t)"
    and "run_state (mintAdminToken E gw) s' = (Inr tok, t')"
  shows "\<exists>settings h p sg c u u'.
    readTOML (RenderGatewayTOML gw ns [oidcIssuerFor gw isOCP]) = Some settings \<and>
    tok = b64url h @ ''.'' @ b64url p @ ''.'' @ b64url sg \<and>
    (\<forall>key \<in> set (JWKS (b_env B) (bs_signer srv)). e_jsonMarshal E (headerJSON (jk_kid key)) = Inr h \<and>
       jk_n key = b64url (e_publicModulus (b_env B) (js_privateKey (bs_signer srv)))) \<and>
    e_signPKCS1v15 E (js_privateKey (bs_signer srv)) (e_sha256 E (signingInput h p)) u = (Inr sg, u') \<and>
    e_jsonMarshal E (claimsJSON c) = Inr p \<and>
    (''openshell.gateway.oidc'', ''issuer'', TString (cl_issuer c)) \<in> set settings \<and>
    (''openshell.gateway.oidc'', ''audience'', TString (cl_audience c)) \<in> set settings \<and>
    (\<exists>role. cl_roles c = [role] \<and> (''openshell.gateway.oidc'', ''admin_role'', TString role) \<in> set settings)"
proof -
  obtain signer now h p sg u u' where tok:
    "NewJWTSignerFromPEM E (mget (sec_data (secretOf ob)) ''signing.pem'') (mget (sec_data (secretOf ob)) ''kid'') = Inr signer"
    "e_jsonMarshal E (headerJSON (js_kid signer)) = Inr h"
    "e_jsonMarshal E (claimsJSON (mkClaims now (authBridgeInternalURL gw) gatewayOIDCAudience ''ogo-controller'' ''ogo-controller''
      [] [gatewayAdminRole] adminTokenTTL)) = Inr p"
    "e_signPKCS1v15 E (js_privateKey signer) (e_sha256 E (signingInput h p)) u = (Inr sg, u')"
    "tok = signingInput h p @ ''.'' @ b64url sg"
    using mintAdminToken_result [OF assms(11)] assms(9) by (elim exE conjE) simp
  have "mget (sec_data (secretOf ob)) ''signing.pem'' = pem" "mget (sec_data (secretOf ob)) ''kid'' = kid"
    using assms(7-9) by (simp_all add: mget_def)
  then have signer: "signer = bs_signer srv"
    using tok(1) deployed_signer [OF assms(10,4,3,5,7,8)] NewJWTSignerFromPEM_same [OF assms(6) trimSpace_idem [symmetric]]
    by (metis sum.inject(2))
  have issuer: "oidcIssuerFor gw isOCP = authBridgeInternalURL gw" "authBridgeInternalURL gw \<noteq> []"
    using assms(1) by (simp_all add: oidcIssuerFor_def authBridgeInternalURL_def)
  obtain settings where set: "readTOML (RenderGatewayTOML gw ns [oidcIssuerFor gw isOCP]) = Some settings"
    "(''openshell.gateway.oidc'', ''issuer'', TString (authBridgeInternalURL gw)) \<in> set settings"
    "(''openshell.gateway.oidc'', ''audience'', TString gatewayOIDCAudience) \<in> set settings"
    "(''openshell.gateway.oidc'', ''admin_role'', TString roleAdmin) \<in> set settings"
    using toml_oidc_settings [OF assms(2)] issuer by metis
  let ?c = "mkClaims now (authBridgeInternalURL gw) gatewayOIDCAudience ''ogo-controller'' ''ogo-controller''
      [] [gatewayAdminRole] adminTokenTTL"
  have c: "cl_issuer ?c = authBridgeInternalURL gw" "cl_audience ?c = gatewayOIDCAudience" "cl_roles ?c = [roleAdmin]"
    by (simp_all add: mkClaims_def)
  have key: "\<forall>key \<in> set (JWKS (b_env B) (bs_signer srv)). e_jsonMarshal E (headerJSON (jk_kid key)) = Inr h \<and>
       jk_n key = b64url (e_publicModulus (b_env B) (js_privateKey (bs_signer srv)))"
    using tok(2) by (simp add: JWKS_def signer)
  have "tok = b64url h @ ''.'' @ b64url p @ ''.'' @ b64url sg" using tok(5) by (simp add: signingInput_def)
  then show ?thesis
    by (intro exI [of _ settings] exI [of _ h] exI [of _ p] exI [of _ sg] exI [of _ ?c] exI [of _ u] exI [of _ u'])
      (unfold c, intro conjI exI [of _ roleAdmin] set key tok(3) tok(4) [unfolded signer] refl)
qed

theorem admin_token_accepted_witness:
  "\<exists>settings tok (c :: claims) role. fst (run_state (mintAdminToken memEnv deployedGateway) keySys) = Inr tok \<and>
     readTOML (RenderGatewayTOML deployedGateway ''ogo'' [oidcIssuerFor deployedGateway True]) = Some settings \<and>
     cl_roles c = [role] \<and> (''openshell.gateway.oidc'', ''admin_role'', TString role) \<in> set settings"
proof -
  let ?start = "run_state (startBridge mountedBenv (\<lambda>c k w. (Inr ''pair'', w)) (\<lambda>t. Inr 0) (\<lambda>w. (Inr ''key'', w)) None) exampleSys"
  let ?mint = "run_state (mintAdminToken memEnv deployedGateway) keySys"
  have "case fst ?start of Inl e \<Rightarrow> False | Inr x \<Rightarrow> True" by code_simp
  then obtain srv ls where "fst ?start = Inr (srv, ls)" by (auto split: sum.splits)
  then have st: "?start = (Inr (srv, ls), snd ?start)" by (metis prod.collapse)
  have "case fst ?mint of Inl e \<Rightarrow> False | Inr x \<Rightarrow> True" by code_simp
  then obtain tok where tok: "fst ?mint = Inr tok" by (auto split: sum.splits)
  then have mt: "?mint = (Inr tok, snd ?mint)" by (metis prod.collapse)
  have name: "gw_name deployedGateway = ''gw''" "gatewayNamespace deployedGateway = ''ogo''"
    "tls_serverCertSecretName (gs_tls (gw_spec deployedGateway)) = []" by code_simp+
  have secrets: "mountsSecrets keyData deployedGateway (b_readFile mountedBenv)"
    by (auto simp: mountsSecrets_def mountedBenv_def authBridgeContainer_def gatewayVolumes_def keyData_def name Let_def split: if_splits)
  have key: "fst (e_get memEnv KSecret (nsn (gatewayNamespace deployedGateway) (gw_name deployedGateway @ ''-auth-bridge-keys''))
        (world keySys)) = Inr exampleKeys \<and>
      sec_data (secretOf exampleKeys) = keyData (gw_name deployedGateway @ ''-auth-bridge-keys'')" by code_simp
  have env: "runsWith (\<lambda>name key. ''s3cret'') (authBridgeEnv deployedGateway) (b_getenv mountedBenv)" "b_env mountedBenv = memEnv"
    using exampleBenv_env by (simp_all add: mountedBenv_def exampleBenv_def memBenv_def)
  from admin_token_accepted [OF example_plain(1,3,2) env(1) secrets _ _ _ key st mt, where pem = "''k''" and kid = "''1''"]
  show ?thesis using tok by (simp add: sameCrypto_def env(2) keyData_def name) blast
qed

text \<open>
  C25: the auth-bridge listens where the operator looks for it. For any gateway resource, a server that
  started in the environment the Deployment gives its container has exactly one listener that other
  pods can reach: it is on the one port the container declares, to which the Service's port leads, and
  it serves TLS exactly if TLS is on. The plaintext port of the issuer URL is always served on the
  loopback interface, and the discovery document fetched there names that very issuer.
\<close>

theorem deployed_listeners_fit:
  assumes "authBridgeEnabled gw isOCP"
    and "plainEnv (authBridgeEnv gw)" and "runsWith secretValue (authBridgeEnv gw) (b_getenv B)"
    and "run_state (startBridge B loadPair parse genKey
      (lookupEnv (authBridgeEnv gw) (b_getenv B) ''AUTH_BRIDGE_LISTEN'')) s = (Inr (srv, ls), t)"
  shows "(\<exists>port. ct_ports (authBridgeContainer gw) = [port] \<and>
      filter (\<lambda>(addr, tls). \<not> hasPrefix addr ''127.0.0.1:'') ls = [('':'' @ intDec (cp_containerPort port), tlsEnabled gw)] \<and>
      (\<exists>sp \<in> set (servicePorts gw isOCP). sp_name sp = ''auth'' \<and> sp_targetPort sp = StrPort (cp_name port))) \<and>
    (\<exists>addr \<in> {''127.0.0.1:8085'', '':8085''}. (addr, False) \<in> set ls) \<and>
    (iq_host r = ''localhost:8085'' \<longrightarrow>
      (\<exists>fields. handleDiscovery (bs_config srv) r = JsonBody (JMap fields) \<and>
        map_of fields ''issuer'' = Some (JStr (oidcIssuerFor gw isOCP)) \<and>
        map_of fields ''jwks_uri'' = Some (JStr (oidcIssuerFor gw isOCP @ ''/jwks''))))"
proof -
  note cfg = deployed_config [OF assms(3,2) startBridge_result(1) [OF assms(4)]]
  have ls: "ls = (if tlsEnabled gw then [(''127.0.0.1:8085'', False), ('':8443'', True)] else [('':8085'', False)])"
    using startBridge_result [OF assms(4)] cfg(6) by simp
  have dec: "intDec 8443 = ''8443''" "intDec 8085 = ''8085''"
    by (simp_all add: intDec_def natDec.simps hexDigits_def)
  have port: "\<exists>port. ct_ports (authBridgeContainer gw) = [port] \<and>
      filter (\<lambda>(addr, tls). \<not> hasPrefix addr ''127.0.0.1:'') ls = [('':'' @ intDec (cp_containerPort port), tlsEnabled gw)] \<and>
      (\<exists>sp \<in> set (servicePorts gw isOCP). sp_name sp = ''auth'' \<and> sp_targetPort sp = StrPort (cp_name port))"
    using assms(1)
    by (cases "tlsEnabled gw") (simp_all add: ls authBridgeContainer_def servicePorts_def hasPrefix_def dec Let_def)
  have "isLocalHost ''localhost:8085''" by code_simp
  then have disc: "iq_host r = ''localhost:8085'' \<longrightarrow>
      (\<exists>fields. handleDiscovery (bs_config srv) r = JsonBody (JMap fields) \<and>
        map_of fields ''issuer'' = Some (JStr (oidcIssuerFor gw isOCP)) \<and>
        map_of fields ''jwks_uri'' = Some (JStr (oidcIssuerFor gw isOCP @ ''/jwks'')))"
    using assms(1) cfg(1) by (simp add: handleDiscovery_def oidcIssuerFor_def Let_def)
  have "\<exists>addr \<in> {''127.0.0.1:8085'', '':8085''}. (addr, False) \<in> set ls" by (simp add: ls)
  with port disc show ?thesis by blast
qed

theorem deployed_listeners_fit_witness:
  "\<exists>ls port. fst exampleStart = Inr (exampleDeployed, ls) \<and>
     ct_ports (authBridgeContainer deployedGateway) = [port] \<and>
     filter (\<lambda>(addr, tls). \<not> hasPrefix addr ''127.0.0.1:'') ls =
       [('':'' @ intDec (cp_containerPort port), tlsEnabled deployedGateway)]"
proof -
  obtain ls where st: "exampleStart = (Inr (exampleDeployed, ls), snd exampleStart)" using exampleStart_ok by blast
  then have "fst exampleStart = Inr (exampleDeployed, ls)" by (metis fst_conv)
  with deployed_listeners_fit [OF example_plain(1,2) exampleBenv_env st [unfolded exampleStart_def]]
  show ?thesis by blast
qed

end
